(* ===== verification/Prelude.thy ===== *)
theory Prelude
  imports Main
    "HOL-Library.AList"
    "HOL-Library.Char_ord"
    "HOL-Library.List_Lexorder"
    "HOL-Library.Product_Lexorder"
    "HOL-Library.Multiset"
begin

text \<open>
  The vocabulary shared by every component of the lcm model: Go times and durations, the
  errors the packages return, results that are either an error or a value, tables keyed by
  row id, and the orderings the listings use. The named collections gather the facts the
  component proofs hand to the simplifier.

  \<^item> A \<open>time.Time\<close> is an integer count of nanoseconds since Go's zero time, so \<open>IsZero\<close> is
    equality with 0, \<open>Before\<close> and \<open>After\<close> are \<open><\<close> and \<open>>\<close>. A \<open>time.Duration\<close> is an integer
    count of nanoseconds; \<open>time_sub\<close> saturates at the bounds of an int64 as \<open>Time.Sub\<close> does.
  \<^item> A nil pointer or nil slice is \<open>None\<close>.
  \<^item> A Go map of rows is an association list with distinct keys. Go iterates a map in an
    unspecified order; the list carries one such order, and the theorems quantify over
    every list, hence over every order.
\<close>

named_theorems result_simps \<open>evaluation of results and sequencing\<close>
named_theorems table_simps \<open>lookup and update of tables\<close>

type_synonym time = int
type_synonym duration = int

definition Second :: duration where "Second = 1000000000"
definition Minute :: duration where "Minute = 60 * Second"
definition Hour :: duration where "Hour = 60 * Minute"

definition minDuration :: duration where "minDuration = - (2 ^ 63)"
definition maxDuration :: duration where "maxDuration = 2 ^ 63 - 1"

text \<open>\<open>t.Sub(u)\<close> of the time package: the difference, saturated.\<close>

definition time_sub :: "time \<Rightarrow> time \<Rightarrow> duration" where
  "time_sub t u = max minDuration (min maxDuration (t - u))"

text \<open>Go's integer division truncates towards zero.\<close>

definition go_div :: "int \<Rightarrow> int \<Rightarrow> int" where
  "go_div a b = sgn a * sgn b * (\<bar>a\<bar> div \<bar>b\<bar>)"

subsection \<open>Errors and results\<close>

text \<open>
  The error values of the packages under internal/. Wrapping (\<open>fmt.Errorf("%w")\<close>, \<open>Unwrap\<close>)
  is the business of the \<open>errors_is_\<close> predicates below: \<open>authz.ErrAboveGranter\<close> and
  \<open>enroll.RefusalError\<close> match \<open>authz.ErrForbidden\<close>, \<open>enroll.ConflictError\<close> matches
  \<open>store.ErrConflict\<close>.
\<close>

datatype err =
    StoreNotFound
  | StoreConflict
  | AuthzForbidden
  | AuthzNotFound
  | AuthzInput
  | AuthzAboveGranter
  | CsrTooLarge
  | CsrParse
  | CsrSPIFFEID
  | CsrWeakKey
  | CsrSANs
  | CaInput
  | CaParse
  | SealedKEK
  | SealedTampered
  | SealedTooLarge
  | IssueInvalid string string
  | IssueNoStoredKey
  | IssueInUse string nat
  | EnrollInvalid string string
  | EnrollConflict string string string
  | EnrollRefusal string "string list"
  | EnrollVerifierUnavailable
  | StreamTooMany
  | StreamType
  | StreamPayload
  | StreamTargets
  | StreamReserved
  | StreamClosed
  | OtherError string

definition errors_is_not_found :: "err \<Rightarrow> bool" where
  "errors_is_not_found e \<longleftrightarrow> e = StoreNotFound"

fun errors_is_conflict :: "err \<Rightarrow> bool" where
  "errors_is_conflict StoreConflict = True"
| "errors_is_conflict (EnrollConflict _ _ _) = True"
| "errors_is_conflict _ = False"

fun errors_is_forbidden :: "err \<Rightarrow> bool" where
  "errors_is_forbidden AuthzForbidden = True"
| "errors_is_forbidden AuthzAboveGranter = True"
| "errors_is_forbidden (EnrollRefusal _ _) = True"
| "errors_is_forbidden _ = False"

type_synonym 'a result = "err + 'a"

text \<open>
  \<open>v, err := op(...); if err != nil { return err }; rest\<close>: for an operation that only reads
  (\<open>on_val\<close>) and for one that also returns the new state (\<open>on_ok\<close>).
\<close>

definition on_val :: "'a result \<Rightarrow> ('a \<Rightarrow> 'b result) \<Rightarrow> 'b result" where
  "on_val r k = (case r of Inl e \<Rightarrow> Inl e | Inr a \<Rightarrow> k a)"

definition on_ok :: "'a result \<times> 's \<Rightarrow> ('a \<Rightarrow> 's \<Rightarrow> 'b result \<times> 's) \<Rightarrow> 'b result \<times> 's" where
  "on_ok r k = (case r of (Inl e, s) \<Rightarrow> (Inl e, s) | (Inr a, s) \<Rightarrow> k a s)"

lemma on_val_simps [simp, result_simps]:
  "on_val (Inl e) k = Inl e" "on_val (Inr a) k = k a"
  by (simp_all add: on_val_def)

lemma on_ok_simps [simp, result_simps]:
  "on_ok (Inl e, s) k = (Inl e, s)" "on_ok (Inr a, s) k = k a s"
  by (simp_all add: on_ok_def)

lemma on_val_Inr_iff [result_simps]: "on_val r k = Inr b \<longleftrightarrow> (\<exists>a. r = Inr a \<and> k a = Inr b)"
  by (cases r) auto

lemma on_ok_Inr_iff [result_simps]:
  "on_ok r k = (Inr b, s') \<longleftrightarrow> (\<exists>a s. r = (Inr a, s) \<and> k a s = (Inr b, s'))"
  by (cases r; cases "fst r") auto

lemma on_ok_split:
  "P (on_ok r k) \<longleftrightarrow> (\<forall>e s. r = (Inl e, s) \<longrightarrow> P (Inl e, s)) \<and> (\<forall>a s. r = (Inr a, s) \<longrightarrow> P (k a s))"
  by (cases r; cases "fst r") auto

lemma on_ok_split_asm:
  "P (on_ok r k) \<longleftrightarrow> \<not> ((\<exists>e s. r = (Inl e, s) \<and> \<not> P (Inl e, s)) \<or> (\<exists>a s. r = (Inr a, s) \<and> \<not> P (k a s)))"
  by (cases r; cases "fst r") auto

lemma on_val_split:
  "P (on_val r k) \<longleftrightarrow> (\<forall>e. r = Inl e \<longrightarrow> P (Inl e)) \<and> (\<forall>a. r = Inr a \<longrightarrow> P (k a))"
  by (cases r) auto

lemma on_val_split_asm:
  "P (on_val r k) \<longleftrightarrow> \<not> ((\<exists>e. r = Inl e \<and> \<not> P (Inl e)) \<or> (\<exists>a. r = Inr a \<and> \<not> P (k a)))"
  by (cases r) auto

lemmas on_splits = on_ok_split on_ok_split_asm on_val_split on_val_split_asm

subsection \<open>Strings and byte slices\<close>

text \<open>A byte slice; \<open>None\<close> is nil.\<close>

type_synonym bytes = "string option"

definition blen :: "bytes \<Rightarrow> nat" where
  "blen b = (case b of None \<Rightarrow> 0 | Some s \<Rightarrow> length s)"

lemma blen_simps [simp]: "blen None = 0" "blen (Some s) = length s"
  by (simp_all add: blen_def)

text \<open>\<open>strings.ToLower\<close> on ASCII letters; bytes outside ASCII are left as they are.\<close>

definition lower_char :: "char \<Rightarrow> char" where
  "lower_char c = (if 65 \<le> (of_char c :: nat) \<and> (of_char c :: nat) \<le> 90
                   then char_of ((of_char c :: nat) + 32) else c)"

definition lower :: "string \<Rightarrow> string" where
  "lower s = map lower_char s"

lemma lower_char_idem [simp]: "lower_char (lower_char c) = lower_char c"
  by (auto simp: lower_char_def)

lemma lower_idem [simp]: "lower (lower s) = lower s"
  by (simp add: lower_def comp_def)

lemma lower_Nil [simp]: "lower [] = []" "lower s = [] \<longleftrightarrow> s = []"
  by (simp_all add: lower_def)

text \<open>\<open>strp\<close>: a pointer's string, empty for nil; \<open>ptrOrNil\<close> the other way round.\<close>

definition strp :: "string option \<Rightarrow> string" where
  "strp p = (case p of None \<Rightarrow> '''' | Some s \<Rightarrow> s)"

definition ptrOrNil :: "string \<Rightarrow> string option" where
  "ptrOrNil s = (if s = '''' then None else Some s)"

lemma strp_ptrOrNil [simp]: "strp (ptrOrNil s) = s"
  by (simp add: strp_def ptrOrNil_def)

lemma strp_simps [simp]: "strp None = ''''" "strp (Some s) = s"
  by (simp_all add: strp_def)

subsection \<open>Tables\<close>

text \<open>
  A Go map from row ids to rows. \<open>rows\<close> is what \<open>for _, r := range m\<close> visits.
\<close>

type_synonym 'r table = "(string \<times> 'r) list"

definition rows :: "'r table \<Rightarrow> 'r list" where
  "rows t = map snd t"

text \<open>The lookup \<open>r, ok := m[id]; if !ok || r.TenantID != tid { return ErrNotFound }\<close>.\<close>

definition tenant_lookup :: "('r \<Rightarrow> string) \<Rightarrow> 'r table \<Rightarrow> string \<Rightarrow> string \<Rightarrow> 'r result" where
  "tenant_lookup tn t tid k =
     (case map_of t k of
        None \<Rightarrow> Inl StoreNotFound
      | Some r \<Rightarrow> if tn r \<noteq> tid then Inl StoreNotFound else Inr r)"

text \<open>A table is well formed when its keys are distinct and each row sits under its own id.\<close>

definition table_ok :: "('r \<Rightarrow> string) \<Rightarrow> 'r table \<Rightarrow> bool" where
  "table_ok rid t \<longleftrightarrow> distinct (map fst t) \<and> (\<forall>k r. map_of t k = Some r \<longrightarrow> rid r = k)"

text \<open>The rows of one tenant.\<close>

definition tenant_rows :: "('r \<Rightarrow> string) \<Rightarrow> string \<Rightarrow> 'r table \<Rightarrow> string \<Rightarrow> 'r option" where
  "tenant_rows tn tid t k =
     (case map_of t k of None \<Rightarrow> None | Some r \<Rightarrow> if tn r = tid then Some r else None)"

lemma tenant_lookup_Inr [table_simps]:
  "tenant_lookup tn t tid k = Inr r \<longleftrightarrow> map_of t k = Some r \<and> tn r = tid"
  by (auto simp: tenant_lookup_def split: option.splits)

lemma tenant_lookup_Inl [table_simps]:
  "tenant_lookup tn t tid k = Inl e \<longleftrightarrow> e = StoreNotFound \<and> (\<forall>r. map_of t k = Some r \<longrightarrow> tn r \<noteq> tid)"
  by (auto simp: tenant_lookup_def split: option.splits)

lemma tenant_lookup_cases:
  obtains (found) r where "tenant_lookup tn t tid k = Inr r" "map_of t k = Some r" "tn r = tid"
  | (missing) "tenant_lookup tn t tid k = Inl StoreNotFound"
  by (cases "tenant_lookup tn t tid k") (auto simp: table_simps)

lemma map_of_update [simp, table_simps]: "map_of (AList.update k v t) = (map_of t)(k \<mapsto> v)"
  by (rule update_conv')

lemma map_of_delete [simp, table_simps]: "map_of (AList.delete k t) = (map_of t)(k := None)"
  by (rule delete_conv')

lemma map_of_map_rows [table_simps]:
  "map_of (map (\<lambda>(k, r). (k, f k r)) t) k = map_option (f k) (map_of t k)"
  by (induction t) auto

lemma map_of_filter_distinct [table_simps]:
  "distinct (map fst t) \<Longrightarrow>
   map_of (filter P t) k = (case map_of t k of None \<Rightarrow> None | Some r \<Rightarrow> if P (k, r) then Some r else None)"
  by (induction t) (auto split: option.splits simp: map_of_eq_None_iff image_iff dest: map_of_SomeD)

lemma table_ok_distinct: "table_ok rid t \<Longrightarrow> distinct (map fst t)"
  by (simp add: table_ok_def)

lemma table_ok_key: "table_ok rid t \<Longrightarrow> map_of t k = Some r \<Longrightarrow> rid r = k"
  by (simp add: table_ok_def)

lemma table_ok_Nil [simp]: "table_ok rid []"
  by (simp add: table_ok_def)

lemma table_ok_update: "table_ok rid t \<Longrightarrow> rid r = k \<Longrightarrow> table_ok rid (AList.update k r t)"
  by (auto simp: table_ok_def distinct_update)

lemma table_ok_delete: "table_ok rid t \<Longrightarrow> table_ok rid (AList.delete k t)"
  by (auto simp: table_ok_def distinct_delete split: if_splits)

lemma table_ok_map:
  assumes "table_ok rid t" and "\<And>k r. rid (f k r) = rid r"
  shows "table_ok rid (map (\<lambda>(k, r). (k, f k r)) t)"
proof -
  have keys: "map fst (map (\<lambda>(k, r). (k, f k r)) t) = map fst t"
    by (induction t) auto
  show ?thesis
    using assms unfolding table_ok_def keys by (auto simp: map_of_map_rows)
qed

lemma table_ok_filter: "table_ok rid t \<Longrightarrow> table_ok rid (filter P t)"
  by (auto simp: table_ok_def map_of_filter_distinct distinct_map_filter split: option.splits if_splits)

lemma map_of_in_rows: "map_of t k = Some r \<Longrightarrow> r \<in> set (rows t)"
  by (induction t) (auto simp: rows_def split: if_splits)

lemma in_rows_iff:
  assumes "table_ok rid t"
  shows "r \<in> set (rows t) \<longleftrightarrow> map_of t (rid r) = Some r"
proof
  assume "r \<in> set (rows t)"
  then obtain k where "(k, r) \<in> set t" by (auto simp: rows_def)
  with assms have "map_of t k = Some r" by (simp add: table_ok_def)
  with assms show "map_of t (rid r) = Some r" by (simp add: table_ok_def)
qed (rule map_of_in_rows)

lemma in_rows_lookup: "table_ok rid t \<Longrightarrow> r \<in> set (rows t) \<longleftrightarrow> (\<exists>k. map_of t k = Some r)"
  by (auto simp: in_rows_iff table_ok_def)

lemma rows_simps [simp]: "rows [] = []" "rows ((k, r) # t) = r # rows t"
  by (simp_all add: rows_def)

lemma length_rows [simp]: "length (rows t) = length t"
  by (simp add: rows_def)

lemma rid_inj_on_rows: "table_ok rid t \<Longrightarrow> inj_on rid (set (rows t))"
  by (rule inj_onI) (auto simp: in_rows_iff)

lemma distinct_rows: "table_ok rid t \<Longrightarrow> distinct (map rid (rows t))"
proof -
  assume ok: "table_ok rid t"
  then have "map rid (rows t) = map fst t"
    by (auto simp: rows_def table_ok_def)
  with ok show ?thesis by (simp add: table_ok_def)
qed

subsection \<open>Orderings and page sizes\<close>

text \<open>
  \<open>sortDesc\<close> of the in-memory store: newest first, the id breaking ties; and its ascending
  counterpart. Rows of a table have distinct ids, so the order is total.
\<close>

definition sort_desc :: "('r \<Rightarrow> time) \<Rightarrow> ('r \<Rightarrow> string) \<Rightarrow> 'r list \<Rightarrow> 'r list" where
  "sort_desc ts rid xs = rev (sort_key (\<lambda>r. (ts r, rid r)) xs)"

definition sort_asc :: "('r \<Rightarrow> time) \<Rightarrow> ('r \<Rightarrow> string) \<Rightarrow> 'r list \<Rightarrow> 'r list" where
  "sort_asc ts rid xs = sort_key (\<lambda>r. (ts r, rid r)) xs"

lemma set_sort_desc [simp]: "set (sort_desc ts rid xs) = set xs"
  by (simp add: sort_desc_def)

lemma set_sort_asc [simp]: "set (sort_asc ts rid xs) = set xs"
  by (simp add: sort_asc_def)

lemma length_sort_desc [simp]: "length (sort_desc ts rid xs) = length xs"
  by (simp add: sort_desc_def)

lemma length_sort_asc [simp]: "length (sort_asc ts rid xs) = length xs"
  by (simp add: sort_asc_def)

lemma mset_sort_desc [simp]: "mset (sort_desc ts rid xs) = mset xs"
  by (simp add: sort_desc_def)

lemma find_SomeD: "find P xs = Some x \<Longrightarrow> x \<in> set xs \<and> P x"
  by (induction xs) (auto split: if_splits)

subsection \<open>Uniqueness constraints\<close>

text \<open>No two rows under different keys clash: a unique index, or a partial one.\<close>

definition uniq :: "('r \<Rightarrow> 'r \<Rightarrow> bool) \<Rightarrow> 'r table \<Rightarrow> bool" where
  "uniq clash t \<longleftrightarrow>
     (\<forall>k1 k2 r1 r2. map_of t k1 = Some r1 \<longrightarrow> map_of t k2 = Some r2 \<longrightarrow> k1 \<noteq> k2 \<longrightarrow> \<not> clash r1 r2)"

lemma uniq_Nil [simp]: "uniq clash []"
  by (simp add: uniq_def)

lemma uniqD: "uniq clash t \<Longrightarrow> map_of t k1 = Some r1 \<Longrightarrow> map_of t k2 = Some r2 \<Longrightarrow> clash r1 r2 \<Longrightarrow> k1 = k2"
  by (auto simp: uniq_def)

lemma uniq_update:
  assumes "uniq clash t"
    and "\<And>k' r'. map_of t k' = Some r' \<Longrightarrow> k' \<noteq> k \<Longrightarrow> \<not> clash r' r \<and> \<not> clash r r'"
  shows "uniq clash (AList.update k r t)"
  using assms unfolding uniq_def by (auto split: if_splits)

lemma uniq_update_sym:
  assumes "uniq clash t" and "\<And>x y. clash x y = clash y x"
    and "\<And>k' r'. map_of t k' = Some r' \<Longrightarrow> k' \<noteq> k \<Longrightarrow> \<not> clash r' r"
  shows "uniq clash (AList.update k r t)"
  using assms by (intro uniq_update) metis+

text \<open>An update that keeps the indexed columns cannot introduce a clash.\<close>

lemma uniq_update_same:
  assumes "uniq clash t" and "map_of t k = Some old"
    and "\<And>x. clash x r = clash x old" and "\<And>x. clash r x = clash old x"
  shows "uniq clash (AList.update k r t)"
  using assms by (intro uniq_update) (auto simp: uniq_def)

lemma uniq_delete: "uniq clash t \<Longrightarrow> uniq clash (AList.delete k t)"
  unfolding uniq_def by (auto split: if_splits)

lemma uniq_map:
  assumes "uniq clash t" and "\<And>k1 k2 r1 r2. clash (f k1 r1) (f k2 r2) \<Longrightarrow> clash r1 r2"
  shows "uniq clash (map (\<lambda>(k, r). (k, f k r)) t)"
  using assms unfolding uniq_def map_of_map_rows map_option_eq_Some by metis

lemma uniq_filter: "distinct (map fst t) \<Longrightarrow> uniq clash t \<Longrightarrow> uniq clash (filter P t)"
  unfolding uniq_def by (auto simp: map_of_filter_distinct split: option.splits if_splits)

text \<open>The loop over all rows that guards an insert, read through the lookup.\<close>

lemma not_list_ex_rows:
  "\<not> list_ex P (rows t) \<Longrightarrow> map_of t k = Some r \<Longrightarrow> \<not> P r"
  by (auto simp: list_ex_iff dest: map_of_in_rows)

lemma not_list_ex_table:
  "\<not> list_ex P t \<Longrightarrow> map_of t k = Some r \<Longrightarrow> \<not> P (k, r)"
  by (auto simp: list_ex_iff dest: map_of_SomeD)

lemma no_row:
  "\<not> list_ex P (rows t) \<Longrightarrow> \<forall>k r. map_of t k = Some r \<longrightarrow> \<not> P r"
  by (blast dest: not_list_ex_rows)

lemma no_entry:
  "\<not> list_ex P t \<Longrightarrow> \<forall>k r. map_of t k = Some r \<longrightarrow> \<not> P (k, r)"
  by (blast dest: not_list_ex_table)

subsection \<open>Views\<close>

lemma tenant_rows_update [simp]:
  "tenant_rows tn tid (AList.update k r t) = (tenant_rows tn tid t)(k := if tn r = tid then Some r else None)"
  by (auto simp: tenant_rows_def fun_eq_iff)

lemma tenant_rows_delete [simp]:
  "tenant_rows tn tid (AList.delete k t) = (tenant_rows tn tid t)(k := None)"
  by (auto simp: tenant_rows_def fun_eq_iff)

lemma tenant_rows_absent: "map_of t k = None \<Longrightarrow> tenant_rows tn tid t k = None"
  by (simp add: tenant_rows_def)

lemma tenant_rows_other: "map_of t k = Some r \<Longrightarrow> tn r \<noteq> tid \<Longrightarrow> tenant_rows tn tid t k = None"
  by (simp add: tenant_rows_def)

lemma tenant_rows_Some: "tenant_rows tn tid t k = Some r \<longleftrightarrow> map_of t k = Some r \<and> tn r = tid"
  by (auto simp: tenant_rows_def split: option.splits)

lemma tenant_lookup_view:
  "tenant_lookup tn t tid k = (case tenant_rows tn tid t k of None \<Rightarrow> Inl StoreNotFound | Some r \<Rightarrow> Inr r)"
  by (simp add: tenant_lookup_def tenant_rows_def split: option.splits)

text \<open>
  A sort by a key that is injective on the elements depends on the set of elements only: a
  listing is the same for every iteration order of the map.
\<close>

lemma sort_key_set_eq:
  assumes "set xs = set ys" "distinct xs" "distinct ys" "inj_on f (set xs)"
  shows "sort_key f xs = sort_key f ys"
proof (rule sort_key_inj_key_eq)
  have "mset xs = mset ys"
    using assms by (simp add: set_eq_iff_mset_eq_distinct)
  then show "mset xs = mset (sort_key f ys)" by simp
qed (use assms in simp_all)

lemma tenant_filter_set:
  assumes "table_ok rid t" and "\<And>r. P r \<Longrightarrow> tn r = tid"
  shows "set (filter P (rows t)) = {r. \<exists>k. tenant_rows tn tid t k = Some r \<and> P r}"
  using assms by (auto simp: in_rows_lookup tenant_rows_Some)

lemma distinct_filter_rows: "table_ok rid t \<Longrightarrow> distinct (filter P (rows t))"
  using distinct_rows [of rid t] by (simp add: distinct_map)

lemma listing_view:
  assumes "table_ok rid t" "table_ok rid t'" "tenant_rows tn tid t = tenant_rows tn tid t'"
    and "\<And>r. P r \<Longrightarrow> tn r = tid" and "\<And>r s. f r = f s \<Longrightarrow> rid r = rid s"
  shows "sort_key f (filter P (rows t)) = sort_key f (filter P (rows t'))"
proof (rule sort_key_set_eq)
  have "set (filter P (rows t)) = {r. \<exists>k. tenant_rows tn tid t k = Some r \<and> P r}"
    by (rule tenant_filter_set [OF assms(1)]) (rule assms(4))
  moreover have "set (filter P (rows t')) = {r. \<exists>k. tenant_rows tn tid t' k = Some r \<and> P r}"
    by (rule tenant_filter_set [OF assms(2)]) (rule assms(4))
  ultimately show "set (filter P (rows t)) = set (filter P (rows t'))"
    by (simp only: assms(3))
  show "inj_on f (set (filter P (rows t)))"
  proof (rule inj_onI)
    fix r s assume "r \<in> set (filter P (rows t))" "s \<in> set (filter P (rows t))" "f r = f s"
    then show "r = s"
      using assms(5) [of r s] rid_inj_on_rows [OF assms(1)] by (simp add: inj_on_def)
  qed
qed (rule distinct_filter_rows [OF assms(1)], rule distinct_filter_rows [OF assms(2)])

subsection \<open>The rows after a write\<close>

lemma rows_update:
  assumes "table_ok rid t" "rid r = k"
  shows "set (rows (AList.update k r t)) = insert r {x \<in> set (rows t). rid x \<noteq> k}"
  using in_rows_iff [OF table_ok_update [OF assms]] in_rows_iff [OF assms(1)] assms(2)
  by (auto split: if_splits)

lemma rows_delete:
  assumes "table_ok rid t"
  shows "set (rows (AList.delete k t)) = {x \<in> set (rows t). rid x \<noteq> k}"
  using in_rows_iff [OF table_ok_delete [OF assms]] in_rows_iff [OF assms] by (auto split: if_splits)

subsection \<open>Decimal numerals\<close>

text \<open>\<open>big.Int.String\<close> of a non-negative number.\<close>

fun dec :: "nat \<Rightarrow> string" where
  "dec n = (if n < 10 then [char_of (n + 48)] else dec (n div 10) @ [char_of (n mod 10 + 48)])"

declare dec.simps [simp del]

text \<open>Reading it back.\<close>

definition undec :: "string \<Rightarrow> nat" where
  "undec s = foldl (\<lambda>n c. 10 * n + (of_char c - 48)) 0 s"

lemma undec_dec [simp]: "undec (dec n) = n"
proof (induction n rule: dec.induct)
  case (1 n)
  have digit: "(of_char (char_of (d + 48) :: char) :: nat) = d + 48" if "d < 10" for d
    using that by (simp add: of_char_of)
  show ?case
  proof (cases "n < 10")
    case True
    then show ?thesis using digit by (subst dec.simps) (simp add: undec_def)
  next
    case False
    with 1 have "undec (dec (n div 10)) = n div 10" by simp
    then show ?thesis using False digit [of "n mod 10"] by (subst dec.simps) (simp add: undec_def)
  qed
qed

lemma dec_inject [simp]: "dec a = dec b \<longleftrightarrow> a = b"
  by (metis undec_dec)

end
