(* ===== verification/Store_Types.thy ===== *)
theory Store_Types
  imports Prelude
begin

text \<open>
  The rows of the lcm database (internal/store/models.go) and the trust-domain checks of
  internal/store/trustdomain.go. Field names carry a short prefix for their record; the rest
  is the Go name. A JSON column of DNS names (\<open>SANs\<close>) is the list it encodes, \<open>None\<close> for a
  nil column: every writer in the program stores the encoding of a string list.
\<close>

type_synonym sans_json = "string list option"

record issuer =
  isID :: string
  isTenantID :: string
  isName :: string
  isType :: string
  isTrustDomain :: string
  isIsDefault :: bool
  isCAID :: "string option"
  isACMEDirectoryURL :: string
  isACMEEmail :: string
  isDNSProvider :: string
  isSettingsPublic :: bytes
  isSettingsSealed :: bytes
  isEnabled :: bool
  isCreatedBy :: "string option"
  isUpdatedBy :: "string option"
  isCreatedAt :: time
  isUpdatedAt :: time
  isCertificateCount :: nat

record ca_row =
  caID :: string
  caTenantID :: string
  caTrustDomain :: string
  caCertPEM :: string
  caKeySealed :: bytes
  caState :: string
  caNotBefore :: time
  caNotAfter :: time
  caSerial :: string
  caCreatedAt :: time

record cert_request =
  rqID :: string
  rqTenantID :: string
  rqIssuerID :: "string option"
  rqKind :: string
  rqSpiffeID :: string
  rqSANs :: sans_json
  rqKeyType :: string
  rqCSRPEM :: "string option"
  rqValiditySeconds :: int
  rqRequestedBy :: string
  rqRequesterKind :: string
  rqStatus :: string
  rqApprover :: "string option"
  rqReason :: "string option"
  rqCertificateID :: "string option"
  rqCreatedAt :: time
  rqUpdatedAt :: time

record request_filter =
  rfStatus :: string
  rfCursorTS :: time
  rfCursorID :: string
  rfLimit :: int

record cert_job =
  jbID :: string
  jbTenantID :: string
  jbRequestID :: string
  jbType :: string
  jbStatus :: string
  jbLeaseUntil :: "time option"
  jbAttempts :: int
  jbMaxAttempts :: int
  jbResultCertificateID :: "string option"
  jbError :: "string option"
  jbRunAfter :: time
  jbCreatedAt :: time
  jbUpdatedAt :: time

record job_filter =
  jfStatus :: string
  jfCursorTS :: time
  jfCursorID :: string
  jfLimit :: int

record issued_cert =
  icID :: string
  icTenantID :: string
  icIssuerID :: string
  icKind :: string
  icRequestID :: "string option"
  icSerial :: string
  icSpiffeID :: string
  icSubject :: string
  icSANs :: sans_json
  icNotBefore :: time
  icNotAfter :: time
  icFingerprintSHA256 :: string
  icStatus :: string
  icCertPEM :: string
  icChainPEM :: string
  icKeySealed :: bytes
  icKeyDelivered :: bool
  icAutoRenew :: bool
  icSupersededBy :: "string option"
  icOwner :: string
  icCreatedBy :: "string option"
  icUpdatedBy :: "string option"
  icCreatedAt :: time
  icUpdatedAt :: time

record cert_filter =
  cfIssuerID :: string
  cfSpiffeID :: string
  cfStatus :: string
  cfCursorTS :: time
  cfCursorID :: string
  cfLimit :: int

record revocation =
  rvID :: string
  rvTenantID :: string
  rvCertificateID :: string
  rvSerial :: string
  rvReason :: string
  rvRevokedAt :: time
  rvRevokedBy :: "string option"

record installed_cert =
  inID :: string
  inTenantID :: string
  inCertificateID :: string
  inClientID :: string
  inInstalledAt :: time
  inReportedAt :: time

record target_row =
  tgID :: string
  tgTenantID :: string
  tgName :: string
  tgKind :: string
  tgConfigPublic :: bytes
  tgConfigSealed :: bytes
  tgCreatedBy :: "string option"
  tgUpdatedBy :: "string option"
  tgCreatedAt :: time
  tgUpdatedAt :: time

record tenant_secret =
  scID :: string
  scTenantID :: string
  scName :: string
  scKind :: string
  scValueSealed :: bytes
  scCreatedBy :: "string option"
  scUpdatedBy :: "string option"
  scCreatedAt :: time
  scUpdatedAt :: time

record webhook_row =
  whID :: string
  whTenantID :: string
  whName :: string
  whURL :: string
  whEventTypes :: "string list"
  whSecretSealed :: bytes
  whEnabled :: bool
  whCreatedBy :: "string option"
  whUpdatedBy :: "string option"
  whCreatedAt :: time
  whUpdatedAt :: time

record grant_row =
  grID :: string
  grTenantID :: string
  grResourceType :: string
  grResourceID :: string
  grSubjectType :: string
  grSubjectID :: string
  grRelation :: string
  grGrantedBy :: "string option"
  grGrantedAt :: time
  grExpiresAt :: "time option"

record cert_log =
  clTS :: time
  clTenantID :: string
  clCertificateID :: string
  clEvent :: string
  clIssuerID :: string
  clSpiffeID :: string
  clError :: string

text \<open>
  A JSON value as \<open>any\<close> holds it: the details column of an audit row, a settings object. A
  number is a 64-bit float in Go; \<open>JNum\<close> is one whose literal is an integer (exact below
  2 to the 53rd), \<open>JReal\<close> any other, kept as its literal, which no source looks into.
\<close>

datatype jval =
    JNull
  | JBool bool
  | JNum int
  | JReal string
  | JStr string
  | JArr "jval list"
  | JObj "(string \<times> jval) list"

record audit_row =
  auID :: int
  auTS :: time
  auTenantID :: string
  auEventType :: string
  auActorKind :: string
  auActorID :: string
  auSubjectKind :: string
  auSubjectID :: string
  auSubjectName :: string
  auOutcome :: string
  auReason :: string
  auCorrelationID :: string
  auDetails :: "(string \<times> jval) list"

record stats_row =
  stIssuers :: int
  stCertificates :: "(string \<times> int) list"
  stJobs :: "(string \<times> int) list"
  stClients :: int
  stExpiringSoon :: int
  stRecentErrors :: int
  stOperations24h :: int

record audit_filter =
  afEventType :: string
  afActorID :: string
  afFrom :: time
  afTo :: time
  afCursor :: time
  afLimit :: int

definition DefaultAuditLimit :: int where "DefaultAuditLimit = 100"
definition MaxAuditLimit :: int where "MaxAuditLimit = 500"

definition AuditLimit :: "int \<Rightarrow> int" where
  "AuditLimit limit =
     (if limit \<le> 0 then DefaultAuditLimit
      else if limit > MaxAuditLimit then MaxAuditLimit
      else limit)"

subsection \<open>Trust domains\<close>

definition AnyTrustDomain :: string where
  "AnyTrustDomain = ''*''"

definition domain_char :: "char \<Rightarrow> bool" where
  "domain_char c \<longleftrightarrow>
     (c \<ge> CHR ''a'' \<and> c \<le> CHR ''z'') \<or> (c \<ge> CHR ''0'' \<and> c \<le> CHR ''9'') \<or> c = CHR ''.'' \<or> c = CHR ''-''"

definition ValidTrustDomain :: "string \<Rightarrow> bool" where
  "ValidTrustDomain host \<longleftrightarrow> \<not> (host = [] \<or> length host > 253) \<and> list_all domain_char host"

definition ValidIssuerTrustDomain :: "string \<Rightarrow> string \<Rightarrow> bool" where
  "ValidIssuerTrustDomain issuerType trustDomain =
     (if trustDomain = AnyTrustDomain then issuerType = ''acme'' else ValidTrustDomain trustDomain)"

lemma AuditLimit_bounds: "1 \<le> AuditLimit n \<and> AuditLimit n \<le> MaxAuditLimit"
  by (simp add: AuditLimit_def DefaultAuditLimit_def MaxAuditLimit_def)

lemma AnyTrustDomain_not_valid: "\<not> ValidTrustDomain AnyTrustDomain"
  by (simp add: ValidTrustDomain_def AnyTrustDomain_def domain_char_def less_eq_char_def)

end
