(* ===== verification/Mem_Store.thy ===== *)
theory Mem_Store
  imports Store_Types
begin

text \<open>
  The store behind the services: internal/memstore/memstore.go, the \<open>repo.Store\<close> whose
  tenant scoping, uniqueness and paging rules the SQL binding shares, one definition per
  operation in the order of the file. \<open>mFail\<close> is the failure injection of the double and
  stands for any failing database call; \<open>mNow\<close> is what the store's clock reads.

  Every operation is polymorphic in the rest of the record (\<open>'z mem_scheme\<close>), so that the
  services can extend the state (the audit writer) and call the operations unchanged. Rows
  are values, so the deep copies at the boundary (\<open>cpIssuer\<close> and its kin) are identities
  here. The mutex makes each operation one atomic step.
\<close>

record mem =
  mIssuers :: "issuer table"
  mCAs :: "ca_row table"
  mRequests :: "cert_request table"
  mJobs :: "cert_job table"
  mCertificates :: "issued_cert table"
  mRevocations :: "revocation table"
  mInstalled :: "installed_cert table"
  mTargets :: "target_row table"
  mSecrets :: "tenant_secret table"
  mWebhooks :: "webhook_row table"
  mGrants :: "grant_row table"
  mCertLog :: "cert_log list"
  mAudit :: "audit_row list"
  mFail :: "(string \<times> err) list"
  mNow :: time

definition New :: "time \<Rightarrow> mem" where
  "New now = \<lparr>mIssuers = [], mCAs = [], mRequests = [], mJobs = [], mCertificates = [],
     mRevocations = [], mInstalled = [], mTargets = [], mSecrets = [], mWebhooks = [],
     mGrants = [], mCertLog = [], mAudit = [], mFail = [], mNow = now\<rparr>"

definition FailOn :: "'z mem_scheme \<Rightarrow> string \<Rightarrow> err option \<Rightarrow> 'z mem_scheme" where
  "FailOn m op e =
     (case e of
        None \<Rightarrow> m\<lparr>mFail := AList.delete op (mFail m)\<rparr>
      | Some x \<Rightarrow> m\<lparr>mFail := AList.update op x (mFail m)\<rparr>)"

definition fail :: "'z mem_scheme \<Rightarrow> string \<Rightarrow> err option" where
  "fail m op = map_of (mFail m) op"

text \<open>\<open>if err := m.fail(op); err != nil { return err }\<close>, before a read and before a write.\<close>

definition unless_read :: "'z mem_scheme \<Rightarrow> string \<Rightarrow> 'a result \<Rightarrow> 'a result" where
  "unless_read m op r = (case fail m op of Some e \<Rightarrow> Inl e | None \<Rightarrow> r)"

definition unless_write ::
  "'z mem_scheme \<Rightarrow> string \<Rightarrow> 'a result \<times> 'z mem_scheme \<Rightarrow> 'a result \<times> 'z mem_scheme" where
  "unless_write m op r = (case fail m op of Some e \<Rightarrow> (Inl e, m) | None \<Rightarrow> r)"

text \<open>
  \<open>Atomic\<close>. The in-memory double runs the function on the store itself; the database binding
  (internal/repo/repodb/db.go) runs it in one transaction, which an error rolls back. An
  injected failure of \<open>Atomic\<close> is a transaction that cannot begin or commit.
\<close>

datatype backend = InMemory | Database

definition Atomic ::
  "backend \<Rightarrow> 'z mem_scheme \<Rightarrow> ('z mem_scheme \<Rightarrow> 'a result \<times> 'z mem_scheme) \<Rightarrow> 'a result \<times> 'z mem_scheme" where
  "Atomic be m fn =
     unless_write m ''Atomic''
       (case be of
          InMemory \<Rightarrow> fn m
        | Database \<Rightarrow> (case fn m of (Inl e, m') \<Rightarrow> (Inl e, m) | (Inr a, m') \<Rightarrow> (Inr a, m')))"

text \<open>\<open>beforeCursor\<close>: strictly before the descending cursor; a zero cursor accepts everything.\<close>

definition beforeCursor :: "time \<Rightarrow> string \<Rightarrow> time \<Rightarrow> string \<Rightarrow> bool" where
  "beforeCursor ts i cursorTS cursorID \<longleftrightarrow>
     cursorTS = 0 \<or> ts < cursorTS \<or> (ts = cursorTS \<and> i < cursorID)"

text \<open>\<open>sqlLimit\<close>: a page size as SQL LIMIT applies it; a limit of 0 or less returns no rows.\<close>

definition sqlLimit :: "'r list \<Rightarrow> int \<Rightarrow> 'r list" where
  "sqlLimit out limit = (if limit \<le> 0 then [] else if int (length out) > limit then take (nat limit) out else out)"

definition sortByNameID :: "('r \<Rightarrow> string) \<Rightarrow> ('r \<Rightarrow> string) \<Rightarrow> 'r list \<Rightarrow> 'r list" where
  "sortByNameID name rid out = sort_key (\<lambda>r. (lower (name r), rid r)) out"

text \<open>The rows of one tenant, in the order of the iteration.\<close>

definition of_tenant :: "('r \<Rightarrow> string) \<Rightarrow> string \<Rightarrow> 'r table \<Rightarrow> 'r list" where
  "of_tenant tn tid t = filter (\<lambda>x. tn x = tid) (rows t)"

subsection \<open>Issuers\<close>

definition certCountForIssuer :: "'z mem_scheme \<Rightarrow> string \<Rightarrow> nat" where
  "certCountForIssuer m i = length (filter (\<lambda>c. icIssuerID c = i) (rows (mCertificates m)))"

text \<open>The foreign key of \<open>ca_id\<close>: a CA of the same tenant.\<close>

definition ca_ref_ok :: "'z mem_scheme \<Rightarrow> issuer \<Rightarrow> bool" where
  "ca_ref_ok m i =
     (case isCAID i of
        None \<Rightarrow> True
      | Some c \<Rightarrow> (case map_of (mCAs m) c of None \<Rightarrow> False | Some ca \<Rightarrow> caTenantID ca = isTenantID i))"

text \<open>Two issuers that may not coexist: same tenant, and same name or both default of a domain.\<close>

definition issuer_clash :: "issuer \<Rightarrow> issuer \<Rightarrow> bool" where
  "issuer_clash x i \<longleftrightarrow>
     isTenantID x = isTenantID i \<and>
     (lower (isName x) = lower (isName i) \<or>
      (isIsDefault i \<and> isIsDefault x \<and> isTrustDomain x = isTrustDomain i))"

definition InsertIssuer :: "'z mem_scheme \<Rightarrow> issuer \<Rightarrow> unit result \<times> 'z mem_scheme" where
  "InsertIssuer m i =
     unless_write m ''InsertIssuer''
       (if \<not> ca_ref_ok m i then (Inl StoreConflict, m)
        else if list_ex (\<lambda>x. issuer_clash x i) (rows (mIssuers m)) then (Inl StoreConflict, m)
        else
          (let i = i\<lparr>isCreatedAt := mNow m, isUpdatedAt := mNow m\<rparr>;
               i = (if isSettingsPublic i = None then i\<lparr>isSettingsPublic := Some ''{}''\<rparr> else i)
           in (Inr (), m\<lparr>mIssuers := AList.update (isID i) i (mIssuers m)\<rparr>)))"

definition GetIssuer :: "'z mem_scheme \<Rightarrow> string \<Rightarrow> string \<Rightarrow> issuer result" where
  "GetIssuer m tid i =
     unless_read m ''GetIssuer''
       (on_val (tenant_lookup isTenantID (mIssuers m) tid i)
         (\<lambda>x. Inr (x\<lparr>isCertificateCount := certCountForIssuer m i\<rparr>)))"

definition ListIssuers :: "'z mem_scheme \<Rightarrow> string \<Rightarrow> string \<Rightarrow> int \<Rightarrow> issuer list result" where
  "ListIssuers m tid after limit =
     unless_read m ''ListIssuers''
       (Inr (sqlLimit
         (sortByNameID isName isID
           (map (\<lambda>i. i\<lparr>isCertificateCount := certCountForIssuer m (isID i)\<rparr>)
             (filter (\<lambda>i. isTenantID i = tid \<and> lower (isName i) > lower after) (rows (mIssuers m)))))
         limit))"

definition IssuersByIDs :: "'z mem_scheme \<Rightarrow> string \<Rightarrow> string list \<Rightarrow> issuer list result" where
  "IssuersByIDs m tid ids =
     unless_read m ''IssuersByIDs''
       (Inr (sortByNameID isName isID
         (List.map_filter
           (\<lambda>i. case map_of (mIssuers m) i of
                  None \<Rightarrow> None
                | Some x \<Rightarrow> if isTenantID x = tid
                            then Some (x\<lparr>isCertificateCount := certCountForIssuer m i\<rparr>) else None)
           ids)))"

definition DefaultIssuer :: "'z mem_scheme \<Rightarrow> string \<Rightarrow> string \<Rightarrow> issuer result" where
  "DefaultIssuer m tid trustDomain =
     unless_read m ''DefaultIssuer''
       (case find (\<lambda>i. isTenantID i = tid \<and> isTrustDomain i = trustDomain \<and> isIsDefault i) (rows (mIssuers m)) of
          None \<Rightarrow> Inl StoreNotFound
        | Some i \<Rightarrow> Inr (i\<lparr>isCertificateCount := certCountForIssuer m (isID i)\<rparr>))"

definition UpdateIssuer :: "'z mem_scheme \<Rightarrow> issuer \<Rightarrow> unit result \<times> 'z mem_scheme" where
  "UpdateIssuer m i =
     unless_write m ''UpdateIssuer''
       (case tenant_lookup isTenantID (mIssuers m) (isTenantID i) (isID i) of
          Inl e \<Rightarrow> (Inl e, m)
        | Inr old \<Rightarrow>
            if \<not> ca_ref_ok m i then (Inl StoreConflict, m)
            else if list_ex (\<lambda>(k, x). k \<noteq> isID i \<and> issuer_clash x i) (mIssuers m) then (Inl StoreConflict, m)
            else
              (let new = old\<lparr>isName := isName i, isType := isType i, isTrustDomain := isTrustDomain i,
                     isIsDefault := isIsDefault i, isCAID := isCAID i,
                     isACMEDirectoryURL := isACMEDirectoryURL i, isACMEEmail := isACMEEmail i,
                     isDNSProvider := isDNSProvider i, isSettingsPublic := isSettingsPublic i,
                     isSettingsSealed := isSettingsSealed i, isEnabled := isEnabled i,
                     isUpdatedBy := isUpdatedBy i, isUpdatedAt := mNow m\<rparr>
               in (Inr (), m\<lparr>mIssuers := AList.update (isID i) new (mIssuers m)\<rparr>)))"

definition ClearDefaultIssuer ::
  "'z mem_scheme \<Rightarrow> string \<Rightarrow> string \<Rightarrow> string \<Rightarrow> unit result \<times> 'z mem_scheme" where
  "ClearDefaultIssuer m tid trustDomain except =
     unless_write m ''ClearDefaultIssuer''
       (Inr (), m\<lparr>mIssuers :=
          map (\<lambda>(k, i). (k, if isTenantID i = tid \<and> isTrustDomain i = trustDomain \<and> isIsDefault i \<and> k \<noteq> except
                            then i\<lparr>isIsDefault := False\<rparr> else i)) (mIssuers m)\<rparr>)"

definition DeleteIssuer :: "'z mem_scheme \<Rightarrow> string \<Rightarrow> string \<Rightarrow> unit result \<times> 'z mem_scheme" where
  "DeleteIssuer m tid i =
     unless_write m ''DeleteIssuer''
       (case tenant_lookup isTenantID (mIssuers m) tid i of
          Inl e \<Rightarrow> (Inl e, m)
        | Inr _ \<Rightarrow>
            if certCountForIssuer m i > 0 then (Inl StoreConflict, m)
            else (Inr (), m\<lparr>mIssuers := AList.delete i (mIssuers m)\<rparr>))"

subsection \<open>CAs\<close>

definition InsertCA :: "'z mem_scheme \<Rightarrow> ca_row \<Rightarrow> unit result \<times> 'z mem_scheme" where
  "InsertCA m c =
     unless_write m ''InsertCA''
       (if caState c = ''active'' \<and>
           list_ex (\<lambda>x. caTenantID x = caTenantID c \<and> caTrustDomain x = caTrustDomain c \<and> caState x = ''active'')
             (rows (mCAs m))
        then (Inl StoreConflict, m)
        else
          (let c = (if caCreatedAt c = 0 then c\<lparr>caCreatedAt := mNow m\<rparr> else c)
           in (Inr (), m\<lparr>mCAs := AList.update (caID c) c (mCAs m)\<rparr>)))"

definition GetCA :: "'z mem_scheme \<Rightarrow> string \<Rightarrow> string \<Rightarrow> ca_row result" where
  "GetCA m tid i = unless_read m ''GetCA'' (tenant_lookup caTenantID (mCAs m) tid i)"

text \<open>The loop of \<open>CAByState\<close>: keep the first of the newest.\<close>

fun newest_ca :: "ca_row option \<Rightarrow> ca_row list \<Rightarrow> ca_row option" where
  "newest_ca best [] = best"
| "newest_ca best (c # cs) =
     newest_ca (case best of None \<Rightarrow> Some c
                | Some b \<Rightarrow> if caCreatedAt c > caCreatedAt b then Some c else best) cs"

definition CAByState :: "'z mem_scheme \<Rightarrow> string \<Rightarrow> string \<Rightarrow> string \<Rightarrow> ca_row result" where
  "CAByState m tid trustDomain state =
     unless_read m ''CAByState''
       (case newest_ca None
               (filter (\<lambda>c. caTenantID c = tid \<and> caTrustDomain c = trustDomain \<and> caState c = state) (rows (mCAs m))) of
          None \<Rightarrow> Inl StoreNotFound
        | Some c \<Rightarrow> Inr c)"

definition CAsForDomain :: "'z mem_scheme \<Rightarrow> string \<Rightarrow> string \<Rightarrow> ca_row list result" where
  "CAsForDomain m tid trustDomain =
     unless_read m ''CAsForDomain''
       (Inr (sort_desc caCreatedAt caID
         (filter (\<lambda>c. caTenantID c = tid \<and> caTrustDomain c = trustDomain) (rows (mCAs m)))))"

definition SetCAState ::
  "'z mem_scheme \<Rightarrow> string \<Rightarrow> string \<Rightarrow> string \<Rightarrow> unit result \<times> 'z mem_scheme" where
  "SetCAState m tid i state =
     unless_write m ''SetCAState''
       (case tenant_lookup caTenantID (mCAs m) tid i of
          Inl e \<Rightarrow> (Inl e, m)
        | Inr c \<Rightarrow>
            if state = ''active'' \<and>
               list_ex (\<lambda>(k, x). k \<noteq> i \<and> caTenantID x = tid \<and> caTrustDomain x = caTrustDomain c \<and> caState x = ''active'')
                 (mCAs m)
            then (Inl StoreConflict, m)
            else (Inr (), m\<lparr>mCAs := AList.update i (c\<lparr>caState := state\<rparr>) (mCAs m)\<rparr>))"

definition DeleteCA :: "'z mem_scheme \<Rightarrow> string \<Rightarrow> string \<Rightarrow> unit result \<times> 'z mem_scheme" where
  "DeleteCA m tid i =
     unless_write m ''DeleteCA''
       (case tenant_lookup caTenantID (mCAs m) tid i of
          Inl e \<Rightarrow> (Inl e, m)
        | Inr _ \<Rightarrow>
            if list_ex (\<lambda>x. isCAID x = Some i) (rows (mIssuers m)) then (Inl StoreConflict, m)
            else (Inr (), m\<lparr>mCAs := AList.delete i (mCAs m)\<rparr>))"

subsection \<open>Certificate requests\<close>

definition InsertRequest :: "'z mem_scheme \<Rightarrow> cert_request \<Rightarrow> unit result \<times> 'z mem_scheme" where
  "InsertRequest m r =
     unless_write m ''InsertRequest''
       (if (case rqIssuerID r of
              None \<Rightarrow> False
            | Some i \<Rightarrow> (case map_of (mIssuers m) i of None \<Rightarrow> True | Some x \<Rightarrow> isTenantID x \<noteq> rqTenantID r))
        then (Inl StoreConflict, m)
        else
          (let r = (if rqKind r = '''' then r\<lparr>rqKind := ''svid''\<rparr> else r);
               r = r\<lparr>rqCreatedAt := mNow m, rqUpdatedAt := mNow m\<rparr>
           in (Inr (), m\<lparr>mRequests := AList.update (rqID r) r (mRequests m)\<rparr>)))"

definition GetRequest :: "'z mem_scheme \<Rightarrow> string \<Rightarrow> string \<Rightarrow> cert_request result" where
  "GetRequest m tid i = unless_read m ''GetRequest'' (tenant_lookup rqTenantID (mRequests m) tid i)"

definition ListRequests :: "'z mem_scheme \<Rightarrow> string \<Rightarrow> request_filter \<Rightarrow> cert_request list result" where
  "ListRequests m tid f =
     unless_read m ''ListRequests''
       (Inr (sqlLimit
         (sort_desc rqCreatedAt rqID
           (filter (\<lambda>r. \<not> (rqTenantID r \<noteq> tid \<or> (rfStatus f \<noteq> '''' \<and> rqStatus r \<noteq> rfStatus f))
                        \<and> beforeCursor (rqCreatedAt r) (rqID r) (rfCursorTS f) (rfCursorID f))
             (rows (mRequests m))))
         (rfLimit f)))"

definition SetRequestStatus ::
  "'z mem_scheme \<Rightarrow> string \<Rightarrow> string \<Rightarrow> string \<Rightarrow> string option \<Rightarrow> string option
   \<Rightarrow> unit result \<times> 'z mem_scheme" where
  "SetRequestStatus m tid i status approver reason =
     unless_write m ''SetRequestStatus''
       (case tenant_lookup rqTenantID (mRequests m) tid i of
          Inl e \<Rightarrow> (Inl e, m)
        | Inr r \<Rightarrow>
            (let r = r\<lparr>rqStatus := status\<rparr>;
                 r = (if approver \<noteq> None then r\<lparr>rqApprover := approver\<rparr> else r);
                 r = (if reason \<noteq> None then r\<lparr>rqReason := reason\<rparr> else r);
                 r = r\<lparr>rqUpdatedAt := mNow m\<rparr>
             in (Inr (), m\<lparr>mRequests := AList.update i r (mRequests m)\<rparr>)))"

definition CompleteRequest ::
  "'z mem_scheme \<Rightarrow> string \<Rightarrow> string \<Rightarrow> string \<Rightarrow> string option \<Rightarrow> string option
   \<Rightarrow> unit result \<times> 'z mem_scheme" where
  "CompleteRequest m tid i status certificateID reason =
     unless_write m ''CompleteRequest''
       (case tenant_lookup rqTenantID (mRequests m) tid i of
          Inl e \<Rightarrow> (Inl e, m)
        | Inr r \<Rightarrow>
            (let r = r\<lparr>rqStatus := status, rqCertificateID := certificateID, rqReason := reason, rqUpdatedAt := mNow m\<rparr>
             in (Inr (), m\<lparr>mRequests := AList.update i r (mRequests m)\<rparr>)))"

definition DeleteRequest :: "'z mem_scheme \<Rightarrow> string \<Rightarrow> string \<Rightarrow> unit result \<times> 'z mem_scheme" where
  "DeleteRequest m tid i =
     unless_write m ''DeleteRequest''
       (case tenant_lookup rqTenantID (mRequests m) tid i of
          Inl e \<Rightarrow> (Inl e, m)
        | Inr _ \<Rightarrow> (Inr (), m\<lparr>mRequests := AList.delete i (mRequests m)\<rparr>))"

subsection \<open>Certificate jobs\<close>

text \<open>The zero value a Go map yields for a missing key.\<close>

definition zero_job :: cert_job where
  "zero_job = \<lparr>jbID = '''', jbTenantID = '''', jbRequestID = '''', jbType = '''', jbStatus = '''',
     jbLeaseUntil = None, jbAttempts = 0, jbMaxAttempts = 0, jbResultCertificateID = None,
     jbError = None, jbRunAfter = 0, jbCreatedAt = 0, jbUpdatedAt = 0\<rparr>"

definition InsertJob :: "'z mem_scheme \<Rightarrow> cert_job \<Rightarrow> unit result \<times> 'z mem_scheme" where
  "InsertJob m j =
     unless_write m ''InsertJob''
       (let j = j\<lparr>jbCreatedAt := mNow m, jbUpdatedAt := mNow m\<rparr>;
            j = (if jbRunAfter j = 0 then j\<lparr>jbRunAfter := mNow m\<rparr> else j)
        in (Inr (), m\<lparr>mJobs := AList.update (jbID j) j (mJobs m)\<rparr>))"

definition GetJob :: "'z mem_scheme \<Rightarrow> string \<Rightarrow> string \<Rightarrow> cert_job result" where
  "GetJob m tid i = unless_read m ''GetJob'' (tenant_lookup jbTenantID (mJobs m) tid i)"

definition ListJobs :: "'z mem_scheme \<Rightarrow> string \<Rightarrow> job_filter \<Rightarrow> cert_job list result" where
  "ListJobs m tid f =
     unless_read m ''ListJobs''
       (Inr (sqlLimit
         (sort_desc jbCreatedAt jbID
           (filter (\<lambda>j. \<not> (jbTenantID j \<noteq> tid \<or> (jfStatus f \<noteq> '''' \<and> jbStatus j \<noteq> jfStatus f))
                        \<and> beforeCursor (jbCreatedAt j) (jbID j) (jfCursorTS f) (jfCursorID f))
             (rows (mJobs m))))
         (jfLimit f)))"

definition UpdateJob :: "'z mem_scheme \<Rightarrow> cert_job \<Rightarrow> unit result \<times> 'z mem_scheme" where
  "UpdateJob m j =
     unless_write m ''UpdateJob''
       (case tenant_lookup jbTenantID (mJobs m) (jbTenantID j) (jbID j) of
          Inl e \<Rightarrow> (Inl e, m)
        | Inr old \<Rightarrow>
            (let new = old\<lparr>jbStatus := jbStatus j, jbLeaseUntil := jbLeaseUntil j, jbAttempts := jbAttempts j,
                   jbMaxAttempts := jbMaxAttempts j, jbResultCertificateID := jbResultCertificateID j,
                   jbError := jbError j, jbRunAfter := jbRunAfter j, jbUpdatedAt := mNow m\<rparr>
             in (Inr (), m\<lparr>mJobs := AList.update (jbID j) new (mJobs m)\<rparr>)))"

definition DeleteJob :: "'z mem_scheme \<Rightarrow> string \<Rightarrow> string \<Rightarrow> unit result \<times> 'z mem_scheme" where
  "DeleteJob m tid i =
     unless_write m ''DeleteJob''
       (case tenant_lookup jbTenantID (mJobs m) tid i of
          Inl e \<Rightarrow> (Inl e, m)
        | Inr _ \<Rightarrow> (Inr (), m\<lparr>mJobs := AList.delete i (mJobs m)\<rparr>))"

definition job_due :: "time \<Rightarrow> cert_job \<Rightarrow> bool" where
  "job_due now j \<longleftrightarrow>
     jbStatus j = ''queued'' \<and> \<not> jbRunAfter j > now \<and>
     (case jbLeaseUntil j of None \<Rightarrow> True | Some l \<Rightarrow> l < now)"

definition claimed :: "time \<Rightarrow> duration \<Rightarrow> cert_job \<Rightarrow> cert_job" where
  "claimed now lease j =
     j\<lparr>jbStatus := ''processing'', jbLeaseUntil := Some (now + lease), jbAttempts := jbAttempts j + 1, jbUpdatedAt := now\<rparr>"

text \<open>The loop that stamps each due job and collects the stored rows.\<close>

fun claim_each :: "time \<Rightarrow> duration \<Rightarrow> cert_job table \<Rightarrow> cert_job list \<Rightarrow> cert_job list \<times> cert_job table" where
  "claim_each now lease t [] = ([], t)"
| "claim_each now lease t (j # js) =
     (let stored = claimed now lease (case map_of t (jbID j) of Some s \<Rightarrow> s | None \<Rightarrow> zero_job);
          (out, t') = claim_each now lease (AList.update (jbID j) stored t) js
      in (stored # out, t'))"

definition ClaimDueJobs ::
  "'z mem_scheme \<Rightarrow> time \<Rightarrow> duration \<Rightarrow> int \<Rightarrow> cert_job list result \<times> 'z mem_scheme" where
  "ClaimDueJobs m now lease limit =
     unless_write m ''ClaimDueJobs''
       (let due = sqlLimit (sort_asc jbRunAfter jbID (filter (job_due now) (rows (mJobs m)))) limit;
            (out, t) = claim_each now lease (mJobs m) due
        in (Inr out, m\<lparr>mJobs := t\<rparr>))"

subsection \<open>Issued certificates\<close>

definition InsertCertificate :: "'z mem_scheme \<Rightarrow> issued_cert \<Rightarrow> unit result \<times> 'z mem_scheme" where
  "InsertCertificate m c =
     unless_write m ''InsertCertificate''
       (if (case map_of (mIssuers m) (icIssuerID c) of None \<Rightarrow> True | Some i \<Rightarrow> isTenantID i \<noteq> icTenantID c)
        then (Inl StoreConflict, m)
        else if list_ex (\<lambda>x. icTenantID x = icTenantID c \<and> icSerial x = icSerial c) (rows (mCertificates m))
        then (Inl StoreConflict, m)
        else
          (let c = c\<lparr>icCreatedAt := mNow m, icUpdatedAt := mNow m\<rparr>;
               c = (if icSANs c = None then c\<lparr>icSANs := Some []\<rparr> else c)
           in (Inr (), m\<lparr>mCertificates := AList.update (icID c) c (mCertificates m)\<rparr>)))"

definition GetCertificate :: "'z mem_scheme \<Rightarrow> string \<Rightarrow> string \<Rightarrow> issued_cert result" where
  "GetCertificate m tid i =
     unless_read m ''GetCertificate'' (tenant_lookup icTenantID (mCertificates m) tid i)"

definition cert_matches :: "string \<Rightarrow> cert_filter \<Rightarrow> issued_cert \<Rightarrow> bool" where
  "cert_matches tid f c \<longleftrightarrow>
     \<not> (icTenantID c \<noteq> tid \<or> (cfIssuerID f \<noteq> '''' \<and> icIssuerID c \<noteq> cfIssuerID f)
        \<or> (cfSpiffeID f \<noteq> '''' \<and> icSpiffeID c \<noteq> cfSpiffeID f)
        \<or> (cfStatus f \<noteq> '''' \<and> icStatus c \<noteq> cfStatus f))"

definition ListCertificates :: "'z mem_scheme \<Rightarrow> string \<Rightarrow> cert_filter \<Rightarrow> issued_cert list result" where
  "ListCertificates m tid f =
     unless_read m ''ListCertificates''
       (Inr (sqlLimit
         (sort_desc icCreatedAt icID
           (filter (\<lambda>c. cert_matches tid f c \<and> beforeCursor (icCreatedAt c) (icID c) (cfCursorTS f) (cfCursorID f))
             (rows (mCertificates m))))
         (cfLimit f)))"

definition CertificatesByIDs :: "'z mem_scheme \<Rightarrow> string \<Rightarrow> string list \<Rightarrow> issued_cert list result" where
  "CertificatesByIDs m tid ids =
     unless_read m ''CertificatesByIDs''
       (Inr (sort_desc icCreatedAt icID
         (List.map_filter
           (\<lambda>i. case map_of (mCertificates m) i of
                  None \<Rightarrow> None | Some c \<Rightarrow> if icTenantID c = tid then Some c else None) ids)))"

definition UpdateCertificate :: "'z mem_scheme \<Rightarrow> issued_cert \<Rightarrow> unit result \<times> 'z mem_scheme" where
  "UpdateCertificate m c =
     unless_write m ''UpdateCertificate''
       (case tenant_lookup icTenantID (mCertificates m) (icTenantID c) (icID c) of
          Inl e \<Rightarrow> (Inl e, m)
        | Inr old \<Rightarrow>
            (let new = old\<lparr>icStatus := icStatus c, icChainPEM := icChainPEM c, icKeySealed := icKeySealed c,
                   icKeyDelivered := icKeyDelivered c, icSupersededBy := icSupersededBy c, icOwner := icOwner c,
                   icUpdatedBy := icUpdatedBy c, icUpdatedAt := mNow m\<rparr>
             in (Inr (), m\<lparr>mCertificates := AList.update (icID c) new (mCertificates m)\<rparr>)))"

definition SetCertificateStatus ::
  "'z mem_scheme \<Rightarrow> string \<Rightarrow> string \<Rightarrow> string \<Rightarrow> string option \<Rightarrow> unit result \<times> 'z mem_scheme" where
  "SetCertificateStatus m tid i status supersededBy =
     unless_write m ''SetCertificateStatus''
       (case tenant_lookup icTenantID (mCertificates m) tid i of
          Inl e \<Rightarrow> (Inl e, m)
        | Inr c \<Rightarrow>
            (let c = c\<lparr>icStatus := status\<rparr>;
                 c = (if supersededBy \<noteq> None then c\<lparr>icSupersededBy := supersededBy\<rparr> else c);
                 c = c\<lparr>icUpdatedAt := mNow m\<rparr>
             in (Inr (), m\<lparr>mCertificates := AList.update i c (mCertificates m)\<rparr>)))"

definition MarkKeyDelivered :: "'z mem_scheme \<Rightarrow> string \<Rightarrow> string \<Rightarrow> unit result \<times> 'z mem_scheme" where
  "MarkKeyDelivered m tid i =
     unless_write m ''MarkKeyDelivered''
       (case tenant_lookup icTenantID (mCertificates m) tid i of
          Inl e \<Rightarrow> (Inl e, m)
        | Inr c \<Rightarrow>
            (let c = c\<lparr>icKeyDelivered := True, icKeySealed := None, icUpdatedAt := mNow m\<rparr>
             in (Inr (), m\<lparr>mCertificates := AList.update i c (mCertificates m)\<rparr>)))"

definition DeleteCertificate :: "'z mem_scheme \<Rightarrow> string \<Rightarrow> string \<Rightarrow> unit result \<times> 'z mem_scheme" where
  "DeleteCertificate m tid i =
     unless_write m ''DeleteCertificate''
       (case tenant_lookup icTenantID (mCertificates m) tid i of
          Inl e \<Rightarrow> (Inl e, m)
        | Inr _ \<Rightarrow> (Inr (), m\<lparr>mCertificates := AList.delete i (mCertificates m)\<rparr>))"

definition live_until :: "time \<Rightarrow> time \<Rightarrow> issued_cert \<Rightarrow> bool" where
  "live_until now before c \<longleftrightarrow>
     (icStatus c = ''active'' \<or> icStatus c = ''expiring'') \<and> icSupersededBy c = None \<and>
     icNotAfter c > now \<and> \<not> icNotAfter c > before"

definition DueForRenewal :: "'z mem_scheme \<Rightarrow> time \<Rightarrow> time \<Rightarrow> int \<Rightarrow> issued_cert list result" where
  "DueForRenewal m now notAfterBefore limit =
     unless_read m ''DueForRenewal''
       (Inr (sqlLimit
         (sort_asc icNotAfter icID (filter (live_until now notAfterBefore) (rows (mCertificates m)))) limit))"

definition ExpiringCertificates ::
  "'z mem_scheme \<Rightarrow> string \<Rightarrow> time \<Rightarrow> time \<Rightarrow> int \<Rightarrow> issued_cert list result" where
  "ExpiringCertificates m tid now before limit =
     unless_read m ''ExpiringCertificates''
       (Inr (sqlLimit
         (sort_asc icNotAfter icID
           (filter (\<lambda>c. icTenantID c = tid \<and> live_until now before c) (rows (mCertificates m)))) limit))"

subsection \<open>Revocations\<close>

definition InsertRevocation :: "'z mem_scheme \<Rightarrow> revocation \<Rightarrow> unit result \<times> 'z mem_scheme" where
  "InsertRevocation m r =
     unless_write m ''InsertRevocation''
       (if list_ex (\<lambda>x. rvTenantID x = rvTenantID r \<and> rvCertificateID x = rvCertificateID r) (rows (mRevocations m))
        then (Inl StoreConflict, m)
        else
          (let r = (if rvRevokedAt r = 0 then r\<lparr>rvRevokedAt := mNow m\<rparr> else r)
           in (Inr (), m\<lparr>mRevocations := AList.update (rvID r) r (mRevocations m)\<rparr>)))"

definition ListRevocations :: "'z mem_scheme \<Rightarrow> string \<Rightarrow> time \<Rightarrow> int \<Rightarrow> revocation list result" where
  "ListRevocations m tid cursor limit =
     unless_read m ''ListRevocations''
       (Inr (sqlLimit
         (sort_desc rvRevokedAt rvID
           (filter (\<lambda>r. \<not> (rvTenantID r \<noteq> tid \<or> (cursor \<noteq> 0 \<and> \<not> rvRevokedAt r < cursor))) (rows (mRevocations m))))
         limit))"

subsection \<open>Installed certificates and deployment targets\<close>

text \<open>The first entry of a table whose row satisfies a predicate, with its key.\<close>

definition table_find :: "('r \<Rightarrow> bool) \<Rightarrow> 'r table \<Rightarrow> (string \<times> 'r) option" where
  "table_find P t = find (\<lambda>(k, x). P x) t"

definition UpsertInstalled :: "'z mem_scheme \<Rightarrow> installed_cert \<Rightarrow> unit result \<times> 'z mem_scheme" where
  "UpsertInstalled m i =
     unless_write m ''UpsertInstalled''
       (case table_find (\<lambda>x. inTenantID x = inTenantID i \<and> inCertificateID x = inCertificateID i
                            \<and> inClientID x = inClientID i) (mInstalled m) of
          Some (k, x) \<Rightarrow>
            (Inr (), m\<lparr>mInstalled := AList.update k (x\<lparr>inReportedAt := inReportedAt i\<rparr>) (mInstalled m)\<rparr>)
        | None \<Rightarrow>
            (let i = (if inInstalledAt i = 0 then i\<lparr>inInstalledAt := mNow m\<rparr> else i);
                 i = (if inReportedAt i = 0 then i\<lparr>inReportedAt := mNow m\<rparr> else i)
             in (Inr (), m\<lparr>mInstalled := AList.update (inID i) i (mInstalled m)\<rparr>)))"

definition ListInstalled ::
  "'z mem_scheme \<Rightarrow> string \<Rightarrow> string \<Rightarrow> time \<Rightarrow> int \<Rightarrow> installed_cert list result" where
  "ListInstalled m tid clientID cursor limit =
     unless_read m ''ListInstalled''
       (Inr (sqlLimit
         (sort_desc inReportedAt inID
           (filter (\<lambda>i. \<not> (inTenantID i \<noteq> tid \<or> (clientID \<noteq> '''' \<and> inClientID i \<noteq> clientID)
                        \<or> (cursor \<noteq> 0 \<and> \<not> inReportedAt i < cursor))) (rows (mInstalled m))))
         limit))"

definition InsertTarget :: "'z mem_scheme \<Rightarrow> target_row \<Rightarrow> unit result \<times> 'z mem_scheme" where
  "InsertTarget m t =
     unless_write m ''InsertTarget''
       (if list_ex (\<lambda>x. tgTenantID x = tgTenantID t \<and> lower (tgName x) = lower (tgName t)) (rows (mTargets m))
        then (Inl StoreConflict, m)
        else
          (let t = t\<lparr>tgCreatedAt := mNow m, tgUpdatedAt := mNow m\<rparr>;
               t = (if tgConfigPublic t = None then t\<lparr>tgConfigPublic := Some ''{}''\<rparr> else t)
           in (Inr (), m\<lparr>mTargets := AList.update (tgID t) t (mTargets m)\<rparr>)))"

definition GetTarget :: "'z mem_scheme \<Rightarrow> string \<Rightarrow> string \<Rightarrow> target_row result" where
  "GetTarget m tid i = unless_read m ''GetTarget'' (tenant_lookup tgTenantID (mTargets m) tid i)"

definition ListTargets :: "'z mem_scheme \<Rightarrow> string \<Rightarrow> target_row list result" where
  "ListTargets m tid =
     unless_read m ''ListTargets'' (Inr (sortByNameID tgName tgID (of_tenant tgTenantID tid (mTargets m))))"

definition DeleteTarget :: "'z mem_scheme \<Rightarrow> string \<Rightarrow> string \<Rightarrow> unit result \<times> 'z mem_scheme" where
  "DeleteTarget m tid i =
     unless_write m ''DeleteTarget''
       (case tenant_lookup tgTenantID (mTargets m) tid i of
          Inl e \<Rightarrow> (Inl e, m)
        | Inr _ \<Rightarrow> (Inr (), m\<lparr>mTargets := AList.delete i (mTargets m)\<rparr>))"

subsection \<open>Tenant secrets\<close>

definition InsertSecret :: "'z mem_scheme \<Rightarrow> tenant_secret \<Rightarrow> unit result \<times> 'z mem_scheme" where
  "InsertSecret m s =
     unless_write m ''InsertSecret''
       (if list_ex (\<lambda>x. scTenantID x = scTenantID s \<and> lower (scName x) = lower (scName s)) (rows (mSecrets m))
        then (Inl StoreConflict, m)
        else
          (let s = s\<lparr>scCreatedAt := mNow m, scUpdatedAt := mNow m\<rparr>
           in (Inr (), m\<lparr>mSecrets := AList.update (scID s) s (mSecrets m)\<rparr>)))"

definition GetSecret :: "'z mem_scheme \<Rightarrow> string \<Rightarrow> string \<Rightarrow> tenant_secret result" where
  "GetSecret m tid i = unless_read m ''GetSecret'' (tenant_lookup scTenantID (mSecrets m) tid i)"

definition SecretByName :: "'z mem_scheme \<Rightarrow> string \<Rightarrow> string \<Rightarrow> tenant_secret result" where
  "SecretByName m tid name =
     unless_read m ''SecretByName''
       (case table_find (\<lambda>s. scTenantID s = tid \<and> lower (scName s) = lower name) (mSecrets m) of
          Some (_, s) \<Rightarrow> Inr s
        | None \<Rightarrow> Inl StoreNotFound)"

definition ListSecrets :: "'z mem_scheme \<Rightarrow> string \<Rightarrow> tenant_secret list result" where
  "ListSecrets m tid =
     unless_read m ''ListSecrets'' (Inr (sortByNameID scName scID (of_tenant scTenantID tid (mSecrets m))))"

definition UpdateSecret :: "'z mem_scheme \<Rightarrow> tenant_secret \<Rightarrow> unit result \<times> 'z mem_scheme" where
  "UpdateSecret m s =
     unless_write m ''UpdateSecret''
       (case tenant_lookup scTenantID (mSecrets m) (scTenantID s) (scID s) of
          Inl e \<Rightarrow> (Inl e, m)
        | Inr old \<Rightarrow>
            if list_ex (\<lambda>(k, x). k \<noteq> scID s \<and> scTenantID x = scTenantID s \<and> lower (scName x) = lower (scName s))
                 (mSecrets m)
            then (Inl StoreConflict, m)
            else
              (let new = old\<lparr>scName := scName s, scKind := scKind s, scValueSealed := scValueSealed s,
                     scUpdatedBy := scUpdatedBy s, scUpdatedAt := mNow m\<rparr>
               in (Inr (), m\<lparr>mSecrets := AList.update (scID s) new (mSecrets m)\<rparr>)))"

definition DeleteSecret :: "'z mem_scheme \<Rightarrow> string \<Rightarrow> string \<Rightarrow> unit result \<times> 'z mem_scheme" where
  "DeleteSecret m tid i =
     unless_write m ''DeleteSecret''
       (case tenant_lookup scTenantID (mSecrets m) tid i of
          Inl e \<Rightarrow> (Inl e, m)
        | Inr _ \<Rightarrow> (Inr (), m\<lparr>mSecrets := AList.delete i (mSecrets m)\<rparr>))"

subsection \<open>Webhook endpoints\<close>

definition InsertWebhook :: "'z mem_scheme \<Rightarrow> webhook_row \<Rightarrow> unit result \<times> 'z mem_scheme" where
  "InsertWebhook m w =
     unless_write m ''InsertWebhook''
       (if list_ex (\<lambda>x. whTenantID x = whTenantID w \<and> lower (whName x) = lower (whName w)) (rows (mWebhooks m))
        then (Inl StoreConflict, m)
        else
          (let w = w\<lparr>whCreatedAt := mNow m, whUpdatedAt := mNow m\<rparr>
           in (Inr (), m\<lparr>mWebhooks := AList.update (whID w) w (mWebhooks m)\<rparr>)))"

definition GetWebhook :: "'z mem_scheme \<Rightarrow> string \<Rightarrow> string \<Rightarrow> webhook_row result" where
  "GetWebhook m tid i = unless_read m ''GetWebhook'' (tenant_lookup whTenantID (mWebhooks m) tid i)"

definition ListWebhooks :: "'z mem_scheme \<Rightarrow> string \<Rightarrow> webhook_row list result" where
  "ListWebhooks m tid =
     unless_read m ''ListWebhooks'' (Inr (sortByNameID whName whID (of_tenant whTenantID tid (mWebhooks m))))"

definition WebhooksForEvent :: "'z mem_scheme \<Rightarrow> string \<Rightarrow> string \<Rightarrow> webhook_row list result" where
  "WebhooksForEvent m tid eventType =
     unless_read m ''WebhooksForEvent''
       (Inr (sortByNameID whName whID
         (filter (\<lambda>w. whTenantID w = tid \<and> whEnabled w \<and> eventType \<in> set (whEventTypes w)) (rows (mWebhooks m)))))"

definition DeleteWebhook :: "'z mem_scheme \<Rightarrow> string \<Rightarrow> string \<Rightarrow> unit result \<times> 'z mem_scheme" where
  "DeleteWebhook m tid i =
     unless_write m ''DeleteWebhook''
       (case tenant_lookup whTenantID (mWebhooks m) tid i of
          Inl e \<Rightarrow> (Inl e, m)
        | Inr _ \<Rightarrow> (Inr (), m\<lparr>mWebhooks := AList.delete i (mWebhooks m)\<rparr>))"

subsection \<open>Grants\<close>

definition same_grant :: "grant_row \<Rightarrow> grant_row \<Rightarrow> bool" where
  "same_grant g x \<longleftrightarrow>
     grTenantID x = grTenantID g \<and> grResourceType x = grResourceType g \<and> grResourceID x = grResourceID g
     \<and> grSubjectType x = grSubjectType g \<and> grSubjectID x = grSubjectID g"

definition UpsertGrant :: "'z mem_scheme \<Rightarrow> grant_row \<Rightarrow> grant_row result \<times> 'z mem_scheme" where
  "UpsertGrant m g =
     unless_write m ''UpsertGrant''
       (case table_find (same_grant g) (mGrants m) of
          Some (k, x) \<Rightarrow>
            (let x = x\<lparr>grRelation := grRelation g, grGrantedBy := grGrantedBy g, grGrantedAt := mNow m,
                   grExpiresAt := grExpiresAt g\<rparr>
             in (Inr x, m\<lparr>mGrants := AList.update k x (mGrants m)\<rparr>))
        | None \<Rightarrow>
            (let g = g\<lparr>grGrantedAt := mNow m\<rparr>
             in (Inr g, m\<lparr>mGrants := AList.update (grID g) g (mGrants m)\<rparr>)))"

definition GetGrant :: "'z mem_scheme \<Rightarrow> string \<Rightarrow> string \<Rightarrow> grant_row result" where
  "GetGrant m tid i = unless_read m ''GetGrant'' (tenant_lookup grTenantID (mGrants m) tid i)"

definition DeleteGrant :: "'z mem_scheme \<Rightarrow> string \<Rightarrow> string \<Rightarrow> unit result \<times> 'z mem_scheme" where
  "DeleteGrant m tid i =
     unless_write m ''DeleteGrant''
       (case tenant_lookup grTenantID (mGrants m) tid i of
          Inl e \<Rightarrow> (Inl e, m)
        | Inr _ \<Rightarrow> (Inr (), m\<lparr>mGrants := AList.delete i (mGrants m)\<rparr>))"

definition sortGrants :: "grant_row list \<Rightarrow> grant_row list" where
  "sortGrants gs = sort_asc grGrantedAt grID gs"

definition on_resource :: "string \<Rightarrow> string \<Rightarrow> string \<Rightarrow> grant_row \<Rightarrow> bool" where
  "on_resource tid rt ri g \<longleftrightarrow> grTenantID g = tid \<and> grResourceType g = rt \<and> grResourceID g = ri"

definition GrantsOnResource :: "'z mem_scheme \<Rightarrow> string \<Rightarrow> string \<Rightarrow> string \<Rightarrow> grant_row list result" where
  "GrantsOnResource m tid rt ri =
     unless_read m ''GrantsOnResource'' (Inr (sortGrants (filter (on_resource tid rt ri) (rows (mGrants m)))))"

definition for_subjects :: "string \<Rightarrow> string \<Rightarrow> string list \<Rightarrow> time \<Rightarrow> grant_row \<Rightarrow> bool" where
  "for_subjects tid uid roles now g \<longleftrightarrow>
     \<not> (grTenantID g \<noteq> tid \<or> (case grExpiresAt g of None \<Rightarrow> False | Some e \<Rightarrow> \<not> e > now)) \<and>
     (if grSubjectType g = ''user'' then \<not> (uid = '''' \<or> grSubjectID g \<noteq> uid)
      else if grSubjectType g = ''role'' then grSubjectID g \<in> set roles
      else grSubjectType g = ''tenant'')"

definition GrantsForSubjects ::
  "'z mem_scheme \<Rightarrow> string \<Rightarrow> string \<Rightarrow> string list \<Rightarrow> time \<Rightarrow> grant_row list result" where
  "GrantsForSubjects m tid uid roles now =
     unless_read m ''GrantsForSubjects''
       (Inr (sortGrants (filter (for_subjects tid uid roles now) (rows (mGrants m)))))"

definition DeleteGrantsOfResource ::
  "'z mem_scheme \<Rightarrow> string \<Rightarrow> string \<Rightarrow> string \<Rightarrow> unit result \<times> 'z mem_scheme" where
  "DeleteGrantsOfResource m tid rt ri =
     unless_write m ''DeleteGrantsOfResource''
       (Inr (), m\<lparr>mGrants := filter (\<lambda>(k, g). \<not> on_resource tid rt ri g) (mGrants m)\<rparr>)"

subsection \<open>Certificate log, audit and statistics\<close>

definition InsertCertLog :: "'z mem_scheme \<Rightarrow> cert_log list \<Rightarrow> unit result \<times> 'z mem_scheme" where
  "InsertCertLog m rs = unless_write m ''InsertCertLog'' (Inr (), m\<lparr>mCertLog := mCertLog m @ rs\<rparr>)"

definition append_audit :: "audit_row list \<Rightarrow> audit_row \<Rightarrow> audit_row list" where
  "append_audit log r = log @ [r\<lparr>auID := int (length log) + 1\<rparr>]"

definition InsertAuditRows :: "'z mem_scheme \<Rightarrow> audit_row list \<Rightarrow> unit result \<times> 'z mem_scheme" where
  "InsertAuditRows m rs =
     unless_write m ''InsertAuditRows'' (Inr (), m\<lparr>mAudit := foldl append_audit (mAudit m) rs\<rparr>)"

definition name_of :: "('r \<Rightarrow> string) \<Rightarrow> ('r \<Rightarrow> string) \<Rightarrow> 'r table \<Rightarrow> string \<Rightarrow> string \<Rightarrow> string" where
  "name_of tnt nm t tid i =
     (case map_of t i of None \<Rightarrow> '''' | Some x \<Rightarrow> if tnt x = tid then nm x else '''')"

definition subjectName :: "'z mem_scheme \<Rightarrow> string \<Rightarrow> audit_row \<Rightarrow> string" where
  "subjectName m tid r =
     (if auSubjectKind r = ''issuer'' then name_of isTenantID isName (mIssuers m) tid (auSubjectID r)
      else if auSubjectKind r = ''certificate'' then name_of icTenantID icSpiffeID (mCertificates m) tid (auSubjectID r)
      else if auSubjectKind r = ''secret'' then name_of scTenantID scName (mSecrets m) tid (auSubjectID r)
      else if auSubjectKind r = ''webhook'' then name_of whTenantID whName (mWebhooks m) tid (auSubjectID r)
      else '''')"

definition audit_matches :: "string \<Rightarrow> audit_filter \<Rightarrow> audit_row \<Rightarrow> bool" where
  "audit_matches tid f r \<longleftrightarrow>
     \<not> (auTenantID r \<noteq> tid \<or> (afEventType f \<noteq> '''' \<and> auEventType r \<noteq> afEventType f)
        \<or> (afActorID f \<noteq> '''' \<and> auActorID r \<noteq> afActorID f)
        \<or> (afFrom f \<noteq> 0 \<and> auTS r < afFrom f) \<or> (afTo f \<noteq> 0 \<and> auTS r > afTo f)
        \<or> (afCursor f \<noteq> 0 \<and> \<not> auTS r < afCursor f))"

text \<open>\<open>sort.SliceStable\<close>, newest first, is an insertion sort on the negated timestamp.\<close>

definition QueryAudit :: "'z mem_scheme \<Rightarrow> string \<Rightarrow> audit_filter \<Rightarrow> audit_row list result" where
  "QueryAudit m tid f =
     unless_read m ''QueryAudit''
       (Inr (take (nat (AuditLimit (afLimit f)))
         (sort_key (\<lambda>r. - auTS r)
           (map (\<lambda>r. r\<lparr>auSubjectName := subjectName m tid r\<rparr>) (filter (audit_matches tid f) (mAudit m))))))"

text \<open>\<open>m[k]++\<close> on a map that starts empty.\<close>

definition bump :: "(string \<times> int) list \<Rightarrow> string \<Rightarrow> (string \<times> int) list" where
  "bump c k = AList.update k ((case map_of c k of None \<Rightarrow> 0 | Some n \<Rightarrow> n) + 1) c"

definition TenantStats :: "'z mem_scheme \<Rightarrow> string \<Rightarrow> time \<Rightarrow> duration \<Rightarrow> stats_row result" where
  "TenantStats m tid now window =
     unless_read m ''TenantStats''
       (let since = now - window;
            expBefore = now + window
        in Inr \<lparr>stIssuers = int (length (of_tenant isTenantID tid (mIssuers m))),
                stCertificates = foldl bump [] (map icStatus (of_tenant icTenantID tid (mCertificates m))),
                stJobs = foldl bump [] (map jbStatus (of_tenant jbTenantID tid (mJobs m))),
                stClients = int (length (remdups (map inClientID (of_tenant inTenantID tid (mInstalled m))))),
                stExpiringSoon = int (length (filter
                    (\<lambda>c. (icStatus c = ''active'' \<or> icStatus c = ''expiring'') \<and> icNotAfter c > now
                         \<and> \<not> icNotAfter c > expBefore)
                    (of_tenant icTenantID tid (mCertificates m)))),
                stRecentErrors = int (length (filter
                    (\<lambda>l. clTenantID l = tid \<and> clEvent l = ''failed'' \<and> \<not> clTS l < since) (mCertLog m))),
                stOperations24h = int (length (filter
                    (\<lambda>a. auTenantID a = tid \<and> \<not> auTS a < since) (mAudit m)))\<rparr>)"

end
