(* ===== verification/Mem_Inv.thy ===== *)
theory Mem_Inv
  imports Mem_Store
begin

text \<open>
  The data invariant of the store: primary keys, unique and partial unique indexes and the
  foreign keys the SQL schema declares and memstore.go enforces by hand. One lemma per
  writing operation, then \<open>store_step\<close>, the relation of every operation a client may run,
  and the two facts every service rests on: the invariant holds in every reachable store,
  and an operation run for one tenant leaves every other tenant's rows as they were.
\<close>

subsection \<open>The invariant\<close>

definition ca_clash :: "ca_row \<Rightarrow> ca_row \<Rightarrow> bool" where
  "ca_clash x c \<longleftrightarrow> caTenantID x = caTenantID c \<and> caTrustDomain x = caTrustDomain c
     \<and> caState x = ''active'' \<and> caState c = ''active''"

definition cert_clash :: "issued_cert \<Rightarrow> issued_cert \<Rightarrow> bool" where
  "cert_clash x c \<longleftrightarrow> icTenantID x = icTenantID c \<and> icSerial x = icSerial c"

definition revocation_clash :: "revocation \<Rightarrow> revocation \<Rightarrow> bool" where
  "revocation_clash x r \<longleftrightarrow> rvTenantID x = rvTenantID r \<and> rvCertificateID x = rvCertificateID r"

definition installed_clash :: "installed_cert \<Rightarrow> installed_cert \<Rightarrow> bool" where
  "installed_clash x i \<longleftrightarrow> inTenantID x = inTenantID i \<and> inCertificateID x = inCertificateID i \<and> inClientID x = inClientID i"

definition name_clash :: "('r \<Rightarrow> string) \<Rightarrow> ('r \<Rightarrow> string) \<Rightarrow> 'r \<Rightarrow> 'r \<Rightarrow> bool" where
  "name_clash tnt nm x y \<longleftrightarrow> tnt x = tnt y \<and> lower (nm x) = lower (nm y)"

definition issuers_ok :: "issuer table \<Rightarrow> bool" where
  "issuers_ok t \<longleftrightarrow> table_ok isID t \<and> uniq issuer_clash t"

definition cas_ok :: "ca_row table \<Rightarrow> bool" where
  "cas_ok t \<longleftrightarrow> table_ok caID t \<and> uniq ca_clash t"

definition certs_ok :: "issued_cert table \<Rightarrow> bool" where
  "certs_ok t \<longleftrightarrow> table_ok icID t \<and> uniq cert_clash t"

definition revocations_ok :: "revocation table \<Rightarrow> bool" where
  "revocations_ok t \<longleftrightarrow> table_ok rvID t \<and> uniq revocation_clash t"

definition installed_ok :: "installed_cert table \<Rightarrow> bool" where
  "installed_ok t \<longleftrightarrow> table_ok inID t \<and> uniq installed_clash t"

definition named_ok :: "('r \<Rightarrow> string) \<Rightarrow> ('r \<Rightarrow> string) \<Rightarrow> ('r \<Rightarrow> string) \<Rightarrow> 'r table \<Rightarrow> bool" where
  "named_ok rid tnt nm t \<longleftrightarrow> table_ok rid t \<and> uniq (name_clash tnt nm) t"

definition targets_ok :: "target_row table \<Rightarrow> bool" where
  "targets_ok t \<longleftrightarrow> named_ok tgID tgTenantID tgName t"

definition secrets_ok :: "tenant_secret table \<Rightarrow> bool" where
  "secrets_ok t \<longleftrightarrow> named_ok scID scTenantID scName t"

definition webhooks_ok :: "webhook_row table \<Rightarrow> bool" where
  "webhooks_ok t \<longleftrightarrow> named_ok whID whTenantID whName t"

definition grants_ok :: "grant_row table \<Rightarrow> bool" where
  "grants_ok t \<longleftrightarrow> table_ok grID t \<and> uniq same_grant t"

text \<open>The foreign keys: an issuer's CA and a certificate's issuer exist in the same tenant.\<close>

definition issuer_refs :: "issuer table \<Rightarrow> ca_row table \<Rightarrow> bool" where
  "issuer_refs ti tc \<longleftrightarrow>
     (\<forall>k i c. map_of ti k = Some i \<longrightarrow> isCAID i = Some c \<longrightarrow>
        (\<exists>ca. map_of tc c = Some ca \<and> caTenantID ca = isTenantID i))"

definition cert_refs :: "issued_cert table \<Rightarrow> issuer table \<Rightarrow> bool" where
  "cert_refs tc ti \<longleftrightarrow>
     (\<forall>k c. map_of tc k = Some c \<longrightarrow>
        (\<exists>i. map_of ti (icIssuerID c) = Some i \<and> isTenantID i = icTenantID c))"

definition store_ok :: "'z mem_scheme \<Rightarrow> bool" where
  "store_ok m \<longleftrightarrow>
     issuers_ok (mIssuers m) \<and> cas_ok (mCAs m) \<and> table_ok rqID (mRequests m) \<and> table_ok jbID (mJobs m)
     \<and> certs_ok (mCertificates m) \<and> revocations_ok (mRevocations m) \<and> installed_ok (mInstalled m)
     \<and> targets_ok (mTargets m) \<and> secrets_ok (mSecrets m) \<and> webhooks_ok (mWebhooks m) \<and> grants_ok (mGrants m)
     \<and> issuer_refs (mIssuers m) (mCAs m) \<and> cert_refs (mCertificates m) (mIssuers m)"

lemma store_ok_New: "store_ok (New now)"
  by (simp add: store_ok_def New_def issuers_ok_def cas_ok_def certs_ok_def revocations_ok_def installed_ok_def
      targets_ok_def secrets_ok_def webhooks_ok_def named_ok_def grants_ok_def issuer_refs_def cert_refs_def)

lemma unless_write_cases:
  "P (unless_write m op r) \<longleftrightarrow> (\<forall>e. fail m op = Some e \<longrightarrow> P (Inl e, m)) \<and> (fail m op = None \<longrightarrow> P r)"
  by (auto simp: unless_write_def split: option.splits)

lemma unless_read_Inr [result_simps]: "unless_read m op r = Inr v \<longleftrightarrow> fail m op = None \<and> r = Inr v"
  by (auto simp: unless_read_def split: option.splits)

lemma unless_write_Inr [result_simps]:
  "unless_write m op r = (Inr v, m') \<longleftrightarrow> fail m op = None \<and> r = (Inr v, m')"
  by (auto simp: unless_write_def split: option.splits)

subsection \<open>Per-table preservation\<close>

lemma table_find_Some:
  assumes "table_ok rid t" and "table_find P t = Some (k, x)"
  shows "map_of t k = Some x \<and> P x \<and> rid x = k"
proof -
  from assms(2) have "(k, x) \<in> set t" "P x"
    by (auto simp: table_find_def find_Some_iff set_conv_nth)
  with assms(1) show ?thesis by (auto simp: table_ok_def)
qed

lemma table_find_None: "table_find P t = None \<Longrightarrow> map_of t k = Some x \<Longrightarrow> \<not> P x"
  by (auto simp: table_find_def find_None_iff dest: map_of_SomeD)

lemma clash_sym:
  "issuer_clash x i = issuer_clash i x" "ca_clash y c = ca_clash c y" "cert_clash z d = cert_clash d z"
  "revocation_clash v r = revocation_clash r v" "installed_clash w n = installed_clash n w"
  "name_clash tnt nm p q = name_clash tnt nm q p" "same_grant g h = same_grant h g"
  by (auto simp: issuer_clash_def ca_clash_def cert_clash_def revocation_clash_def installed_clash_def
      name_clash_def same_grant_def)

lemma issuers_ok_insert:
  assumes "issuers_ok t" "isID i = k" "\<And>k' x. map_of t k' = Some x \<Longrightarrow> k' \<noteq> k \<Longrightarrow> \<not> issuer_clash x i"
  shows "issuers_ok (AList.update k i t)"
  using assms unfolding issuers_ok_def
  by (auto intro!: table_ok_update uniq_update_sym [OF _ clash_sym(1)])

lemma cas_ok_insert:
  assumes "cas_ok t" "caID c = k" "\<And>k' x. map_of t k' = Some x \<Longrightarrow> k' \<noteq> k \<Longrightarrow> \<not> ca_clash x c"
  shows "cas_ok (AList.update k c t)"
  using assms unfolding cas_ok_def
  by (auto intro!: table_ok_update uniq_update_sym [OF _ clash_sym(2)])

lemma issuers_ok_map:
  assumes "issuers_ok t"
  shows "issuers_ok (map (\<lambda>(k, i). (k, if P k i then i\<lparr>isIsDefault := False\<rparr> else i)) t)"
  using assms unfolding issuers_ok_def
  by (auto intro!: table_ok_map uniq_map simp: issuer_clash_def split: if_splits)

lemma grants_ok_update_same:
  assumes "grants_ok t" "map_of t k = Some x"
  shows "grants_ok (AList.update k (x\<lparr>grRelation := r, grGrantedBy := b, grGrantedAt := a, grExpiresAt := e\<rparr>) t)"
  using assms unfolding grants_ok_def
  by (auto intro!: table_ok_update uniq_update_same simp: same_grant_def dest: table_ok_key)

lemma certs_ok_update_same:
  assumes "certs_ok t" "map_of t k = Some old" "icID c = icID old" "icTenantID c = icTenantID old" "icSerial c = icSerial old"
  shows "certs_ok (AList.update k c t)"
  using assms unfolding certs_ok_def
  by (auto intro!: table_ok_update uniq_update_same simp: cert_clash_def dest: table_ok_key)

lemma cert_refs_update_same:
  assumes "cert_refs tc ti" "map_of tc k = Some old" "icTenantID c = icTenantID old" "icIssuerID c = icIssuerID old"
  shows "cert_refs (AList.update k c tc) ti"
  using assms unfolding cert_refs_def by auto

lemma cert_refs_issuers:
  assumes "cert_refs tc ti"
    and "\<And>k i. map_of ti k = Some i \<Longrightarrow> \<exists>i'. map_of ti' k = Some i' \<and> isTenantID i' = isTenantID i"
  shows "cert_refs tc ti'"
  using assms unfolding cert_refs_def by metis

lemma issuer_refs_cas:
  assumes "issuer_refs ti tc"
    and "\<And>k c. map_of tc k = Some c \<Longrightarrow> \<exists>c'. map_of tc' k = Some c' \<and> caTenantID c' = caTenantID c"
  shows "issuer_refs ti tc'"
  using assms unfolding issuer_refs_def by metis

lemma issuer_refs_update:
  assumes "issuer_refs (mIssuers m) (mCAs m)" "ca_ref_ok m i'" "isCAID i = isCAID i'" "isTenantID i = isTenantID i'"
  shows "issuer_refs (AList.update k i (mIssuers m)) (mCAs m)"
  using assms unfolding issuer_refs_def ca_ref_ok_def by (auto split: option.splits)

lemma issuer_refs_map:
  assumes "issuer_refs t tc"
  shows "issuer_refs (map (\<lambda>(k, i). (k, if P k i then i\<lparr>isIsDefault := False\<rparr> else i)) t) tc"
  using assms unfolding issuer_refs_def by (auto simp: map_of_map_rows split: if_splits)

text \<open>What the claim loop computes: each due row is stamped once, every other row is kept.\<close>

lemma claim_each_spec:
  assumes "distinct (map jbID js)" "\<And>j. j \<in> set js \<Longrightarrow> map_of t (jbID j) = Some j"
  shows "fst (claim_each now lease t js) = map (claimed now lease) js \<and>
         (\<forall>k. map_of (snd (claim_each now lease t js)) k =
           (case map_of t k of None \<Rightarrow> None | Some j \<Rightarrow> Some (if j \<in> set js \<and> jbID j = k then claimed now lease j else j)))"
  using assms
proof (induction js arbitrary: t)
  case (Cons j js)
  let ?t = "AList.update (jbID j) (claimed now lease j) t"
  have here: "map_of t (jbID j) = Some j" and dist: "distinct (map jbID js)" "jbID j \<notin> jbID ` set js"
    using Cons.prems by auto
  have rest: "map_of ?t (jbID j') = Some j'" if "j' \<in> set js" for j'
    using that Cons.prems dist(2) by (metis imageI list.set_intros(2) map_of_update fun_upd_apply)
  have step: "claim_each now lease t (j # js) =
      (claimed now lease j # fst (claim_each now lease ?t js), snd (claim_each now lease ?t js))"
    using here by (simp add: Let_def split: prod.splits)
  show ?case
    using Cons.IH [OF dist(1) rest] here dist(2) unfolding step
    by (auto split: option.splits simp: image_iff claimed_def)
qed (simp split: option.splits)

lemma claim_each_keys:
  "distinct (map fst t) \<Longrightarrow> distinct (map fst (snd (claim_each now lease t js)))"
proof (induction js arbitrary: t)
  case (Cons j js)
  then show ?case by (simp add: Let_def case_prod_beta distinct_update)
qed simp

subsection \<open>Every operation preserves the invariant\<close>

lemmas table_invs = issuers_ok_def cas_ok_def certs_ok_def revocations_ok_def installed_ok_def
  targets_ok_def secrets_ok_def webhooks_ok_def named_ok_def grants_ok_def

lemmas op_splits = unless_write_cases sum.splits option.splits if_splits prod.splits

lemma InsertIssuer_ok:
  assumes "store_ok m" "map_of (mIssuers m) (isID i) = None"
  shows "store_ok (snd (InsertIssuer m i))"
proof -
  have "store_ok (m\<lparr>mIssuers := AList.update (isID i') i' (mIssuers m)\<rparr>)"
    if new: "isID i' = isID i" "isCAID i' = isCAID i" "isTenantID i' = isTenantID i" "\<And>x. issuer_clash x i' = issuer_clash x i"
      and ref: "ca_ref_ok m i" and free: "\<not> list_ex (\<lambda>x. issuer_clash x i) (rows (mIssuers m))" for i'
  proof -
    have "issuers_ok (AList.update (isID i') i' (mIssuers m))"
      using assms(1) new(4) not_list_ex_rows [OF free] by (intro issuers_ok_insert) (auto simp: store_ok_def)
    moreover have "cert_refs (mCertificates m) (AList.update (isID i') i' (mIssuers m))"
      using assms new(1) by - (rule cert_refs_issuers [of _ "mIssuers m"], auto simp: store_ok_def)
    ultimately show ?thesis
      using assms(1) issuer_refs_update [OF _ ref new(2,3)] by (auto simp: store_ok_def)
  qed
  then show ?thesis
    using assms(1) by (auto simp: InsertIssuer_def Let_def issuer_clash_def split: op_splits)
qed

lemma UpdateIssuer_ok:
  assumes ok: "store_ok m"
  shows "store_ok (snd (UpdateIssuer m i))"
proof -
  have "store_ok (m\<lparr>mIssuers := AList.update (isID i) new (mIssuers m)\<rparr>)"
    if old: "map_of (mIssuers m) (isID i) = Some old" "isTenantID old = isTenantID i"
      and new: "isID new = isID old" "isTenantID new = isTenantID old" "isCAID new = isCAID i"
        "\<And>x. issuer_clash x new = issuer_clash x i"
      and ref: "ca_ref_ok m i" and free: "\<not> list_ex (\<lambda>(k, x). k \<noteq> isID i \<and> issuer_clash x i) (mIssuers m)" for old new
  proof -
    have key: "isID new = isID i"
      using ok old(1) new(1) by (auto simp: store_ok_def issuers_ok_def dest: table_ok_key)
    have "issuers_ok (AList.update (isID i) new (mIssuers m))"
      using ok key new(4) not_list_ex_table [OF free] by (intro issuers_ok_insert) (auto simp: store_ok_def)
    moreover have "cert_refs (mCertificates m) (AList.update (isID i) new (mIssuers m))"
      using ok old new(2) by - (rule cert_refs_issuers [of _ "mIssuers m"], auto simp: store_ok_def)
    ultimately show ?thesis
      using ok issuer_refs_update [OF _ ref new(3)] old(2) new(2) by (auto simp: store_ok_def)
  qed
  then show ?thesis
    using ok by (auto simp: UpdateIssuer_def Let_def issuer_clash_def tenant_lookup_Inr split: op_splits)
qed

lemma ClearDefaultIssuer_ok: "store_ok m \<Longrightarrow> store_ok (snd (ClearDefaultIssuer m tid td except))"
proof -
  assume ok: "store_ok m"
  let ?f = "\<lambda>(k, i). (k, if isTenantID i = tid \<and> isTrustDomain i = td \<and> isIsDefault i \<and> k \<noteq> except
                         then i\<lparr>isIsDefault := False\<rparr> else i)"
  have "cert_refs (mCertificates m) (map ?f (mIssuers m))"
    using ok by - (rule cert_refs_issuers [of _ "mIssuers m"], auto simp: store_ok_def map_of_map_rows)
  then show ?thesis
    using ok issuers_ok_map issuer_refs_map
    by (auto simp: ClearDefaultIssuer_def store_ok_def split: op_splits)
qed

lemma certCount_zero:
  "certCountForIssuer m i = 0 \<Longrightarrow> map_of (mCertificates m) k = Some c \<Longrightarrow> icIssuerID c \<noteq> i"
  by (auto simp: certCountForIssuer_def filter_empty_conv dest: map_of_in_rows)

lemma DeleteIssuer_ok: "store_ok m \<Longrightarrow> store_ok (snd (DeleteIssuer m tid i))"
  by (auto simp: DeleteIssuer_def store_ok_def issuers_ok_def issuer_refs_def cert_refs_def
      intro!: table_ok_delete uniq_delete split: op_splits dest: certCount_zero)

lemma InsertCA_ok:
  assumes ok: "store_ok m" and fresh: "map_of (mCAs m) (caID c) = None"
  shows "store_ok (snd (InsertCA m c))"
proof -
  have upd: "store_ok (m\<lparr>mCAs := AList.update (caID c) c' (mCAs m)\<rparr>)"
    if new: "caID c' = caID c" "\<And>x. ca_clash x c' = ca_clash x c"
      and free: "\<And>k x. map_of (mCAs m) k = Some x \<Longrightarrow> \<not> ca_clash x c" for c'
  proof -
    have "cas_ok (AList.update (caID c) c' (mCAs m))"
    proof (rule cas_ok_insert)
      show "cas_ok (mCAs m)" using ok by (simp add: store_ok_def)
    qed (simp_all add: new free)
    moreover have "issuer_refs (mIssuers m) (AList.update (caID c) c' (mCAs m))"
      using ok fresh new(1) by - (rule issuer_refs_cas [of _ "mCAs m"], auto simp: store_ok_def)
    ultimately show ?thesis using ok by (simp add: store_ok_def)
  qed
  show ?thesis
    using ok by (auto simp: InsertCA_def Let_def ca_clash_def split: op_splits dest!: no_row intro!: upd)
qed

lemma SetCAState_ok:
  assumes ok: "store_ok m"
  shows "store_ok (snd (SetCAState m tid i st))"
proof -
  have "store_ok (m\<lparr>mCAs := AList.update i (c\<lparr>caState := st\<rparr>) (mCAs m)\<rparr>)"
    if c: "map_of (mCAs m) i = Some c"
      and free: "\<And>k x. map_of (mCAs m) k = Some x \<Longrightarrow> k \<noteq> i \<Longrightarrow> \<not> ca_clash x (c\<lparr>caState := st\<rparr>)" for c
  proof -
    have "cas_ok (AList.update i (c\<lparr>caState := st\<rparr>) (mCAs m))"
      using ok free c by (intro cas_ok_insert) (auto simp: store_ok_def cas_ok_def dest: table_ok_key)
    moreover have "issuer_refs (mIssuers m) (AList.update i (c\<lparr>caState := st\<rparr>) (mCAs m))"
      using ok c by - (rule issuer_refs_cas [of _ "mCAs m"], auto simp: store_ok_def)
    ultimately show ?thesis using ok by (simp add: store_ok_def)
  qed
  then show ?thesis
    using ok by (auto simp: SetCAState_def Let_def ca_clash_def tenant_lookup_Inr split: op_splits dest!: no_entry)
qed

lemma DeleteCA_ok: "store_ok m \<Longrightarrow> store_ok (snd (DeleteCA m tid i))"
  by (auto simp: DeleteCA_def store_ok_def cas_ok_def issuer_refs_def
      intro!: table_ok_delete uniq_delete split: op_splits dest!: no_row)

lemma InsertRequest_ok: "store_ok m \<Longrightarrow> store_ok (snd (InsertRequest m r))"
  by (auto simp: InsertRequest_def Let_def store_ok_def intro!: table_ok_update split: op_splits)

lemma SetRequestStatus_ok: "store_ok m \<Longrightarrow> store_ok (snd (SetRequestStatus m tid i st ap re))"
  by (auto simp: SetRequestStatus_def Let_def store_ok_def tenant_lookup_Inr
      intro!: table_ok_update dest: table_ok_key split: op_splits)

lemma CompleteRequest_ok: "store_ok m \<Longrightarrow> store_ok (snd (CompleteRequest m tid i st c re))"
  by (auto simp: CompleteRequest_def Let_def store_ok_def tenant_lookup_Inr
      intro!: table_ok_update dest: table_ok_key split: op_splits)

lemma DeleteRequest_ok: "store_ok m \<Longrightarrow> store_ok (snd (DeleteRequest m tid i))"
  by (auto simp: DeleteRequest_def store_ok_def intro!: table_ok_delete split: op_splits)

lemma InsertJob_ok: "store_ok m \<Longrightarrow> store_ok (snd (InsertJob m j))"
  by (auto simp: InsertJob_def Let_def store_ok_def intro!: table_ok_update split: op_splits)

lemma UpdateJob_ok: "store_ok m \<Longrightarrow> store_ok (snd (UpdateJob m j))"
  by (auto simp: UpdateJob_def Let_def store_ok_def tenant_lookup_Inr
      intro!: table_ok_update dest: table_ok_key split: op_splits)

lemma DeleteJob_ok: "store_ok m \<Longrightarrow> store_ok (snd (DeleteJob m tid i))"
  by (auto simp: DeleteJob_def store_ok_def intro!: table_ok_delete split: op_splits)

text \<open>The jobs a claim selects, in claiming order.\<close>

definition due_jobs :: "'z mem_scheme \<Rightarrow> time \<Rightarrow> int \<Rightarrow> cert_job list" where
  "due_jobs m now limit = sqlLimit (sort_asc jbRunAfter jbID (filter (job_due now) (rows (mJobs m)))) limit"

lemma sqlLimit_subset: "set (sqlLimit xs n) \<subseteq> set xs"
  by (auto simp: sqlLimit_def dest: in_set_takeD)

lemma distinct_sqlLimit: "distinct (map f xs) \<Longrightarrow> distinct (map f (sqlLimit xs n))"
  by (simp add: sqlLimit_def take_map [symmetric])

lemma due_jobs_rows:
  assumes "table_ok jbID (mJobs m)"
  shows "distinct (map jbID (due_jobs m now limit))"
    and "j \<in> set (due_jobs m now limit) \<Longrightarrow> map_of (mJobs m) (jbID j) = Some j \<and> job_due now j"
proof -
  have "distinct (map jbID (sort_asc jbRunAfter jbID (filter (job_due now) (rows (mJobs m)))))"
    using distinct_rows [OF assms] by (simp add: sort_asc_def distinct_map inj_on_def)
  then show "distinct (map jbID (due_jobs m now limit))"
    unfolding due_jobs_def by (rule distinct_sqlLimit)
  assume "j \<in> set (due_jobs m now limit)"
  then show "map_of (mJobs m) (jbID j) = Some j \<and> job_due now j"
    using sqlLimit_subset assms by (fastforce simp: due_jobs_def in_rows_iff)
qed

lemma ClaimDueJobs_spec:
  assumes ok: "table_ok jbID (mJobs m)" and up: "fail m ''ClaimDueJobs'' = None"
  obtains t where
    "ClaimDueJobs m now lease limit = (Inr (map (claimed now lease) (due_jobs m now limit)), m\<lparr>mJobs := t\<rparr>)"
    "table_ok jbID t"
    "\<And>k. map_of t k = (case map_of (mJobs m) k of None \<Rightarrow> None
         | Some j \<Rightarrow> Some (if j \<in> set (due_jobs m now limit) then claimed now lease j else j))"
proof -
  let ?js = "due_jobs m now limit"
  let ?t = "snd (claim_each now lease (mJobs m) ?js)"
  have spec: "fst (claim_each now lease (mJobs m) ?js) = map (claimed now lease) ?js"
      "map_of ?t k = (case map_of (mJobs m) k of None \<Rightarrow> None
         | Some j \<Rightarrow> Some (if j \<in> set ?js \<and> jbID j = k then claimed now lease j else j))" for k
    using claim_each_spec [OF due_jobs_rows(1) [OF ok]] due_jobs_rows(2) [OF ok] by auto
  have look: "map_of ?t k = (case map_of (mJobs m) k of None \<Rightarrow> None
         | Some j \<Rightarrow> Some (if j \<in> set ?js then claimed now lease j else j))" for k
    using spec(2) [of k] table_ok_key [OF ok, of k] by (auto split: option.splits)
  have "table_ok jbID ?t"
    using claim_each_keys [of "mJobs m"] ok look
    by (auto simp: table_ok_def claimed_def split: option.splits)
  moreover have "ClaimDueJobs m now lease limit = (Inr (map (claimed now lease) ?js), m\<lparr>mJobs := ?t\<rparr>)"
    using up spec(1) by (simp add: ClaimDueJobs_def unless_write_def due_jobs_def case_prod_beta Let_def)
  ultimately show thesis using look that by blast
qed

lemma store_ok_jobs:
  "store_ok m \<Longrightarrow> table_ok jbID t \<Longrightarrow> store_ok (m\<lparr>mJobs := t\<rparr>)"
  by (simp add: store_ok_def)

lemma ClaimDueJobs_ok: "store_ok m \<Longrightarrow> store_ok (snd (ClaimDueJobs m now lease limit))"
proof -
  assume ok: "store_ok m"
  then have t: "table_ok jbID (mJobs m)" by (simp add: store_ok_def)
  show ?thesis
  proof (cases "fail m ''ClaimDueJobs''")
    case None
    from ClaimDueJobs_spec [OF t None] ok show ?thesis by (metis snd_conv store_ok_jobs)
  qed (simp add: ClaimDueJobs_def unless_write_def ok)
qed

lemma InsertCertificate_ok:
  assumes ok: "store_ok m"
  shows "store_ok (snd (InsertCertificate m c))"
proof -
  have upd: "store_ok (m\<lparr>mCertificates := AList.update (icID c) c' (mCertificates m)\<rparr>)"
    if new: "icID c' = icID c" "icTenantID c' = icTenantID c" "icSerial c' = icSerial c" "icIssuerID c' = icIssuerID c"
      and free: "\<forall>k x. map_of (mCertificates m) k = Some x \<longrightarrow> \<not> (icTenantID x = icTenantID c \<and> icSerial x = icSerial c)"
      and ref: "map_of (mIssuers m) (icIssuerID c) = Some i" "isTenantID i = icTenantID c" for c' i
  proof -
    have "certs_ok (AList.update (icID c) c' (mCertificates m))"
      unfolding certs_ok_def
    proof (intro conjI table_ok_update uniq_update_sym clash_sym)
      show "\<not> cert_clash r' c'" if "map_of (mCertificates m) k' = Some r'" for k' r'
        using free that new by (auto simp: cert_clash_def)
    qed (use ok new in \<open>auto simp: store_ok_def certs_ok_def\<close>)
    moreover have "cert_refs (AList.update (icID c) c' (mCertificates m)) (mIssuers m)"
      using ok ref new by (auto simp: store_ok_def cert_refs_def)
    ultimately show ?thesis using ok by (simp add: store_ok_def)
  qed
  show ?thesis
    using ok by (auto simp: InsertCertificate_def Let_def split: op_splits dest!: no_row intro!: upd)
qed

lemma store_ok_cert_update:
  assumes "store_ok m" "map_of (mCertificates m) k = Some old"
    "icID c = icID old" "icTenantID c = icTenantID old" "icSerial c = icSerial old" "icIssuerID c = icIssuerID old"
  shows "store_ok (m\<lparr>mCertificates := AList.update k c (mCertificates m)\<rparr>)"
  using assms certs_ok_update_same cert_refs_update_same by (simp add: store_ok_def)

lemma UpdateCertificate_ok: "store_ok m \<Longrightarrow> store_ok (snd (UpdateCertificate m c))"
  by (auto simp: UpdateCertificate_def Let_def tenant_lookup_Inr intro: store_ok_cert_update split: op_splits)

lemma SetCertificateStatus_ok: "store_ok m \<Longrightarrow> store_ok (snd (SetCertificateStatus m tid i st sb))"
  by (auto simp: SetCertificateStatus_def Let_def tenant_lookup_Inr intro: store_ok_cert_update split: op_splits)

lemma MarkKeyDelivered_ok: "store_ok m \<Longrightarrow> store_ok (snd (MarkKeyDelivered m tid i))"
  by (auto simp: MarkKeyDelivered_def Let_def tenant_lookup_Inr intro: store_ok_cert_update split: op_splits)

lemma DeleteCertificate_ok: "store_ok m \<Longrightarrow> store_ok (snd (DeleteCertificate m tid i))"
  by (auto simp: DeleteCertificate_def store_ok_def certs_ok_def cert_refs_def
      intro!: table_ok_delete uniq_delete split: op_splits)

lemma InsertRevocation_ok: "store_ok m \<Longrightarrow> store_ok (snd (InsertRevocation m r))"
proof -
  assume ok: "store_ok m"
  have "revocations_ok (AList.update (rvID r) r' (mRevocations m))"
    if "rvID r' = rvID r" "rvTenantID r' = rvTenantID r" "rvCertificateID r' = rvCertificateID r"
      and "\<forall>k x. map_of (mRevocations m) k = Some x \<longrightarrow> \<not> (rvTenantID x = rvTenantID r \<and> rvCertificateID x = rvCertificateID r)" for r'
    unfolding revocations_ok_def
    by (intro conjI table_ok_update uniq_update_sym clash_sym)
      (use ok that in \<open>auto simp: store_ok_def revocations_ok_def revocation_clash_def\<close>)
  with ok show ?thesis
    by (auto simp: InsertRevocation_def Let_def store_ok_def split: op_splits dest!: no_row)
qed

lemma UpsertInstalled_ok: "store_ok m \<Longrightarrow> store_ok (snd (UpsertInstalled m i))"
proof -
  assume ok: "store_ok m"
  then have t: "table_ok inID (mInstalled m)" "uniq installed_clash (mInstalled m)"
    by (auto simp: store_ok_def installed_ok_def)
  have upd: "installed_ok (AList.update k (x\<lparr>inReportedAt := a\<rparr>) (mInstalled m))"
    if "map_of (mInstalled m) k = Some x" for k x a
    using t that unfolding installed_ok_def
    by (auto intro!: table_ok_update uniq_update_same simp: installed_clash_def dest: table_ok_key)
  have ins: "installed_ok (AList.update (inID i) i' (mInstalled m))"
    if "inID i' = inID i" "inTenantID i' = inTenantID i" "inCertificateID i' = inCertificateID i" "inClientID i' = inClientID i"
      and "table_find (\<lambda>x. inTenantID x = inTenantID i \<and> inCertificateID x = inCertificateID i
                            \<and> inClientID x = inClientID i) (mInstalled m) = None" for i'
    unfolding installed_ok_def
    by (intro conjI table_ok_update uniq_update_sym clash_sym)
      (use t that in \<open>auto simp: installed_clash_def dest: table_find_None [OF that(5)]\<close>)
  show ?thesis
    using ok by (auto simp: UpsertInstalled_def Let_def store_ok_def upd split: op_splits
        intro!: ins dest!: table_find_Some [OF t(1)])
qed

lemma named_insert:
  assumes "named_ok rid tnt nm t" "rid r = k"
    and "\<forall>k' x. map_of t k' = Some x \<longrightarrow> k' \<noteq> k \<longrightarrow> \<not> (tnt x = tnt r \<and> lower (nm x) = lower (nm r))"
  shows "named_ok rid tnt nm (AList.update k r t)"
  unfolding named_ok_def
  by (intro conjI table_ok_update uniq_update_sym clash_sym)
    (use assms in \<open>auto simp: name_clash_def named_ok_def\<close>)

lemma named_key: "named_ok rid tnt nm t \<Longrightarrow> map_of t k = Some r \<Longrightarrow> rid r = k"
  by (simp add: named_ok_def table_ok_def)

lemma named_delete: "named_ok rid tnt nm t \<Longrightarrow> named_ok rid tnt nm (AList.delete k t)"
  by (simp add: named_ok_def table_ok_delete uniq_delete)

lemma InsertTarget_ok: "store_ok m \<Longrightarrow> store_ok (snd (InsertTarget m x))"
  by (auto simp: InsertTarget_def Let_def store_ok_def targets_ok_def split: op_splits dest!: no_row
      intro!: named_insert)

lemma DeleteTarget_ok: "store_ok m \<Longrightarrow> store_ok (snd (DeleteTarget m tid i))"
  by (auto simp: DeleteTarget_def store_ok_def targets_ok_def intro!: named_delete split: op_splits)

lemma InsertSecret_ok: "store_ok m \<Longrightarrow> store_ok (snd (InsertSecret m x))"
  by (auto simp: InsertSecret_def Let_def store_ok_def secrets_ok_def split: op_splits dest!: no_row
      intro!: named_insert)

lemma UpdateSecret_ok: "store_ok m \<Longrightarrow> store_ok (snd (UpdateSecret m s))"
  by (auto simp: UpdateSecret_def Let_def store_ok_def secrets_ok_def tenant_lookup_Inr split: op_splits
      dest!: no_entry intro!: named_insert dest: named_key) blast

lemma DeleteSecret_ok: "store_ok m \<Longrightarrow> store_ok (snd (DeleteSecret m tid i))"
  by (auto simp: DeleteSecret_def store_ok_def secrets_ok_def intro!: named_delete split: op_splits)

lemma InsertWebhook_ok: "store_ok m \<Longrightarrow> store_ok (snd (InsertWebhook m x))"
  by (auto simp: InsertWebhook_def Let_def store_ok_def webhooks_ok_def split: op_splits dest!: no_row
      intro!: named_insert)

lemma DeleteWebhook_ok: "store_ok m \<Longrightarrow> store_ok (snd (DeleteWebhook m tid i))"
  by (auto simp: DeleteWebhook_def store_ok_def webhooks_ok_def intro!: named_delete split: op_splits)

lemma UpsertGrant_ok: "store_ok m \<Longrightarrow> store_ok (snd (UpsertGrant m g))"
proof -
  assume ok: "store_ok m"
  then have t: "table_ok grID (mGrants m)" and g: "grants_ok (mGrants m)"
    by (auto simp: store_ok_def grants_ok_def)
  have ins: "grants_ok (AList.update (grID g) (g\<lparr>grGrantedAt := a\<rparr>) (mGrants m))"
    if "table_find (same_grant g) (mGrants m) = None" for a
    using g unfolding grants_ok_def
    by (auto intro!: table_ok_update uniq_update simp: same_grant_def
        dest: table_find_None [OF that, unfolded same_grant_def])
  show ?thesis
    using ok by (auto simp: UpsertGrant_def Let_def store_ok_def grants_ok_update_same split: op_splits
        intro!: ins dest!: table_find_Some [OF t])
qed

lemma DeleteGrant_ok: "store_ok m \<Longrightarrow> store_ok (snd (DeleteGrant m tid i))"
  by (auto simp: DeleteGrant_def store_ok_def grants_ok_def intro!: table_ok_delete uniq_delete split: op_splits)

lemma DeleteGrantsOfResource_ok: "store_ok m \<Longrightarrow> store_ok (snd (DeleteGrantsOfResource m tid rt ri))"
  by (auto simp: DeleteGrantsOfResource_def store_ok_def grants_ok_def
      intro!: table_ok_filter uniq_filter dest: table_ok_distinct split: op_splits)

lemma InsertCertLog_ok: "store_ok m \<Longrightarrow> store_ok (snd (InsertCertLog m rs))"
  by (auto simp: InsertCertLog_def store_ok_def split: op_splits)

lemma InsertAuditRows_ok: "store_ok m \<Longrightarrow> store_ok (snd (InsertAuditRows m rs))"
  by (auto simp: InsertAuditRows_def store_ok_def split: op_splits)

lemmas store_ok_ops = InsertIssuer_ok UpdateIssuer_ok ClearDefaultIssuer_ok DeleteIssuer_ok
  InsertCA_ok SetCAState_ok DeleteCA_ok
  InsertRequest_ok SetRequestStatus_ok CompleteRequest_ok DeleteRequest_ok
  InsertJob_ok UpdateJob_ok DeleteJob_ok ClaimDueJobs_ok
  InsertCertificate_ok UpdateCertificate_ok SetCertificateStatus_ok MarkKeyDelivered_ok DeleteCertificate_ok
  InsertRevocation_ok UpsertInstalled_ok InsertTarget_ok DeleteTarget_ok
  InsertSecret_ok UpdateSecret_ok DeleteSecret_ok InsertWebhook_ok DeleteWebhook_ok
  UpsertGrant_ok DeleteGrant_ok DeleteGrantsOfResource_ok InsertCertLog_ok InsertAuditRows_ok

subsection \<open>The store as a transition system\<close>

text \<open>
  One step of any client. The label is the tenant the operation is run for, \<open>None\<close> for the
  operations that serve every tenant (the job claim), the clock and the injected failures.
  A new row carries an id from \<open>store.NewID\<close>, which no row has; audit and log rows carry
  the tenant of the caller.
\<close>

inductive store_step :: "string option \<Rightarrow> 'z mem_scheme \<Rightarrow> 'z mem_scheme \<Rightarrow> bool" where
  insert_issuer: "map_of (mIssuers m) (isID i) = None \<Longrightarrow>
     store_step (Some (isTenantID i)) m (snd (InsertIssuer m i))"
| update_issuer: "store_step (Some (isTenantID i)) m (snd (UpdateIssuer m i))"
| clear_default: "store_step (Some tid) m (snd (ClearDefaultIssuer m tid td except))"
| delete_issuer: "store_step (Some tid) m (snd (DeleteIssuer m tid k))"
| insert_ca: "map_of (mCAs m) (caID c) = None \<Longrightarrow> store_step (Some (caTenantID c)) m (snd (InsertCA m c))"
| set_ca_state: "store_step (Some tid) m (snd (SetCAState m tid k st))"
| delete_ca: "store_step (Some tid) m (snd (DeleteCA m tid k))"
| insert_request: "map_of (mRequests m) (rqID r) = None \<Longrightarrow>
     store_step (Some (rqTenantID r)) m (snd (InsertRequest m r))"
| set_request_status: "store_step (Some tid) m (snd (SetRequestStatus m tid k st ap re))"
| complete_request: "store_step (Some tid) m (snd (CompleteRequest m tid k st cid re))"
| delete_request: "store_step (Some tid) m (snd (DeleteRequest m tid k))"
| insert_job: "map_of (mJobs m) (jbID j) = None \<Longrightarrow> store_step (Some (jbTenantID j)) m (snd (InsertJob m j))"
| update_job: "store_step (Some (jbTenantID j)) m (snd (UpdateJob m j))"
| delete_job: "store_step (Some tid) m (snd (DeleteJob m tid k))"
| claim_due_jobs: "store_step None m (snd (ClaimDueJobs m now lease limit))"
| insert_certificate: "map_of (mCertificates m) (icID x) = None \<Longrightarrow>
     store_step (Some (icTenantID x)) m (snd (InsertCertificate m x))"
| update_certificate: "store_step (Some (icTenantID x)) m (snd (UpdateCertificate m x))"
| set_certificate_status: "store_step (Some tid) m (snd (SetCertificateStatus m tid k st sb))"
| mark_key_delivered: "store_step (Some tid) m (snd (MarkKeyDelivered m tid k))"
| delete_certificate: "store_step (Some tid) m (snd (DeleteCertificate m tid k))"
| insert_revocation: "map_of (mRevocations m) (rvID v) = None \<Longrightarrow>
     store_step (Some (rvTenantID v)) m (snd (InsertRevocation m v))"
| upsert_installed: "map_of (mInstalled m) (inID n) = None \<Longrightarrow>
     store_step (Some (inTenantID n)) m (snd (UpsertInstalled m n))"
| insert_target: "map_of (mTargets m) (tgID t) = None \<Longrightarrow> store_step (Some (tgTenantID t)) m (snd (InsertTarget m t))"
| delete_target: "store_step (Some tid) m (snd (DeleteTarget m tid k))"
| insert_secret: "map_of (mSecrets m) (scID s) = None \<Longrightarrow> store_step (Some (scTenantID s)) m (snd (InsertSecret m s))"
| update_secret: "store_step (Some (scTenantID s)) m (snd (UpdateSecret m s))"
| delete_secret: "store_step (Some tid) m (snd (DeleteSecret m tid k))"
| insert_webhook: "map_of (mWebhooks m) (whID w) = None \<Longrightarrow> store_step (Some (whTenantID w)) m (snd (InsertWebhook m w))"
| delete_webhook: "store_step (Some tid) m (snd (DeleteWebhook m tid k))"
| upsert_grant: "map_of (mGrants m) (grID g) = None \<Longrightarrow> store_step (Some (grTenantID g)) m (snd (UpsertGrant m g))"
| delete_grant: "store_step (Some tid) m (snd (DeleteGrant m tid k))"
| delete_grants: "store_step (Some tid) m (snd (DeleteGrantsOfResource m tid rt ri))"
| insert_cert_log: "list_all (\<lambda>l. clTenantID l = tid) ls \<Longrightarrow> store_step (Some tid) m (snd (InsertCertLog m ls))"
| insert_audit: "list_all (\<lambda>a. auTenantID a = tid) as \<Longrightarrow> store_step (Some tid) m (snd (InsertAuditRows m as))"
| clock: "mNow m \<le> now \<Longrightarrow> store_step None m (m\<lparr>mNow := now\<rparr>)"
| inject: "store_step None m (FailOn m oper e)"

inductive_cases store_stepE: "store_step a m m'"

text \<open>The stores reachable from an empty one.\<close>

inductive reachable :: "'z mem_scheme \<Rightarrow> 'z mem_scheme \<Rightarrow> bool" for m0 :: "'z mem_scheme" where
  start: "reachable m0 m0"
| more: "reachable m0 m \<Longrightarrow> store_step a m m' \<Longrightarrow> reachable m0 m'"

lemma store_step_ok: "store_step a m m' \<Longrightarrow> store_ok m \<Longrightarrow> store_ok m'"
  by (induction rule: store_step.induct)
    (simp_all only: store_ok_ops, auto simp: store_ok_def FailOn_def split: option.splits)

lemma reachable_ok:
  assumes "reachable m0 m" "store_ok m0"
  shows "store_ok m"
  using assms by (induction rule: reachable.induct) (auto intro: store_step_ok)

subsection \<open>Tenant isolation\<close>

text \<open>Two stores that look the same to a tenant: its rows in every table and log.\<close>

definition same_tenant :: "string \<Rightarrow> 'z mem_scheme \<Rightarrow> 'z mem_scheme \<Rightarrow> bool" where
  "same_tenant tid m m' \<longleftrightarrow>
     tenant_rows isTenantID tid (mIssuers m) = tenant_rows isTenantID tid (mIssuers m')
     \<and> tenant_rows caTenantID tid (mCAs m) = tenant_rows caTenantID tid (mCAs m')
     \<and> tenant_rows rqTenantID tid (mRequests m) = tenant_rows rqTenantID tid (mRequests m')
     \<and> tenant_rows jbTenantID tid (mJobs m) = tenant_rows jbTenantID tid (mJobs m')
     \<and> tenant_rows icTenantID tid (mCertificates m) = tenant_rows icTenantID tid (mCertificates m')
     \<and> tenant_rows rvTenantID tid (mRevocations m) = tenant_rows rvTenantID tid (mRevocations m')
     \<and> tenant_rows inTenantID tid (mInstalled m) = tenant_rows inTenantID tid (mInstalled m')
     \<and> tenant_rows tgTenantID tid (mTargets m) = tenant_rows tgTenantID tid (mTargets m')
     \<and> tenant_rows scTenantID tid (mSecrets m) = tenant_rows scTenantID tid (mSecrets m')
     \<and> tenant_rows whTenantID tid (mWebhooks m) = tenant_rows whTenantID tid (mWebhooks m')
     \<and> tenant_rows grTenantID tid (mGrants m) = tenant_rows grTenantID tid (mGrants m')
     \<and> filter (\<lambda>l. clTenantID l = tid) (mCertLog m) = filter (\<lambda>l. clTenantID l = tid) (mCertLog m')
     \<and> filter (\<lambda>a. auTenantID a = tid) (mAudit m) = filter (\<lambda>a. auTenantID a = tid) (mAudit m')
     \<and> mNow m = mNow m' \<and> mFail m = mFail m'"

lemma same_tenant_refl [simp]: "same_tenant tid m m"
  by (simp add: same_tenant_def)

lemma same_tenant_upd:
  "same_tenant tid m (m\<lparr>mIssuers := tIssuers\<rparr>) \<longleftrightarrow> tenant_rows isTenantID tid (mIssuers m) = tenant_rows isTenantID tid tIssuers"
  "same_tenant tid m (m\<lparr>mCAs := tCAs\<rparr>) \<longleftrightarrow> tenant_rows caTenantID tid (mCAs m) = tenant_rows caTenantID tid tCAs"
  "same_tenant tid m (m\<lparr>mRequests := tRequests\<rparr>) \<longleftrightarrow> tenant_rows rqTenantID tid (mRequests m) = tenant_rows rqTenantID tid tRequests"
  "same_tenant tid m (m\<lparr>mJobs := tJobs\<rparr>) \<longleftrightarrow> tenant_rows jbTenantID tid (mJobs m) = tenant_rows jbTenantID tid tJobs"
  "same_tenant tid m (m\<lparr>mCertificates := tCertificates\<rparr>) \<longleftrightarrow> tenant_rows icTenantID tid (mCertificates m) = tenant_rows icTenantID tid tCertificates"
  "same_tenant tid m (m\<lparr>mRevocations := tRevocations\<rparr>) \<longleftrightarrow> tenant_rows rvTenantID tid (mRevocations m) = tenant_rows rvTenantID tid tRevocations"
  "same_tenant tid m (m\<lparr>mInstalled := tInstalled\<rparr>) \<longleftrightarrow> tenant_rows inTenantID tid (mInstalled m) = tenant_rows inTenantID tid tInstalled"
  "same_tenant tid m (m\<lparr>mTargets := tTargets\<rparr>) \<longleftrightarrow> tenant_rows tgTenantID tid (mTargets m) = tenant_rows tgTenantID tid tTargets"
  "same_tenant tid m (m\<lparr>mSecrets := tSecrets\<rparr>) \<longleftrightarrow> tenant_rows scTenantID tid (mSecrets m) = tenant_rows scTenantID tid tSecrets"
  "same_tenant tid m (m\<lparr>mWebhooks := tWebhooks\<rparr>) \<longleftrightarrow> tenant_rows whTenantID tid (mWebhooks m) = tenant_rows whTenantID tid tWebhooks"
  "same_tenant tid m (m\<lparr>mGrants := tGrants\<rparr>) \<longleftrightarrow> tenant_rows grTenantID tid (mGrants m) = tenant_rows grTenantID tid tGrants"
  "same_tenant tid m (m\<lparr>mCertLog := lg\<rparr>) \<longleftrightarrow> filter (\<lambda>l. clTenantID l = tid) (mCertLog m) = filter (\<lambda>l. clTenantID l = tid) lg"
  "same_tenant tid m (m\<lparr>mAudit := au\<rparr>) \<longleftrightarrow> filter (\<lambda>a. auTenantID a = tid) (mAudit m) = filter (\<lambda>a. auTenantID a = tid) au"
  by (simp_all add: same_tenant_def)

lemma foreign_key:
  assumes "\<And>old. map_of t k = Some old \<Longrightarrow> tn old \<noteq> tid"
  shows "(tenant_rows tn tid t)(k := None) = tenant_rows tn tid t"
  using assms by (auto simp: fun_eq_iff tenant_rows_def split: option.splits)

lemma foreign_map:
  assumes "\<And>k r. tn (f k r) = tn r" "\<And>k r. tn r = tid \<Longrightarrow> f k r = r"
  shows "tenant_rows tn tid (map (\<lambda>(k, r). (k, f k r)) t) = tenant_rows tn tid t"
  using assms by (auto simp: fun_eq_iff tenant_rows_def map_of_map_rows split: option.splits)

lemma foreign_filter:
  assumes "distinct (map fst t)" "\<And>k r. tn r = tid \<Longrightarrow> P (k, r)"
  shows "tenant_rows tn tid (filter P t) = tenant_rows tn tid t"
  using assms by (auto simp: fun_eq_iff tenant_rows_def map_of_filter_distinct split: option.splits)

lemma foreign_audit:
  "list_all (\<lambda>a. auTenantID a = t) as \<Longrightarrow> t \<noteq> tid \<Longrightarrow>
   filter (\<lambda>a. auTenantID a = tid) (foldl append_audit log as) = filter (\<lambda>a. auTenantID a = tid) log"
  by (induction as arbitrary: log) (simp_all add: append_audit_def)

lemma foreign_log:
  "list_all (\<lambda>l. clTenantID l = t) ls \<Longrightarrow> t \<noteq> tid \<Longrightarrow> filter (\<lambda>l. clTenantID l = tid) ls = []"
  by (auto simp: filter_empty_conv list_all_iff)

lemmas foreign = foreign_key foreign_map foreign_filter

lemma isolated_issuers:
  assumes "t \<noteq> tid"
  shows "isTenantID i = t \<Longrightarrow> map_of (mIssuers m) (isID i) = None \<Longrightarrow> same_tenant tid m (snd (InsertIssuer m i))"
    and "isTenantID i = t \<Longrightarrow> same_tenant tid m (snd (UpdateIssuer m i))"
    and "same_tenant tid m (snd (ClearDefaultIssuer m t td except))"
    and "same_tenant tid m (snd (DeleteIssuer m t k))"
  using assms
  by (auto simp: InsertIssuer_def UpdateIssuer_def ClearDefaultIssuer_def DeleteIssuer_def Let_def same_tenant_upd
      tenant_lookup_Inr split: op_splits intro!: foreign [symmetric])

lemma isolated_cas:
  assumes "t \<noteq> tid"
  shows "caTenantID c = t \<Longrightarrow> map_of (mCAs m) (caID c) = None \<Longrightarrow> same_tenant tid m (snd (InsertCA m c))"
    and "same_tenant tid m (snd (SetCAState m t k st))"
    and "same_tenant tid m (snd (DeleteCA m t k))"
  using assms
  by (auto simp: InsertCA_def SetCAState_def DeleteCA_def Let_def same_tenant_upd
      tenant_lookup_Inr split: op_splits intro!: foreign [symmetric])

lemma isolated_requests:
  assumes "t \<noteq> tid"
  shows "rqTenantID r = t \<Longrightarrow> map_of (mRequests m) (rqID r) = None \<Longrightarrow> same_tenant tid m (snd (InsertRequest m r))"
    and "same_tenant tid m (snd (SetRequestStatus m t k st ap re))"
    and "same_tenant tid m (snd (CompleteRequest m t k st cid re))"
    and "same_tenant tid m (snd (DeleteRequest m t k))"
  using assms
  by (auto simp: InsertRequest_def SetRequestStatus_def CompleteRequest_def DeleteRequest_def Let_def same_tenant_upd
      tenant_lookup_Inr split: op_splits intro!: foreign [symmetric])

lemma isolated_jobs:
  assumes "t \<noteq> tid"
  shows "jbTenantID j = t \<Longrightarrow> map_of (mJobs m) (jbID j) = None \<Longrightarrow> same_tenant tid m (snd (InsertJob m j))"
    and "jbTenantID j = t \<Longrightarrow> same_tenant tid m (snd (UpdateJob m j))"
    and "same_tenant tid m (snd (DeleteJob m t k))"
  using assms
  by (auto simp: InsertJob_def UpdateJob_def DeleteJob_def Let_def same_tenant_upd
      tenant_lookup_Inr split: op_splits intro!: foreign [symmetric])

lemma isolated_certificates:
  assumes "t \<noteq> tid"
  shows "icTenantID x = t \<Longrightarrow> map_of (mCertificates m) (icID x) = None \<Longrightarrow> same_tenant tid m (snd (InsertCertificate m x))"
    and "icTenantID x = t \<Longrightarrow> same_tenant tid m (snd (UpdateCertificate m x))"
    and "same_tenant tid m (snd (SetCertificateStatus m t k st sb))"
    and "same_tenant tid m (snd (MarkKeyDelivered m t k))"
    and "same_tenant tid m (snd (DeleteCertificate m t k))"
  using assms
  by (auto simp: InsertCertificate_def UpdateCertificate_def SetCertificateStatus_def MarkKeyDelivered_def
      DeleteCertificate_def Let_def same_tenant_upd tenant_lookup_Inr split: op_splits intro!: foreign [symmetric])

lemma isolated_revocations:
  assumes "t \<noteq> tid" "store_ok m"
  shows "rvTenantID v = t \<Longrightarrow> map_of (mRevocations m) (rvID v) = None \<Longrightarrow> same_tenant tid m (snd (InsertRevocation m v))"
    and "inTenantID n = t \<Longrightarrow> map_of (mInstalled m) (inID n) = None \<Longrightarrow> same_tenant tid m (snd (UpsertInstalled m n))"
proof -
  have "table_ok inID (mInstalled m)" using assms(2) by (simp add: store_ok_def installed_ok_def)
  note found = table_find_Some [OF this]
  show "rvTenantID v = t \<Longrightarrow> map_of (mRevocations m) (rvID v) = None \<Longrightarrow> same_tenant tid m (snd (InsertRevocation m v))"
    using assms(1) by (auto simp: InsertRevocation_def Let_def same_tenant_upd split: op_splits intro!: foreign [symmetric])
  show "inTenantID n = t \<Longrightarrow> map_of (mInstalled m) (inID n) = None \<Longrightarrow> same_tenant tid m (snd (UpsertInstalled m n))"
    using assms(1) by (auto simp: UpsertInstalled_def Let_def same_tenant_upd split: op_splits
        intro!: foreign [symmetric] dest!: found)
qed

lemma isolated_named:
  assumes "t \<noteq> tid"
  shows "tgTenantID x = t \<Longrightarrow> map_of (mTargets m) (tgID x) = None \<Longrightarrow> same_tenant tid m (snd (InsertTarget m x))"
    and "same_tenant tid m (snd (DeleteTarget m t k))"
    and "scTenantID s = t \<Longrightarrow> map_of (mSecrets m) (scID s) = None \<Longrightarrow> same_tenant tid m (snd (InsertSecret m s))"
    and "scTenantID s = t \<Longrightarrow> same_tenant tid m (snd (UpdateSecret m s))"
    and "same_tenant tid m (snd (DeleteSecret m t k))"
    and "whTenantID w = t \<Longrightarrow> map_of (mWebhooks m) (whID w) = None \<Longrightarrow> same_tenant tid m (snd (InsertWebhook m w))"
    and "same_tenant tid m (snd (DeleteWebhook m t k))"
  using assms
  by (auto simp: InsertTarget_def DeleteTarget_def InsertSecret_def UpdateSecret_def DeleteSecret_def InsertWebhook_def
      DeleteWebhook_def Let_def same_tenant_upd tenant_lookup_Inr split: op_splits intro!: foreign [symmetric])

lemma isolated_grants:
  assumes "t \<noteq> tid" "store_ok m"
  shows "grTenantID g = t \<Longrightarrow> map_of (mGrants m) (grID g) = None \<Longrightarrow> same_tenant tid m (snd (UpsertGrant m g))"
    and "same_tenant tid m (snd (DeleteGrant m t k))"
    and "same_tenant tid m (snd (DeleteGrantsOfResource m t rt ri))"
proof -
  have ok: "table_ok grID (mGrants m)" using assms(2) by (simp add: store_ok_def grants_ok_def)
  note found = table_find_Some [OF ok]
  show "grTenantID g = t \<Longrightarrow> map_of (mGrants m) (grID g) = None \<Longrightarrow> same_tenant tid m (snd (UpsertGrant m g))"
    using assms(1) by (auto simp: UpsertGrant_def Let_def same_tenant_upd same_grant_def split: op_splits
        intro!: foreign [symmetric] dest!: found)
  show "same_tenant tid m (snd (DeleteGrant m t k))"
    using assms(1) by (auto simp: DeleteGrant_def same_tenant_upd tenant_lookup_Inr split: op_splits
        intro!: foreign [symmetric])
  show "same_tenant tid m (snd (DeleteGrantsOfResource m t rt ri))"
    using assms(1) table_ok_distinct [OF ok]
    by (auto simp: DeleteGrantsOfResource_def same_tenant_upd on_resource_def split: op_splits
        intro!: foreign [symmetric])
qed

lemma isolated_logs:
  assumes "t \<noteq> tid"
  shows "list_all (\<lambda>l. clTenantID l = t) ls \<Longrightarrow> same_tenant tid m (snd (InsertCertLog m ls))"
    and "list_all (\<lambda>a. auTenantID a = t) as \<Longrightarrow> same_tenant tid m (snd (InsertAuditRows m as))"
  using assms
  by (auto simp: InsertCertLog_def InsertAuditRows_def same_tenant_upd foreign_log foreign_audit split: op_splits)

lemmas isolated = isolated_issuers isolated_cas isolated_requests isolated_jobs isolated_certificates
  isolated_revocations isolated_named isolated_grants isolated_logs

lemma step_isolation:
  assumes "store_step (Some t) m m'" "store_ok m" "t \<noteq> tid"
  shows "same_tenant tid m m'"
  using assms by (cases rule: store_step.cases) (auto intro: isolated)

end
