(* ===== verification/Mem_Views.thy ===== *)
theory Mem_Views
  imports Mem_Inv
begin

text \<open>
  What a tenant can read depends on its own rows only. Every tenant-scoped read of
  memstore.go returns the same value in two well-formed stores that agree on the tenant's
  rows, whatever the other tenants hold and whatever order the maps iterate in.
\<close>

lemma same_tenant_fail: "same_tenant tid m m' \<Longrightarrow> unless_read m op r = unless_read m' op r"
  by (simp add: same_tenant_def unless_read_def fail_def)

lemma same_tenant_trans: "same_tenant tid m m' \<Longrightarrow> same_tenant tid m' m'' \<Longrightarrow> same_tenant tid m m''"
  by (simp add: same_tenant_def)

lemma sort_desc_view:
  assumes "table_ok rid t" "table_ok rid t'" "tenant_rows tn tid t = tenant_rows tn tid t'" "\<And>r. P r \<Longrightarrow> tn r = tid"
  shows "sort_desc ts rid (filter P (rows t)) = sort_desc ts rid (filter P (rows t'))"
  unfolding sort_desc_def by (subst listing_view [OF assms(1,2,3)]) (use assms(4) in auto)

lemma sort_asc_view:
  assumes "table_ok rid t" "table_ok rid t'" "tenant_rows tn tid t = tenant_rows tn tid t'" "\<And>r. P r \<Longrightarrow> tn r = tid"
  shows "sort_asc ts rid (filter P (rows t)) = sort_asc ts rid (filter P (rows t'))"
  unfolding sort_asc_def by (subst listing_view [OF assms(1,2,3)]) (use assms(4) in auto)

lemma sort_name_view:
  assumes "table_ok rid t" "table_ok rid t'" "tenant_rows tn tid t = tenant_rows tn tid t'" "\<And>r. P r \<Longrightarrow> tn r = tid"
  shows "sortByNameID nm rid (filter P (rows t)) = sortByNameID nm rid (filter P (rows t'))"
  unfolding sortByNameID_def by (subst listing_view [OF assms(1,2,3)]) (use assms(4) in auto)

text \<open>The first row that matches is the only one when matching rows clash.\<close>

lemma find_only:
  assumes "table_ok rid t" and "map_of t k = Some r" "P r"
    and "\<And>k' r'. map_of t k' = Some r' \<Longrightarrow> P r' \<Longrightarrow> k' = k"
  shows "find P (rows t) = Some r"
proof (cases "find P (rows t)")
  case None
  with assms(2,3) show ?thesis by (auto simp: find_None_iff dest: map_of_in_rows)
next
  case (Some r')
  then have "r' \<in> set (rows t)" "P r'" by (auto simp: find_Some_iff set_conv_nth)
  with assms show ?thesis using Some by (metis in_rows_lookup option.inject)
qed

lemma find_none: "\<lbrakk>table_ok rid t; \<And>k r. map_of t k = Some r \<Longrightarrow> \<not> P r\<rbrakk> \<Longrightarrow> find P (rows t) = None"
  by (auto simp: find_None_iff in_rows_lookup)

lemma find_view:
  assumes "table_ok rid t" "table_ok rid t'" "tenant_rows tn tid t = tenant_rows tn tid t'"
    and "\<And>r. P r \<Longrightarrow> tn r = tid" and "uniq clash t" and "\<And>r s. P r \<Longrightarrow> P s \<Longrightarrow> clash r s"
  shows "find P (rows t) = find P (rows t')"
proof -
  have transfer: "map_of t k = Some r \<longleftrightarrow> map_of t' k = Some r" if "P r" for k r
    using fun_cong [OF assms(3), of k] assms(4) [OF that] tenant_rows_Some [of tn tid t k r] tenant_rows_Some [of tn tid t' k r]
    by simp
  show ?thesis
  proof (cases "\<exists>k r. map_of t k = Some r \<and> P r")
    case True
    then obtain k r where r: "map_of t k = Some r" "P r" by blast
    have only: "k' = k" if "map_of t k' = Some r'" "P r'" for k' r'
      by (rule uniqD [OF assms(5) that(1) r(1) assms(6) [OF that(2) r(2)]])
    have "find P (rows t) = Some r"
      by (rule find_only [where k = k, OF assms(1)]) (fact r(1), fact r(2), fact only)
    moreover have "find P (rows t') = Some r"
    proof (rule find_only [where k = k, OF assms(2)])
      show "map_of t' k = Some r" using r transfer by simp
      show "k' = k" if "map_of t' k' = Some r'" "P r'" for k' r'
        by (rule only [OF _ that(2)]) (use that transfer in simp)
    qed (fact r(2))
    ultimately show ?thesis by simp
  next
    case False
    then have "find P (rows t) = None" by (intro find_none [OF assms(1)]) blast
    moreover have "find P (rows t') = None"
    proof (rule find_none [OF assms(2)])
      show "\<not> P r" if "map_of t' k = Some r" for k r
        using that transfer False by blast
    qed
    ultimately show ?thesis by simp
  qed
qed

lemma same_tenantD:
  assumes "same_tenant tid m m'"
  shows "tenant_rows isTenantID tid (mIssuers m) = tenant_rows isTenantID tid (mIssuers m')"
    and "tenant_rows caTenantID tid (mCAs m) = tenant_rows caTenantID tid (mCAs m')"
    and "tenant_rows rqTenantID tid (mRequests m) = tenant_rows rqTenantID tid (mRequests m')"
    and "tenant_rows jbTenantID tid (mJobs m) = tenant_rows jbTenantID tid (mJobs m')"
    and "tenant_rows icTenantID tid (mCertificates m) = tenant_rows icTenantID tid (mCertificates m')"
    and "tenant_rows rvTenantID tid (mRevocations m) = tenant_rows rvTenantID tid (mRevocations m')"
    and "tenant_rows inTenantID tid (mInstalled m) = tenant_rows inTenantID tid (mInstalled m')"
    and "tenant_rows tgTenantID tid (mTargets m) = tenant_rows tgTenantID tid (mTargets m')"
    and "tenant_rows scTenantID tid (mSecrets m) = tenant_rows scTenantID tid (mSecrets m')"
    and "tenant_rows whTenantID tid (mWebhooks m) = tenant_rows whTenantID tid (mWebhooks m')"
    and "tenant_rows grTenantID tid (mGrants m) = tenant_rows grTenantID tid (mGrants m')"
    and "filter (\<lambda>a. auTenantID a = tid) (mAudit m) = filter (\<lambda>a. auTenantID a = tid) (mAudit m')"
  using assms unfolding same_tenant_def by blast+

text \<open>The certificate count of an issuer is the tenant's, since the foreign key keeps tenants apart.\<close>

lemma certCount_card:
  assumes "table_ok icID (mCertificates m)"
  shows "certCountForIssuer m i = card {c. \<exists>k. map_of (mCertificates m) k = Some c \<and> icIssuerID c = i}"
proof -
  have "certCountForIssuer m i = card (set (filter (\<lambda>c. icIssuerID c = i) (rows (mCertificates m))))"
    unfolding certCountForIssuer_def by (rule distinct_card [symmetric]) (rule distinct_filter_rows [OF assms])
  also have "set (filter (\<lambda>c. icIssuerID c = i) (rows (mCertificates m))) =
      {c. \<exists>k. map_of (mCertificates m) k = Some c \<and> icIssuerID c = i}"
    using assms by (auto simp: in_rows_lookup)
  finally show ?thesis .
qed

lemma cert_ref_tenant:
  "store_ok m \<Longrightarrow> map_of (mCertificates m) k = Some c \<Longrightarrow> map_of (mIssuers m) (icIssuerID c) = Some x
   \<Longrightarrow> icTenantID c = isTenantID x"
  by (fastforce simp: store_ok_def cert_refs_def)

lemma certCount_view:
  assumes "store_ok m" "store_ok m'" "same_tenant tid m m'" "map_of (mIssuers m) i = Some x" "isTenantID x = tid"
  shows "certCountForIssuer m i = certCountForIssuer m' i"
proof -
  have tables: "table_ok icID (mCertificates m)" "table_ok icID (mCertificates m')"
    using assms(1,2) by (auto simp: store_ok_def certs_ok_def)
  have "tenant_rows isTenantID tid (mIssuers m') i = Some x"
    unfolding same_tenantD(1) [OF assms(3), symmetric] tenant_rows_Some using assms(4,5) by simp
  then have x': "map_of (mIssuers m') i = Some x" by (simp add: tenant_rows_Some)
  have own: "map_of (mCertificates m) k = Some c \<and> icIssuerID c = i \<longleftrightarrow>
        tenant_rows icTenantID tid (mCertificates m) k = Some c \<and> icIssuerID c = i" for k c
    using cert_ref_tenant [OF assms(1), of k c] assms(4,5) by (auto simp: tenant_rows_Some)
  have own': "map_of (mCertificates m') k = Some c \<and> icIssuerID c = i \<longleftrightarrow>
        tenant_rows icTenantID tid (mCertificates m') k = Some c \<and> icIssuerID c = i" for k c
    using cert_ref_tenant [OF assms(2), of k c] assms(5) x' by (auto simp: tenant_rows_Some)
  have "tenant_rows icTenantID tid (mCertificates m) = tenant_rows icTenantID tid (mCertificates m')"
    by (rule same_tenantD(5) [OF assms(3)])
  then have "{c. \<exists>k. map_of (mCertificates m) k = Some c \<and> icIssuerID c = i} =
      {c. \<exists>k. map_of (mCertificates m') k = Some c \<and> icIssuerID c = i}"
    by (simp only: own own')
  then show ?thesis
    by (simp only: certCount_card [OF tables(1)] certCount_card [OF tables(2)])
qed

lemma GetIssuer_view:
  assumes "store_ok m" "store_ok m'" "same_tenant tid m m'"
  shows "GetIssuer m tid i = GetIssuer m' tid i"
proof -
  have same: "tenant_lookup isTenantID (mIssuers m) tid i = tenant_lookup isTenantID (mIssuers m') tid i"
    unfolding tenant_lookup_view same_tenantD(1) [OF assms(3)] by (rule refl)
  show ?thesis
  proof (cases "tenant_lookup isTenantID (mIssuers m) tid i")
    case (Inr x)
    then have "map_of (mIssuers m) i = Some x" "isTenantID x = tid" by (auto simp: tenant_lookup_Inr)
    with Inr same show ?thesis
      unfolding GetIssuer_def same_tenant_fail [OF assms(3)] by (simp add: certCount_view [OF assms])
  qed (simp add: GetIssuer_def same_tenant_fail [OF assms(3)] same [symmetric])
qed

lemma ListIssuers_view:
  assumes "store_ok m" "store_ok m'" "same_tenant tid m m'"
  shows "ListIssuers m tid after limit = ListIssuers m' tid after limit"
proof -
  let ?P = "\<lambda>i. isTenantID i = tid \<and> lower after < lower (isName i)"
  let ?g = "\<lambda>m i. i\<lparr>isCertificateCount := certCountForIssuer m (isID i)\<rparr>"
  have tables: "table_ok isID (mIssuers m)" "table_ok isID (mIssuers m')"
    using assms(1,2) by (auto simp: store_ok_def issuers_ok_def)
  have view: "tenant_rows isTenantID tid (mIssuers m) = tenant_rows isTenantID tid (mIssuers m')"
    by (rule same_tenantD(1) [OF assms(3)])
  have rows: "set (filter ?P (rows (mIssuers m))) = set (filter ?P (rows (mIssuers m')))"
    by (subst tenant_filter_set [OF tables(1), of ?P isTenantID tid], simp,
        subst tenant_filter_set [OF tables(2), of ?P isTenantID tid], simp, simp add: view)
  have "?g m i = ?g m' i" if "i \<in> set (filter ?P (rows (mIssuers m)))" for i
    using that tables(1) certCount_view [OF assms] by (auto simp: in_rows_iff)
  then have sets: "set (map (?g m) (filter ?P (rows (mIssuers m)))) = set (map (?g m') (filter ?P (rows (mIssuers m'))))"
    unfolding set_map rows [symmetric] by (intro image_cong refl) auto
  have dist: "distinct (map (?g m0) (filter ?P (rows (mIssuers m0))))"
    if "table_ok isID (mIssuers m0)" for m0 :: "'a mem_scheme"
  proof -
    have "inj_on (isID \<circ> ?g m0) (set (filter ?P (rows (mIssuers m0))))"
      using rid_inj_on_rows [OF that] by (auto simp: inj_on_def)
    then have "inj_on (?g m0) (set (filter ?P (rows (mIssuers m0))))"
      by (rule inj_on_imageI2)
    then show ?thesis using distinct_filter_rows [OF that] by (simp add: distinct_map)
  qed
  have inj: "inj_on (\<lambda>r. (lower (isName r), isID r)) (set (map (?g m) (filter ?P (rows (mIssuers m)))))"
    using rid_inj_on_rows [OF tables(1)] by (auto simp: inj_on_def)
  show ?thesis
    unfolding ListIssuers_def sortByNameID_def same_tenant_fail [OF assms(3)]
    using sort_key_set_eq [OF sets dist [OF tables(1)] dist [OF tables(2)] inj] by simp
qed

lemma DefaultIssuer_view:
  assumes "store_ok m" "store_ok m'" "same_tenant tid m m'"
  shows "DefaultIssuer m tid td = DefaultIssuer m' tid td"
proof -
  let ?P = "\<lambda>i. isTenantID i = tid \<and> isTrustDomain i = td \<and> isIsDefault i"
  have tables: "table_ok isID (mIssuers m)" "table_ok isID (mIssuers m')" "uniq issuer_clash (mIssuers m)"
    using assms(1,2) by (auto simp: store_ok_def issuers_ok_def)
  have same: "find ?P (rows (mIssuers m)) = find ?P (rows (mIssuers m'))"
    by (rule find_view [OF tables(1,2) same_tenantD(1) [OF assms(3)] _ tables(3)]) (simp_all add: issuer_clash_def)
  show ?thesis
  proof (cases "find ?P (rows (mIssuers m'))")
    case (Some i)
    then have "i \<in> set (rows (mIssuers m))" "isTenantID i = tid"
      unfolding same [symmetric] by (auto simp: find_Some_iff set_conv_nth)
    then have "certCountForIssuer m (isID i) = certCountForIssuer m' (isID i)"
      using certCount_view [OF assms] tables(1) by (simp add: in_rows_iff)
    then show ?thesis
      unfolding DefaultIssuer_def same_tenant_fail [OF assms(3)] same Some by simp
  qed (simp add: DefaultIssuer_def same_tenant_fail [OF assms(3)] same)
qed

lemma SecretByName_view:
  assumes "store_ok m" "store_ok m'" "same_tenant tid m m'"
  shows "SecretByName m tid name = SecretByName m' tid name"
proof -
  have tables: "table_ok scID (mSecrets m)" "table_ok scID (mSecrets m')" "uniq (name_clash scTenantID scName) (mSecrets m)"
    using assms(1,2) by (auto simp: store_ok_def secrets_ok_def named_ok_def)
  have pick: "(case table_find P t of Some (_, s) \<Rightarrow> Inr s | None \<Rightarrow> Inl e) =
      (case find P (rows t) of Some s \<Rightarrow> Inr s | None \<Rightarrow> Inl e)" for P and t :: "tenant_secret table" and e :: err
    by (induction t) (auto simp: table_find_def)
  show ?thesis
    unfolding SecretByName_def same_tenant_fail [OF assms(3)] pick
    by (subst find_view [OF tables(1,2) same_tenantD(9) [OF assms(3)] _ tables(3)]) (simp_all add: name_clash_def)
qed

lemma lookup_views:
  assumes "same_tenant tid m m'"
  shows "GetCA m tid i = GetCA m' tid i"
    and "GetRequest m tid i = GetRequest m' tid i"
    and "GetJob m tid i = GetJob m' tid i"
    and "GetCertificate m tid i = GetCertificate m' tid i"
    and "GetTarget m tid i = GetTarget m' tid i"
    and "GetSecret m tid i = GetSecret m' tid i"
    and "GetWebhook m tid i = GetWebhook m' tid i"
    and "GetGrant m tid i = GetGrant m' tid i"
  unfolding GetCA_def GetRequest_def GetJob_def GetCertificate_def GetTarget_def GetSecret_def GetWebhook_def GetGrant_def
    tenant_lookup_view same_tenant_fail [OF assms] same_tenantD [OF assms]
  by (rule refl)+

lemma ByIDs_view:
  assumes "same_tenant tid m m'"
  shows "CertificatesByIDs m tid ids = CertificatesByIDs m' tid ids"
proof -
  have fold_view: "(case map_of t i of None \<Rightarrow> None | Some c \<Rightarrow> if icTenantID c = tid then Some c else None) =
      tenant_rows icTenantID tid t i" for t i
    by (simp add: tenant_rows_def split: option.splits)
  show ?thesis
    unfolding CertificatesByIDs_def same_tenant_fail [OF assms] fold_view same_tenantD(5) [OF assms] by (rule refl)
qed

lemma listing_views:
  assumes "store_ok m" "store_ok m'" "same_tenant tid m m'"
  shows "CAsForDomain m tid td = CAsForDomain m' tid td"
    and "ListRequests m tid rf = ListRequests m' tid rf"
    and "ListJobs m tid jf = ListJobs m' tid jf"
    and "ListCertificates m tid cf = ListCertificates m' tid cf"
    and "ExpiringCertificates m tid now before n = ExpiringCertificates m' tid now before n"
    and "ListRevocations m tid cur n = ListRevocations m' tid cur n"
    and "ListInstalled m tid cl cur n = ListInstalled m' tid cl cur n"
proof -
  note same = same_tenant_fail [OF assms(3)] and views = same_tenantD [OF assms(3)]
  have tables: "table_ok caID (mCAs m)" "table_ok caID (mCAs m')" "table_ok rqID (mRequests m)" "table_ok rqID (mRequests m')"
    "table_ok jbID (mJobs m)" "table_ok jbID (mJobs m')" "table_ok icID (mCertificates m)" "table_ok icID (mCertificates m')"
    "table_ok rvID (mRevocations m)" "table_ok rvID (mRevocations m')" "table_ok inID (mInstalled m)" "table_ok inID (mInstalled m')"
    using assms(1,2) unfolding store_ok_def table_invs by blast+
  show "CAsForDomain m tid td = CAsForDomain m' tid td"
    unfolding CAsForDomain_def same by (subst sort_desc_view [OF tables(1,2) views(2)]) simp_all
  show "ListRequests m tid rf = ListRequests m' tid rf"
    unfolding ListRequests_def same by (subst sort_desc_view [OF tables(3,4) views(3)]) simp_all
  show "ListJobs m tid jf = ListJobs m' tid jf"
    unfolding ListJobs_def same by (subst sort_desc_view [OF tables(5,6) views(4)]) simp_all
  show "ListCertificates m tid cf = ListCertificates m' tid cf"
    unfolding ListCertificates_def same
    by (subst sort_desc_view [OF tables(7,8) views(5)]) (simp_all add: cert_matches_def)
  show "ExpiringCertificates m tid now before n = ExpiringCertificates m' tid now before n"
    unfolding ExpiringCertificates_def same by (subst sort_asc_view [OF tables(7,8) views(5)]) simp_all
  show "ListRevocations m tid cur n = ListRevocations m' tid cur n"
    unfolding ListRevocations_def same by (subst sort_desc_view [OF tables(9,10) views(6)]) simp_all
  show "ListInstalled m tid cl cur n = ListInstalled m' tid cl cur n"
    unfolding ListInstalled_def same by (subst sort_desc_view [OF tables(11,12) views(7)]) simp_all
qed

lemma named_views:
  assumes "store_ok m" "store_ok m'" "same_tenant tid m m'"
  shows "ListTargets m tid = ListTargets m' tid"
    and "ListSecrets m tid = ListSecrets m' tid"
    and "ListWebhooks m tid = ListWebhooks m' tid"
    and "WebhooksForEvent m tid ev = WebhooksForEvent m' tid ev"
    and "GrantsOnResource m tid rt ri = GrantsOnResource m' tid rt ri"
    and "GrantsForSubjects m tid uid roles now = GrantsForSubjects m' tid uid roles now"
proof -
  note same = same_tenant_fail [OF assms(3)] and views = same_tenantD [OF assms(3)]
  have tables: "table_ok tgID (mTargets m)" "table_ok tgID (mTargets m')" "table_ok scID (mSecrets m)" "table_ok scID (mSecrets m')"
    "table_ok whID (mWebhooks m)" "table_ok whID (mWebhooks m')" "table_ok grID (mGrants m)" "table_ok grID (mGrants m')"
    using assms(1,2) unfolding store_ok_def table_invs named_ok_def by blast+
  show "ListTargets m tid = ListTargets m' tid"
    unfolding ListTargets_def of_tenant_def same by (subst sort_name_view [OF tables(1,2) views(8)]) simp_all
  show "ListSecrets m tid = ListSecrets m' tid"
    unfolding ListSecrets_def of_tenant_def same by (subst sort_name_view [OF tables(3,4) views(9)]) simp_all
  show "ListWebhooks m tid = ListWebhooks m' tid"
    unfolding ListWebhooks_def of_tenant_def same by (subst sort_name_view [OF tables(5,6) views(10)]) simp_all
  show "WebhooksForEvent m tid ev = WebhooksForEvent m' tid ev"
    unfolding WebhooksForEvent_def same by (subst sort_name_view [OF tables(5,6) views(10)]) simp_all
  show "GrantsOnResource m tid rt ri = GrantsOnResource m' tid rt ri"
    unfolding GrantsOnResource_def sortGrants_def same
    by (subst sort_asc_view [OF tables(7,8) views(11)]) (simp_all add: on_resource_def)
  show "GrantsForSubjects m tid uid roles now = GrantsForSubjects m' tid uid roles now"
    unfolding GrantsForSubjects_def sortGrants_def same
    by (subst sort_asc_view [OF tables(7,8) views(11)]) (simp_all add: for_subjects_def)
qed

lemma QueryAudit_view:
  assumes "same_tenant tid m m'"
  shows "QueryAudit m tid f = QueryAudit m' tid f"
proof -
  have narrow: "filter (audit_matches tid f) log = filter (audit_matches tid f) (filter (\<lambda>a. auTenantID a = tid) log)" for log
    by (induction log) (auto simp: audit_matches_def)
  have fold_view: "name_of tn nm t tid i = (case tenant_rows tn tid t i of None \<Rightarrow> '''' | Some x \<Rightarrow> nm x)"
    for tn nm i and t :: "'r table"
    by (simp add: name_of_def tenant_rows_def split: option.splits)
  have "subjectName m tid = subjectName m' tid"
    unfolding subjectName_def fold_view same_tenantD [OF assms] by (rule refl)
  then show ?thesis
    unfolding QueryAudit_def same_tenant_fail [OF assms] narrow [of "mAudit m"] narrow [of "mAudit m'"] same_tenantD(12) [OF assms]
    by simp
qed

lemmas read_views = GetIssuer_view ListIssuers_view DefaultIssuer_view SecretByName_view listing_views named_views

end
