(* ===== verification/Fixtures.thy ===== *)
theory Fixtures
  imports Mem_Views
begin

text \<open>
  A small well-formed store on which the properties with hypotheses are instantiated: tenant
  \<open>t\<close> has one CA, one self-signed issuer with one certificate, and one sharer grant on that
  certificate; tenant \<open>u\<close> has an issuer of its own.
\<close>

definition demo_ca :: ca_row where
  "demo_ca = \<lparr>caID = ''ca1'', caTenantID = ''t'', caTrustDomain = ''td'', caCertPEM = ''capem'',
     caKeySealed = Some ''k'', caState = ''active'', caNotBefore = 1, caNotAfter = 100000, caSerial = ''1'', caCreatedAt = 1\<rparr>"

definition demo_issuer :: "string \<Rightarrow> string \<Rightarrow> string option \<Rightarrow> issuer" where
  "demo_issuer i tid ca = \<lparr>isID = i, isTenantID = tid, isName = ''Main'', isType = ''self_signed'', isTrustDomain = ''td'',
     isIsDefault = True, isCAID = ca, isACMEDirectoryURL = '''', isACMEEmail = '''', isDNSProvider = '''',
     isSettingsPublic = Some ''{}'', isSettingsSealed = None, isEnabled = True, isCreatedBy = None, isUpdatedBy = None,
     isCreatedAt = 1, isUpdatedAt = 1, isCertificateCount = 0\<rparr>"

definition demo_cert :: issued_cert where
  "demo_cert = \<lparr>icID = ''c1'', icTenantID = ''t'', icIssuerID = ''i1'', icKind = ''svid'', icRequestID = None,
     icSerial = ''10'', icSpiffeID = ''spiffe://td/app'', icSubject = '''', icSANs = Some [], icNotBefore = 1,
     icNotAfter = 1000, icFingerprintSHA256 = ''f'', icStatus = ''active'', icCertPEM = ''pem'', icChainPEM = '''',
     icKeySealed = None, icKeyDelivered = False, icAutoRenew = True, icSupersededBy = None, icOwner = ''alice'',
     icCreatedBy = None, icUpdatedBy = None, icCreatedAt = 5, icUpdatedAt = 5\<rparr>"

definition demo_sharer :: grant_row where
  "demo_sharer = \<lparr>grID = ''g1'', grTenantID = ''t'', grResourceType = ''certificate'', grResourceID = ''c1'',
     grSubjectType = ''user'', grSubjectID = ''alice'', grRelation = ''sharer'', grGrantedBy = None,
     grGrantedAt = 5, grExpiresAt = None\<rparr>"

definition demo_job :: "string \<Rightarrow> time \<Rightarrow> cert_job" where
  "demo_job i runAfter = \<lparr>jbID = i, jbTenantID = ''t'', jbRequestID = ''r1'', jbType = ''issue'', jbStatus = ''queued'',
     jbLeaseUntil = None, jbAttempts = 0, jbMaxAttempts = 3, jbResultCertificateID = None,
     jbError = None, jbRunAfter = runAfter, jbCreatedAt = 1, jbUpdatedAt = 1\<rparr>"

definition demo_store :: mem where
  "demo_store = (New 7)\<lparr>
     mIssuers := [(''i1'', demo_issuer ''i1'' ''t'' (Some ''ca1'')), (''i2'', demo_issuer ''i2'' ''u'' None)],
     mCAs := [(''ca1'', demo_ca)],
     mJobs := [(''j1'', demo_job ''j1'' 2), (''j2'', demo_job ''j2'' 9)],
     mCertificates := [(''c1'', demo_cert)],
     mGrants := [(''g1'', demo_sharer)]\<rparr>"

lemmas demo_defs = demo_store_def demo_cert_def demo_sharer_def demo_issuer_def demo_ca_def demo_job_def New_def

lemma demo_store_ok: "store_ok demo_store"
  unfolding store_ok_def table_invs named_ok_def issuer_refs_def cert_refs_def table_ok_def uniq_def
  by (auto simp: demo_defs issuer_clash_def split: if_splits)

end
