(* ===== verification/Authz.thy ===== *)
theory Authz
  imports Fixtures
begin

text \<open>
  Relation-based access control (internal/authz/authz.go, grants.go): grants of
  owner/editor/viewer/sharer on a certificate or an issuer to a user, a role or the whole
  tenant. The decision is a pure function of the grants on the resource (\<open>decide\<close>); the
  operations read and write them through the store. The evaluator's clock is the store's.

  The interface the evaluator relies on is the locale \<open>grant_store\<close>: what reading the grants
  of a resource returns after an upsert or a delete. Its client lemmas say how the effective
  permissions change, and it is interpreted on the operations of the store.
\<close>

record subjects =
  sbTenantID :: string
  sbUserID :: string
  sbRoles :: "string list"
  sbService :: string

definition SubjectsOf :: "string \<Rightarrow> string \<Rightarrow> string list \<Rightarrow> subjects" where
  "SubjectsOf tenantID userID roles =
     \<lparr>sbTenantID = tenantID, sbUserID = userID, sbRoles = roles, sbService = ''''\<rparr>"

definition ServiceSubjects :: "string \<Rightarrow> string \<Rightarrow> subjects" where
  "ServiceSubjects tenantID spiffeID =
     \<lparr>sbTenantID = tenantID, sbUserID = '''', sbRoles = [], sbService = spiffeID\<rparr>"

definition ActorKind :: "subjects \<Rightarrow> string" where
  "ActorKind s = (if sbService s \<noteq> '''' then ''service'' else ''user'')"

definition ActorID :: "subjects \<Rightarrow> string" where
  "ActorID s = (if sbService s \<noteq> '''' then sbService s else sbUserID s)"

definition AdminRoles :: "string list" where
  "AdminRoles = [''owner'', ''admin'']"

definition IsAdmin :: "subjects \<Rightarrow> bool" where
  "IsAdmin s = list_ex (\<lambda>r. list_ex (\<lambda>a. r = a) AdminRoles) (sbRoles s)"

record permissions =
  pRead :: bool
  pWrite :: bool
  pDelete :: bool
  pShare :: bool
  pUse :: bool

definition no_permissions :: permissions where
  "no_permissions = \<lparr>pRead = False, pWrite = False, pDelete = False, pShare = False, pUse = False\<rparr>"

definition Has :: "permissions \<Rightarrow> string \<Rightarrow> bool" where
  "Has p perm =
     (if perm = ''read'' then pRead p
      else if perm = ''write'' then pWrite p
      else if perm = ''delete'' then pDelete p
      else if perm = ''share'' then pShare p
      else if perm = ''use'' then pUse p
      else False)"

definition Of :: "string \<Rightarrow> permissions" where
  "Of relation =
     (if relation = ''owner'' then \<lparr>pRead = True, pWrite = True, pDelete = True, pShare = True, pUse = True\<rparr>
      else if relation = ''editor'' then \<lparr>pRead = True, pWrite = True, pDelete = False, pShare = False, pUse = True\<rparr>
      else if relation = ''viewer'' then \<lparr>pRead = True, pWrite = False, pDelete = False, pShare = False, pUse = False\<rparr>
      else if relation = ''sharer'' then \<lparr>pRead = True, pWrite = False, pDelete = False, pShare = True, pUse = True\<rparr>
      else no_permissions)"

definition rank :: "string \<Rightarrow> nat" where
  "rank relation =
     (if relation = ''owner'' then 4
      else if relation = ''editor'' then 3
      else if relation = ''sharer'' then 2
      else if relation = ''viewer'' then 1
      else 0)"

definition ValidRelation :: "string \<Rightarrow> bool" where
  "ValidRelation r \<longleftrightarrow> rank r > 0"

definition ValidPermission :: "string \<Rightarrow> bool" where
  "ValidPermission p \<longleftrightarrow> p = ''read'' \<or> p = ''write'' \<or> p = ''delete'' \<or> p = ''share'' \<or> p = ''use''"

definition ValidResourceType :: "string \<Rightarrow> bool" where
  "ValidResourceType t \<longleftrightarrow> t = ''certificate'' \<or> t = ''issuer''"

definition ValidSubjectType :: "string \<Rightarrow> bool" where
  "ValidSubjectType t \<longleftrightarrow> t = ''user'' \<or> t = ''role'' \<or> t = ''tenant''"

definition notFound :: "err \<Rightarrow> err" where
  "notFound e = (if errors_is_not_found e then AuthzNotFound else e)"

definition locate :: "'z mem_scheme \<Rightarrow> string \<Rightarrow> string \<Rightarrow> string \<Rightarrow> unit result" where
  "locate m tenantID resourceType resourceID =
     (if resourceType = ''certificate''
      then (case GetCertificate m tenantID resourceID of Inl e \<Rightarrow> Inl (notFound e) | Inr _ \<Rightarrow> Inr ())
      else (case GetIssuer m tenantID resourceID of Inl e \<Rightarrow> Inl (notFound e) | Inr _ \<Rightarrow> Inr ()))"

definition matches :: "grant_row \<Rightarrow> subjects \<Rightarrow> time \<Rightarrow> bool" where
  "matches g s now =
     (if (case grExpiresAt g of None \<Rightarrow> False | Some e \<Rightarrow> \<not> e > now) then False
      else if grSubjectType g = ''user'' then sbUserID s \<noteq> '''' \<and> grSubjectID g = sbUserID s
      else if grSubjectType g = ''role'' then list_ex (\<lambda>r. r = grSubjectID g) (sbRoles s)
      else grSubjectType g = ''tenant'')"

definition union :: "permissions \<Rightarrow> permissions \<Rightarrow> permissions" where
  "union a b = \<lparr>pRead = pRead a \<or> pRead b, pWrite = pWrite a \<or> pWrite b, pDelete = pDelete a \<or> pDelete b,
     pShare = pShare a \<or> pShare b, pUse = pUse a \<or> pUse b\<rparr>"

text \<open>The loop of \<open>decide\<close>, over permissions, strongest relation and contributing grants.\<close>

fun decide_loop ::
  "subjects \<Rightarrow> time \<Rightarrow> permissions \<times> string \<times> grant_row list \<Rightarrow> grant_row list \<Rightarrow> permissions \<times> string \<times> grant_row list" where
  "decide_loop s now acc [] = acc"
| "decide_loop s now (perms, relation, sources) (g # gs) =
     (if \<not> matches g s now then decide_loop s now (perms, relation, sources) gs
      else decide_loop s now
             (union perms (Of (grRelation g)),
              if rank (grRelation g) > rank relation then grRelation g else relation,
              sources @ [g]) gs)"

definition decide :: "subjects \<Rightarrow> time \<Rightarrow> grant_row list \<Rightarrow> permissions \<times> string \<times> grant_row list" where
  "decide s now grants =
     decide_loop s now
       (if IsAdmin s then (Of ''owner'', ''owner'', []) else (no_permissions, '''', [])) grants"

definition resolve ::
  "'z mem_scheme \<Rightarrow> subjects \<Rightarrow> string \<Rightarrow> string \<Rightarrow> (permissions \<times> string \<times> grant_row list) result" where
  "resolve m s resourceType resourceID =
     on_val (locate m (sbTenantID s) resourceType resourceID) (\<lambda>_.
     on_val (GrantsOnResource m (sbTenantID s) resourceType resourceID) (\<lambda>grants.
     Inr (decide s (mNow m) grants)))"

definition Check :: "'z mem_scheme \<Rightarrow> subjects \<Rightarrow> string \<Rightarrow> string \<Rightarrow> string \<Rightarrow> unit result" where
  "Check m s resourceType resourceID action =
     (if \<not> ValidResourceType resourceType \<or> \<not> ValidPermission action then Inl AuthzInput
      else
        on_val (resolve m s resourceType resourceID) (\<lambda>(perms, _, _).
          if \<not> Has perms action then Inl AuthzForbidden else Inr ()))"

definition Effective ::
  "'z mem_scheme \<Rightarrow> subjects \<Rightarrow> string \<Rightarrow> string \<Rightarrow> (permissions \<times> string \<times> grant_row list) result" where
  "Effective m s resourceType resourceID =
     (if \<not> ValidResourceType resourceType then Inl AuthzInput else resolve m s resourceType resourceID)"

text \<open>\<open>None\<close> stands for \<open>all = true\<close>, the administrator's unfiltered listing.\<close>

definition ListAccessibleIDs :: "'z mem_scheme \<Rightarrow> subjects \<Rightarrow> string \<Rightarrow> string list option result" where
  "ListAccessibleIDs m s resourceType =
     (if \<not> ValidResourceType resourceType then Inl AuthzInput
      else if IsAdmin s then Inr None
      else
        on_val (GrantsForSubjects m (sbTenantID s) (sbUserID s) (sbRoles s) (mNow m)) (\<lambda>grants.
          Inr (Some (remdups (map grResourceID
            (filter (\<lambda>g. grResourceType g = resourceType \<and> pRead (Of (grRelation g))) grants))))))"

record grant_input =
  giResourceType :: string
  giResourceID :: string
  giSubjectType :: string
  giSubjectID :: string
  giRelation :: string
  giExpiresAt :: "time option"

definition grant_validate :: "grant_input \<Rightarrow> time \<Rightarrow> unit result" where
  "grant_validate i now =
     (if \<not> ValidResourceType (giResourceType i) \<or> \<not> ValidSubjectType (giSubjectType i)
         \<or> \<not> ValidRelation (giRelation i) \<or> giResourceID i = '''' then Inl AuthzInput
      else if giSubjectType i = ''tenant'' \<and> giSubjectID i \<noteq> '''' then Inl AuthzInput
      else if giSubjectType i \<noteq> ''tenant'' \<and> (giSubjectID i = '''' \<or> length (giSubjectID i) > 128) then Inl AuthzInput
      else if (case giExpiresAt i of None \<Rightarrow> False | Some e \<Rightarrow> \<not> e > now) then Inl AuthzInput
      else Inr ())"

text \<open>\<open>newID\<close> is what \<open>store.NewID()\<close> returns.\<close>

definition Grant ::
  "'z mem_scheme \<Rightarrow> subjects \<Rightarrow> grant_input \<Rightarrow> string \<Rightarrow> grant_row result \<times> 'z mem_scheme" where
  "Grant m s i newID =
     (case grant_validate i (mNow m) of
        Inl e \<Rightarrow> (Inl e, m)
      | Inr _ \<Rightarrow>
          (case resolve m s (giResourceType i) (giResourceID i) of
             Inl e \<Rightarrow> (Inl e, m)
           | Inr (perms, held, _) \<Rightarrow>
               if \<not> pShare perms then (Inl AuthzForbidden, m)
               else if rank (giRelation i) > rank held then (Inl AuthzAboveGranter, m)
               else
                 UpsertGrant m \<lparr>grID = newID, grTenantID = sbTenantID s, grResourceType = giResourceType i,
                   grResourceID = giResourceID i, grSubjectType = giSubjectType i, grSubjectID = giSubjectID i,
                   grRelation = giRelation i, grGrantedBy = ptrOrNil (sbUserID s), grGrantedAt = 0,
                   grExpiresAt = giExpiresAt i\<rparr>))"

definition RevokeGrant :: "'z mem_scheme \<Rightarrow> subjects \<Rightarrow> string \<Rightarrow> unit result \<times> 'z mem_scheme" where
  "RevokeGrant m s grantID =
     (case GetGrant m (sbTenantID s) grantID of
        Inl e \<Rightarrow> (Inl (notFound e), m)
      | Inr g \<Rightarrow>
          (case resolve m s (grResourceType g) (grResourceID g) of
             Inl e \<Rightarrow> (Inl e, m)
           | Inr (perms, _, _) \<Rightarrow>
               if \<not> pShare perms then (Inl AuthzForbidden, m)
               else
                 (case DeleteGrant m (sbTenantID s) grantID of
                    (Inl e, m') \<Rightarrow> (Inl (notFound e), m')
                  | (Inr _, m') \<Rightarrow> (Inr (), m'))))"

definition GrantOwner ::
  "'z mem_scheme \<Rightarrow> string \<Rightarrow> string \<Rightarrow> string \<Rightarrow> string \<Rightarrow> string \<Rightarrow> unit result \<times> 'z mem_scheme" where
  "GrantOwner m tenantID resourceType resourceID userID newID =
     (if userID = '''' then (Inr (), m)
      else
        on_ok (UpsertGrant m \<lparr>grID = newID, grTenantID = tenantID, grResourceType = resourceType,
                 grResourceID = resourceID, grSubjectType = ''user'', grSubjectID = userID,
                 grRelation = ''owner'', grGrantedBy = Some userID, grGrantedAt = 0, grExpiresAt = None\<rparr>)
          (\<lambda>_ m'. (Inr (), m')))"

definition DropResource ::
  "'z mem_scheme \<Rightarrow> string \<Rightarrow> string \<Rightarrow> string \<Rightarrow> unit result \<times> 'z mem_scheme" where
  "DropResource m tenantID resourceType resourceID = DeleteGrantsOfResource m tenantID resourceType resourceID"

definition ListGrants ::
  "'z mem_scheme \<Rightarrow> subjects \<Rightarrow> string \<Rightarrow> string \<Rightarrow> grant_row list result" where
  "ListGrants m s resourceType resourceID =
     on_val (resolve m s resourceType resourceID) (\<lambda>(perms, _, _).
       if \<not> pShare perms then Inl AuthzForbidden
       else GrantsOnResource m (sbTenantID s) resourceType resourceID)"

subsection \<open>The decision\<close>

lemma Has_union: "Has (union a b) x \<longleftrightarrow> Has a x \<or> Has b x"
  by (simp add: Has_def union_def)

lemma Has_none [simp]: "\<not> Has no_permissions x"
  by (simp add: Has_def no_permissions_def)

lemma Has_owner [simp]: "Has (Of ''owner'') x \<longleftrightarrow> ValidPermission x"
  by (auto simp: Has_def Of_def ValidPermission_def)

lemma Has_valid: "Has p x \<Longrightarrow> ValidPermission x"
  by (auto simp: Has_def ValidPermission_def split: if_splits)

lemma pShare_Has: "pShare p \<longleftrightarrow> Has p ''share''"
  by (simp add: Has_def)

lemma pRead_Has: "pRead p \<longleftrightarrow> Has p ''read''"
  by (simp add: Has_def)

lemma decide_loop_perms:
  "Has (fst (decide_loop s now (p, r, src) gs)) x \<longleftrightarrow>
     Has p x \<or> (\<exists>g\<in>set gs. matches g s now \<and> Has (Of (grRelation g)) x)"
  by (induction s now "(p, r, src)" gs arbitrary: p r src rule: decide_loop.induct) (auto simp: Has_union)

text \<open>Administrators hold everything; anyone else what the matching grants carry.\<close>

lemma decide_perms:
  "Has (fst (decide s now gs)) x \<longleftrightarrow>
     (IsAdmin s \<and> ValidPermission x) \<or> (\<exists>g\<in>set gs. matches g s now \<and> Has (Of (grRelation g)) x)"
  by (auto simp: decide_def decide_loop_perms)

lemma decide_loop_held:
  "fst (snd (decide_loop s now (p, r, src) gs)) \<in> insert r (grRelation ` {g \<in> set gs. matches g s now})
   \<and> (\<forall>r' \<in> insert r (grRelation ` {g \<in> set gs. matches g s now}).
        rank r' \<le> rank (fst (snd (decide_loop s now (p, r, src) gs))))"
proof (induction gs arbitrary: p r src)
  case (Cons g gs)
  show ?case
  proof (cases "matches g s now")
    case True
    define r1 where "r1 = (if rank (grRelation g) > rank r then grRelation g else r)"
    have "decide_loop s now (p, r, src) (g # gs) = decide_loop s now (union p (Of (grRelation g)), r1, src @ [g]) gs"
      using True by (simp add: r1_def)
    moreover note Cons [of "union p (Of (grRelation g))" r1 "src @ [g]"]
    moreover have "rank r \<le> rank r1" "rank (grRelation g) \<le> rank r1" "r1 \<in> {r, grRelation g}"
      by (auto simp: r1_def)
    ultimately show ?thesis using True by (auto intro: order_trans)
  next
    case False
    then show ?thesis using Cons [of p r src] by auto
  qed
qed simp

text \<open>The relation reported is one the subject holds, and no held relation ranks above it.\<close>

lemma decide_held:
  fixes s now gs
  defines "held \<equiv> fst (snd (decide s now gs))"
    and "holds \<equiv> \<lambda>r. (IsAdmin s \<and> r = ''owner'') \<or> (\<exists>g\<in>set gs. matches g s now \<and> grRelation g = r)"
  shows "holds held \<or> held = ''''" and "holds r \<Longrightarrow> rank r \<le> rank held"
  using decide_loop_held [of s now "Of ''owner''" "''owner''" "[]" gs]
    decide_loop_held [of s now no_permissions "''''" "[]" gs]
  unfolding held_def holds_def decide_def by (auto split: if_splits)

lemma rank_perms:
  assumes "rank r \<le> rank held" "ValidRelation r"
  shows "held = ''owner'' \<or> (held = ''editor'' \<and> r \<in> {''editor'', ''sharer'', ''viewer''})
       \<or> (held = ''sharer'' \<and> r \<in> {''sharer'', ''viewer''}) \<or> (held = ''viewer'' \<and> r = ''viewer'')"
  using assms by (auto simp: rank_def ValidRelation_def split: if_splits)

lemma Of_order: "Has (Of ''viewer'') x \<Longrightarrow> Has (Of ''sharer'') x" "Has (Of ''viewer'') x \<Longrightarrow> Has (Of ''editor'') x"
  by (auto simp: Has_def Of_def split: if_splits)

lemma Of_share: "Has (Of r) ''share'' \<longleftrightarrow> r = ''owner'' \<or> r = ''sharer''"
  by (auto simp: Has_def Of_def no_permissions_def)

text \<open>
  The granter's bound: share together with a relation at or above \<open>r\<close> carries everything
  \<open>r\<close> carries, although the ranks alone do not order the permission sets (an editor has
  no share).
\<close>

lemma granter_bound:
  assumes "pShare (fst (decide s now gs))" "rank r \<le> rank (fst (snd (decide s now gs)))" "ValidRelation r"
    and "Has (Of r) x"
  shows "Has (fst (decide s now gs)) x"
proof -
  let ?P = "\<lambda>r. (IsAdmin s \<and> r = ''owner'') \<or> (\<exists>g\<in>set gs. matches g s now \<and> grRelation g = r)"
  have has: "Has (fst (decide s now gs)) y" if "?P r'" "Has (Of r') y" for r' y
    using that by (auto simp: decide_perms)
  have share: "?P ''owner'' \<or> ?P ''sharer''"
    using assms(1) by (auto simp: pShare_Has decide_perms Of_share)
  let ?held = "fst (snd (decide s now gs))"
  have held: "?P ?held \<or> ?held = ''''" by (rule decide_held(1))
  from rank_perms [OF assms(2,3)] show ?thesis
    using held share has [of ?held x] has [of "''sharer''" x] has [of "''owner''" x] assms(4) Has_valid [OF assms(4)] Of_order
    by (elim disjE conjE) auto
qed

subsection \<open>The interface to the store\<close>

text \<open>
  What the evaluator relies on (the \<open>Store\<close> interface of authz.go): reading the grants on a
  resource sees exactly the upserts and deletes before it, one grant per subject.
\<close>

locale grant_store =
  fixes ok :: "'s \<Rightarrow> bool"
    and fresh :: "'s \<Rightarrow> grant_row \<Rightarrow> bool"
    and on_res :: "'s \<Rightarrow> string \<Rightarrow> string \<Rightarrow> string \<Rightarrow> grant_row list result"
    and upsert :: "'s \<Rightarrow> grant_row \<Rightarrow> grant_row result \<times> 's"
    and drop_res :: "'s \<Rightarrow> string \<Rightarrow> string \<Rightarrow> string \<Rightarrow> unit result \<times> 's"
  assumes on_res_scope: "ok m \<Longrightarrow> on_res m t rt ri = Inr gs \<Longrightarrow> g \<in> set gs \<Longrightarrow> on_resource t rt ri g"
    and upsert_row: "ok m \<Longrightarrow> fresh m g \<Longrightarrow> upsert m g = (Inr g', m') \<Longrightarrow>
          same_grant g g' \<and> grRelation g' = grRelation g \<and> grExpiresAt g' = grExpiresAt g"
    and upsert_reads: "ok m \<Longrightarrow> fresh m g \<Longrightarrow> upsert m g = (Inr g', m') \<Longrightarrow> on_res m t rt ri = Inr gs \<Longrightarrow>
          \<exists>gs'. on_res m' t rt ri = Inr gs' \<and>
            set gs' = (if on_resource t rt ri g then insert g' {x \<in> set gs. \<not> same_grant g x} else set gs)"
    and drop_reads: "ok m \<Longrightarrow> drop_res m t rt ri = (Inr (), m') \<Longrightarrow> on_res m t' rt' ri' = Inr gs \<Longrightarrow>
          \<exists>gs'. on_res m' t' rt' ri' = Inr gs' \<and>
            set gs' = (if t' = t \<and> rt' = rt \<and> ri' = ri then {} else set gs)"
begin

definition allowed :: "'s \<Rightarrow> subjects \<Rightarrow> time \<Rightarrow> string \<Rightarrow> string \<Rightarrow> string \<Rightarrow> bool" where
  "allowed m s now rt ri x \<longleftrightarrow> (\<exists>gs. on_res m (sbTenantID s) rt ri = Inr gs \<and> Has (fst (decide s now gs)) x)"

lemma upsert_allowed:
  assumes "ok m" "fresh m g" "upsert m g = (Inr g', m')" "on_res m (sbTenantID s) rt ri = Inr gs"
    and "on_resource (sbTenantID s) rt ri g"
  shows "allowed m' s now rt ri x \<longleftrightarrow>
     (IsAdmin s \<and> ValidPermission x) \<or> (matches g s now \<and> Has (Of (grRelation g)) x)
     \<or> (\<exists>y\<in>set gs. \<not> same_grant g y \<and> matches y s now \<and> Has (Of (grRelation y)) x)"
proof -
  have row: "same_grant g g'" "grRelation g' = grRelation g" "grExpiresAt g' = grExpiresAt g"
    using upsert_row [OF assms(1-3)] by auto
  then have "matches g' s now = matches g s now"
    by (simp add: matches_def same_grant_def)
  moreover obtain gs' where "on_res m' (sbTenantID s) rt ri = Inr gs'"
      "set gs' = insert g' {x \<in> set gs. \<not> same_grant g x}"
    using upsert_reads [OF assms(1-4)] assms(5) by auto
  ultimately show ?thesis
    using row(2) by (auto simp: allowed_def decide_perms)
qed

lemma upsert_frame:
  assumes "ok m" "fresh m g" "upsert m g = (Inr g', m')" "on_res m (sbTenantID s) rt ri = Inr gs"
    and "\<not> on_resource (sbTenantID s) rt ri g"
  shows "allowed m' s now rt ri x \<longleftrightarrow> allowed m s now rt ri x"
  using upsert_reads [OF assms(1-4)] assms(4,5) by (auto simp: allowed_def decide_perms)

lemma drop_allowed:
  assumes "ok m" "drop_res m t rt ri = (Inr (), m')" "sbTenantID s = t" "on_res m t rt ri = Inr gs"
  shows "allowed m' s now rt ri x \<longleftrightarrow> IsAdmin s \<and> ValidPermission x"
  using drop_reads [OF assms(1,2,4)] assms(3) by (auto simp: allowed_def decide_perms)

end

lemma GrantsOnResource_set:
  "GrantsOnResource m t rt ri = Inr gs \<Longrightarrow> set gs = {g \<in> set (rows (mGrants m)). on_resource t rt ri g}"
  by (auto simp: GrantsOnResource_def sortGrants_def unless_read_Inr)

lemma GrantsOnResource_up:
  "fail m' ''GrantsOnResource'' = fail m ''GrantsOnResource'' \<Longrightarrow> GrantsOnResource m t rt ri = Inr gs \<Longrightarrow>
   \<exists>gs'. GrantsOnResource m' t rt ri = Inr gs' \<and> set gs' = {g \<in> set (rows (mGrants m')). on_resource t rt ri g}"
  by (auto simp: GrantsOnResource_def sortGrants_def unless_read_def split: option.splits)

text \<open>An upsert stores the row given, under the id of the grant it replaces, if any.\<close>

lemma UpsertGrant_Inr:
  assumes "store_ok m" "map_of (mGrants m) (grID g) = None" "UpsertGrant m g = (Inr g', m')"
  shows "same_grant g g' \<and> grRelation g' = grRelation g \<and> grGrantedBy g' = grGrantedBy g \<and> grExpiresAt g' = grExpiresAt g
     \<and> (\<exists>t. m' = m\<lparr>mGrants := t\<rparr>)
     \<and> set (rows (mGrants m')) = insert g' {x \<in> set (rows (mGrants m)). \<not> same_grant g x}"
proof -
  have ok: "grants_ok (mGrants m)" and ok': "grants_ok (mGrants m')"
    using assms(1,3) UpsertGrant_ok [of m g] by (auto simp: store_ok_def)
  then have t: "table_ok grID (mGrants m)" and t': "table_ok grID (mGrants m')" and u: "uniq same_grant (mGrants m)"
    by (auto simp: grants_ok_def)
  show ?thesis
  proof (cases "table_find (same_grant g) (mGrants m)")
    case None
    have free: "\<not> same_grant g x" if "map_of (mGrants m) k = Some x" for k x
      by (rule table_find_None [OF None that])
    from assms(3) None have g': "g' = g\<lparr>grGrantedAt := mNow m\<rparr>" and m': "m' = m\<lparr>mGrants := AList.update (grID g) g' (mGrants m)\<rparr>"
      by (auto simp: UpsertGrant_def unless_write_Inr Let_def)
    have "set (rows (mGrants m')) = insert g' {x \<in> set (rows (mGrants m)). \<not> same_grant g x}"
    proof -
      have "grID x \<noteq> grID g \<and> \<not> same_grant g x" if "x \<in> set (rows (mGrants m))" for x
        using that assms(2) free [of "grID x" x] by (auto simp: in_rows_iff [OF t])
      moreover have "set (rows (mGrants m')) = insert g' {x \<in> set (rows (mGrants m)). grID x \<noteq> grID g}"
        unfolding m' by (simp add: rows_update [OF t] g')
      ultimately show ?thesis by blast
    qed
    then show ?thesis by (auto simp: g' m' same_grant_def)
  next
    case (Some p)
    obtain k x where p: "p = (k, x)" by (cases p)
    have x: "map_of (mGrants m) k = Some x" "same_grant g x"
      using table_find_Some [OF t Some [unfolded p]] by auto
    have only: "k' = k" if "map_of (mGrants m) k' = Some y" "same_grant g y" for k' y
      using uniqD [OF u that(1) x(1)] that(2) x(2) by (auto simp: same_grant_def)
    from assms(3) Some p have
      g': "g' = x\<lparr>grRelation := grRelation g, grGrantedBy := grGrantedBy g, grGrantedAt := mNow m, grExpiresAt := grExpiresAt g\<rparr>"
      and m': "m' = m\<lparr>mGrants := AList.update k g' (mGrants m)\<rparr>"
      by (auto simp: UpsertGrant_def unless_write_Inr Let_def)
    have "set (rows (mGrants m')) = insert g' {x \<in> set (rows (mGrants m)). \<not> same_grant g x}"
    proof -
      have "grID y = k \<longleftrightarrow> same_grant g y" if "y \<in> set (rows (mGrants m))" for y
        using that only [of "grID y" y] x by (auto simp: in_rows_iff [OF t])
      moreover have "set (rows (mGrants m')) = insert g' {y \<in> set (rows (mGrants m)). grID y \<noteq> k}"
        unfolding m' using table_ok_key [OF t x(1)] by (simp add: rows_update [OF t] g')
      ultimately show ?thesis by blast
    qed
    then show ?thesis using x(2) by (auto simp: g' m' same_grant_def)
  qed
qed

lemma same_grant_resource: "same_grant g x \<Longrightarrow> on_resource t rt ri x = on_resource t rt ri g"
  by (auto simp: same_grant_def on_resource_def)

interpretation mg: grant_store store_ok "\<lambda>m g. map_of (mGrants m) (grID g) = None"
  GrantsOnResource UpsertGrant DeleteGrantsOfResource
proof unfold_locales
  fix m m' :: "'a mem_scheme" and t rt ri gs g g'
  assume ok: "store_ok m"
  show "on_resource t rt ri g" if "GrantsOnResource m t rt ri = Inr gs" "g \<in> set gs"
    using that GrantsOnResource_set by blast
  assume fresh: "map_of (mGrants m) (grID g) = None" and up: "UpsertGrant m g = (Inr g', m')"
  note row = UpsertGrant_Inr [OF ok fresh up]
  show "same_grant g g' \<and> grRelation g' = grRelation g \<and> grExpiresAt g' = grExpiresAt g"
    using row by blast
  assume gs: "GrantsOnResource m t rt ri = Inr gs"
  have "mFail m' = mFail m" using row by auto
  then obtain gs' where "GrantsOnResource m' t rt ri = Inr gs'"
      "set gs' = {g \<in> set (rows (mGrants m')). on_resource t rt ri g}"
    using GrantsOnResource_up [OF _ gs, of m'] by (auto simp: fail_def)
  then show "\<exists>gs'. GrantsOnResource m' t rt ri = Inr gs' \<and>
      set gs' = (if on_resource t rt ri g then insert g' {x \<in> set gs. \<not> same_grant g x} else set gs)"
    using row same_grant_resource GrantsOnResource_set [OF gs] by auto
next
  fix m m' :: "'a mem_scheme" and t rt ri t' rt' ri' gs
  assume "store_ok m" and del: "DeleteGrantsOfResource m t rt ri = (Inr (), m')"
    and gs: "GrantsOnResource m t' rt' ri' = Inr gs"
  have m': "m' = m\<lparr>mGrants := filter (\<lambda>(k, g). \<not> on_resource t rt ri g) (mGrants m)\<rparr>"
    using del by (simp add: DeleteGrantsOfResource_def unless_write_Inr)
  then obtain gs' where "GrantsOnResource m' t' rt' ri' = Inr gs'"
      "set gs' = {g \<in> set (rows (mGrants m')). on_resource t' rt' ri' g}"
    using GrantsOnResource_up [OF _ gs, of m'] by (auto simp: fail_def)
  moreover have "set (rows (mGrants m')) = {g \<in> set (rows (mGrants m)). \<not> on_resource t rt ri g}"
    by (auto simp: m' rows_def image_iff)
  ultimately show "\<exists>gs'. GrantsOnResource m' t' rt' ri' = Inr gs' \<and>
      set gs' = (if t' = t \<and> rt' = rt \<and> ri' = ri then {} else set gs)"
    using GrantsOnResource_set [OF gs] by (auto simp: on_resource_def)
qed

subsection \<open>Properties\<close>

text \<open>The resource exists in the tenant and the reads behind a decision succeed.\<close>

definition readable :: "'z mem_scheme \<Rightarrow> string \<Rightarrow> string \<Rightarrow> string \<Rightarrow> bool" where
  "readable m tid rt ri \<longleftrightarrow>
     fail m ''GrantsOnResource'' = None \<and>
     (if rt = ''certificate''
      then fail m ''GetCertificate'' = None \<and> tenant_rows icTenantID tid (mCertificates m) ri \<noteq> None
      else fail m ''GetIssuer'' = None \<and> tenant_rows isTenantID tid (mIssuers m) ri \<noteq> None)"

lemma locate_Inr:
  "locate m tid rt ri = Inr () \<longleftrightarrow>
     (if rt = ''certificate''
      then fail m ''GetCertificate'' = None \<and> tenant_rows icTenantID tid (mCertificates m) ri \<noteq> None
      else fail m ''GetIssuer'' = None \<and> tenant_rows isTenantID tid (mIssuers m) ri \<noteq> None)"
  by (auto simp: locate_def GetCertificate_def GetIssuer_def unless_read_def tenant_lookup_view
      split: option.splits sum.splits)

lemma resolve_Inr:
  "resolve m s rt ri = Inr d \<longleftrightarrow>
     readable m (sbTenantID s) rt ri \<and>
     d = decide s (mNow m) (sortGrants (filter (on_resource (sbTenantID s) rt ri) (rows (mGrants m))))"
  by (auto simp: resolve_def readable_def on_val_Inr_iff locate_Inr GrantsOnResource_def unless_read_Inr)

lemma Check_resolve:
  "Check m s rt ri x = Inr () \<longleftrightarrow>
     ValidResourceType rt \<and> ValidPermission x \<and> (\<exists>d. resolve m s rt ri = Inr d \<and> Has (fst d) x)"
  by (auto simp: Check_def on_val_Inr_iff case_prod_beta split: if_splits)

lemma Check_allowed:
  "Check m s rt ri x = Inr () \<longleftrightarrow>
     ValidResourceType rt \<and> readable m (sbTenantID s) rt ri \<and> mg.allowed m s (mNow m) rt ri x"
  by (auto simp: Check_resolve resolve_Inr mg.allowed_def GrantsOnResource_def unless_read_Inr readable_def
      dest: Has_valid)

text \<open>
  C3. A check succeeds exactly when the resource exists in the caller's tenant, the reads
  behind it succeed, and the caller is an administrator of the tenant or some unexpired
  grant of that tenant on that resource names the caller and carries the action. Nothing
  else gives access, and nothing else is needed.
\<close>

theorem Check_iff:
  "Check m s rt ri x = Inr () \<longleftrightarrow>
     ValidResourceType rt \<and> ValidPermission x \<and> readable m (sbTenantID s) rt ri \<and>
     (IsAdmin s \<or>
      (\<exists>g\<in>set (rows (mGrants m)). on_resource (sbTenantID s) rt ri g \<and> Has (Of (grRelation g)) x \<and>
         (case grExpiresAt g of None \<Rightarrow> True | Some e \<Rightarrow> mNow m < e) \<and>
         (grSubjectType g = ''user'' \<and> sbUserID s \<noteq> '''' \<and> grSubjectID g = sbUserID s \<or>
          grSubjectType g = ''role'' \<and> grSubjectID g \<in> set (sbRoles s) \<or>
          grSubjectType g = ''tenant'')))"
proof -
  have "matches g s (mNow m) \<longleftrightarrow> (case grExpiresAt g of None \<Rightarrow> True | Some e \<Rightarrow> mNow m < e) \<and>
         (grSubjectType g = ''user'' \<and> sbUserID s \<noteq> '''' \<and> grSubjectID g = sbUserID s \<or>
          grSubjectType g = ''role'' \<and> grSubjectID g \<in> set (sbRoles s) \<or> grSubjectType g = ''tenant'')" for g
    by (auto simp: matches_def list_ex_iff split: option.splits)
  then show ?thesis by (auto simp: Check_resolve resolve_Inr decide_perms sortGrants_def)
qed

lemma Grant_Inr:
  assumes "Grant m s i newID = (Inr g, m')"
  obtains d where "grant_validate i (mNow m) = Inr ()" "resolve m s (giResourceType i) (giResourceID i) = Inr d"
    "pShare (fst d)" "rank (giRelation i) \<le> rank (fst (snd d))"
    "UpsertGrant m \<lparr>grID = newID, grTenantID = sbTenantID s, grResourceType = giResourceType i,
        grResourceID = giResourceID i, grSubjectType = giSubjectType i, grSubjectID = giSubjectID i,
        grRelation = giRelation i, grGrantedBy = ptrOrNil (sbUserID s), grGrantedAt = 0,
        grExpiresAt = giExpiresAt i\<rparr> = (Inr g, m')"
  using assms by (auto simp: Grant_def split: sum.splits if_splits prod.splits)

lemma grant_validate_Inr:
  "grant_validate i now = Inr () \<Longrightarrow> ValidResourceType (giResourceType i) \<and> ValidRelation (giRelation i)
     \<and> ValidSubjectType (giSubjectType i)"
  by (auto simp: grant_validate_def split: if_splits)

text \<open>
  C4. Granting never escalates: whatever a successful grant hands out, the granter could do
  themselves at that moment, and the granter held share on the resource.
\<close>

theorem Grant_no_escalation:
  assumes "Grant m s i newID = (Inr g, m')" and "Has (Of (giRelation i)) x \<or> x = ''share''"
  shows "Check m s (giResourceType i) (giResourceID i) x = Inr ()"
proof -
  obtain d where d: "grant_validate i (mNow m) = Inr ()" "resolve m s (giResourceType i) (giResourceID i) = Inr d"
      "pShare (fst d)" "rank (giRelation i) \<le> rank (fst (snd d))"
    using assms(1) by (rule Grant_Inr)
  have valid: "ValidResourceType (giResourceType i)" "ValidRelation (giRelation i)"
    using grant_validate_Inr [OF d(1)] by auto
  obtain gs where gs: "d = decide s (mNow m) gs" using d(2) by (auto simp: resolve_Inr)
  have "Has (fst d) x"
    using assms(2) granter_bound [of s "mNow m" gs "giRelation i" x] d(3,4) valid(2) by (auto simp: gs pShare_Has)
  then show ?thesis using d(2) valid(1) by (auto simp: Check_resolve dest: Has_valid)
qed

definition demo_input :: grant_input where
  "demo_input = \<lparr>giResourceType = ''certificate'', giResourceID = ''c1'', giSubjectType = ''role'',
     giSubjectID = ''ops'', giRelation = ''viewer'', giExpiresAt = None\<rparr>"

lemma demo_grant:
  "Grant demo_store (SubjectsOf ''t'' ''alice'' []) demo_input ''g2'' =
     (Inr \<lparr>grID = ''g2'', grTenantID = ''t'', grResourceType = ''certificate'', grResourceID = ''c1'',
        grSubjectType = ''role'', grSubjectID = ''ops'', grRelation = ''viewer'', grGrantedBy = Some ''alice'',
        grGrantedAt = 7, grExpiresAt = None\<rparr>,
      demo_store\<lparr>mGrants := [(''g1'', demo_sharer),
        (''g2'', \<lparr>grID = ''g2'', grTenantID = ''t'', grResourceType = ''certificate'', grResourceID = ''c1'',
        grSubjectType = ''role'', grSubjectID = ''ops'', grRelation = ''viewer'', grGrantedBy = Some ''alice'',
        grGrantedAt = 7, grExpiresAt = None\<rparr>)]\<rparr>)"
  by code_simp

theorem Grant_no_escalation_witness:
  "Check demo_store (SubjectsOf ''t'' ''alice'' []) ''certificate'' ''c1'' ''read'' = Inr ()"
  using Grant_no_escalation [OF demo_grant, of "''read''"] by (simp add: demo_input_def Has_def Of_def)

lemma readable_grants [simp]: "readable (m\<lparr>mGrants := t\<rparr>) tid rt ri = readable m tid rt ri"
  by (simp add: readable_def fail_def)

lemma readable_reads: "readable m tid rt ri \<Longrightarrow>
  GrantsOnResource m tid rt ri = Inr (sortGrants (filter (on_resource tid rt ri) (rows (mGrants m))))"
  by (simp add: readable_def GrantsOnResource_def unless_read_def)

text \<open>
  C5. A grant takes effect at once and replaces the subject's previous grant on the
  resource: afterwards a member of the tenant may do exactly what an administrator may, what
  the new relation carries if the grant names them, or what another subject's grant on the
  resource already gave them.
\<close>

theorem Grant_effect:
  assumes "store_ok m" "map_of (mGrants m) newID = None" "Grant m s i newID = (Inr g, m')"
    and "sbTenantID s' = sbTenantID s"
  shows "Check m' s' (giResourceType i) (giResourceID i) x = Inr () \<longleftrightarrow>
     ValidPermission x \<and>
     (IsAdmin s' \<or> (matches g s' (mNow m) \<and> Has (Of (giRelation i)) x) \<or>
      (\<exists>y\<in>set (rows (mGrants m)). on_resource (sbTenantID s) (giResourceType i) (giResourceID i) y
          \<and> \<not> same_grant g y \<and> matches y s' (mNow m) \<and> Has (Of (grRelation y)) x))"
proof -
  define new where "new = \<lparr>grID = newID, grTenantID = sbTenantID s, grResourceType = giResourceType i,
        grResourceID = giResourceID i, grSubjectType = giSubjectType i, grSubjectID = giSubjectID i,
        grRelation = giRelation i, grGrantedBy = ptrOrNil (sbUserID s), grGrantedAt = 0, grExpiresAt = giExpiresAt i\<rparr>"
  obtain d where d: "grant_validate i (mNow m) = Inr ()" "resolve m s (giResourceType i) (giResourceID i) = Inr d"
      and up: "UpsertGrant m new = (Inr g, m')"
    using assms(3) unfolding new_def by (rule Grant_Inr)
  have valid: "ValidResourceType (giResourceType i)" using grant_validate_Inr [OF d(1)] by auto
  have read: "readable m (sbTenantID s') (giResourceType i) (giResourceID i)"
    using d(2) assms(4) by (simp add: resolve_Inr)
  have fresh: "map_of (mGrants m) (grID new) = None" using assms(2) by (simp add: new_def)
  note row = UpsertGrant_Inr [OF assms(1) fresh up]
  obtain t where t: "m' = m\<lparr>mGrants := t\<rparr>" using row by blast
  have here: "on_resource (sbTenantID s') (giResourceType i) (giResourceID i) new"
    using assms(4) by (simp add: new_def on_resource_def)
  have "matches new s' (mNow m) = matches g s' (mNow m)" and same: "same_grant new y = same_grant g y" for y
    using row by (auto simp: matches_def same_grant_def)
  then have "mg.allowed m' s' (mNow m) (giResourceType i) (giResourceID i) x \<longleftrightarrow>
     (IsAdmin s' \<and> ValidPermission x) \<or> (matches g s' (mNow m) \<and> Has (Of (giRelation i)) x)
     \<or> (\<exists>y\<in>set (rows (mGrants m)). on_resource (sbTenantID s) (giResourceType i) (giResourceID i) y
          \<and> \<not> same_grant g y \<and> matches y s' (mNow m) \<and> Has (Of (grRelation y)) x)"
    using mg.upsert_allowed [OF assms(1) fresh up readable_reads [OF read] here, of "mNow m" x] assms(4)
    by (auto simp: new_def sortGrants_def)
  moreover have "readable m' (sbTenantID s') (giResourceType i) (giResourceID i)" "mNow m' = mNow m"
    using read by (simp_all add: t)
  ultimately show ?thesis
    using valid by (auto simp: Check_allowed dest: Has_valid)
qed

theorem Grant_effect_witness:
  "\<not> IsAdmin (SubjectsOf ''t'' ''bob'' [''ops'']) \<and>
   Check (snd (Grant demo_store (SubjectsOf ''t'' ''alice'' []) demo_input ''g2'')) (SubjectsOf ''t'' ''bob'' [''ops''])
     ''certificate'' ''c1'' ''read'' = Inr ()"
  using Grant_effect [OF demo_store_ok _ demo_grant, of "SubjectsOf ''t'' ''bob'' [''ops'']" "''read''"] demo_grant
  by (simp add: demo_defs demo_input_def SubjectsOf_def IsAdmin_def AdminRoles_def matches_def Has_def Of_def ValidPermission_def)

lemma for_subjects_matches:
  "for_subjects tid (sbUserID s) (sbRoles s) now g \<longleftrightarrow> grTenantID g = tid \<and> matches g s now"
  by (auto simp: for_subjects_def matches_def list_ex_iff split: option.splits)

lemma ListAccessibleIDs_read:
  assumes "ListAccessibleIDs m s rt = Inr ids" "readable m (sbTenantID s) rt ri"
  shows "(case ids of None \<Rightarrow> True | Some l \<Rightarrow> ri \<in> set l) \<longleftrightarrow> Check m s rt ri ''read'' = Inr ()"
proof -
  have rt: "ValidResourceType rt" using assms(1) by (auto simp: ListAccessibleIDs_def split: if_splits)
  have read: "ValidPermission ''read''" by (simp add: ValidPermission_def)
  show ?thesis
  proof (cases ids)
    case None
    then have "IsAdmin s" using assms(1) by (auto simp: ListAccessibleIDs_def on_val_Inr_iff split: if_splits)
    with None rt read assms(2) show ?thesis by (simp add: Check_resolve resolve_Inr decide_perms)
  next
    case (Some l)
    then have "\<not> IsAdmin s"
      and "set l = grResourceID ` {g \<in> set (rows (mGrants m)). for_subjects (sbTenantID s) (sbUserID s) (sbRoles s) (mNow m) g
          \<and> grResourceType g = rt \<and> Has (Of (grRelation g)) ''read''}"
      using assms(1) by (auto simp: ListAccessibleIDs_def on_val_Inr_iff GrantsForSubjects_def unless_read_Inr sortGrants_def
          pRead_Has split: if_splits)
    with Some rt read assms(2) show ?thesis
      by (auto simp: Check_resolve resolve_Inr decide_perms sortGrants_def on_resource_def for_subjects_matches)
  qed
qed

text \<open>
  C6. The listing filter agrees with the check: for a caller who is not an administrator,
  the accessible ids of a type contain an existing resource exactly when reading that
  resource would be allowed.
\<close>

theorem ListAccessibleIDs_agrees:
  assumes "ListAccessibleIDs m s rt = Inr (Some ids)" "readable m (sbTenantID s) rt ri"
  shows "ri \<in> set ids \<longleftrightarrow> Check m s rt ri ''read'' = Inr ()"
  using ListAccessibleIDs_read [OF assms] by simp

theorem ListAccessibleIDs_agrees_witness:
  "ListAccessibleIDs demo_store (SubjectsOf ''t'' ''alice'' []) ''certificate'' = Inr (Some [''c1'']) \<and>
   Check demo_store (SubjectsOf ''t'' ''alice'' []) ''certificate'' ''c1'' ''read'' = Inr ()"
proof -
  have ids: "ListAccessibleIDs demo_store (SubjectsOf ''t'' ''alice'' []) ''certificate'' = Inr (Some [''c1''])"
    by code_simp
  moreover have "readable demo_store (sbTenantID (SubjectsOf ''t'' ''alice'' [])) ''certificate'' ''c1''"
    by code_simp
  ultimately show ?thesis
    using ListAccessibleIDs_agrees [of demo_store "SubjectsOf ''t'' ''alice'' []" "''certificate''" "[''c1'']" "''c1''"] by simp
qed

text \<open>
  C7. Dropping a resource leaves no grant of it behind: afterwards only administrators of
  the tenant hold any permission on that id, and the permissions on every other resource
  are what they were.
\<close>

theorem DropResource_effect:
  assumes "store_ok m" "DropResource m tid rt ri = (Inr (), m')" "sbTenantID s = tid"
    and "readable m tid rt' ri'"
  shows "Check m' s rt' ri' x = Inr () \<longleftrightarrow>
     (if rt' = rt \<and> ri' = ri then ValidResourceType rt \<and> ValidPermission x \<and> IsAdmin s
      else Check m s rt' ri' x = Inr ())"
proof -
  have del: "DeleteGrantsOfResource m tid rt ri = (Inr (), m')" using assms(2) by (simp add: DropResource_def)
  then have t: "m' = m\<lparr>mGrants := filter (\<lambda>(k, g). \<not> on_resource tid rt ri g) (mGrants m)\<rparr>"
    by (simp add: DeleteGrantsOfResource_def unless_write_Inr)
  have read': "readable m' tid rt' ri'" and now: "mNow m' = mNow m" using assms(4) by (simp_all add: t)
  show ?thesis
  proof (cases "rt' = rt \<and> ri' = ri")
    case True
    have "readable m tid rt ri" using assms(4) True by simp
    note allowed = mg.drop_allowed [OF assms(1) del assms(3) readable_reads [OF this], of "mNow m" x]
    show ?thesis using True read' assms(3) allowed by (auto simp: Check_allowed now)
  next
    case False
    note reads = mg.drop_reads [OF assms(1) del readable_reads [OF assms(4)]]
    have "mg.allowed m' s (mNow m) rt' ri' x = mg.allowed m s (mNow m) rt' ri' x"
      using False reads readable_reads [OF assms(4)] assms(3) by (auto simp: mg.allowed_def decide_perms)
    then show ?thesis using False read' assms(3,4) by (auto simp: Check_allowed now)
  qed
qed

theorem DropResource_effect_witness:
  "Check (snd (DropResource demo_store ''t'' ''certificate'' ''c1'')) (SubjectsOf ''t'' ''alice'' [])
     ''certificate'' ''c1'' ''read'' \<noteq> Inr ()"
proof -
  have drop: "DropResource demo_store ''t'' ''certificate'' ''c1'' = (Inr (), demo_store\<lparr>mGrants := []\<rparr>)"
    by code_simp
  have "readable demo_store ''t'' ''certificate'' ''c1''" by code_simp
  from DropResource_effect [OF demo_store_ok drop _ this, of "SubjectsOf ''t'' ''alice'' []" "''read''"] show ?thesis
    unfolding drop by (simp add: SubjectsOf_def IsAdmin_def)
qed

end
