(* ===== verification/Go_Url.thy ===== *)
theory Go_Url
  imports Prelude
begin

text \<open>
  What csr.ParseSPIFFEID uses of Go's net/url: \<open>url.Parse\<close> with its scheme, query, authority
  and path rules, \<open>Port\<close> and \<open>Hostname\<close>, on byte strings. Three outcomes the caller refuses
  in any case are merged: an authority with an \<open>@\<close> yields a non-nil user (or an error), a
  bracketed host is passed on when its literal contains a colon, as every IPv6 address does,
  and a host with several colons is passed on.
\<close>

definition has_ctl :: "string \<Rightarrow> bool" where
  "has_ctl s = list_ex (\<lambda>c. of_char c < (32::nat) \<or> of_char c = (127::nat)) s"

definition is_lower :: "char \<Rightarrow> bool" where
  "is_lower c \<longleftrightarrow> CHR ''a'' \<le> c \<and> c \<le> CHR ''z''"

definition is_upper :: "char \<Rightarrow> bool" where
  "is_upper c \<longleftrightarrow> CHR ''A'' \<le> c \<and> c \<le> CHR ''Z''"

definition is_digit :: "char \<Rightarrow> bool" where
  "is_digit c \<longleftrightarrow> CHR ''0'' \<le> c \<and> c \<le> CHR ''9''"

text \<open>\<open>strings.Cut\<close> at a byte, and the split at its last occurrence.\<close>

definition cut :: "char \<Rightarrow> string \<Rightarrow> string \<times> string" where
  "cut c s = (takeWhile (\<lambda>x. x \<noteq> c) s, tl (dropWhile (\<lambda>x. x \<noteq> c) s))"

definition rcut :: "char \<Rightarrow> string \<Rightarrow> string \<times> string" where
  "rcut c s = (rev (tl (dropWhile (\<lambda>x. x \<noteq> c) (rev s))), rev (takeWhile (\<lambda>x. x \<noteq> c) (rev s)))"

text \<open>\<open>getScheme\<close>: \<open>None\<close> is the error \<open>missing protocol scheme\<close>.\<close>

fun scheme_scan :: "string \<Rightarrow> string \<Rightarrow> string \<Rightarrow> (string \<times> string) option" where
  "scheme_scan raw pre [] = Some ('''', raw)"
| "scheme_scan raw pre (c # r) =
     (if is_lower c \<or> is_upper c then scheme_scan raw (pre @ [c]) r
      else if is_digit c \<or> c = CHR ''+'' \<or> c = CHR ''-'' \<or> c = CHR ''.'' then
        (if pre = [] then Some ('''', raw) else scheme_scan raw (pre @ [c]) r)
      else if c = CHR '':'' then (if pre = [] then None else Some (pre, r))
      else Some ('''', raw))"

definition getScheme :: "string \<Rightarrow> (string \<times> string) option" where
  "getScheme raw = scheme_scan raw [] raw"

definition ishex :: "char \<Rightarrow> bool" where
  "ishex c \<longleftrightarrow> is_digit c \<or> (CHR ''a'' \<le> c \<and> c \<le> CHR ''f'') \<or> (CHR ''A'' \<le> c \<and> c \<le> CHR ''F'')"

definition unhex :: "char \<Rightarrow> nat" where
  "unhex c =
     (if is_digit c then of_char c - 48
      else if CHR ''a'' \<le> c \<and> c \<le> CHR ''f'' then of_char c - 97 + 10
      else if CHR ''A'' \<le> c \<and> c \<le> CHR ''F'' then of_char c - 65 + 10
      else 0)"

text \<open>\<open>unescape(s, encodePath)\<close>: an error for a percent sign without two hex digits.\<close>

fun unescape :: "string \<Rightarrow> string option" where
  "unescape [] = Some []"
| "unescape (c # r) =
     (if c = CHR ''%'' then
        (case r of
           a # b # r' \<Rightarrow>
             if ishex a \<and> ishex b then map_option ((#) (char_of (16 * unhex a + unhex b))) (unescape r') else None
         | _ \<Rightarrow> None)
      else map_option ((#) c) (unescape r))"

definition host_char :: "char \<Rightarrow> bool" where
  "host_char c \<longleftrightarrow> is_lower c \<or> is_upper c \<or> is_digit c \<or> c \<in> set ''-_.~!$&()*+,;=:[]<>'' \<or> c = CHR 0x27 \<or> c = CHR 0x22"

text \<open>\<open>unescape(s, encodeHost)\<close>: only bytes outside ASCII and \<open>%25\<close> may be percent-encoded.\<close>

fun unescape_host :: "string \<Rightarrow> string option" where
  "unescape_host [] = Some []"
| "unescape_host (c # r) =
     (if c = CHR ''%'' then
        (case r of
           a # b # r' \<Rightarrow>
             if ishex a \<and> ishex b \<and> (unhex a \<ge> 8 \<or> (a = CHR ''2'' \<and> b = CHR ''5''))
             then map_option ((#) (char_of (16 * unhex a + unhex b))) (unescape_host r') else None
         | _ \<Rightarrow> None)
      else if of_char c < (128::nat) \<and> \<not> host_char c then None
      else map_option ((#) c) (unescape_host r))"

definition validOptionalPort :: "string \<Rightarrow> bool" where
  "validOptionalPort port \<longleftrightarrow> port = [] \<or> (hd port = CHR '':'' \<and> list_all is_digit (tl port))"

definition parseHost :: "string \<Rightarrow> string option" where
  "parseHost host =
     (if host \<noteq> [] \<and> hd host = CHR ''['' then
        (if CHR '']'' \<in> set host \<and> validOptionalPort (snd (rcut (CHR '']'') host))
            \<and> CHR '':'' \<in> set (fst (rcut (CHR '']'') host)) then Some host else None)
      else if CHR '':'' \<in> set host \<and> \<not> validOptionalPort (CHR '':'' # snd (rcut (CHR '':'') host)) then None
      else unescape_host host)"

record go_url =
  uScheme :: string
  uOpaque :: string
  uUser :: bool
  uHost :: string
  uPath :: string
  uRawQuery :: string
  uForceQuery :: bool
  uFragment :: string

definition empty_url :: go_url where
  "empty_url = \<lparr>uScheme = '''', uOpaque = '''', uUser = False, uHost = '''', uPath = '''', uRawQuery = '''',
     uForceQuery = False, uFragment = ''''\<rparr>"

definition parseAuthority :: "string \<Rightarrow> (bool \<times> string) option" where
  "parseAuthority authority =
     (if CHR ''@'' \<in> set authority
      then map_option (\<lambda>h. (True, h)) (parseHost (snd (rcut (CHR ''@'') authority)))
      else map_option (\<lambda>h. (False, h)) (parseHost authority))"

definition has_prefix :: "string \<Rightarrow> string \<Rightarrow> bool" where
  "has_prefix s p \<longleftrightarrow> take (length p) s = p"

definition url_parse1 :: "string \<Rightarrow> go_url option" where
  "url_parse1 raw =
     (if has_ctl raw then None
      else if raw = ''*'' then Some (empty_url\<lparr>uPath := ''*''\<rparr>)
      else
        (case getScheme raw of
           None \<Rightarrow> None
         | Some (scheme, rest) \<Rightarrow>
             (let u = empty_url\<lparr>uScheme := lower scheme\<rparr>;
                  force = (rest \<noteq> [] \<and> last rest = CHR ''?'' \<and> length (filter (\<lambda>c. c = CHR ''?'') rest) = 1);
                  (rest, query) = (if force then (butlast rest, '''') else cut (CHR ''?'') rest);
                  u = u\<lparr>uForceQuery := force, uRawQuery := query\<rparr>
              in if \<not> has_prefix rest ''/'' \<and> uScheme u \<noteq> '''' then Some (u\<lparr>uOpaque := rest\<rparr>)
                 else if \<not> has_prefix rest ''/'' \<and> CHR '':'' \<in> set (fst (cut (CHR ''/'') rest)) then None
                 else if has_prefix rest ''//'' \<and> (uScheme u \<noteq> '''' \<or> \<not> has_prefix rest ''///'') then
                   (case parseAuthority (takeWhile (\<lambda>c. c \<noteq> CHR ''/'') (drop 2 rest)) of
                      None \<Rightarrow> None
                    | Some (user, host) \<Rightarrow>
                        map_option (\<lambda>p. u\<lparr>uUser := user, uHost := host, uPath := p\<rparr>)
                          (unescape (dropWhile (\<lambda>c. c \<noteq> CHR ''/'') (drop 2 rest))))
                 else map_option (\<lambda>p. u\<lparr>uPath := p\<rparr>) (unescape rest))))"

text \<open>\<open>url.Parse\<close>.\<close>

definition url_parse :: "string \<Rightarrow> go_url option" where
  "url_parse raw =
     (let (u, frag) = cut (CHR ''#'') raw
      in case url_parse1 u of
           None \<Rightarrow> None
         | Some url \<Rightarrow> if frag = '''' then Some url else map_option (\<lambda>f. url\<lparr>uFragment := f\<rparr>) (unescape frag))"

text \<open>\<open>splitHostPort\<close> behind \<open>Hostname\<close> and \<open>Port\<close>.\<close>

definition splitHostPort :: "string \<Rightarrow> string \<times> string" where
  "splitHostPort hostPort =
     (let (host, port) =
            (if CHR '':'' \<in> set hostPort \<and> validOptionalPort (CHR '':'' # snd (rcut (CHR '':'') hostPort))
             then rcut (CHR '':'') hostPort else (hostPort, ''''));
          host = (if host \<noteq> [] \<and> hd host = CHR ''['' \<and> last host = CHR '']'' then butlast (tl host) else host)
      in (host, port))"

subsection \<open>Facts\<close>

lemma cut_simps [simp]:
  "cut c [] = ([], [])"
  "cut c (x # s) = (if x = c then ([], s) else (x # fst (cut c s), snd (cut c s)))"
  by (simp_all add: cut_def)

lemma cut_none: "c \<notin> set s \<Longrightarrow> cut c s = (s, [])"
  by (induction s) auto

lemma cut_append: "c \<notin> set a \<Longrightarrow> cut c (a @ c # b) = (a, b)"
  by (induction a) auto

lemma cut_split:
  "cut c s = (a, b) \<Longrightarrow> (c \<notin> set s \<and> a = s \<and> b = []) \<or> (s = a @ c # b \<and> c \<notin> set a)"
proof (induction s arbitrary: a)
  case (Cons x s)
  then show ?case by (cases "x = c"; cases "cut c s") fastforce+
qed simp

lemma rcut_append:
  assumes "c \<notin> set b"
  shows "rcut c (a @ c # b) = (a, b)"
proof -
  have "cut c (rev b @ c # rev a) = (rev b, rev a)" by (rule cut_append) (simp add: assms)
  then show ?thesis by (simp add: cut_def rcut_def)
qed

lemma rcut_split:
  assumes "c \<in> set s" "rcut c s = (a, b)"
  shows "s = a @ c # b \<and> c \<notin> set b"
proof -
  have "cut c (rev s) = (rev b, rev a)" using assms(2) by (auto simp: cut_def rcut_def)
  from cut_split [OF this] assms(1) have "rev s = rev b @ c # rev a" "c \<notin> set b" by auto
  then have "rev (rev s) = a @ c # b" by (simp only:) simp
  with \<open>c \<notin> set b\<close> show ?thesis by simp
qed

lemma scheme_scan_found:
  "scheme_scan raw pre r = Some (sch, rest) \<Longrightarrow> sch \<noteq> '''' \<Longrightarrow> pre @ r = sch @ CHR '':'' # rest"
  by (induction raw pre r rule: scheme_scan.induct) (auto split: if_splits)

lemma scheme_scan_letters:
  "list_all (\<lambda>c. is_lower c \<or> is_upper c) s \<Longrightarrow> pre @ s \<noteq> [] \<Longrightarrow>
   scheme_scan raw pre (s @ CHR '':'' # rest) = Some (pre @ s, rest)"
  by (induction s arbitrary: pre) (auto simp: is_lower_def is_upper_def is_digit_def less_eq_char_def)

end
