(* ===== verification/Go_Text.thy ===== *)
theory Go_Text
  imports Go_Url
begin

text \<open>
  The functions of Go's \<open>strings\<close> package the sources use, on byte strings. Case mapping and
  white space are those of ASCII; the sources apply them to host names, headers and keys.
  UTF-8 is read as \<open>unicode/utf8\<close> does: \<open>rune_width\<close> is the length of the well-formed sequence
  a string starts with, 0 when its first byte starts none.
\<close>

definition is_space :: "char \<Rightarrow> bool" where
  "is_space c \<longleftrightarrow> (let b = (of_char c :: nat) in b = 32 \<or> 9 \<le> b \<and> b \<le> 13)"

definition TrimSpace :: "string \<Rightarrow> string" where
  "TrimSpace s = rev (dropWhile is_space (rev (dropWhile is_space s)))"

definition HasSuffix :: "string \<Rightarrow> string \<Rightarrow> bool" where
  "HasSuffix s suffix \<longleftrightarrow> length suffix \<le> length s \<and> drop (length s - length suffix) s = suffix"

definition TrimSuffix :: "string \<Rightarrow> string \<Rightarrow> string" where
  "TrimSuffix s suffix = (if HasSuffix s suffix then take (length s - length suffix) s else s)"

definition TrimPrefix :: "string \<Rightarrow> string \<Rightarrow> string" where
  "TrimPrefix s prefix = (if has_prefix s prefix then drop (length prefix) s else s)"

text \<open>\<open>strings.Split\<close> at a one-byte separator: never empty.\<close>

fun split_at :: "char \<Rightarrow> string \<Rightarrow> string list" where
  "split_at c [] = [[]]"
| "split_at c (x # xs) =
     (if x = c then [] # split_at c xs
      else (case split_at c xs of [] \<Rightarrow> [[x]] | w # ws \<Rightarrow> (x # w) # ws))"

fun join_with :: "string \<Rightarrow> string list \<Rightarrow> string" where
  "join_with sep [] = []"
| "join_with sep [x] = x"
| "join_with sep (x # y # zs) = x @ sep @ join_with sep (y # zs)"

text \<open>\<open>strings.Fields\<close>: the maximal runs of bytes that are not white space.\<close>

fun fields_acc :: "string \<Rightarrow> string \<Rightarrow> string list" where
  "fields_acc w [] = (if w = [] then [] else [rev w])"
| "fields_acc w (c # cs) =
     (if is_space c then (if w = [] then fields_acc [] cs else rev w # fields_acc [] cs) else fields_acc (c # w) cs)"

definition Fields :: "string \<Rightarrow> string list" where
  "Fields s = fields_acc [] s"

text \<open>\<open>strings.ReplaceAll\<close> for a non-empty pattern.\<close>

function ReplaceAll :: "string \<Rightarrow> string \<Rightarrow> string \<Rightarrow> string" where
  "ReplaceAll s pat new =
     (if s = [] \<or> pat = [] then s
      else if has_prefix s pat then new @ ReplaceAll (drop (length pat) s) pat new
      else hd s # ReplaceAll (tl s) pat new)"
  by pat_completeness auto
termination by (relation "measure (\<lambda>(s, _, _). length s)") auto

declare ReplaceAll.simps [simp del]

text \<open>The digits of \<open>encoding/hex\<close>.\<close>

definition hex_char :: "nat \<Rightarrow> char" where
  "hex_char n = ''0123456789abcdef'' ! n"

lemma has_prefix_split: "has_prefix s p \<longleftrightarrow> s = p @ drop (length p) s"
proof
  assume "has_prefix s p"
  then have "take (length p) s = p" by (simp add: has_prefix_def)
  then show "s = p @ drop (length p) s" using append_take_drop_id [of "length p" s] by simp
qed (metis append_eq_conv_conj has_prefix_def)

lemma has_prefix_append [simp]: "has_prefix (p @ s) p"
  by (simp add: has_prefix_def)

subsection \<open>UTF-8\<close>

definition rune_need :: "nat \<Rightarrow> nat" where
  "rune_need b =
     (if b < 128 then 1 else if b < 194 then 0 else if b < 224 then 2 else if b < 240 then 3 else if b < 245 then 4 else 0)"

definition second_ok :: "nat \<Rightarrow> nat \<Rightarrow> bool" where
  "second_ok b x \<longleftrightarrow>
     (if b = 224 then 160 else if b = 240 then 144 else 128) \<le> x \<and> x \<le> (if b = 237 then 159 else if b = 244 then 143 else 191)"

fun rune_width :: "string \<Rightarrow> nat" where
  "rune_width [] = 0"
| "rune_width (c # s) =
     (let n = rune_need (of_char c)
      in if n \<le> 1 then n
         else if n \<le> Suc (length s) \<and> second_ok (of_char c) (of_char (hd s))
               \<and> list_all (\<lambda>x. 128 \<le> (of_char x :: nat) \<and> (of_char x :: nat) \<le> 191) (take (n - 2) (tl s)) then n
         else 0)"

lemma rune_width_le: "rune_width s \<le> length s"
  by (cases s) (simp_all add: Let_def)

lemma rune_width_ascii [simp]: "of_char c < (128 :: nat) \<Longrightarrow> rune_width (c # s) = 1"
  by (simp add: rune_need_def)

declare rune_width.simps(2) [simp del]

text \<open>Well-formed UTF-8.\<close>

function valid_utf8 :: "string \<Rightarrow> bool" where
  "valid_utf8 s = (if s = [] then True else if rune_width s = 0 then False else valid_utf8 (drop (rune_width s) s))"
  by pat_completeness auto
termination by (relation "measure length") auto

declare valid_utf8.simps [simp del]

lemma valid_utf8_Nil [simp]: "valid_utf8 []"
  by (simp add: valid_utf8.simps)

lemma valid_utf8_ascii: "list_all (\<lambda>c. of_char c < (128 :: nat)) s \<Longrightarrow> valid_utf8 s"
  by (induction s) (simp_all add: valid_utf8.simps [of "_ # _"])

text \<open>The first \<open>n\<close> runes, an ill-formed byte counting as one (replaced by U+FFFD when re-encoded).\<close>

definition replacement :: string where
  "replacement = map (char_of :: nat \<Rightarrow> char) [239, 191, 189]"

fun take_runes :: "nat \<Rightarrow> string \<Rightarrow> string" where
  "take_runes 0 s = []"
| "take_runes (Suc n) s =
     (if s = [] then []
      else if rune_width s = 0 then replacement @ take_runes n (tl s)
      else take (rune_width s) s @ take_runes n (drop (rune_width s) s))"

function rune_count :: "string \<Rightarrow> nat" where
  "rune_count s = (if s = [] then 0 else Suc (rune_count (drop (max 1 (rune_width s)) s)))"
  by pat_completeness auto
termination by (relation "measure length") auto

declare rune_count.simps [simp del]

subsection \<open>Splitting and joining\<close>

lemma split_at_nonempty [simp]: "split_at c s \<noteq> []"
  by (induction s) (auto split: list.splits)

lemma split_at_join: "join_with [c] (split_at c s) = s"
proof (induction s)
  case (Cons x xs)
  obtain w ws where s: "split_at c xs = w # ws" by (cases "split_at c xs") auto
  with Cons.IH show ?case by (cases ws) auto
qed simp

lemma split_at_free: "w \<in> set (split_at c s) \<Longrightarrow> c \<notin> set w"
  by (induction s arbitrary: w) (auto split: list.splits if_splits)

lemma split_at_single: "c \<notin> set w \<Longrightarrow> split_at c w = [w]"
  by (induction w) auto

lemma split_at_append: "c \<notin> set w \<Longrightarrow> split_at c (w @ c # s) = w # split_at c s"
  by (induction w) auto

lemma join_split_at:
  "ws \<noteq> [] \<Longrightarrow> list_all (\<lambda>w. c \<notin> set w) ws \<Longrightarrow> split_at c (join_with [c] ws) = ws"
proof (induction ws)
  case (Cons w ws)
  then show ?case by (cases ws) (auto simp: split_at_single split_at_append)
qed simp

end
