(* ===== verification/Csr.thy ===== *)
theory Csr
  imports Store_Types Go_Text
begin

text \<open>
  Validation of SPIFFE IDs and certificate-signing requests (internal/csr/csr.go). PEM and
  ASN.1 decoding are parameters: \<open>pem_decode\<close> (encoding/pem) and \<open>parse_request\<close>
  (x509.ParseCertificateRequest), whose result carries what the program reads of it.
\<close>

definition MaxCSRBytes :: nat where "MaxCSRBytes = 16384"
definition MaxSPIFFEIDBytes :: nat where "MaxSPIFFEIDBytes = 2048"

record spiffe_id =
  spTrustDomain :: string
  spPath :: string
  spRaw :: string

definition spiffe_string :: "spiffe_id \<Rightarrow> string" where
  "spiffe_string i = ''spiffe://'' @ spTrustDomain i @ ''/'' @ spPath i"

definition hasControl :: "string \<Rightarrow> bool" where
  "hasControl s = list_ex (\<lambda>c. of_char c < (32::nat) \<or> of_char c = (127::nat)) s"

definition validTrustDomain :: "string \<Rightarrow> bool" where
  "validTrustDomain host = list_all domain_char host"

definition ParseSPIFFEID :: "string \<Rightarrow> spiffe_id result" where
  "ParseSPIFFEID s =
     (if length s = 0 \<or> length s > MaxSPIFFEIDBytes \<or> hasControl s then Inl CsrSPIFFEID
      else
        (case url_parse s of
           None \<Rightarrow> Inl CsrSPIFFEID
         | Some u \<Rightarrow>
             if uScheme u \<noteq> ''spiffe'' \<or> uOpaque u \<noteq> '''' then Inl CsrSPIFFEID
             else if uUser u \<or> uRawQuery u \<noteq> '''' \<or> uForceQuery u \<or> uFragment u \<noteq> '''' then Inl CsrSPIFFEID
             else if snd (splitHostPort (uHost u)) \<noteq> '''' then Inl CsrSPIFFEID
             else
               (let host = fst (splitHostPort (uHost u))
                in if host = '''' \<or> length host > 253 \<or> \<not> validTrustDomain host then Inl CsrSPIFFEID
                   else
                     (let path = TrimPrefix (uPath u) ''/''
                      in if path = '''' \<or> hasControl path then Inl CsrSPIFFEID
                         else Inr \<lparr>spTrustDomain = host, spPath = path, spRaw = s\<rparr>))))"

subsection \<open>Certificate-signing requests\<close>

text \<open>
  The dynamic types \<open>keyStrength\<close> distinguishes, with the bit length of the modulus or curve
  and the encoded key.
\<close>

datatype pubkey = RSAKey nat string | ECDSAKey nat string | Ed25519Key string | OtherKey string

record x509_csr =
  xqRaw :: string
  xqSignatureOK :: bool
  xqKey :: pubkey
  xqDNSNames :: "string list"
  xqURIs :: "string list"

record parsed_csr =
  pcCSR :: x509_csr
  pcDNSNames :: "string list"
  pcURIs :: "string list"
  pcPublicKeyBits :: nat

fun keyStrength :: "pubkey \<Rightarrow> nat result" where
  "keyStrength (RSAKey bits k) = (if bits < 2048 then Inl CsrWeakKey else Inr bits)"
| "keyStrength (ECDSAKey bits k) = (if bits < 256 then Inl CsrWeakKey else Inr bits)"
| "keyStrength (Ed25519Key k) = Inr 256"
| "keyStrength (OtherKey k) = Inl CsrWeakKey"

definition ParseCSR ::
  "(string \<Rightarrow> (string \<times> string) option) \<Rightarrow> (string \<Rightarrow> x509_csr option) \<Rightarrow> string \<Rightarrow> parsed_csr result" where
  "ParseCSR pem_decode parse_request pemBytes =
     (if length pemBytes > MaxCSRBytes then Inl CsrTooLarge
      else
        (case pem_decode pemBytes of
           None \<Rightarrow> Inl CsrParse
         | Some (ty, der) \<Rightarrow>
             if ty \<noteq> ''CERTIFICATE REQUEST'' then Inl CsrParse
             else
               (case parse_request der of
                  None \<Rightarrow> Inl CsrParse
                | Some csr \<Rightarrow>
                    if \<not> xqSignatureOK csr then Inl CsrParse
                    else
                      on_val (keyStrength (xqKey csr)) (\<lambda>bits.
                        Inr \<lparr>pcCSR = csr, pcDNSNames = xqDNSNames csr, pcURIs = xqURIs csr, pcPublicKeyBits = bits\<rparr>))))"

lemma ParseCSR_code [code]:
  "ParseCSR pem_decode parse_request pemBytes =
     (if int (length pemBytes) > 16384 then Inl CsrTooLarge
      else
        (case pem_decode pemBytes of
           None \<Rightarrow> Inl CsrParse
         | Some (ty, der) \<Rightarrow>
             if ty \<noteq> ''CERTIFICATE REQUEST'' then Inl CsrParse
             else
               (case parse_request der of
                  None \<Rightarrow> Inl CsrParse
                | Some csr \<Rightarrow>
                    if \<not> xqSignatureOK csr then Inl CsrParse
                    else
                      on_val (keyStrength (xqKey csr)) (\<lambda>bits.
                        Inr \<lparr>pcCSR = csr, pcDNSNames = xqDNSNames csr, pcURIs = xqURIs csr, pcPublicKeyBits = bits\<rparr>))))"
  by (simp add: ParseCSR_def MaxCSRBytes_def)

definition ValidateSANs :: "string list \<Rightarrow> string list \<Rightarrow> unit result" where
  "ValidateSANs requested csrProvided =
     (let allowed = map lower requested
      in if list_ex (\<lambda>name. lower name \<notin> set allowed) csrProvided then Inl CsrSANs else Inr ())"

definition EncodeChainPEM :: "(string \<Rightarrow> string) \<Rightarrow> string list \<Rightarrow> string" where
  "EncodeChainPEM encodeCertPEM ders = foldl (\<lambda>out der. out @ encodeCertPEM der) [] ders"

subsection \<open>The accepted SPIFFE IDs\<close>

lemma domain_host: "domain_char c \<Longrightarrow> host_char c"
  by (auto simp: domain_char_def host_char_def is_lower_def is_digit_def)

lemma domain_special:
  "\<not> domain_char (CHR ''%'')" "\<not> domain_char (CHR '':'')" "\<not> domain_char (CHR ''/'')" "\<not> domain_char (CHR ''@'')"
  "\<not> domain_char (CHR ''['')" "\<not> domain_char (CHR '']'')" "\<not> domain_char (CHR ''?'')" "\<not> domain_char (CHR ''#'')"
  by (simp_all add: domain_char_def less_eq_char_def)

lemma domain_free:
  assumes "list_all domain_char h"
  shows "CHR ''%'' \<notin> set h" "CHR '':'' \<notin> set h" "CHR ''/'' \<notin> set h" "CHR ''@'' \<notin> set h"
    "CHR ''['' \<notin> set h" "CHR '']'' \<notin> set h" "CHR ''?'' \<notin> set h" "CHR ''#'' \<notin> set h"
  using assms domain_special by (auto simp: list_all_iff)

lemma unescape_host_plain: "list_all host_char h \<Longrightarrow> CHR ''%'' \<notin> set h \<Longrightarrow> unescape_host h = Some h"
  by (induction h) auto

lemma domain_unescape:
  assumes "list_all domain_char h"
  shows "unescape_host h = Some h" "unescape_host (h @ '':'') = Some (h @ '':'')"
proof -
  have host: "list_all host_char h" using assms domain_host by (auto simp: list_all_iff)
  have "host_char (CHR '':'')" by (simp add: host_char_def)
  with host domain_free(1) [OF assms] show "unescape_host h = Some h" "unescape_host (h @ '':'') = Some (h @ '':'')"
    by (auto intro!: unescape_host_plain)
qed

definition plain_char :: "char \<Rightarrow> bool" where
  "plain_char c \<longleftrightarrow> (of_char c :: nat) < 128 \<and> (of_char c :: nat) \<noteq> 37"

lemma domain_plain: "domain_char c \<Longrightarrow> plain_char c"
  by (auto simp: domain_char_def plain_char_def less_eq_char_def)

lemma char_of_escaped:
  assumes "plain_char (char_of (16 * unhex a + unhex b))" "ishex a" "ishex b" "8 \<le> unhex a \<or> (a = CHR ''2'' \<and> b = CHR ''5'')"
  shows False
proof -
  have small: "unhex x < 16" if "ishex x" for x
    using that by (auto simp: ishex_def unhex_def is_digit_def less_eq_char_def)
  have n: "16 * unhex a + unhex b < 256" using small [OF assms(2)] small [OF assms(3)] by linarith
  then have code: "of_char (char_of (16 * unhex a + unhex b)) = 16 * unhex a + unhex b"
    by (simp add: of_char_of)
  have "16 * unhex a + unhex b < 128 \<and> 16 * unhex a + unhex b \<noteq> 37"
    using assms(1) unfolding plain_char_def code .
  moreover have "unhex (CHR ''2'') = 2" "unhex (CHR ''5'') = 5"
    by (simp_all add: unhex_def is_digit_def less_eq_char_def)
  ultimately show False using assms(4) by auto
qed

text \<open>A host that decodes to plain characters was not encoded.\<close>

lemma unescape_host_plain_eq:
  "unescape_host h = Some d \<Longrightarrow> list_all plain_char d \<Longrightarrow> h = d"
proof (induction h arbitrary: d rule: unescape_host.induct)
  case (2 c r)
  show ?case
  proof (cases "c = CHR ''%''")
    case True
    with "2.prems"(1) obtain a b r' where r: "r = a # b # r'" "ishex a" "ishex b" "8 \<le> unhex a \<or> (a = CHR ''2'' \<and> b = CHR ''5'')"
        "hd d = char_of (16 * unhex a + unhex b)" "d \<noteq> []"
      by (auto split: list.splits if_splits)
    with "2.prems"(2) have "plain_char (char_of (16 * unhex a + unhex b))" by (cases d) auto
    with r show ?thesis using char_of_escaped by blast
  next
    case False
    with "2.prems"(1) obtain d' where "d = c # d'" "unescape_host r = Some d'" "\<not> (of_char c < (128::nat) \<and> \<not> host_char c)"
      by (auto split: if_splits)
    with "2.IH"(2) False "2.prems"(2) show ?thesis by simp
  qed
qed simp

lemma split_host_shape:
  assumes "splitHostPort h = (td, '''')"
  shows "h \<in> {td, td @ '':'', CHR ''['' # td @ '']'', CHR ''['' # td @ '']:''}"
proof -
  define x where "x = (if CHR '':'' \<in> set h \<and> validOptionalPort (CHR '':'' # snd (rcut (CHR '':'') h))
             then fst (rcut (CHR '':'') h) else h)"
  have "snd (if CHR '':'' \<in> set h \<and> validOptionalPort (CHR '':'' # snd (rcut (CHR '':'') h))
             then rcut (CHR '':'') h else (h, '''')) = ''''"
    using assms by (auto simp: splitHostPort_def Let_def case_prod_beta)
  then have h: "h = x \<or> h = x @ '':''"
    using rcut_split [of "CHR '':''" h x "''''"] by (cases "rcut (CHR '':'') h") (auto simp: x_def split: if_splits)
  have "td = (if x \<noteq> [] \<and> hd x = CHR ''['' \<and> last x = CHR '']'' then butlast (tl x) else x)"
    using assms by (auto simp: splitHostPort_def x_def Let_def case_prod_beta split: if_splits)
  moreover have "x = CHR ''['' # butlast (tl x) @ '']''" if "x \<noteq> []" "hd x = CHR ''[''" "last x = CHR '']''"
  proof -
    from that obtain y where y: "x = CHR ''['' # y" by (cases x) auto
    with that(3) have "y \<noteq> []" by auto
    with y that(3) have "butlast y @ '']'' = y" using append_butlast_last_id [of y] by simp
    with y show ?thesis by simp
  qed
  ultimately show ?thesis using h by (auto split: if_splits)
qed

lemma host_accepted:
  assumes "td \<noteq> ''''" "list_all domain_char td"
  shows "(\<exists>h. parseHost a = Some h \<and> splitHostPort h = (td, '''')) \<longleftrightarrow> a = td \<or> a = td @ '':''"
proof
  note free = domain_free [OF assms(2)]
  have hd: "hd td \<noteq> CHR ''[''" using assms(1) free(5) by (cases td) auto
  have rc: "rcut (CHR '':'') (td @ '':'') = (td, '''')" using rcut_append [of "CHR '':''" "[]" td] by simp
  show "\<exists>h. parseHost a = Some h \<and> splitHostPort h = (td, '''')" if "a = td \<or> a = td @ '':''"
  proof -
    have "parseHost a = Some a"
      using that hd free assms domain_unescape [OF assms(2)] rc by (auto simp: parseHost_def validOptionalPort_def)
    moreover have "splitHostPort a = (td, '''')"
      using that hd free assms rc by (auto simp: splitHostPort_def validOptionalPort_def)
    ultimately show ?thesis by blast
  qed
  show "a = td \<or> a = td @ '':''" if "\<exists>h. parseHost a = Some h \<and> splitHostPort h = (td, '''')"
  proof -
    from that obtain h where h: "parseHost a = Some h" "splitHostPort h = (td, '''')" by blast
    note shape = split_host_shape [OF h(2)]
    show ?thesis
    proof (cases "a \<noteq> [] \<and> hd a = CHR ''[''")
      case True
      with h(1) have a: "a = h" "CHR '':'' \<in> set (fst (rcut (CHR '']'') h))" by (auto simp: parseHost_def split: if_splits)
      have "rcut (CHR '']'') (CHR ''['' # td @ '']'') = (CHR ''['' # td, '''')"
        "rcut (CHR '']'') (CHR ''['' # td @ '']:'') = (CHR ''['' # td, '':'')"
        using rcut_append [of "CHR '']''" "[]" "CHR ''['' # td"] rcut_append [of "CHR '']''" "'':''" "CHR ''['' # td"] by simp_all
      moreover have "hd td \<noteq> CHR ''[''" "hd (td @ '':'') \<noteq> CHR ''[''" using hd assms(1) by (auto simp: hd_append)
      ultimately show ?thesis using a True shape free by auto
    next
      case False
      with h(1) have "unescape_host a = Some h" by (auto simp: parseHost_def split: if_splits)
      moreover have "list_all plain_char h"
        using shape assms(2) domain_plain by (auto simp: list_all_iff plain_char_def)
      ultimately have "a = h" by (rule unescape_host_plain_eq)
      with False shape show ?thesis by auto
    qed
  qed
qed

lemma lower_char_letter: "is_lower (lower_char c) \<Longrightarrow> is_lower c \<or> is_upper c"
  by (auto simp: lower_char_def is_lower_def is_upper_def less_eq_char_def split: if_splits)

lemma scheme_letters: "lower sch = ''spiffe'' \<Longrightarrow> list_all (\<lambda>c. is_lower c \<or> is_upper c) sch \<and> sch \<noteq> ''''"
proof -
  assume l: "lower sch = ''spiffe''"
  have "list_all is_lower (lower sch)" unfolding l by (simp add: is_lower_def less_eq_char_def)
  then have "list_all (\<lambda>c. is_lower c \<or> is_upper c) sch"
    by (auto simp: lower_def list_all_iff dest: lower_char_letter)
  then show ?thesis using l by auto
qed

lemma no_query:
  assumes "\<not> (rest \<noteq> [] \<and> last rest = CHR ''?'' \<and> length (filter (\<lambda>c. c = CHR ''?'') rest) = 1)"
    and "cut (CHR ''?'') rest = (rest', '''')"
  shows "CHR ''?'' \<notin> set rest \<and> rest' = rest"
proof -
  have "filter (\<lambda>c. c = CHR ''?'') rest' = []" if "CHR ''?'' \<notin> set rest'"
    using that by (auto simp: filter_empty_conv)
  then show ?thesis using cut_split [OF assms(2)] assms(1) by auto
qed

text \<open>The part before the fragment: scheme, authority and path, and nothing else.\<close>

definition url_shape :: "string \<Rightarrow> string \<Rightarrow> string \<Rightarrow> string \<Rightarrow> bool" where
  "url_shape u sch a raw \<longleftrightarrow>
     u = sch @ ''://'' @ a @ raw \<and> lower sch = ''spiffe'' \<and> CHR ''/'' \<notin> set a \<and> CHR ''@'' \<notin> set a
     \<and> CHR ''?'' \<notin> set a \<and> CHR ''?'' \<notin> set raw \<and> (raw = [] \<or> hd raw = CHR ''/'')"

lemma url_parse1_sound:
  assumes "url_parse1 u = Some x" "uScheme x = ''spiffe''" "uOpaque x = ''''" "\<not> uUser x" "uRawQuery x = ''''"
    "\<not> uForceQuery x" "uHost x \<noteq> ''''"
  shows "\<exists>sch a raw. url_shape u sch a raw \<and> parseHost a = Some (uHost x) \<and> unescape raw = Some (uPath x)"
proof -
  have star: "u \<noteq> ''*''" using assms(1,2) by (auto simp: url_parse1_def empty_url_def split: if_splits)
  obtain sch rest where sch: "getScheme u = Some (sch, rest)"
    using assms(1) star by (auto simp: url_parse1_def split: if_splits option.splits)
  let ?force = "rest \<noteq> [] \<and> last rest = CHR ''?'' \<and> length (filter (\<lambda>c. c = CHR ''?'') rest) = 1"
  have force: "\<not> ?force" and q: "snd (cut (CHR ''?'') rest) = ''''" and low: "lower sch = ''spiffe''"
    using assms(1,2,5,6) sch star
    by (auto simp: url_parse1_def Let_def case_prod_beta empty_url_def split: if_splits option.splits)
  have rest: "CHR ''?'' \<notin> set rest" "cut (CHR ''?'') rest = (rest, '''')"
    using no_query [OF force, of "fst (cut (CHR ''?'') rest)"] q by (metis prod.collapse)+
  have "sch \<noteq> ''''" using low by auto
  then have u: "u = sch @ CHR '':'' # rest"
    using scheme_scan_found [OF sch [unfolded getScheme_def]] by simp
  let ?a = "takeWhile (\<lambda>c. c \<noteq> CHR ''/'') (drop 2 rest)" and ?raw = "dropWhile (\<lambda>c. c \<noteq> CHR ''/'') (drop 2 rest)"
  have "uHost x = ''''" if "\<not> has_prefix rest ''//''"
    using assms(1) sch star force rest low that
    by (auto simp: url_parse1_def Let_def empty_url_def split: if_splits option.splits)
  with assms(7) have slashes: "has_prefix rest ''//''" by blast
  then have pre: "rest = ''//'' @ drop 2 rest" by (metis append_take_drop_id has_prefix_def length_Cons list.size(3) numeral_2_eq_2)
  have one: "has_prefix rest ''/''" using pre by (metis append_Cons has_prefix_def length_Cons list.size(3) take0 take_Suc_Cons)
  obtain user host p where pa: "parseAuthority ?a = Some (user, host)" "unescape ?raw = Some p"
      "user = uUser x" "host = uHost x" "p = uPath x"
    using assms(1) sch star force rest low slashes one
    by (auto simp: url_parse1_def Let_def empty_url_def split: if_splits option.splits)
  have at: "CHR ''@'' \<notin> set ?a" "parseHost ?a = Some (uHost x)"
    using pa(1,3,4) assms(4) by (auto simp: parseAuthority_def split: if_splits)
  have "CHR ''?'' \<notin> set ?a" "CHR ''?'' \<notin> set ?raw"
    using rest(1) by (auto dest: set_takeWhileD set_dropWhileD in_set_dropD)
  moreover have "CHR ''/'' \<notin> set ?a" by (auto dest: set_takeWhileD)
  moreover have "?raw = [] \<or> hd ?raw = CHR ''/''" using hd_dropWhile [of "\<lambda>c. c \<noteq> CHR ''/''" "drop 2 rest"] by blast
  moreover have "u = sch @ ''://'' @ ?a @ ?raw" using u pre by (metis append_Cons append_Nil takeWhile_dropWhile_id)
  ultimately show ?thesis using low at pa(2,5) unfolding url_shape_def by blast
qed

lemma slash_split:
  assumes "CHR ''/'' \<notin> set a" "raw = [] \<or> hd raw = CHR ''/''"
  shows "takeWhile (\<lambda>c. c \<noteq> CHR ''/'') (a @ raw) = a \<and> dropWhile (\<lambda>c. c \<noteq> CHR ''/'') (a @ raw) = raw"
  using assms by (cases raw; induction a) auto

lemma url_parse1_complete:
  assumes "url_shape u sch a raw" "\<not> has_ctl u" "parseHost a = Some h" "unescape raw = Some p"
  shows "url_parse1 u = Some (empty_url\<lparr>uScheme := ''spiffe'', uHost := h, uPath := p\<rparr>)"
proof -
  note shape = assms(1) [unfolded url_shape_def]
  have sch: "list_all (\<lambda>c. is_lower c \<or> is_upper c) sch" "sch \<noteq> ''''" using scheme_letters shape by auto
  have scheme: "getScheme u = Some (sch, ''//'' @ a @ raw)"
    using scheme_scan_letters [of sch "[]" u "''//'' @ a @ raw"] sch shape by (simp add: getScheme_def)
  have "CHR ''?'' \<notin> set (''//'' @ a @ raw)" using shape by auto
  note q = cut_none [OF this] this
  have nf: "\<not> (''//'' @ a @ raw \<noteq> [] \<and> last (''//'' @ a @ raw) = CHR ''?''
      \<and> length (filter (\<lambda>c. c = CHR ''?'') (''//'' @ a @ raw)) = 1)"
    using q(2) by (metis last_in_set)
  have star: "u \<noteq> ''*''" using shape sch(2) by (cases sch) auto
  have pre: "has_prefix (''//'' @ a @ raw) ''/''" "has_prefix (''//'' @ a @ raw) ''//''"
    by (simp_all add: has_prefix_def)
  have auth: "parseAuthority a = Some (False, h)" using shape assms(3) by (simp add: parseAuthority_def)
  have parts: "takeWhile (\<lambda>c. c \<noteq> CHR ''/'') (drop 2 (''//'' @ a @ raw)) = a"
      "dropWhile (\<lambda>c. c \<noteq> CHR ''/'') (drop 2 (''//'' @ a @ raw)) = raw"
    using slash_split [of a raw] shape by simp_all
  show ?thesis
    unfolding url_parse1_def scheme option.case prod.case Let_def
    using assms(2,4) star shape nf
    by (simp only: if_False if_True not_False_eq_True q(1) prod.case pre auth parts option.case) (simp add: empty_url_def)
qed

text \<open>The written form of an accepted id, with the trust domain and the decoded path it names.\<close>

definition spiffe_syntax :: "string \<Rightarrow> string \<Rightarrow> string \<Rightarrow> bool" where
  "spiffe_syntax s td path \<longleftrightarrow>
     (\<exists>sch colon raw hash.
        s = sch @ ''://'' @ td @ colon @ ''/'' @ raw @ hash
        \<and> lower sch = ''spiffe'' \<and> colon \<in> {'''', '':''} \<and> hash \<in> {'''', ''#''}
        \<and> CHR ''?'' \<notin> set raw \<and> CHR ''#'' \<notin> set raw \<and> unescape raw = Some path)"

lemma no_fragment:
  assumes "url_parse s = Some x" "uFragment x = ''''" "cut (CHR ''#'') s = (u, frag)"
  shows "frag = '''' \<and> url_parse1 u = Some x"
proof -
  have "frag = ''''"
  proof (rule ccontr)
    assume "frag \<noteq> ''''"
    then obtain f where "unescape frag = Some f" "uFragment x = f"
      using assms(1,3) by (auto simp: url_parse_def split: option.splits)
    moreover have "unescape frag \<noteq> Some ''''" using \<open>frag \<noteq> ''''\<close>
      by (cases frag) (auto split: list.splits if_splits)
    ultimately show False using assms(2) by auto
  qed
  then show ?thesis using assms by (auto simp: url_parse_def split: option.splits)
qed

lemma leading_slash:
  assumes "unescape raw0 = Some p" "raw0 = [] \<or> hd raw0 = CHR ''/''" "TrimPrefix p ''/'' \<noteq> ''''"
  shows "\<exists>raw. raw0 = CHR ''/'' # raw \<and> unescape raw = Some (TrimPrefix p ''/'')"
proof (cases raw0)
  case Nil
  with assms show ?thesis by (simp add: TrimPrefix_def has_prefix_def)
next
  case (Cons c raw)
  with assms(2) have "c = CHR ''/''" by simp
  with Cons assms(1) obtain z where "unescape raw = Some z" "p = CHR ''/'' # z" by auto
  with Cons \<open>c = CHR ''/''\<close> show ?thesis by (simp add: TrimPrefix_def has_prefix_def)
qed

lemma ParseSPIFFEID_sound:
  assumes p: "ParseSPIFFEID s = Inr i"
  shows "spiffe_syntax s (spTrustDomain i) (spPath i)" "ValidTrustDomain (spTrustDomain i)" "spPath i \<noteq> ''''"
    "\<not> hasControl (spPath i)" "\<not> hasControl s" "length s \<le> MaxSPIFFEIDBytes" "spRaw i = s"
proof -
  obtain x where x: "url_parse s = Some x" and len: "s \<noteq> ''''" "length s \<le> MaxSPIFFEIDBytes" "\<not> hasControl s"
    using p by (auto simp: ParseSPIFFEID_def split: if_splits option.splits)
  have cond: "uScheme x = ''spiffe''" "uOpaque x = ''''" "\<not> uUser x" "uRawQuery x = ''''" "\<not> uForceQuery x" "uFragment x = ''''"
      "splitHostPort (uHost x) = (spTrustDomain i, '''')" "spTrustDomain i \<noteq> ''''" "length (spTrustDomain i) \<le> 253"
      "validTrustDomain (spTrustDomain i)" "spPath i = TrimPrefix (uPath x) ''/''" "spPath i \<noteq> ''''" "\<not> hasControl (spPath i)"
      "spRaw i = s"
    using p x by (auto simp: ParseSPIFFEID_def Let_def prod_eq_iff split: if_splits)
  obtain u frag where uf: "cut (CHR ''#'') s = (u, frag)" by (cases "cut (CHR ''#'') s")
  note nf = no_fragment [OF x cond(6) uf]
  then obtain hash where hash: "s = u @ hash" "hash \<in> {'''', ''#''}" "CHR ''#'' \<notin> set u"
    using cut_split [OF uf] by auto
  have "uHost x \<noteq> ''''" using cond(7,8) by (auto simp: splitHostPort_def)
  then obtain sch a raw0 where shape: "url_shape u sch a raw0" "parseHost a = Some (uHost x)" "unescape raw0 = Some (uPath x)"
    using url_parse1_sound nf cond(1-5) by blast
  have "a = spTrustDomain i \<or> a = spTrustDomain i @ '':''"
    using host_accepted [OF cond(8), of a] cond(7,10) shape(2) unfolding validTrustDomain_def by blast
  then have "\<exists>colon. a = spTrustDomain i @ colon \<and> colon \<in> {'''', '':''}" by (elim disjE) simp_all
  then obtain colon where colon: "a = spTrustDomain i @ colon" "colon \<in> {'''', '':''}" by blast
  have sh: "u = sch @ ''://'' @ a @ raw0" "lower sch = ''spiffe''" "CHR ''?'' \<notin> set raw0" "raw0 = [] \<or> hd raw0 = CHR ''/''"
    using shape(1) by (simp_all add: url_shape_def)
  obtain raw where raw: "raw0 = CHR ''/'' # raw" "unescape raw = Some (spPath i)"
    using leading_slash [OF shape(3) sh(4)] cond(11,12) by metis
  have "s = sch @ ''://'' @ spTrustDomain i @ colon @ ''/'' @ raw @ hash" using hash(1) sh(1) colon(1) raw(1) by simp
  moreover have "CHR ''?'' \<notin> set raw" "CHR ''#'' \<notin> set raw" using sh(1,3) hash(3) raw(1) by auto
  ultimately show "spiffe_syntax s (spTrustDomain i) (spPath i)"
    unfolding spiffe_syntax_def using sh(2) colon(2) hash(2) raw(2) by blast
  show "ValidTrustDomain (spTrustDomain i)" using cond(8-10) by (simp add: ValidTrustDomain_def validTrustDomain_def)
  show "spPath i \<noteq> ''''" "\<not> hasControl (spPath i)" "\<not> hasControl s" "length s \<le> MaxSPIFFEIDBytes" "spRaw i = s"
    by (fact cond(12), fact cond(13), fact len(3), fact len(2), fact cond(14))
qed

lemma ParseSPIFFEID_complete:
  assumes "spiffe_syntax s td path" "ValidTrustDomain td" "path \<noteq> ''''" "\<not> hasControl path"
    "\<not> hasControl s" "length s \<le> MaxSPIFFEIDBytes"
  shows "ParseSPIFFEID s = Inr \<lparr>spTrustDomain = td, spPath = path, spRaw = s\<rparr>"
proof -
  obtain sch colon raw hash where sh: "s = sch @ ''://'' @ td @ colon @ ''/'' @ raw @ hash" "lower sch = ''spiffe''"
      "colon \<in> {'''', '':''}" "hash \<in> {'''', ''#''}" "CHR ''?'' \<notin> set raw" "CHR ''#'' \<notin> set raw" "unescape raw = Some path"
    using assms(1) unfolding spiffe_syntax_def by blast
  let ?u = "sch @ ''://'' @ (td @ colon) @ CHR ''/'' # raw"
  have td: "td \<noteq> ''''" "list_all domain_char td" "length td \<le> 253"
    using assms(2) by (auto simp: ValidTrustDomain_def)
  note free = domain_free [OF td(2)]
  obtain h where h: "parseHost (td @ colon) = Some h" "splitHostPort h = (td, '''')"
    using host_accepted [OF td(1,2), of "td @ colon"] sh(3) by auto
  have schs: "CHR ''#'' \<notin> set sch"
    using scheme_letters [OF sh(2)] by (auto simp: list_all_iff is_lower_def is_upper_def less_eq_char_def)
  have shape: "url_shape ?u sch (td @ colon) (CHR ''/'' # raw)"
    using sh free by (auto simp: url_shape_def)
  have s: "s = ?u @ hash" using sh(1) by simp
  have ctl: "\<not> has_ctl ?u" using assms(5) unfolding s by (simp add: hasControl_def has_ctl_def)
  have "unescape (CHR ''/'' # raw) = Some (CHR ''/'' # path)" using sh(7) by simp
  from url_parse1_complete [OF shape ctl h(1) this] have
    u1: "url_parse1 ?u = Some (empty_url\<lparr>uScheme := ''spiffe'', uHost := h, uPath := CHR ''/'' # path\<rparr>)" .
  have "CHR ''#'' \<notin> set ?u" using sh free schs by auto
  then have "cut (CHR ''#'') s = (?u, '''')"
    unfolding s using sh(4) cut_none [of "CHR ''#''" ?u] cut_append [of "CHR ''#''" ?u "''''"] by auto
  then have "url_parse s = Some (empty_url\<lparr>uScheme := ''spiffe'', uHost := h, uPath := CHR ''/'' # path\<rparr>)"
    using u1 by (simp add: url_parse_def)
  then show ?thesis
    using assms td h(2) s by (auto simp: ParseSPIFFEID_def empty_url_def TrimPrefix_def has_prefix_def validTrustDomain_def)
qed

text \<open>
  C27. The accepted SPIFFE IDs, exactly: a scheme spelling \<open>spiffe\<close> in any letter case, a valid
  trust domain, optionally an empty port (a bare colon), a percent-decodable path that is not
  empty and has no control characters once decoded, optionally an empty fragment (a bare
  hash sign), within the size bound. Nothing with userinfo, a port, a query or a fragment
  is accepted.
\<close>

theorem ParseSPIFFEID_iff:
  "ParseSPIFFEID s = Inr i \<longleftrightarrow>
     spiffe_syntax s (spTrustDomain i) (spPath i)
     \<and> ValidTrustDomain (spTrustDomain i) \<and> spPath i \<noteq> '''' \<and> \<not> hasControl (spPath i)
     \<and> \<not> hasControl s \<and> length s \<le> MaxSPIFFEIDBytes \<and> spRaw i = s"
  using ParseSPIFFEID_sound ParseSPIFFEID_complete [of s "spTrustDomain i" "spPath i"] by auto

lemma unescape_plain: "CHR ''%'' \<notin> set s \<Longrightarrow> unescape s = Some s"
  by (induction s) auto

text \<open>
  C28. Round trip: the canonical form of an accepted id is accepted again and names the same
  trust domain and path, provided the decoded path has no percent, question or hash sign
  and the canonical form fits the size bound. (An id whose encoded path hides one of these
  signs does not survive its canonical form.)
\<close>

theorem spiffe_string_roundtrip:
  assumes "ParseSPIFFEID s = Inr i" "set (spPath i) \<inter> set ''%?#'' = {}" "length (spiffe_string i) \<le> MaxSPIFFEIDBytes"
  shows "ParseSPIFFEID (spiffe_string i) = Inr (i\<lparr>spRaw := spiffe_string i\<rparr>)"
proof -
  note snd = ParseSPIFFEID_sound [OF assms(1)]
  have "spiffe_syntax (spiffe_string i) (spTrustDomain i) (spPath i)"
    unfolding spiffe_syntax_def spiffe_string_def using assms(2) unescape_plain [of "spPath i"]
    by (intro exI [of _ "''spiffe''"] exI [of _ "''''"] exI [of _ "spPath i"]) (simp add: lower_def lower_char_def)
  moreover have "\<not> hasControl (spiffe_string i)"
    using snd(2,4) by (auto simp: hasControl_def spiffe_string_def list_ex_iff ValidTrustDomain_def list_all_iff domain_char_def less_eq_char_def)
  ultimately show ?thesis
    using ParseSPIFFEID_complete [of "spiffe_string i" "spTrustDomain i" "spPath i"] snd assms(3) by simp
qed

theorem spiffe_string_roundtrip_witness:
  "ParseSPIFFEID ''SPIFFE://td:/a%20b#'' = Inr \<lparr>spTrustDomain = ''td'', spPath = ''a b'', spRaw = ''SPIFFE://td:/a%20b#''\<rparr>
   \<and> ParseSPIFFEID ''spiffe://td/a b'' = Inr \<lparr>spTrustDomain = ''td'', spPath = ''a b'', spRaw = ''spiffe://td/a b''\<rparr>"
proof -
  have p: "ParseSPIFFEID ''SPIFFE://td:/a%20b#'' = Inr \<lparr>spTrustDomain = ''td'', spPath = ''a b'', spRaw = ''SPIFFE://td:/a%20b#''\<rparr>"
    by code_simp
  from spiffe_string_roundtrip [OF p] show ?thesis
    using p by (simp add: spiffe_string_def MaxSPIFFEIDBytes_def)
qed



end
