(* ===== verification/Go_Json.thy ===== *)
theory Go_Json
  imports Store_Types Go_Text
begin

text \<open>
  The part of \<open>encoding/json\<close> the sources use on settings: \<open>Marshal\<close> of a value held by \<open>any\<close>
  (object keys sorted, strings with the HTML-safe escapes) and \<open>Unmarshal\<close> into one. A
  string is a byte string; an ill-formed UTF-8 byte becomes U+FFFD on both ways, as in Go.
\<close>

subsection \<open>Marshal\<close>

definition escape_char :: "char \<Rightarrow> string" where
  "escape_char c =
     (let b = (of_char c :: nat)
      in if c = CHR 0x22 \<or> c = CHR 0x5C then [CHR 0x5C, c]
         else if b = 8 then [CHR 0x5C, CHR ''b'']
         else if b = 9 then [CHR 0x5C, CHR ''t'']
         else if b = 10 then [CHR 0x5C, CHR ''n'']
         else if b = 12 then [CHR 0x5C, CHR ''f'']
         else if b = 13 then [CHR 0x5C, CHR ''r'']
         else if b < 32 \<or> c = CHR ''<'' \<or> c = CHR ''>'' \<or> c = CHR ''&''
           then [CHR 0x5C, CHR ''u'', CHR ''0'', CHR ''0'', hex_char (b div 16), hex_char (b mod 16)]
         else [c])"

definition line_separator :: "string \<Rightarrow> bool" where
  "line_separator s \<longleftrightarrow> map (of_char :: char \<Rightarrow> nat) (take 2 s) = [226, 128]
     \<and> 2 < length s \<and> (of_char (s ! 2) :: nat) \<in> {168, 169}"

function json_chars :: "string \<Rightarrow> string" where
  "json_chars s =
     (if s = [] then []
      else if (of_char (hd s) :: nat) < 128 then escape_char (hd s) @ json_chars (tl s)
      else if rune_width s = 0 then CHR 0x5C # ''ufffd'' @ json_chars (tl s)
      else if line_separator s
        then CHR 0x5C # ''u202'' @ [hex_char ((of_char (s ! 2) :: nat) mod 16)] @ json_chars (drop 3 s)
      else take (rune_width s) s @ json_chars (drop (rune_width s) s))"
  by pat_completeness auto
termination by (relation "measure length") auto

declare json_chars.simps [simp del]

definition json_string :: "string \<Rightarrow> string" where
  "json_string s = CHR 0x22 # json_chars s @ [CHR 0x22]"

definition json_int :: "int \<Rightarrow> string" where
  "json_int n = (if n < 0 then CHR ''-'' # dec (nat (- n)) else dec (nat n))"

fun json_enc :: "jval \<Rightarrow> string" where
  "json_enc JNull = ''null''"
| "json_enc (JBool b) = (if b then ''true'' else ''false'')"
| "json_enc (JNum n) = json_int n"
| "json_enc (JReal x) = x"
| "json_enc (JStr s) = json_string s"
| "json_enc (JArr vs) = ''['' @ join_with '','' (map json_enc vs) @ '']''"
| "json_enc (JObj fs) =
     ''{'' @ join_with '','' (map snd (sort_key fst (map (\<lambda>(k, v). (k, json_string k @ '':'' @ json_enc v)) fs))) @ ''}''"

subsection \<open>Unmarshal\<close>

definition json_space :: "char \<Rightarrow> bool" where
  "json_space c \<longleftrightarrow> c \<in> {CHR '' '', CHR 0x09, CHR 0x0A, CHR 0x0D}"

abbreviation skip_ws :: "string \<Rightarrow> string" where
  "skip_ws s \<equiv> dropWhile json_space s"

text \<open>The UTF-8 encoding of a code point, U+FFFD for a surrogate.\<close>

definition utf8_of :: "nat \<Rightarrow> string" where
  "utf8_of n = map char_of
     (if n < 128 then [n]
      else if n < 2048 then [192 + n div 64, 128 + n mod 64]
      else if 55296 \<le> n \<and> n < 57344 then [239, 191, 189]
      else if n < 65536 then [224 + n div 4096, 128 + n div 64 mod 64, 128 + n mod 64]
      else [240 + n div 262144, 128 + n div 4096 mod 64, 128 + n div 64 mod 64, 128 + n mod 64])"

definition hex4 :: "string \<Rightarrow> nat option" where
  "hex4 s = (if 4 \<le> length s \<and> list_all ishex (take 4 s)
             then Some (foldl (\<lambda>n c. 16 * n + unhex c) 0 (take 4 s)) else None)"

definition simple_escape :: "char \<Rightarrow> char option" where
  "simple_escape e =
     (if e = CHR 0x22 \<or> e = CHR 0x5C \<or> e = CHR ''/'' then Some e
      else if e = CHR ''b'' then Some (CHR 0x08)
      else if e = CHR ''f'' then Some (CHR 0x0C)
      else if e = CHR ''n'' then Some (CHR 0x0A)
      else if e = CHR ''r'' then Some (CHR 0x0D)
      else if e = CHR ''t'' then Some (CHR 0x09)
      else None)"

text \<open>The second half of a surrogate pair, as \<open>\\uXXXX\<close>.\<close>

definition low_surrogate :: "string \<Rightarrow> nat option" where
  "low_surrogate s =
     (case s of
        a # b # r \<Rightarrow> if a = CHR 0x5C \<and> b = CHR ''u''
          then (case hex4 r of Some n \<Rightarrow> if 56320 \<le> n \<and> n < 57344 then Some n else None | None \<Rightarrow> None) else None
      | _ \<Rightarrow> None)"

abbreviation prepend :: "string \<Rightarrow> (string \<times> string) option \<Rightarrow> (string \<times> string) option" where
  "prepend w r \<equiv> map_option (\<lambda>(x, rest). (w @ x, rest)) r"

text \<open>The body of a string literal up to its closing quote.\<close>

function p_str :: "string \<Rightarrow> (string \<times> string) option" where
  "p_str s =
     (if s = [] then None
      else if hd s = CHR 0x22 then Some ([], tl s)
      else if hd s = CHR 0x5C then
        (if tl s = [] then None
         else if s ! 1 = CHR ''u'' then
           (case hex4 (drop 2 s) of
              None \<Rightarrow> None
            | Some n \<Rightarrow>
                (case (if 55296 \<le> n \<and> n < 56320 then low_surrogate (drop 6 s) else None) of
                   Some m \<Rightarrow> prepend (utf8_of (65536 + (n - 55296) * 1024 + (m - 56320))) (p_str (drop 12 s))
                 | None \<Rightarrow> prepend (utf8_of n) (p_str (drop 6 s))))
         else
           (case simple_escape (s ! 1) of
              None \<Rightarrow> None
            | Some c \<Rightarrow> prepend [c] (p_str (drop 2 s))))
      else if (of_char (hd s) :: nat) < 32 then None
      else if rune_width s = 0 then prepend replacement (p_str (tl s))
      else prepend (take (rune_width s) s) (p_str (drop (rune_width s) s)))"
  by pat_completeness auto
termination by (relation "measure length") auto

declare p_str.simps [simp del]

text \<open>A number literal; an integer one is read as \<open>JNum\<close>.\<close>

definition p_num :: "string \<Rightarrow> (jval \<times> string) option" where
  "p_num s =
     (let neg = (s \<noteq> [] \<and> hd s = CHR ''-''); r = (if neg then tl s else s);
          ds = takeWhile is_digit r; r1 = dropWhile is_digit r
      in if ds = [] \<or> (hd ds = CHR ''0'' \<and> length ds > 1) then None
         else
           (let fr = (if r1 \<noteq> [] \<and> hd r1 = CHR ''.'' then Some (takeWhile is_digit (tl r1)) else None);
                r2 = (if fr = None then r1 else dropWhile is_digit (tl r1));
                ex = r2 \<noteq> [] \<and> (hd r2 = CHR ''e'' \<or> hd r2 = CHR ''E'');
                sg = ex \<and> tl r2 \<noteq> [] \<and> (r2 ! 1 = CHR ''+'' \<or> r2 ! 1 = CHR ''-'');
                r3 = (if \<not> ex then r2 else if sg then drop 2 r2 else tl r2);
                r4 = (if ex then dropWhile is_digit r3 else r2)
            in if fr = Some [] \<or> (ex \<and> takeWhile is_digit r3 = []) then None
               else if fr = None \<and> \<not> ex \<and> \<not> (neg \<and> ds = ''0'')
                 then Some (JNum (if neg then - int (undec ds) else int (undec ds)), r4)
               else Some (JReal (take (length s - length r4) s), r4)))"

definition p_word :: "string \<Rightarrow> jval \<Rightarrow> string \<Rightarrow> (jval \<times> string) option" where
  "p_word word v s = (if has_prefix s word then Some (v, drop (length word) s) else None)"

text \<open>
  Values, the elements of an array and the members of an object. The fuel bounds the depth
  of the calls; each call reads a byte, so the length of the input is enough.
\<close>

fun p_value :: "nat \<Rightarrow> string \<Rightarrow> (jval \<times> string) option"
  and p_elems :: "nat \<Rightarrow> jval list \<Rightarrow> string \<Rightarrow> (jval \<times> string) option"
  and p_members :: "nat \<Rightarrow> (string \<times> jval) list \<Rightarrow> string \<Rightarrow> (jval \<times> string) option" where
  "p_value 0 s = None"
| "p_value (Suc n) s =
     (case skip_ws s of
        [] \<Rightarrow> None
      | c # r \<Rightarrow>
          if c = CHR ''{'' then
            (case skip_ws r of
               [] \<Rightarrow> None
             | d # r' \<Rightarrow> if d = CHR ''}'' then Some (JObj [], r') else p_members n [] (d # r'))
          else if c = CHR ''['' then
            (case skip_ws r of
               [] \<Rightarrow> None
             | d # r' \<Rightarrow> if d = CHR '']'' then Some (JArr [], r') else p_elems n [] (d # r'))
          else if c = CHR 0x22 then map_option (\<lambda>(x, rest). (JStr x, rest)) (p_str r)
          else if c = CHR ''t'' then p_word ''true'' (JBool True) (c # r)
          else if c = CHR ''f'' then p_word ''false'' (JBool False) (c # r)
          else if c = CHR ''n'' then p_word ''null'' JNull (c # r)
          else p_num (c # r))"
| "p_elems 0 vs s = None"
| "p_elems (Suc n) vs s =
     (case p_value n s of
        None \<Rightarrow> None
      | Some (v, r) \<Rightarrow>
          (case skip_ws r of
             [] \<Rightarrow> None
           | d # r' \<Rightarrow>
               if d = CHR '','' then p_elems n (vs @ [v]) r'
               else if d = CHR '']'' then Some (JArr (vs @ [v]), r')
               else None))"
| "p_members 0 fs s = None"
| "p_members (Suc n) fs s =
     (case skip_ws s of
        [] \<Rightarrow> None
      | q # r \<Rightarrow>
          if q \<noteq> CHR 0x22 then None
          else
            (case p_str r of
               None \<Rightarrow> None
             | Some (k, r1) \<Rightarrow>
                 (case skip_ws r1 of
                    [] \<Rightarrow> None
                  | e # r2 \<Rightarrow>
                      if e \<noteq> CHR '':'' then None
                      else
                        (case p_value n r2 of
                           None \<Rightarrow> None
                         | Some (v, r3) \<Rightarrow>
                             (case skip_ws r3 of
                                [] \<Rightarrow> None
                              | d # r4 \<Rightarrow>
                                  if d = CHR '','' then p_members n (AList.update k v fs) r4
                                  else if d = CHR ''}'' then Some (JObj (AList.update k v fs), r4)
                                  else None)))))"

definition json_dec :: "string \<Rightarrow> jval option" where
  "json_dec s =
     (case p_value (Suc (length s)) s of
        Some (v, r) \<Rightarrow> if skip_ws r = [] then Some v else None
      | None \<Rightarrow> None)"

end
