(* ===== verification/Go_Json_Props.thy ===== *)
theory Go_Json_Props
  imports Go_Json
begin

text \<open>
  Reading back what \<open>Marshal\<close> wrote: a value whose strings are well-formed UTF-8 and whose
  objects have distinct keys comes back with the members of every object in key order.
\<close>

subsection \<open>Strings\<close>

lemma rune_width_take:
  assumes "rune_width s = w" "w \<noteq> 0"
  shows "rune_width (take w s @ t) = w"
proof (cases s)
  case (Cons c s')
  show ?thesis
  proof (cases "rune_need (of_char c) \<le> 1")
    case True
    then show ?thesis using assms Cons by (cases w) (auto simp: rune_width.simps Let_def)
  next
    case False
    then obtain k where n: "rune_need (of_char c) = Suc (Suc k)" by (metis One_nat_def Suc_le_mono le0 not0_implies_Suc)
    then have w: "w = Suc (Suc k)" "Suc k \<le> length s'" "second_ok (of_char c) (of_char (hd s'))"
      "list_all (\<lambda>x. 128 \<le> (of_char x :: nat) \<and> (of_char x :: nat) \<le> 191) (take k (tl s'))"
      using assms Cons by (auto simp: rune_width.simps Let_def split: if_splits)
    then obtain d s'' where s': "s' = d # s''" by (cases s') auto
    show ?thesis using w n by (simp add: Cons s' rune_width.simps)
  qed
qed (use assms in simp)

lemma hex_char_props:
  assumes "n < 16"
  shows "ishex (hex_char n)" "unhex (hex_char n) = n"
proof -
  have "list_all (\<lambda>n. ishex (hex_char n) \<and> unhex (hex_char n) = n) [0..<16]" by code_simp
  with assms show "ishex (hex_char n)" "unhex (hex_char n) = n" by (simp_all add: list_all_iff)
qed

text \<open>The three forms an ASCII character is written in.\<close>

definition escape_form :: "char \<Rightarrow> bool" where
  "escape_form c \<longleftrightarrow>
     escape_char c = [c] \<and> 32 \<le> (of_char c :: nat) \<and> c \<noteq> CHR 0x22 \<and> c \<noteq> CHR 0x5C
     \<or> (case escape_char c of [a, e] \<Rightarrow> a = CHR 0x5C \<and> e \<noteq> CHR ''u'' \<and> simple_escape e = Some c | _ \<Rightarrow> False)
     \<or> escape_char c = [CHR 0x5C, CHR ''u'', CHR ''0'', CHR ''0'', hex_char (of_char c div 16), hex_char (of_char c mod 16)]"

lemma escape_forms:
  assumes "of_char c < (128 :: nat)"
  shows "escape_form c"
proof -
  have control: "char_of (8 :: nat) = CHR 0x08" "char_of (9 :: nat) = CHR 0x09" "char_of (10 :: nat) = CHR 0x0A"
    "char_of (12 :: nat) = CHR 0x0C" "char_of (13 :: nat) = CHR 0x0D"
    by code_simp+
  have inv: "c = char_of n" if "of_char c = n" for n :: nat using that by auto
  have byte: "c \<in> {CHR 0x08, CHR 0x09, CHR 0x0A, CHR 0x0C, CHR 0x0D}" if "(of_char c :: nat) \<in> {8, 9, 10, 12, 13}"
    using that control inv [of 8] inv [of 9] inv [of 10] inv [of 12] inv [of 13] by auto
  consider "c \<in> {CHR 0x22, CHR 0x5C, CHR 0x08, CHR 0x09, CHR 0x0A, CHR 0x0C, CHR 0x0D}"
    | "c \<notin> {CHR 0x22, CHR 0x5C}" "(of_char c :: nat) \<notin> {8, 9, 10, 12, 13}"
    using byte by blast
  then show ?thesis
  proof cases
    case 1
    then show ?thesis by (elim insertE) (simp_all add: escape_form_def escape_char_def simple_escape_def)
  next
    case 2
    then show ?thesis by (simp add: escape_form_def escape_char_def Let_def)
  qed
qed

lemma p_str_unicode:
  assumes "h < 16" "l < 16" "t = utf8_of (base + 16 * h + l)" "base + 16 * h + l < 55296"
    and "list_all ishex [a, b]" "base = 4096 * unhex a + 256 * unhex b"
  shows "p_str (CHR 0x5C # CHR ''u'' # a # b # hex_char h # hex_char l # rest) = prepend t (p_str rest)"
proof -
  have "hex4 (a # b # hex_char h # hex_char l # rest) = Some (base + 16 * h + l)"
    using assms hex_char_props [of h] hex_char_props [of l] by (simp add: hex4_def)
  then show ?thesis using assms(3,4) by (subst p_str.simps) simp
qed

lemma p_str_escape:
  assumes "of_char c < (128 :: nat)"
  shows "p_str (escape_char c @ rest) = prepend [c] (p_str rest)"
proof -
  define b where "b = (of_char c :: nat)"
  have c: "c = char_of b" by (simp add: b_def)
  consider (plain) "escape_char c = [c]" "32 \<le> b" "c \<noteq> CHR 0x22" "c \<noteq> CHR 0x5C"
    | (simple) e where "escape_char c = [CHR 0x5C, e]" "simple_escape e = Some c" "e \<noteq> CHR ''u''"
    | (unicode) "escape_char c = [CHR 0x5C, CHR ''u'', CHR ''0'', CHR ''0'', hex_char (b div 16), hex_char (b mod 16)]"
    using escape_forms [OF assms] unfolding escape_form_def b_def by (auto split: list.splits)
  then show ?thesis
  proof cases
    case plain
    then show ?thesis using assms by (subst p_str.simps) (simp add: b_def)
  next
    case simple
    then show ?thesis by (subst p_str.simps) simp
  next
    case unicode
    have "b div 16 < 16" "b mod 16 < 16" "b < 128" using assms by (auto simp: b_def)
    then have "p_str (CHR 0x5C # CHR ''u'' # CHR ''0'' # CHR ''0'' # hex_char (b div 16) # hex_char (b mod 16) # rest) =
        prepend (utf8_of b) (p_str rest)"
      by (intro p_str_unicode [where base = 0]) (simp_all add: ishex_def unhex_def is_digit_def less_eq_char_def)
    moreover have "utf8_of b = [c]" using \<open>b < 128\<close> by (simp add: utf8_of_def c)
    ultimately show ?thesis unfolding unicode by simp
  qed
qed

lemma of_char_inv: "of_char c = (n :: nat) \<Longrightarrow> c = char_of n"
  by auto

lemma p_str_separator:
  assumes "line_separator s"
  shows "p_str (CHR 0x5C # ''u202'' @ [hex_char ((of_char (s ! 2) :: nat) mod 16)] @ rest) = prepend (take 3 s) (p_str rest)"
    and "rune_width s = 3"
proof -
  obtain a b c s' where s: "s = a # b # c # s'" "of_char a = (226 :: nat)" "of_char b = (128 :: nat)" "of_char c = (168 :: nat) \<or> of_char c = (169 :: nat)"
    using assms by (cases s; cases "tl s"; cases "tl (tl s)") (auto simp: line_separator_def)
  define l where "l = (of_char c :: nat) mod 16"
  have l: "l < 16" "(of_char c :: nat) = 160 + l" "8200 + l = 8192 + 16 * 0 + (8 + l)" using s(4) by (auto simp: l_def)
  have abc: "a = char_of (226 :: nat)" "b = char_of (128 :: nat)" "c = char_of (160 + l)"
    using of_char_inv [OF s(2)] of_char_inv [OF s(3)] of_char_inv [OF l(2)] by simp_all
  have l2: "l = 8 \<or> l = 9" using s(4) by (auto simp: l_def)
  have "p_str (CHR 0x5C # CHR ''u'' # CHR ''2'' # CHR ''0'' # hex_char 2 # hex_char l # rest) =
      prepend (take 3 s) (p_str rest)"
    using l(1) l2
    by (intro p_str_unicode [where base = 8192])
      (auto simp: ishex_def unhex_def is_digit_def less_eq_char_def utf8_of_def s(1) abc)
  moreover have "hex_char 2 = CHR ''2''" by code_simp
  ultimately show "p_str (CHR 0x5C # ''u202'' @ [hex_char ((of_char (s ! 2) :: nat) mod 16)] @ rest) = prepend (take 3 s) (p_str rest)"
    by (simp add: s(1) l_def)
  show "rune_width s = 3" using s by (auto simp: rune_width.simps rune_need_def second_ok_def)
qed

lemma prepend_Some: "prepend w (Some (x, r)) = Some (w @ x, r)"
  by simp

lemma p_str_copy:
  assumes "x \<noteq> []" "hd x \<noteq> CHR 0x22" "hd x \<noteq> CHR 0x5C" "\<not> (of_char (hd x) :: nat) < 32" "rune_width x \<noteq> 0"
  shows "p_str x = prepend (take (rune_width x) x) (p_str (drop (rune_width x) x))"
  using assms by (subst p_str.simps) simp

lemma p_str_chars: "valid_utf8 s \<Longrightarrow> p_str (json_chars s @ CHR 0x22 # rest) = Some (s, rest)"
proof (induction s rule: json_chars.induct)
  case (1 s)
  show ?case
  proof (cases "s = []")
    case True
    then show ?thesis by (simp add: json_chars.simps [of "[]"] p_str.simps [of "CHR 0x22 # rest"])
  next
    case False
    then obtain c t where s: "s = c # t" by (cases s) auto
    let ?w = "rune_width s"
    have v: "?w \<noteq> 0" "valid_utf8 (drop ?w s)" using "1.prems" False by (simp_all add: valid_utf8.simps [of s] split: if_splits)
    show ?thesis
    proof (cases "(of_char c :: nat) < 128")
      case True
      then have "valid_utf8 t" "json_chars s = escape_char c @ json_chars t"
        using v by (simp_all add: s json_chars.simps [of "c # t"])
      then show ?thesis using "1.IH"(1) True p_str_escape [OF True] by (simp add: s)
    next
      case high: False
      show ?thesis
      proof (cases "line_separator s")
        case True
        have j: "json_chars s = CHR 0x5C # ''u202'' @ [hex_char ((of_char (s ! 2) :: nat) mod 16)] @ json_chars (drop 3 s)"
          using True high v(1) by (subst json_chars.simps) (simp add: s)
        have "p_str (json_chars (drop 3 s) @ CHR 0x22 # rest) = Some (drop 3 s, rest)"
          using "1.IH"(3) True high v p_str_separator(2) [OF True] by (simp add: s)
        then show ?thesis
          unfolding j using p_str_separator(1) [OF True, of "json_chars (drop 3 s) @ CHR 0x22 # rest"] by simp
      next
        case False
        have j: "json_chars s = take ?w s @ json_chars (drop ?w s)"
          using False high v(1) by (subst json_chars.simps) (simp add: s)
        have IH: "p_str (json_chars (drop ?w s) @ CHR 0x22 # rest) = Some (drop ?w s, rest)"
          using "1.IH"(4) False high v by (simp add: s)
        let ?all = "take ?w s @ json_chars (drop ?w s) @ CHR 0x22 # rest"
        have w: "rune_width ?all = ?w" by (rule rune_width_take) (use v in auto)
        have hd: "?all \<noteq> []" "hd ?all = c" "c \<noteq> CHR 0x22" "c \<noteq> CHR 0x5C" "\<not> (of_char c :: nat) < 32"
          using v(1) high by (auto simp: s take_Cons')
        have "length (take ?w s) = ?w" using rune_width_le [of s] by simp
        then have eqs: "take ?w ?all = take ?w s" "drop ?w ?all = json_chars (drop ?w s) @ CHR 0x22 # rest" by simp_all
        have "p_str ?all = prepend (take (rune_width ?all) ?all) (p_str (drop (rune_width ?all) ?all))"
          by (rule p_str_copy) (use hd v(1) in \<open>simp_all only: w hd(2) not_False_eq_True\<close>)
        also have "\<dots> = Some (s, rest)" unfolding w eqs IH prepend_Some by simp
        finally show ?thesis unfolding j append_assoc .
      qed
    qed
  qed
qed

subsection \<open>Numbers\<close>

lemma dec_0: "dec 0 = ''0''"
  by code_simp

lemma digit_char: "d < 10 \<Longrightarrow> is_digit (char_of (d + 48))" for d :: nat
proof -
  assume "d < 10"
  moreover have "list_all (\<lambda>d. is_digit (char_of (d + 48))) [0..<10 :: nat]" by code_simp
  ultimately show ?thesis by (simp add: list_all_iff)
qed

lemma dec_digits: "list_all is_digit (dec n)" "dec n \<noteq> []"
proof -
  show "list_all is_digit (dec n)"
    by (induction n rule: dec.induct) (subst dec.simps, simp add: digit_char)
  show "dec n \<noteq> []" by (subst dec.simps) simp
qed

lemma dec_hd: "hd (dec n) = CHR ''0'' \<Longrightarrow> n = 0"
proof (induction n rule: dec.induct)
  case (1 n)
  show ?case
  proof (cases "n < 10")
    case True
    with "1.prems" have "char_of (n + 48) = CHR ''0''" by (subst (asm) dec.simps) simp
    then have "(of_char (char_of (n + 48) :: char) :: nat) = 48" by simp
    then show ?thesis using True by (simp add: of_char_of)
  next
    case False
    then have "hd (dec (n div 10)) = CHR ''0''" using "1.prems" dec_digits(2) [of "n div 10"] by (subst (asm) dec.simps) simp
    with "1.IH" False show ?thesis by auto
  qed
qed

text \<open>What may follow a value: the end, a comma or a closing bracket.\<close>

definition ends :: "string \<Rightarrow> bool" where
  "ends r \<longleftrightarrow> r = [] \<or> hd r \<in> {CHR '','', CHR '']'', CHR ''}''}"

lemma takeWhile_dec:
  assumes "ends r"
  shows "takeWhile is_digit (dec n @ r) = dec n" "dropWhile is_digit (dec n @ r) = r"
proof -
  have "\<not> is_digit c" if "c \<in> {CHR '','', CHR '']'', CHR ''}''}" for c
    using that by (auto simp: is_digit_def less_eq_char_def)
  then have "takeWhile is_digit r = []" "dropWhile is_digit r = r"
    using assms by (cases r; auto simp: ends_def)+
  then show "takeWhile is_digit (dec n @ r) = dec n" "dropWhile is_digit (dec n @ r) = r"
    using dec_digits(1) [of n] by (simp_all add: list_all_iff)
qed

lemma p_num_int:
  assumes "ends r"
  shows "p_num (json_int n @ r) = Some (JNum n, r)"
proof -
  define k where "k = nat \<bar>n\<bar>"
  have stop: "(r \<noteq> [] \<and> hd r = CHR ''.'') = False" "(r \<noteq> [] \<and> (hd r = CHR ''e'' \<or> hd r = CHR ''E'')) = False"
    using assms by (auto simp: ends_def)
  have zero: "\<not> (dec k = [] \<or> (hd (dec k) = CHR ''0'' \<and> length (dec k) > 1))"
    using dec_hd [of k] dec_digits(2) [of k] by (auto simp: dec_0)
  have sign: "\<not> (hd (dec k @ r) = CHR ''-'')"
    using dec_digits [of k] by (cases "dec k") (auto simp: is_digit_def less_eq_char_def)
  show ?thesis
  proof (cases "n < 0")
    case True
    have "dec k \<noteq> ''0''" using True dec_inject [of k 0] by (simp add: k_def dec_0)
    moreover have "json_int n = CHR ''-'' # dec k" "- int k = n" using True by (simp_all add: json_int_def k_def)
    ultimately show ?thesis
      using takeWhile_dec [OF assms, of k] zero by (simp add: p_num_def Let_def stop)
  next
    case False
    then have "json_int n = dec k" "int k = n" by (simp_all add: json_int_def k_def)
    then show ?thesis using takeWhile_dec [OF assms, of k] zero sign by (simp add: p_num_def Let_def stop)
  qed
qed

subsection \<open>Values\<close>

fun json_ok :: "jval \<Rightarrow> bool" where
  "json_ok (JStr s) = valid_utf8 s"
| "json_ok (JArr vs) = list_all json_ok vs"
| "json_ok (JObj fs) = (list_all (\<lambda>(k, v). valid_utf8 k \<and> json_ok v) fs \<and> distinct (map fst fs))"
| "json_ok (JReal x) = False"
| "json_ok v = True"

fun canon :: "jval \<Rightarrow> jval" where
  "canon (JArr vs) = JArr (map canon vs)"
| "canon (JObj fs) = JObj (sort_key fst (map (\<lambda>(k, v). (k, canon v)) fs))"
| "canon v = v"

lemma json_head:
  assumes "json_ok v"
  obtains c r where "json_enc v = c # r" "\<not> json_space c" "c \<noteq> CHR '']''"
proof -
  have digit: "\<not> json_space c \<and> c \<noteq> CHR '']''" if "is_digit c" for c
    using that by (auto simp: json_space_def is_digit_def less_eq_char_def)
  have "\<exists>c r. json_enc v = c # r \<and> \<not> json_space c \<and> c \<noteq> CHR '']''"
  proof (cases v)
    case (JNum n)
    show ?thesis
    proof (cases "n < 0")
      case False
      obtain c r where "dec (nat n) = c # r" using dec_digits(2) by (metis list.exhaust)
      with dec_digits(1) [of "nat n"] digit False JNum show ?thesis by (simp add: json_int_def)
    qed (simp add: JNum json_int_def json_space_def)
  qed (use assms in \<open>auto simp: json_string_def json_space_def\<close>)
  then show thesis using that by blast
qed

lemma skip_head: "\<not> json_space c \<Longrightarrow> skip_ws (c # r) = c # r"
  by simp

lemma ends_skip: "ends r \<Longrightarrow> skip_ws r = r"
  by (cases r) (auto simp: ends_def json_space_def)

definition reads_back :: "jval \<Rightarrow> bool" where
  "reads_back v \<longleftrightarrow> (\<forall>n r. length (json_enc v) \<le> n \<longrightarrow> ends r \<longrightarrow> p_value n (json_enc v @ r) = Some (canon v, r))"

lemma reads_backD: "reads_back v \<Longrightarrow> length (json_enc v) \<le> n \<Longrightarrow> ends r \<Longrightarrow> p_value n (json_enc v @ r) = Some (canon v, r)"
  by (simp add: reads_back_def)

lemma ends_Cons [simp]: "ends (CHR '','' # r)" "ends (CHR '']'' # r)" "ends (CHR ''}'' # r)"
  by (simp_all add: ends_def)

lemma p_elems_back:
  assumes "vs \<noteq> []" "list_all reads_back vs" "length (join_with '','' (map json_enc vs)) < n"
  shows "p_elems n acc (join_with '','' (map json_enc vs) @ CHR '']'' # r) = Some (JArr (acc @ map canon vs), r)"
  using assms
proof (induction vs arbitrary: acc n)
  case (Cons v vs)
  obtain m where n: "n = Suc m" using Cons.prems(3) by (cases n) auto
  show ?case
  proof (cases vs)
    case Nil
    then show ?thesis using Cons.prems n reads_backD [of v m "CHR '']'' # r"] by (simp add: json_space_def)
  next
    case (Cons w ws)
    let ?rest = "join_with '','' (map json_enc vs)"
    have j: "join_with '','' (map json_enc (v # vs)) = json_enc v @ CHR '','' # ?rest" by (simp add: Cons)
    have "p_value m (json_enc v @ CHR '','' # ?rest @ CHR '']'' # r) = Some (canon v, CHR '','' # ?rest @ CHR '']'' # r)"
      using Cons.prems j n by (intro reads_backD) auto
    moreover have "p_elems m (acc @ [canon v]) (?rest @ CHR '']'' # r) = Some (JArr ((acc @ [canon v]) @ map canon vs), r)"
      using Cons.prems j n Cons by (intro Cons.IH) auto
    ultimately show ?thesis unfolding j n by (simp add: json_space_def)
  qed
qed simp

abbreviation member :: "string \<times> jval \<Rightarrow> string" where
  "member f \<equiv> json_string (fst f) @ '':'' @ json_enc (snd f)"

lemma update_new: "k \<notin> fst ` set fs \<Longrightarrow> AList.update k v fs = fs @ [(k, v)]"
  by (induction fs) auto

lemma p_members_back:
  assumes "fs \<noteq> []" "list_all (\<lambda>f. valid_utf8 (fst f) \<and> json_ok (snd f) \<and> reads_back (snd f)) fs"
    and "distinct (map fst (acc @ fs))" "length (join_with '','' (map member fs)) < n"
  shows "p_members n acc (join_with '','' (map member fs) @ CHR ''}'' # r) =
      Some (JObj (acc @ map (\<lambda>f. (fst f, canon (snd f))) fs), r)"
  using assms
proof (induction fs arbitrary: acc n)
  case (Cons f fs)
  obtain m where n: "n = Suc m" using Cons.prems(4) by (cases n) auto
  obtain k v where f: "f = (k, v)" by (cases f)
  have k: "valid_utf8 k" and v: "reads_back v" and fresh: "k \<notin> fst ` set acc" using Cons.prems by (auto simp: f)
  have key: "p_str (json_chars k @ CHR 0x22 # x) = Some (k, x)" for x using p_str_chars [OF k] .
  have upd: "AList.update k (canon v) acc = acc @ [(k, canon v)]" using fresh by (rule update_new)
  have one: "p_members (Suc m) acc (member f @ d # x) =
      (if d = CHR '','' then p_members m (acc @ [(k, canon v)]) x else Some (JObj (acc @ [(k, canon v)]), x))"
    if "d = CHR '','' \<or> d = CHR ''}''" "length (json_enc v) \<le> m" for d x
    using that key reads_backD [OF v that(2), of "d # x"] by (auto simp: f json_string_def json_space_def upd ends_def)
  show ?case
  proof (cases fs)
    case Nil
    then show ?thesis using Cons.prems(4) one [of "CHR ''}''" r] n by (simp add: f)
  next
    case (Cons g gs)
    let ?rest = "join_with '','' (map member fs)"
    have j: "join_with '','' (map member (f # fs)) = member f @ CHR '','' # ?rest" by (simp add: Cons)
    have "p_members m (acc @ [(k, canon v)]) (?rest @ CHR ''}'' # r) =
        Some (JObj ((acc @ [(k, canon v)]) @ map (\<lambda>f. (fst f, canon (snd f))) fs), r)"
      using Cons.prems j n Cons by (intro Cons.IH) (auto simp: f)
    then show ?thesis unfolding j n
      using one [of "CHR '',''" "?rest @ CHR ''}'' # r"] Cons.prems(4) j n by (simp add: f)
  qed
qed simp

lemma insort_map: "insort_key fst (fst x, g x) (map (\<lambda>x. (fst x, g x)) xs) = map (\<lambda>x. (fst x, g x)) (insort_key fst x xs)"
  by (induction xs) auto

lemma sort_map: "sort_key fst (map (\<lambda>x. (fst x, g x)) xs) = map (\<lambda>x. (fst x, g x)) (sort_key fst xs)"
  by (induction xs) (simp_all add: insort_map)

lemma json_enc_obj: "json_enc (JObj fs) = ''{'' @ join_with '','' (map member (sort_key fst fs)) @ ''}''"
proof -
  have "(\<lambda>(k, v). (k, json_string k @ '':'' @ json_enc v)) = (\<lambda>f. (fst f, member f))" by (simp add: fun_eq_iff)
  then show ?thesis unfolding json_enc.simps using sort_map [of member fs] by (simp add: comp_def)
qed

lemma canon_obj: "canon (JObj fs) = JObj (map (\<lambda>f. (fst f, canon (snd f))) (sort_key fst fs))"
proof -
  have eq: "map (\<lambda>(k, v). (k, canon v)) fs = map (\<lambda>f. (fst f, canon (snd f))) fs" by (rule map_cong) auto
  show ?thesis unfolding canon.simps eq sort_map by (rule refl)
qed

lemma join_Cons_ne: "x \<noteq> [] \<Longrightarrow> \<exists>t. join_with sep (x # xs) = x @ t"
  by (cases xs) auto

lemma p_word_eq: "p_word word v (word @ r) = Some (v, r)"
  by (simp add: p_word_def)

lemma json_reads_back: "json_ok v \<Longrightarrow> reads_back v"
proof (induction v rule: json_enc.induct)
  case (6 vs)
  have rb: "list_all reads_back vs" using 6 by (auto simp: list_all_iff)
  show ?case unfolding reads_back_def
  proof (intro allI impI)
    fix n r assume n: "length (json_enc (JArr vs)) \<le> n" and r: "ends r"
    then obtain m where m: "n = Suc m" by (cases n) auto
    show "p_value n (json_enc (JArr vs) @ r) = Some (canon (JArr vs), r)"
    proof (cases vs)
      case Nil
      then show ?thesis by (simp add: m json_space_def)
    next
      case (Cons v ws)
      have "json_ok v" using "6.prems" Cons by simp
      then obtain c t where c: "json_enc v = c # t" "\<not> json_space c" "c \<noteq> CHR '']''" by (rule json_head)
      obtain u where u: "join_with '','' (map json_enc vs) = c # u"
        using join_Cons_ne [of "json_enc v" "'',''" "map json_enc ws"] c(1) Cons by auto
      have "p_elems m [] (join_with '','' (map json_enc vs) @ CHR '']'' # r) = Some (JArr ([] @ map canon vs), r)"
        using n m Cons rb by (intro p_elems_back) auto
      then show ?thesis using c by (simp add: m u json_space_def)
    qed
  qed
next
  case (7 fs)
  let ?gs = "sort_key fst fs"
  have ok: "list_all (\<lambda>f. valid_utf8 (fst f) \<and> json_ok (snd f) \<and> reads_back (snd f)) ?gs"
    using 7 by (auto simp: list_all_iff)
  have dist: "distinct (map fst ([] @ ?gs))" using "7.prems" by (simp add: distinct_map)
  show ?case unfolding reads_back_def
  proof (intro allI impI)
    fix n r assume n: "length (json_enc (JObj fs)) \<le> n" and r: "ends r"
    then obtain m where m: "n = Suc m" unfolding json_enc_obj by (cases n) auto
    show "p_value n (json_enc (JObj fs) @ r) = Some (canon (JObj fs), r)"
    proof (cases "?gs = []")
      case True
      then show ?thesis unfolding json_enc_obj canon_obj by (simp add: m json_space_def)
    next
      case False
      then obtain g hs where gs: "?gs = g # hs" by (cases ?gs) auto
      obtain u where u: "join_with '','' (map member ?gs) = CHR 0x22 # u"
        using join_Cons_ne [of "member g" "'',''" "map member hs"] by (auto simp: gs json_string_def)
      have "p_members m [] (join_with '','' (map member ?gs) @ CHR ''}'' # r) =
          Some (JObj ([] @ map (\<lambda>f. (fst f, canon (snd f))) ?gs), r)"
        using n m False unfolding json_enc_obj by (intro p_members_back [OF _ ok dist]) auto
      then show ?thesis unfolding json_enc_obj canon_obj append_assoc u m by (simp add: json_space_def)
    qed
  qed
next
  case (3 i)
  show ?case unfolding reads_back_def
  proof (intro allI impI)
    fix n r assume n: "length (json_enc (JNum i)) \<le> n" and r: "ends r"
    obtain c t where c: "json_int i = c # t" "c = CHR ''-'' \<or> is_digit c"
      using dec_digits [of "nat i"] by (cases "i < 0"; cases "dec (nat i)") (auto simp: json_int_def)
    then obtain m where "n = Suc m" using n by (cases n) auto
    moreover have "c \<notin> {CHR ''{'', CHR ''['', CHR 0x22, CHR ''t'', CHR ''f'', CHR ''n''}" "\<not> json_space c"
      using c(2) by (auto simp: is_digit_def less_eq_char_def json_space_def)
    ultimately show "p_value n (json_enc (JNum i) @ r) = Some (canon (JNum i), r)"
      using p_num_int [OF r, of i] c(1) by simp
  qed
next
  case (2 b)
  show ?case unfolding reads_back_def
  proof (intro allI impI)
    fix n r assume "length (json_enc (JBool b)) \<le> n"
    then obtain m where "n = Suc m" by (cases n) (auto split: if_splits)
    then show "p_value n (json_enc (JBool b) @ r) = Some (canon (JBool b), r)"
      using p_word_eq [of "''true''" "JBool True" r] p_word_eq [of "''false''" "JBool False" r] by (simp add: json_space_def)
  qed
next
  case 1
  show ?case unfolding reads_back_def
  proof (intro allI impI)
    fix n r assume "length (json_enc JNull) \<le> n"
    then obtain m where "n = Suc m" by (cases n) auto
    then show "p_value n (json_enc JNull @ r) = Some (canon JNull, r)"
      using p_word_eq [of "''null''" JNull r] by (simp add: json_space_def)
  qed
next
  case (5 s)
  show ?case unfolding reads_back_def
  proof (intro allI impI)
    fix n r assume "length (json_enc (JStr s)) \<le> n"
    then obtain m where "n = Suc m" by (cases n) (auto simp: json_string_def)
    then show "p_value n (json_enc (JStr s) @ r) = Some (canon (JStr s), r)"
      using p_str_chars [of s r] 5 by (simp add: json_string_def json_space_def)
  qed
qed simp

lemma json_dec_enc: "json_ok v \<Longrightarrow> json_dec (json_enc v) = Some (canon v)"
  using reads_backD [OF json_reads_back, of v "Suc (length (json_enc v))" "[]"] by (simp add: json_dec_def ends_def)

end
