(* ===== verification/Go_Base64.thy ===== *)
theory Go_Base64
  imports Go_Text
begin

text \<open>
  The encodings of \<open>encoding/base64\<close>: the standard and the URL alphabet, each with padding
  and without (\<open>Raw\<close>). Decoding skips line breaks and ignores the unused bits of the last
  group, as the package does outside its strict mode.
\<close>

datatype b64 = Std | URL

definition b64_alphabet :: "b64 \<Rightarrow> string" where
  "b64_alphabet e = ''ABCDEFGHIJKLMNOPQRSTUVWXYZabcdefghijklmnopqrstuvwxyz0123456789'' @ (case e of Std \<Rightarrow> ''+/'' | URL \<Rightarrow> ''-_'')"

fun index_of :: "char \<Rightarrow> string \<Rightarrow> nat option" where
  "index_of c [] = None"
| "index_of c (x # xs) = (if c = x then Some 0 else map_option Suc (index_of c xs))"

abbreviation b64_char :: "b64 \<Rightarrow> nat \<Rightarrow> char" where
  "b64_char e n \<equiv> b64_alphabet e ! n"

abbreviation b64_val :: "b64 \<Rightarrow> char \<Rightarrow> nat option" where
  "b64_val e c \<equiv> index_of c (b64_alphabet e)"

fun b64_encode :: "b64 \<Rightarrow> bool \<Rightarrow> string \<Rightarrow> string" where
  "b64_encode e padded [] = []"
| "b64_encode e padded [a] =
     (let x = of_char a
      in [b64_char e (x div 4), b64_char e (x mod 4 * 16)] @ (if padded then ''=='' else ''''))"
| "b64_encode e padded [a, b] =
     (let x = of_char a; y = of_char b
      in [b64_char e (x div 4), b64_char e (x mod 4 * 16 + y div 16), b64_char e (y mod 16 * 4)]
         @ (if padded then ''='' else ''''))"
| "b64_encode e padded (a # b # c # s) =
     (let x = of_char a; y = of_char b; z = of_char c
      in [b64_char e (x div 4), b64_char e (x mod 4 * 16 + y div 16), b64_char e (y mod 16 * 4 + z div 64), b64_char e (z mod 64)]
         @ b64_encode e padded s)"

definition b64_byte :: "nat \<Rightarrow> char" where
  "b64_byte n = char_of (n mod 256)"

fun b64_groups :: "b64 \<Rightarrow> bool \<Rightarrow> string \<Rightarrow> string option" where
  "b64_groups e padded [] = Some []"
| "b64_groups e padded [a] = None"
| "b64_groups e padded [a, b] =
     (if padded then None
      else
        (case (b64_val e a, b64_val e b) of
           (Some x, Some y) \<Rightarrow> Some [b64_byte (x * 4 + y div 16)]
         | _ \<Rightarrow> None))"
| "b64_groups e padded [a, b, c] =
     (if padded then None
      else
        (case (b64_val e a, b64_val e b, b64_val e c) of
           (Some x, Some y, Some z) \<Rightarrow> Some [b64_byte (x * 4 + y div 16), b64_byte (y * 16 + z div 4)]
         | _ \<Rightarrow> None))"
| "b64_groups e padded (a # b # c # d # s) =
     (if padded \<and> s = [] \<and> d = CHR ''='' then
        (if c = CHR ''='' then
           (case (b64_val e a, b64_val e b) of
              (Some x, Some y) \<Rightarrow> Some [b64_byte (x * 4 + y div 16)]
            | _ \<Rightarrow> None)
         else
           (case (b64_val e a, b64_val e b, b64_val e c) of
              (Some x, Some y, Some z) \<Rightarrow> Some [b64_byte (x * 4 + y div 16), b64_byte (y * 16 + z div 4)]
            | _ \<Rightarrow> None))
      else
        (case (b64_val e a, b64_val e b, b64_val e c, b64_val e d, b64_groups e padded s) of
           (Some x, Some y, Some z, Some w, Some r) \<Rightarrow>
             Some ([b64_byte (x * 4 + y div 16), b64_byte (y * 16 + z div 4), b64_byte (z * 64 + w)] @ r)
         | _ \<Rightarrow> None))"

definition b64_decode :: "b64 \<Rightarrow> bool \<Rightarrow> string \<Rightarrow> string option" where
  "b64_decode e padded s = b64_groups e padded (filter (\<lambda>c. c \<noteq> CHR 0x0A \<and> c \<noteq> CHR 0x0D) s)"

subsection \<open>Decoding an encoding\<close>

lemma b64_char_props:
  assumes "n < 64"
  shows "b64_val e (b64_char e n) = Some n" "b64_char e n \<noteq> CHR ''=''" "b64_char e n \<noteq> CHR 0x0A" "b64_char e n \<noteq> CHR 0x0D"
proof -
  have "list_all (\<lambda>n. b64_val e (b64_char e n) = Some n \<and> b64_char e n \<noteq> CHR ''='' \<and> b64_char e n \<noteq> CHR 0x0A
      \<and> b64_char e n \<noteq> CHR 0x0D) [0..<64]"
    by (cases e) (simp only:, code_simp)+
  with assms show "b64_val e (b64_char e n) = Some n" "b64_char e n \<noteq> CHR ''=''" "b64_char e n \<noteq> CHR 0x0A"
    "b64_char e n \<noteq> CHR 0x0D"
    by (simp_all add: list_all_iff)
qed

lemma byte_lt: "(of_char c :: nat) < 256"
  by (simp add: of_char_def)

lemma b64_byte_parts:
  "b64_byte (of_char a) = a" "b64_byte (of_char a + n * 256) = a" "b64_byte (of_char a + 256 * n) = a"
  "(of_char b :: nat) div 16 div 16 = 0" "(of_char c :: nat) div 64 div 4 = 0"
  using byte_lt [of a] byte_lt [of b] byte_lt [of c] by (simp_all add: b64_byte_def less_mult_imp_div_less div_mult2_eq [symmetric])

lemma b64_bounds:
  "(of_char a :: nat) div 4 < 64" "(of_char a :: nat) mod 4 * 16 < 64" "(of_char b :: nat) mod 16 * 4 < 64"
  "(of_char a :: nat) mod 4 * 16 + of_char b div 16 < 64" "(of_char b :: nat) mod 16 * 4 + of_char c div 64 < 64"
  "(of_char c :: nat) mod 64 < 64"
proof -
  have "(of_char b :: nat) div 16 < 16" "(of_char c :: nat) div 64 < 4" "(of_char a :: nat) mod 4 < 4" "(of_char b :: nat) mod 16 < 16"
    using byte_lt [of b] byte_lt [of c] by (simp_all add: less_mult_imp_div_less)
  then show "(of_char a :: nat) mod 4 * 16 + of_char b div 16 < 64" "(of_char b :: nat) mod 16 * 4 + of_char c div 64 < 64"
    "(of_char a :: nat) mod 4 * 16 < 64" "(of_char b :: nat) mod 16 * 4 < 64" by linarith+
  show "(of_char a :: nat) div 4 < 64" "(of_char c :: nat) mod 64 < 64" using byte_lt [of a] by (simp_all add: less_mult_imp_div_less)
qed

lemmas b64_chars = b64_char_props [OF b64_bounds(1)] b64_char_props [OF b64_bounds(2)] b64_char_props [OF b64_bounds(3)]
  b64_char_props [OF b64_bounds(4)] b64_char_props [OF b64_bounds(5)] b64_char_props [OF b64_bounds(6)]

lemma b64_encode_nobreak: "filter (\<lambda>c. c \<noteq> CHR 0x0A \<and> c \<noteq> CHR 0x0D) (b64_encode e padded s) = b64_encode e padded s"
  by (induction e padded s rule: b64_encode.induct) (simp_all add: Let_def b64_chars)

lemma b64_groups_encode: "b64_groups e padded (b64_encode e padded s) = Some s"
  by (induction e padded s rule: b64_encode.induct) (simp_all add: Let_def b64_chars b64_byte_parts)

lemma b64_decode_encode: "b64_decode e padded (b64_encode e padded s) = Some s"
  by (simp add: b64_decode_def b64_encode_nobreak b64_groups_encode)

end
