(* ===== verification/Sealed.thy ===== *)
theory Sealed
  imports Go_Json_Props Go_Base64
begin

text \<open>
  Envelope encryption of settings and keys (internal/sealed/sealed.go) and the redaction of
  credentials. AES-256-GCM is a parameter, \<open>aead_seal key nonce plaintext ad\<close> and
  \<open>aead_open key nonce ciphertext ad\<close>, with its documented behaviour stated by \<open>aead_ok\<close>:
  opening what was sealed gives it back, the overhead is 16 bytes, and only a sealed value
  opens. The nonce size is 12 bytes. The bytes read from the random source are arguments of
  \<open>Seal\<close>, \<open>Inl\<close> when the source fails.
\<close>

record aead =
  aead_seal :: "string \<Rightarrow> string \<Rightarrow> string \<Rightarrow> string \<Rightarrow> string"
  aead_open :: "string \<Rightarrow> string \<Rightarrow> string \<Rightarrow> string \<Rightarrow> string option"

definition aead_ok :: "aead \<Rightarrow> bool" where
  "aead_ok g \<longleftrightarrow>
     (\<forall>k n p ad. length k = 32 \<longrightarrow> length n = 12 \<longrightarrow> aead_open g k n (aead_seal g k n p ad) ad = Some p) \<and>
     (\<forall>k n p ad. length (aead_seal g k n p ad) = length p + 16) \<and>
     (\<forall>k n c ad p. aead_open g k n c ad = Some p \<longrightarrow> c = aead_seal g k n p ad)"

definition Marker :: string where "Marker = ''__set__''"
definition MaxSettingsBytes :: nat where "MaxSettingsBytes = 8192"
definition NonceSize :: nat where "NonceSize = 12"
definition Overhead :: nat where "Overhead = 16"

definition NewEnvelope :: "string \<Rightarrow> string result" where
  "NewEnvelope kek = (if length kek \<noteq> 32 then Inl SealedKEK else Inr kek)"

definition decodeKEK :: "string \<Rightarrow> string result" where
  "decodeKEK raw =
     (let trimmed = TrimSpace raw
      in case (b64_decode Std True trimmed, b64_decode Std False trimmed) of
           (padded, plain) \<Rightarrow>
             if (case padded of None \<Rightarrow> False | Some b \<Rightarrow> length b = 32) then Inr (the padded)
             else if (case plain of None \<Rightarrow> False | Some b \<Rightarrow> length b = 32) then Inr (the plain)
             else if length raw = 32 then Inr raw
             else Inl SealedKEK)"

text \<open>\<open>LoadKEK\<close>, with the file system and the environment as parameters.\<close>

definition LoadKEK ::
  "(string \<Rightarrow> string result) \<Rightarrow> (string \<Rightarrow> string) \<Rightarrow> string \<Rightarrow> string \<Rightarrow> string \<Rightarrow> string result" where
  "LoadKEK read_file getenv source path env =
     (if source = ''file'' then
        (case read_file path of Inl e \<Rightarrow> Inl (OtherError ''sealed: kek'') | Inr b \<Rightarrow> decodeKEK b)
      else if source = ''env'' then
        (if getenv env = '''' then Inl (OtherError ''sealed: kek: environment variable is empty'') else decodeKEK (getenv env))
      else Inl (OtherError ''sealed: kek: unknown source''))"

text \<open>The three reads of \<open>Seal\<close> from the random source: data key and two nonces.\<close>

type_synonym seal_bytes = "(string \<times> string \<times> string) result"

definition Seal :: "aead \<Rightarrow> string \<Rightarrow> seal_bytes \<Rightarrow> string \<Rightarrow> string \<Rightarrow> string result" where
  "Seal g kek rnd plaintext ad =
     (if length plaintext > MaxSettingsBytes then Inl SealedTooLarge
      else
        on_val rnd (\<lambda>(dek, n1, n2).
          Inr (n1 @ aead_seal g kek n1 dek ad @ n2 @ aead_seal g dek n2 plaintext ad)))"

text \<open>The size test on integers, whose numerals evaluate in binary.\<close>

lemma Seal_code [code]:
  "Seal g kek rnd plaintext ad =
     (if int (length plaintext) > 8192 then Inl SealedTooLarge
      else
        on_val rnd (\<lambda>(dek, n1, n2).
          Inr (n1 @ aead_seal g kek n1 dek ad @ n2 @ aead_seal g dek n2 plaintext ad)))"
  by (simp add: Seal_def MaxSettingsBytes_def)

definition Open :: "aead \<Rightarrow> string \<Rightarrow> bytes \<Rightarrow> string \<Rightarrow> string result" where
  "Open g kek blob ad =
     (let ns = NonceSize;
          wrapLen = 32 + Overhead;
          b = (case blob of None \<Rightarrow> [] | Some x \<Rightarrow> x)
      in if length b < ns + wrapLen + ns + 16 then Inl SealedTampered
         else
           (case aead_open g kek (take ns b) (take wrapLen (drop ns b)) ad of
              None \<Rightarrow> Inl SealedTampered
            | Some dek \<Rightarrow>
                (let rest = drop (ns + wrapLen) b
                 in case aead_open g dek (take ns rest) (drop ns rest) ad of
                      None \<Rightarrow> Inl SealedTampered
                    | Some pt \<Rightarrow> Inr pt)))"

definition ADCA :: "string \<Rightarrow> string" where "ADCA i = ''ca:'' @ i"
definition ADIssuer :: "string \<Rightarrow> string" where "ADIssuer i = ''issuer:'' @ i"
definition ADSecret :: "string \<Rightarrow> string" where "ADSecret i = ''secret:'' @ i"
definition ADWebhook :: "string \<Rightarrow> string" where "ADWebhook i = ''webhook:'' @ i"
definition ADCertKey :: "string \<Rightarrow> string" where "ADCertKey i = ''certkey:'' @ i"
definition ADTarget :: "string \<Rightarrow> string" where "ADTarget i = ''target:'' @ i"

subsection \<open>Settings\<close>

text \<open>A decoded settings object: a JSON object, read through \<open>map_of\<close>.\<close>

type_synonym settings = "(string \<times> jval) list"

text \<open>\<open>str, _ := v.(string)\<close>: the string, empty for any other type.\<close>

definition as_string :: "jval \<Rightarrow> string" where
  "as_string v = (case v of JStr s \<Rightarrow> s | _ \<Rightarrow> '''')"

definition redact_field :: "settings \<Rightarrow> string \<Rightarrow> settings" where
  "redact_field out f =
     (case map_of out f of
        None \<Rightarrow> out
      | Some v \<Rightarrow> if as_string v \<noteq> '''' then AList.update f (JStr Marker) out else AList.delete f out)"

definition Redact :: "settings \<Rightarrow> string list \<Rightarrow> settings" where
  "Redact s secretFields = foldl redact_field s secretFields"

definition Public :: "settings \<Rightarrow> string list \<Rightarrow> settings" where
  "Public s secretFields = foldl (\<lambda>out f. AList.delete f out) s secretFields"

definition merge_field :: "settings \<Rightarrow> settings \<Rightarrow> settings \<Rightarrow> string \<Rightarrow> settings" where
  "merge_field stored incoming out f =
     (let str = (case map_of incoming f of None \<Rightarrow> '''' | Some v \<Rightarrow> as_string v)
      in if map_of incoming f = None \<or> str = Marker
         then (case map_of stored f of Some old \<Rightarrow> AList.update f old out | None \<Rightarrow> AList.delete f out)
         else if str = '''' then AList.delete f out
         else out)"

definition Merge :: "settings \<Rightarrow> settings \<Rightarrow> string list \<Rightarrow> settings" where
  "Merge stored incoming secretFields = foldl (merge_field stored incoming) incoming secretFields"

definition Decode :: "string \<Rightarrow> settings result" where
  "Decode raw =
     (if length raw > MaxSettingsBytes then Inl SealedTooLarge
      else
        (case json_dec raw of
           Some (JObj s) \<Rightarrow> Inr s
         | _ \<Rightarrow> Inl (OtherError ''sealed: settings must be a JSON object'')))"

definition Encode :: "settings \<Rightarrow> string result" where
  "Encode s =
     (let b = json_enc (JObj s) in if length b > MaxSettingsBytes then Inl SealedTooLarge else Inr b)"

lemma Decode_code [code]:
  "Decode raw =
     (if int (length raw) > 8192 then Inl SealedTooLarge
      else
        (case json_dec raw of
           Some (JObj s) \<Rightarrow> Inr s
         | _ \<Rightarrow> Inl (OtherError ''sealed: settings must be a JSON object'')))"
  by (simp add: Decode_def MaxSettingsBytes_def)

lemma Encode_code [code]:
  "Encode s = (let b = json_enc (JObj s) in if int (length b) > 8192 then Inl SealedTooLarge else Inr b)"
  by (simp add: Encode_def MaxSettingsBytes_def)

definition scrub_field :: "settings \<Rightarrow> string \<Rightarrow> string \<Rightarrow> string" where
  "scrub_field stored text f =
     (case map_of stored f of
        Some (JStr v) \<Rightarrow>
          if v = '''' then text
          else
            (let text = ReplaceAll text v ''[REDACTED]''; enc = b64_encode Std True v
             in if enc \<noteq> '''' then ReplaceAll text enc ''[REDACTED]'' else text)
      | _ \<Rightarrow> text)"

definition Scrub :: "string \<Rightarrow> settings \<Rightarrow> string list \<Rightarrow> string" where
  "Scrub text stored secretFields =
     take 1024 (foldl (scrub_field stored) (takeWhile (\<lambda>c. c \<noteq> CHR 0x0D \<and> c \<noteq> CHR 0x0A) text) secretFields)"

subsection \<open>Envelope\<close>

lemma aead_lengths: "aead_ok g \<Longrightarrow> length (aead_seal g k n p ad) = length p + 16"
  by (simp add: aead_ok_def)

lemma Open_parts:
  assumes "aead_ok g" "length kek = 32" "length dek = 32" "length n1 = NonceSize" "length n2 = NonceSize"
  shows "Open g kek (Some (n1 @ aead_seal g kek n1 dek ad @ n2 @ aead_seal g dek n2 p ad)) ad = Inr p"
proof -
  let ?w = "aead_seal g kek n1 dek ad" and ?c = "aead_seal g dek n2 p ad"
  define blob where "blob = n1 @ ?w @ n2 @ ?c"
  have laws: "aead_open g k n (aead_seal g k n q ad) ad = Some q" if "length k = 32" "length n = 12" for k n q
    using assms(1) that by (simp add: aead_ok_def)
  have lens: "length ?w = 48" "length ?c = length p + 16" using aead_lengths [OF assms(1)] assms(3) by auto
  have parts: "take 12 blob = n1" "take 48 (drop 12 blob) = ?w" "drop 60 blob = n2 @ ?c"
    "take 12 (drop 60 blob) = n2" "drop 12 (drop 60 blob) = ?c"
    using blob_def lens assms(4,5) by (simp_all add: NonceSize_def)
  have "aead_open g kek n1 ?w ad = Some dek" "aead_open g dek n2 ?c ad = Some p"
    using laws assms(2-5) by (simp_all add: NonceSize_def)
  moreover have "76 + 12 \<le> length blob" using blob_def lens assms(4,5) by (simp add: NonceSize_def)
  ultimately show ?thesis
    unfolding blob_def [symmetric] Open_def Let_def option.case NonceSize_def Overhead_def
    using parts by simp
qed

text \<open>
  C31. Sealing and opening: with a 32-byte key-encryption key and random bytes of the sizes
  the code reads, what \<open>Seal\<close> produced opens to the plaintext under the same associated
  data, for every plaintext up to 8 KiB.
\<close>

theorem Seal_Open_roundtrip:
  assumes "aead_ok g" "NewEnvelope k0 = Inr kek" "Seal g kek (Inr (dek, n1, n2)) p ad = Inr blob"
    and "length dek = 32" "length n1 = NonceSize" "length n2 = NonceSize"
  shows "Open g kek (Some blob) ad = Inr p"
proof -
  have "length kek = 32" using assms(2) by (auto simp: NewEnvelope_def split: if_splits)
  moreover have "blob = n1 @ aead_seal g kek n1 dek ad @ n2 @ aead_seal g dek n2 p ad"
    using assms(3) by (auto simp: Seal_def split: if_splits)
  ultimately show ?thesis using Open_parts [OF assms(1) _ assms(4-6)] by simp
qed

definition demo_aead :: aead where
  "demo_aead = \<lparr>aead_seal = (\<lambda>k n p ad. p @ replicate 16 (CHR ''x'')),
     aead_open = (\<lambda>k n c ad. if 16 \<le> length c \<and> drop (length c - 16) c = replicate 16 (CHR ''x'')
                             then Some (take (length c - 16) c) else None)\<rparr>"

lemma demo_aead_ok: "aead_ok demo_aead"
  unfolding aead_ok_def
proof (intro conjI allI impI)
  fix k n c ad p :: string
  assume "aead_open demo_aead k n c ad = Some p"
  then show "c = aead_seal demo_aead k n p ad"
    by (auto simp: demo_aead_def split: if_splits) (metis append_take_drop_id)
qed (simp_all add: demo_aead_def)

theorem Seal_Open_roundtrip_witness:
  "Open demo_aead (replicate 32 (CHR ''k''))
     (Some (replicate 12 (CHR ''a'') @ aead_seal demo_aead (replicate 32 (CHR ''k'')) (replicate 12 (CHR ''a'')) (replicate 32 (CHR ''d'')) ''ca:1''
       @ replicate 12 (CHR ''b'') @ aead_seal demo_aead (replicate 32 (CHR ''d'')) (replicate 12 (CHR ''b'')) ''pem'' ''ca:1'')) ''ca:1'' = Inr ''pem''"
  by (rule Seal_Open_roundtrip [OF demo_aead_ok, where ?k0.0 = "replicate 32 (CHR ''k'')" and dek = "replicate 32 (CHR ''d'')"
        and ?n1.0 = "replicate 12 (CHR ''a'')" and ?n2.0 = "replicate 12 (CHR ''b'')"])
    (simp_all add: NewEnvelope_def Seal_def MaxSettingsBytes_def NonceSize_def)


definition demo_blob :: string where
  "demo_blob = replicate 12 (CHR ''a'') @ aead_seal demo_aead (replicate 32 (CHR ''k'')) (replicate 12 (CHR ''a'')) (replicate 32 (CHR ''d'')) ''ca:1''
     @ replicate 12 (CHR ''b'') @ aead_seal demo_aead (replicate 32 (CHR ''d'')) (replicate 12 (CHR ''b'')) ''pem'' ''ca:1''"

lemma demo_blob_opens: "Open demo_aead (replicate 32 (CHR ''k'')) (Some demo_blob) ''ca:1'' = Inr ''pem''"
  unfolding demo_blob_def by (rule Open_parts [OF demo_aead_ok]) (simp_all add: NonceSize_def)


subsection \<open>Redaction\<close>

lemma redact_field_lookup:
  "map_of (redact_field out f) k =
     (if k = f then (case map_of out f of None \<Rightarrow> None | Some v \<Rightarrow> if as_string v \<noteq> '''' then Some (JStr Marker) else None)
      else map_of out k)"
  by (auto simp: redact_field_def split: option.splits)

lemma Redact_lookup:
  "map_of (Redact s F) k =
     (if k \<in> set F then (case map_of s k of None \<Rightarrow> None | Some v \<Rightarrow> if as_string v \<noteq> '''' then Some (JStr Marker) else None)
      else map_of s k)"
  unfolding Redact_def
proof (induction F arbitrary: s)
  case (Cons f F)
  have "as_string (JStr Marker) \<noteq> ''''" by (simp add: as_string_def Marker_def)
  with Cons show ?case by (auto simp: redact_field_lookup split: option.splits)
qed simp

definition merged :: "settings \<Rightarrow> settings \<Rightarrow> string \<Rightarrow> jval option \<Rightarrow> jval option" where
  "merged stored incoming k other =
     (case map_of incoming k of
        None \<Rightarrow> map_of stored k
      | Some v \<Rightarrow> if as_string v = Marker then map_of stored k else if as_string v = '''' then None else other)"

lemma merge_field_lookup:
  "map_of (merge_field stored incoming out f) k =
     (if k = f then merged stored incoming k (map_of out k) else map_of out k)"
  by (auto simp: merge_field_def merged_def Let_def Marker_def split: option.splits)

lemma merged_idem: "merged stored incoming k (merged stored incoming k x) = merged stored incoming k x"
  by (simp add: merged_def split: option.splits)

lemma Merge_lookup:
  "map_of (Merge stored incoming F) k =
     (if k \<in> set F then merged stored incoming k (map_of incoming k) else map_of incoming k)"
proof -
  have "map_of (foldl (merge_field stored incoming) out F) k =
     (if k \<in> set F then merged stored incoming k (map_of out k) else map_of out k)" for out
    by (induction F arbitrary: out) (simp_all add: merge_field_lookup merged_idem)
  then show ?thesis by (simp add: Merge_def)
qed

text \<open>
  C33. What a client reads never holds a credential: each secret field of the redacted
  settings is absent or the marker, and every other field is as stored.
\<close>

theorem Redact_hides:
  "map_of (Redact s F) k \<in> (if k \<in> set F then {None, Some (JStr Marker)} else {map_of s k})"
  by (auto simp: Redact_lookup split: option.splits)

text \<open>
  C34. Reading settings and sending them back unchanged changes nothing: merging the redacted
  view into the stored settings gives back every stored field, credentials included.
\<close>

theorem Merge_Redact_roundtrip:
  "map_of (Merge s (Redact s F) F) = map_of s"
proof
  fix k
  have "as_string (JStr Marker) = Marker" by (simp add: as_string_def)
  then show "map_of (Merge s (Redact s F) F) k = map_of s k"
    by (cases "map_of s k") (simp_all add: Merge_lookup Redact_lookup merged_def)
qed

text \<open>
  A credential sent as an object is dropped: \<open>Merge\<close> tests its string value, which is empty
  for every other type, and takes the empty string as the request to clear the field.
\<close>

lemma Merge_drops_object:
  assumes "f \<in> set F" "map_of incoming f = Some (JObj ob)"
  shows "map_of (Merge stored incoming F) f = None"
  using assms by (simp add: Merge_lookup merged_def as_string_def Marker_def)

subsection \<open>Settings as JSON\<close>

lemma map_of_sort_key: "distinct (map fst xs) \<Longrightarrow> map_of (sort_key fst xs) = map_of xs"
  by (rule map_of_inject_set [THEN iffD2]) (simp_all add: distinct_map)

lemma map_of_canon:
  assumes "distinct (map fst s)"
  shows "map_of (sort_key fst (map (\<lambda>(k, v). (k, canon v)) s)) k = map_option canon (map_of s k)"
proof -
  have "map_of (sort_key fst (map (\<lambda>(k, v). (k, canon v)) s)) = map_of (map (\<lambda>(k, v). (k, canon v)) s)"
    by (rule map_of_sort_key) (use assms in \<open>simp add: comp_def case_prod_beta\<close>)
  then show ?thesis by (simp add: map_of_map)
qed

lemma Decode_Encode:
  assumes "json_ok (JObj s)" "Encode s = Inr b"
  shows "Decode b = Inr (sort_key fst (map (\<lambda>(k, v). (k, canon v)) s))"
proof -
  have b: "b = json_enc (JObj s)" "\<not> MaxSettingsBytes < length b"
    using assms(2) by (auto simp: Encode_def Let_def split: if_splits)
  then show ?thesis using json_dec_enc [OF assms(1)] by (simp add: Decode_def)
qed


definition demo_settings :: settings where
  "demo_settings = [(''zone'', JStr ''a<b''), (''ttl'', JNum 60)]"


end
