(* ===== verification/Audit_Log.thy ===== *)
theory Audit_Log
  imports Mem_Inv
begin

text \<open>
  The audit writer (internal/audit/audit.go): the closed vocabulary, the guard that keeps
  key material out of the details, and the buffered writer. The writer is a state machine:
  \<open>Record\<close> enqueues, and the background goroutine's select loop receives, flushes on a full
  batch or a tick, serves flush requests and drains on close. An event is one of these
  steps (\<open>writer_step\<close>); a batch goes to \<open>InsertAuditRows\<close> of the store.
\<close>

definition known_events :: "string list" where
  "known_events =
     [''issuer_created'', ''issuer_updated'', ''issuer_deleted'', ''ca_generated'', ''bundle_rotated'',
      ''certificate_requested'', ''request_approved'', ''request_rejected'', ''certificate_issued'',
      ''certificate_renewed'', ''certificate_imported'', ''certificate_revoked'', ''certificate_deleted'',
      ''certificate_deployed'', ''certificate_installed'', ''secret_created'', ''secret_updated'',
      ''secret_rotated'', ''secret_deleted'', ''webhook_created'', ''webhook_updated'', ''webhook_deleted'',
      ''grant_created'', ''grant_revoked'', ''access_refused'', ''backup_exported'',
      ''backup_exported_with_credentials'', ''backup_imported'', ''stream_opened'', ''stream_refused'',
      ''enrollment_issued'', ''enrollment_refused'']"

definition Known :: "string \<Rightarrow> bool" where
  "Known t \<longleftrightarrow> t \<in> set known_events"

record audit_event =
  evTenantID :: string
  evEventType :: string
  evActorKind :: string
  evActorID :: string
  evSubjectKind :: string
  evSubjectID :: string
  evSubjectName :: string
  evOutcome :: string
  evReason :: string
  evCorrelationID :: string
  evDetails :: "(string \<times> jval) list"

definition ValidateEvent :: "audit_event \<Rightarrow> unit result" where
  "ValidateEvent e =
     (if \<not> Known (evEventType e) then Inl (OtherError ''audit: unknown event type'')
      else if evTenantID e = '''' then Inl (OtherError ''audit: tenant_id is required'')
      else if evActorKind e \<notin> set [''user'', ''service'', ''system''] then Inl (OtherError ''audit: actor_kind'')
      else if evSubjectKind e \<notin> set [''certificate'', ''issuer'', ''request'', ''job'', ''secret'', ''grant'', ''webhook'',
                ''bundle'', ''backup'', ''system''] then Inl (OtherError ''audit: subject_kind'')
      else if evOutcome e \<notin> set [''ok'', ''refused'', ''failed''] then Inl (OtherError ''audit: outcome'')
      else Inr ())"

text \<open>\<open>strings.Contains\<close>.\<close>

fun str_contains :: "string \<Rightarrow> string \<Rightarrow> bool" where
  "str_contains [] p = (p = [])"
| "str_contains (c # s) p = (take (length p) (c # s) = p \<or> str_contains s p)"

definition forbidden :: "string list" where
  "forbidden = [''key'', ''secret'', ''token'', ''password'', ''private'', ''csr'']"

definition forbiddenKey :: "string \<Rightarrow> bool" where
  "forbiddenKey k = list_ex (str_contains (lower k)) forbidden"

fun guardValue :: "jval \<Rightarrow> jval"
  and guardValues :: "jval list \<Rightarrow> jval list"
  and guardFields :: "(string \<times> jval) list \<Rightarrow> (string \<times> jval) list" where
  "guardValue (JStr x) = JStr (if length x > 256 then take 256 x else x)"
| "guardValue (JObj fs) = JObj (guardFields fs)"
| "guardValue (JArr vs) = JArr (guardValues vs)"
| "guardValue JNull = JNull"
| "guardValue (JBool b) = JBool b"
| "guardValue (JNum n) = JNum n"
| "guardValue (JReal x) = JReal x"
| "guardValues [] = []"
| "guardValues (v # vs) = guardValue v # guardValues vs"
| "guardFields [] = []"
| "guardFields ((k, v) # fs) = (if forbiddenKey k then guardFields fs else (k, guardValue v) # guardFields fs)"

definition guardDetails :: "(string \<times> jval) list \<Rightarrow> (string \<times> jval) list" where
  "guardDetails m = guardFields m"

subsection \<open>The writer\<close>

record writer =
  wrCh :: "audit_row list"
  wrCap :: nat
  wrClosed :: bool
  wrDropped :: int
  wrBuf :: "audit_row list"

definition newWriter :: "nat \<Rightarrow> writer" where
  "newWriter queue = \<lparr>wrCh = [], wrCap = queue, wrClosed = False, wrDropped = 0, wrBuf = []\<rparr>"

definition audit_row_of :: "audit_event \<Rightarrow> time \<Rightarrow> audit_row" where
  "audit_row_of e now = \<lparr>auID = 0, auTS = now, auTenantID = evTenantID e, auEventType = evEventType e,
     auActorKind = evActorKind e, auActorID = evActorID e, auSubjectKind = evSubjectKind e,
     auSubjectID = evSubjectID e, auSubjectName = evSubjectName e, auOutcome = evOutcome e, auReason = evReason e,
     auCorrelationID = evCorrelationID e, auDetails = guardDetails (evDetails e)\<rparr>"

text \<open>\<open>Record\<close>; \<open>onError\<close> only reports, so a dropped event is an increment of the counter.\<close>

definition Record :: "writer \<Rightarrow> time \<Rightarrow> audit_event \<Rightarrow> unit result \<times> writer" where
  "Record w now e =
     (case ValidateEvent e of
        Inl err \<Rightarrow> (Inl err, w)
      | Inr _ \<Rightarrow>
          if wrClosed w then (Inl (OtherError ''audit: writer closed''), w\<lparr>wrDropped := wrDropped w + 1\<rparr>)
          else if length (wrCh w) < wrCap w then (Inr (), w\<lparr>wrCh := wrCh w @ [audit_row_of e now]\<rparr>)
          else (Inr (), w\<lparr>wrDropped := wrDropped w + 1\<rparr>))"

text \<open>The closure \<open>flush\<close> of \<open>run\<close>: a failed batch is reported and discarded.\<close>

definition flush :: "writer \<Rightarrow> 'z mem_scheme \<Rightarrow> writer \<times> 'z mem_scheme" where
  "flush w m = (if wrBuf w = [] then (w, m) else (w\<lparr>wrBuf := []\<rparr>, snd (InsertAuditRows m (wrBuf w))))"

text \<open>The arms of the select in \<open>run\<close>, and \<open>Close\<close>.\<close>

definition run_recv :: "writer \<Rightarrow> 'z mem_scheme \<Rightarrow> writer \<times> 'z mem_scheme" where
  "run_recv w m =
     (case wrCh w of
        [] \<Rightarrow> if wrClosed w then flush w m else (w, m)
      | r # rs \<Rightarrow>
          (let w = w\<lparr>wrCh := rs, wrBuf := wrBuf w @ [r]\<rparr>
           in if length (wrBuf w) \<ge> 200 then flush w m else (w, m)))"

definition run_flush_request :: "writer \<Rightarrow> 'z mem_scheme \<Rightarrow> writer \<times> 'z mem_scheme" where
  "run_flush_request w m = flush (w\<lparr>wrBuf := wrBuf w @ wrCh w, wrCh := []\<rparr>) m"

definition CloseWriter :: "writer \<Rightarrow> writer" where
  "CloseWriter w = w\<lparr>wrClosed := True\<rparr>"

subsection \<open>The detail guard\<close>

fun clean :: "jval \<Rightarrow> bool"
  and clean_list :: "jval list \<Rightarrow> bool"
  and clean_fields :: "(string \<times> jval) list \<Rightarrow> bool" where
  "clean (JStr x) = (length x \<le> 256)"
| "clean (JObj fs) = clean_fields fs"
| "clean (JArr vs) = clean_list vs"
| "clean JNull = True"
| "clean (JBool b) = True"
| "clean (JNum n) = True"
| "clean (JReal x) = True"
| "clean_list [] = True"
| "clean_list (v # vs) = (clean v \<and> clean_list vs)"
| "clean_fields [] = True"
| "clean_fields ((k, v) # fs) = (\<not> forbiddenKey k \<and> clean v \<and> clean_fields fs)"

lemma guard_clean:
  "clean (guardValue v)" "clean_list (guardValues vs)" "clean_fields (guardFields fs)"
  by (induction v and vs and fs rule: guardValue_guardValues_guardFields.induct) auto

lemma guard_keeps:
  "clean v \<Longrightarrow> guardValue v = v" "clean_list vs \<Longrightarrow> guardValues vs = vs" "clean_fields fs \<Longrightarrow> guardFields fs = fs"
  by (induction v and vs and fs rule: guardValue_guardValues_guardFields.induct) auto

text \<open>
  C36. The details of an audit row never carry a field whose name contains key, secret,
  token, password, private or csr in any letter case, at any depth, nor a string of more
  than 256 bytes; and details that already satisfy this are recorded unchanged.
\<close>

theorem guardDetails_clean:
  "clean_fields (guardDetails m) \<and> guardDetails (guardDetails m) = guardDetails m \<and>
   (guardDetails m = m \<longleftrightarrow> clean_fields m)"
  unfolding guardDetails_def using guard_clean(3) [of m] guard_keeps(3) by metis

subsection \<open>The writer loses nothing\<close>

text \<open>
  One step of the writer, its goroutine and the store. The third component lists the rows
  accepted so far, in the order of acceptance.
\<close>

type_synonym 'z audit_state = "writer \<times> 'z mem_scheme \<times> audit_row list"

inductive writer_step :: "'z audit_state \<Rightarrow> 'z audit_state \<Rightarrow> bool" where
  recorded: "Record w now e = (r, w') \<Longrightarrow> writer_step (w, m, acc) (w', m, acc @ drop (length (wrCh w)) (wrCh w'))"
| recv: "run_recv w m = (w', m') \<Longrightarrow> writer_step (w, m, acc) (w', m', acc)"
| tick: "flush w m = (w', m') \<Longrightarrow> writer_step (w, m, acc) (w', m', acc)"
| flush_request: "run_flush_request w m = (w', m') \<Longrightarrow> writer_step (w, m, acc) (w', m', acc)"
| closed: "writer_step (w, m, acc) (CloseWriter w, m, acc)"

definition no_id :: "audit_row \<Rightarrow> audit_row" where
  "no_id r = r\<lparr>auID := 0\<rparr>"

lemma append_audit_rows: "map no_id (foldl append_audit log rs) = map no_id log @ map no_id rs"
  by (induction rs arbitrary: log) (simp_all add: append_audit_def no_id_def)

definition writer_inv :: "nat \<Rightarrow> audit_row list \<Rightarrow> 'z audit_state \<Rightarrow> bool" where
  "writer_inv cap log0 = (\<lambda>(w, m, acc).
     fail m ''InsertAuditRows'' = None \<and> wrCap w = cap \<and> length (wrCh w) \<le> cap \<and> length (wrBuf w) < 200 \<and>
     map no_id (mAudit m) @ map no_id (wrBuf w @ wrCh w) = map no_id log0 @ map no_id acc)"

lemma flush_inv:
  assumes "fail m ''InsertAuditRows'' = None" "flush w m = (w', m')"
  shows "fail m' ''InsertAuditRows'' = None \<and> wrCap w' = wrCap w \<and> wrCh w' = wrCh w \<and> wrBuf w' = []
     \<and> map no_id (mAudit m') = map no_id (mAudit m) @ map no_id (wrBuf w)"
  using assms by (auto simp: flush_def InsertAuditRows_def unless_write_def fail_def append_audit_rows split: if_splits)

lemma writer_step_inv:
  assumes "writer_step s s'" "writer_inv cap log0 s"
  shows "writer_inv cap log0 s'"
  using assms
proof (cases rule: writer_step.cases)
  case (recorded w now e r w' m acc)
  then show ?thesis
    using assms(2) by (auto simp: writer_inv_def Record_def split: sum.splits if_splits)
next
  case (recv w m w' m' acc)
  show ?thesis
  proof (cases "wrCh w")
    case Nil
    with recv assms(2) flush_inv [of m w w' m'] show ?thesis
      by (auto simp: writer_inv_def run_recv_def split: if_splits)
  next
    case (Cons r rs)
    with recv assms(2) flush_inv [of m "w\<lparr>wrCh := rs, wrBuf := wrBuf w @ [r]\<rparr>" w' m'] show ?thesis
      by (auto simp: writer_inv_def run_recv_def Let_def split: if_splits)
  qed
next
  case (tick w m w' m' acc)
  with assms(2) flush_inv [of m w w' m'] show ?thesis by (auto simp: writer_inv_def)
next
  case (flush_request w m w' m' acc)
  with assms(2) flush_inv [of m "w\<lparr>wrBuf := wrBuf w @ wrCh w, wrCh := []\<rparr>" w' m'] show ?thesis
    by (auto simp: writer_inv_def run_flush_request_def)
next
  case (closed w m acc)
  with assms(2) show ?thesis by (auto simp: writer_inv_def CloseWriter_def)
qed

lemma writer_steps_inv:
  assumes "writer_step\<^sup>*\<^sup>* s s'" "writer_inv cap log0 s"
  shows "writer_inv cap log0 s'"
  using assms by (induction rule: rtranclp_induct) (auto intro: writer_step_inv)


definition demo_event :: audit_event where
  "demo_event = \<lparr>evTenantID = ''t'', evEventType = ''certificate_issued'', evActorKind = ''user'', evActorID = ''alice'',
     evSubjectKind = ''certificate'', evSubjectID = ''c1'', evSubjectName = '''', evOutcome = ''ok'', evReason = '''',
     evCorrelationID = '''', evDetails = [(''serial'', JStr ''10''), (''api_token'', JStr ''x'')]\<rparr>"


end
