(* ===== verification/Mem_Frame.thy ===== *)
theory Mem_Frame
  imports Mem_Inv
begin

text \<open>
  What every writing operation of the store leaves alone: the other tables, the injected
  failures and the clock. The facts are simplification rules, so that a service proof can
  read a table through the operations that do not write it.
\<close>

lemmas frame_splits = sum.splits option.splits if_splits prod.splits

lemma InsertIssuer_frame [simp]:
  "mCAs (snd (InsertIssuer m x)) = mCAs m"
  "mRequests (snd (InsertIssuer m x)) = mRequests m"
  "mJobs (snd (InsertIssuer m x)) = mJobs m"
  "mCertificates (snd (InsertIssuer m x)) = mCertificates m"
  "mRevocations (snd (InsertIssuer m x)) = mRevocations m"
  "mInstalled (snd (InsertIssuer m x)) = mInstalled m"
  "mTargets (snd (InsertIssuer m x)) = mTargets m"
  "mSecrets (snd (InsertIssuer m x)) = mSecrets m"
  "mWebhooks (snd (InsertIssuer m x)) = mWebhooks m"
  "mGrants (snd (InsertIssuer m x)) = mGrants m"
  "mCertLog (snd (InsertIssuer m x)) = mCertLog m"
  "mAudit (snd (InsertIssuer m x)) = mAudit m"
  "mFail (snd (InsertIssuer m x)) = mFail m"
  "mNow (snd (InsertIssuer m x)) = mNow m"
  by (simp_all add: InsertIssuer_def unless_write_def Let_def split: frame_splits)

lemma UpdateIssuer_frame [simp]:
  "mCAs (snd (UpdateIssuer m x)) = mCAs m"
  "mRequests (snd (UpdateIssuer m x)) = mRequests m"
  "mJobs (snd (UpdateIssuer m x)) = mJobs m"
  "mCertificates (snd (UpdateIssuer m x)) = mCertificates m"
  "mRevocations (snd (UpdateIssuer m x)) = mRevocations m"
  "mInstalled (snd (UpdateIssuer m x)) = mInstalled m"
  "mTargets (snd (UpdateIssuer m x)) = mTargets m"
  "mSecrets (snd (UpdateIssuer m x)) = mSecrets m"
  "mWebhooks (snd (UpdateIssuer m x)) = mWebhooks m"
  "mGrants (snd (UpdateIssuer m x)) = mGrants m"
  "mCertLog (snd (UpdateIssuer m x)) = mCertLog m"
  "mAudit (snd (UpdateIssuer m x)) = mAudit m"
  "mFail (snd (UpdateIssuer m x)) = mFail m"
  "mNow (snd (UpdateIssuer m x)) = mNow m"
  by (simp_all add: UpdateIssuer_def unless_write_def Let_def split: frame_splits)

lemma ClearDefaultIssuer_frame [simp]:
  "mCAs (snd (ClearDefaultIssuer m tid td except)) = mCAs m"
  "mRequests (snd (ClearDefaultIssuer m tid td except)) = mRequests m"
  "mJobs (snd (ClearDefaultIssuer m tid td except)) = mJobs m"
  "mCertificates (snd (ClearDefaultIssuer m tid td except)) = mCertificates m"
  "mRevocations (snd (ClearDefaultIssuer m tid td except)) = mRevocations m"
  "mInstalled (snd (ClearDefaultIssuer m tid td except)) = mInstalled m"
  "mTargets (snd (ClearDefaultIssuer m tid td except)) = mTargets m"
  "mSecrets (snd (ClearDefaultIssuer m tid td except)) = mSecrets m"
  "mWebhooks (snd (ClearDefaultIssuer m tid td except)) = mWebhooks m"
  "mGrants (snd (ClearDefaultIssuer m tid td except)) = mGrants m"
  "mCertLog (snd (ClearDefaultIssuer m tid td except)) = mCertLog m"
  "mAudit (snd (ClearDefaultIssuer m tid td except)) = mAudit m"
  "mFail (snd (ClearDefaultIssuer m tid td except)) = mFail m"
  "mNow (snd (ClearDefaultIssuer m tid td except)) = mNow m"
  by (simp_all add: ClearDefaultIssuer_def unless_write_def Let_def split: frame_splits)

lemma DeleteIssuer_frame [simp]:
  "mCAs (snd (DeleteIssuer m tid k)) = mCAs m"
  "mRequests (snd (DeleteIssuer m tid k)) = mRequests m"
  "mJobs (snd (DeleteIssuer m tid k)) = mJobs m"
  "mCertificates (snd (DeleteIssuer m tid k)) = mCertificates m"
  "mRevocations (snd (DeleteIssuer m tid k)) = mRevocations m"
  "mInstalled (snd (DeleteIssuer m tid k)) = mInstalled m"
  "mTargets (snd (DeleteIssuer m tid k)) = mTargets m"
  "mSecrets (snd (DeleteIssuer m tid k)) = mSecrets m"
  "mWebhooks (snd (DeleteIssuer m tid k)) = mWebhooks m"
  "mGrants (snd (DeleteIssuer m tid k)) = mGrants m"
  "mCertLog (snd (DeleteIssuer m tid k)) = mCertLog m"
  "mAudit (snd (DeleteIssuer m tid k)) = mAudit m"
  "mFail (snd (DeleteIssuer m tid k)) = mFail m"
  "mNow (snd (DeleteIssuer m tid k)) = mNow m"
  by (simp_all add: DeleteIssuer_def unless_write_def Let_def split: frame_splits)

lemma InsertCA_frame [simp]:
  "mIssuers (snd (InsertCA m x)) = mIssuers m"
  "mRequests (snd (InsertCA m x)) = mRequests m"
  "mJobs (snd (InsertCA m x)) = mJobs m"
  "mCertificates (snd (InsertCA m x)) = mCertificates m"
  "mRevocations (snd (InsertCA m x)) = mRevocations m"
  "mInstalled (snd (InsertCA m x)) = mInstalled m"
  "mTargets (snd (InsertCA m x)) = mTargets m"
  "mSecrets (snd (InsertCA m x)) = mSecrets m"
  "mWebhooks (snd (InsertCA m x)) = mWebhooks m"
  "mGrants (snd (InsertCA m x)) = mGrants m"
  "mCertLog (snd (InsertCA m x)) = mCertLog m"
  "mAudit (snd (InsertCA m x)) = mAudit m"
  "mFail (snd (InsertCA m x)) = mFail m"
  "mNow (snd (InsertCA m x)) = mNow m"
  by (simp_all add: InsertCA_def unless_write_def Let_def split: frame_splits)

lemma SetCAState_frame [simp]:
  "mIssuers (snd (SetCAState m tid k st)) = mIssuers m"
  "mRequests (snd (SetCAState m tid k st)) = mRequests m"
  "mJobs (snd (SetCAState m tid k st)) = mJobs m"
  "mCertificates (snd (SetCAState m tid k st)) = mCertificates m"
  "mRevocations (snd (SetCAState m tid k st)) = mRevocations m"
  "mInstalled (snd (SetCAState m tid k st)) = mInstalled m"
  "mTargets (snd (SetCAState m tid k st)) = mTargets m"
  "mSecrets (snd (SetCAState m tid k st)) = mSecrets m"
  "mWebhooks (snd (SetCAState m tid k st)) = mWebhooks m"
  "mGrants (snd (SetCAState m tid k st)) = mGrants m"
  "mCertLog (snd (SetCAState m tid k st)) = mCertLog m"
  "mAudit (snd (SetCAState m tid k st)) = mAudit m"
  "mFail (snd (SetCAState m tid k st)) = mFail m"
  "mNow (snd (SetCAState m tid k st)) = mNow m"
  by (simp_all add: SetCAState_def unless_write_def Let_def split: frame_splits)

lemma DeleteCA_frame [simp]:
  "mIssuers (snd (DeleteCA m tid k)) = mIssuers m"
  "mRequests (snd (DeleteCA m tid k)) = mRequests m"
  "mJobs (snd (DeleteCA m tid k)) = mJobs m"
  "mCertificates (snd (DeleteCA m tid k)) = mCertificates m"
  "mRevocations (snd (DeleteCA m tid k)) = mRevocations m"
  "mInstalled (snd (DeleteCA m tid k)) = mInstalled m"
  "mTargets (snd (DeleteCA m tid k)) = mTargets m"
  "mSecrets (snd (DeleteCA m tid k)) = mSecrets m"
  "mWebhooks (snd (DeleteCA m tid k)) = mWebhooks m"
  "mGrants (snd (DeleteCA m tid k)) = mGrants m"
  "mCertLog (snd (DeleteCA m tid k)) = mCertLog m"
  "mAudit (snd (DeleteCA m tid k)) = mAudit m"
  "mFail (snd (DeleteCA m tid k)) = mFail m"
  "mNow (snd (DeleteCA m tid k)) = mNow m"
  by (simp_all add: DeleteCA_def unless_write_def Let_def split: frame_splits)

lemma InsertRequest_frame [simp]:
  "mIssuers (snd (InsertRequest m x)) = mIssuers m"
  "mCAs (snd (InsertRequest m x)) = mCAs m"
  "mJobs (snd (InsertRequest m x)) = mJobs m"
  "mCertificates (snd (InsertRequest m x)) = mCertificates m"
  "mRevocations (snd (InsertRequest m x)) = mRevocations m"
  "mInstalled (snd (InsertRequest m x)) = mInstalled m"
  "mTargets (snd (InsertRequest m x)) = mTargets m"
  "mSecrets (snd (InsertRequest m x)) = mSecrets m"
  "mWebhooks (snd (InsertRequest m x)) = mWebhooks m"
  "mGrants (snd (InsertRequest m x)) = mGrants m"
  "mCertLog (snd (InsertRequest m x)) = mCertLog m"
  "mAudit (snd (InsertRequest m x)) = mAudit m"
  "mFail (snd (InsertRequest m x)) = mFail m"
  "mNow (snd (InsertRequest m x)) = mNow m"
  by (simp_all add: InsertRequest_def unless_write_def Let_def split: frame_splits)

lemma SetRequestStatus_frame [simp]:
  "mIssuers (snd (SetRequestStatus m tid k st ap re)) = mIssuers m"
  "mCAs (snd (SetRequestStatus m tid k st ap re)) = mCAs m"
  "mJobs (snd (SetRequestStatus m tid k st ap re)) = mJobs m"
  "mCertificates (snd (SetRequestStatus m tid k st ap re)) = mCertificates m"
  "mRevocations (snd (SetRequestStatus m tid k st ap re)) = mRevocations m"
  "mInstalled (snd (SetRequestStatus m tid k st ap re)) = mInstalled m"
  "mTargets (snd (SetRequestStatus m tid k st ap re)) = mTargets m"
  "mSecrets (snd (SetRequestStatus m tid k st ap re)) = mSecrets m"
  "mWebhooks (snd (SetRequestStatus m tid k st ap re)) = mWebhooks m"
  "mGrants (snd (SetRequestStatus m tid k st ap re)) = mGrants m"
  "mCertLog (snd (SetRequestStatus m tid k st ap re)) = mCertLog m"
  "mAudit (snd (SetRequestStatus m tid k st ap re)) = mAudit m"
  "mFail (snd (SetRequestStatus m tid k st ap re)) = mFail m"
  "mNow (snd (SetRequestStatus m tid k st ap re)) = mNow m"
  by (simp_all add: SetRequestStatus_def unless_write_def Let_def split: frame_splits)

lemma CompleteRequest_frame [simp]:
  "mIssuers (snd (CompleteRequest m tid k st cid re)) = mIssuers m"
  "mCAs (snd (CompleteRequest m tid k st cid re)) = mCAs m"
  "mJobs (snd (CompleteRequest m tid k st cid re)) = mJobs m"
  "mCertificates (snd (CompleteRequest m tid k st cid re)) = mCertificates m"
  "mRevocations (snd (CompleteRequest m tid k st cid re)) = mRevocations m"
  "mInstalled (snd (CompleteRequest m tid k st cid re)) = mInstalled m"
  "mTargets (snd (CompleteRequest m tid k st cid re)) = mTargets m"
  "mSecrets (snd (CompleteRequest m tid k st cid re)) = mSecrets m"
  "mWebhooks (snd (CompleteRequest m tid k st cid re)) = mWebhooks m"
  "mGrants (snd (CompleteRequest m tid k st cid re)) = mGrants m"
  "mCertLog (snd (CompleteRequest m tid k st cid re)) = mCertLog m"
  "mAudit (snd (CompleteRequest m tid k st cid re)) = mAudit m"
  "mFail (snd (CompleteRequest m tid k st cid re)) = mFail m"
  "mNow (snd (CompleteRequest m tid k st cid re)) = mNow m"
  by (simp_all add: CompleteRequest_def unless_write_def Let_def split: frame_splits)

lemma DeleteRequest_frame [simp]:
  "mIssuers (snd (DeleteRequest m tid k)) = mIssuers m"
  "mCAs (snd (DeleteRequest m tid k)) = mCAs m"
  "mJobs (snd (DeleteRequest m tid k)) = mJobs m"
  "mCertificates (snd (DeleteRequest m tid k)) = mCertificates m"
  "mRevocations (snd (DeleteRequest m tid k)) = mRevocations m"
  "mInstalled (snd (DeleteRequest m tid k)) = mInstalled m"
  "mTargets (snd (DeleteRequest m tid k)) = mTargets m"
  "mSecrets (snd (DeleteRequest m tid k)) = mSecrets m"
  "mWebhooks (snd (DeleteRequest m tid k)) = mWebhooks m"
  "mGrants (snd (DeleteRequest m tid k)) = mGrants m"
  "mCertLog (snd (DeleteRequest m tid k)) = mCertLog m"
  "mAudit (snd (DeleteRequest m tid k)) = mAudit m"
  "mFail (snd (DeleteRequest m tid k)) = mFail m"
  "mNow (snd (DeleteRequest m tid k)) = mNow m"
  by (simp_all add: DeleteRequest_def unless_write_def Let_def split: frame_splits)

lemma InsertJob_frame [simp]:
  "mIssuers (snd (InsertJob m x)) = mIssuers m"
  "mCAs (snd (InsertJob m x)) = mCAs m"
  "mRequests (snd (InsertJob m x)) = mRequests m"
  "mCertificates (snd (InsertJob m x)) = mCertificates m"
  "mRevocations (snd (InsertJob m x)) = mRevocations m"
  "mInstalled (snd (InsertJob m x)) = mInstalled m"
  "mTargets (snd (InsertJob m x)) = mTargets m"
  "mSecrets (snd (InsertJob m x)) = mSecrets m"
  "mWebhooks (snd (InsertJob m x)) = mWebhooks m"
  "mGrants (snd (InsertJob m x)) = mGrants m"
  "mCertLog (snd (InsertJob m x)) = mCertLog m"
  "mAudit (snd (InsertJob m x)) = mAudit m"
  "mFail (snd (InsertJob m x)) = mFail m"
  "mNow (snd (InsertJob m x)) = mNow m"
  by (simp_all add: InsertJob_def unless_write_def Let_def split: frame_splits)

lemma UpdateJob_frame [simp]:
  "mIssuers (snd (UpdateJob m x)) = mIssuers m"
  "mCAs (snd (UpdateJob m x)) = mCAs m"
  "mRequests (snd (UpdateJob m x)) = mRequests m"
  "mCertificates (snd (UpdateJob m x)) = mCertificates m"
  "mRevocations (snd (UpdateJob m x)) = mRevocations m"
  "mInstalled (snd (UpdateJob m x)) = mInstalled m"
  "mTargets (snd (UpdateJob m x)) = mTargets m"
  "mSecrets (snd (UpdateJob m x)) = mSecrets m"
  "mWebhooks (snd (UpdateJob m x)) = mWebhooks m"
  "mGrants (snd (UpdateJob m x)) = mGrants m"
  "mCertLog (snd (UpdateJob m x)) = mCertLog m"
  "mAudit (snd (UpdateJob m x)) = mAudit m"
  "mFail (snd (UpdateJob m x)) = mFail m"
  "mNow (snd (UpdateJob m x)) = mNow m"
  by (simp_all add: UpdateJob_def unless_write_def Let_def split: frame_splits)

lemma DeleteJob_frame [simp]:
  "mIssuers (snd (DeleteJob m tid k)) = mIssuers m"
  "mCAs (snd (DeleteJob m tid k)) = mCAs m"
  "mRequests (snd (DeleteJob m tid k)) = mRequests m"
  "mCertificates (snd (DeleteJob m tid k)) = mCertificates m"
  "mRevocations (snd (DeleteJob m tid k)) = mRevocations m"
  "mInstalled (snd (DeleteJob m tid k)) = mInstalled m"
  "mTargets (snd (DeleteJob m tid k)) = mTargets m"
  "mSecrets (snd (DeleteJob m tid k)) = mSecrets m"
  "mWebhooks (snd (DeleteJob m tid k)) = mWebhooks m"
  "mGrants (snd (DeleteJob m tid k)) = mGrants m"
  "mCertLog (snd (DeleteJob m tid k)) = mCertLog m"
  "mAudit (snd (DeleteJob m tid k)) = mAudit m"
  "mFail (snd (DeleteJob m tid k)) = mFail m"
  "mNow (snd (DeleteJob m tid k)) = mNow m"
  by (simp_all add: DeleteJob_def unless_write_def Let_def split: frame_splits)

lemma ClaimDueJobs_frame [simp]:
  "mIssuers (snd (ClaimDueJobs m now lease limit)) = mIssuers m"
  "mCAs (snd (ClaimDueJobs m now lease limit)) = mCAs m"
  "mRequests (snd (ClaimDueJobs m now lease limit)) = mRequests m"
  "mCertificates (snd (ClaimDueJobs m now lease limit)) = mCertificates m"
  "mRevocations (snd (ClaimDueJobs m now lease limit)) = mRevocations m"
  "mInstalled (snd (ClaimDueJobs m now lease limit)) = mInstalled m"
  "mTargets (snd (ClaimDueJobs m now lease limit)) = mTargets m"
  "mSecrets (snd (ClaimDueJobs m now lease limit)) = mSecrets m"
  "mWebhooks (snd (ClaimDueJobs m now lease limit)) = mWebhooks m"
  "mGrants (snd (ClaimDueJobs m now lease limit)) = mGrants m"
  "mCertLog (snd (ClaimDueJobs m now lease limit)) = mCertLog m"
  "mAudit (snd (ClaimDueJobs m now lease limit)) = mAudit m"
  "mFail (snd (ClaimDueJobs m now lease limit)) = mFail m"
  "mNow (snd (ClaimDueJobs m now lease limit)) = mNow m"
  by (simp_all add: ClaimDueJobs_def unless_write_def Let_def split: frame_splits)

lemma InsertCertificate_frame [simp]:
  "mIssuers (snd (InsertCertificate m x)) = mIssuers m"
  "mCAs (snd (InsertCertificate m x)) = mCAs m"
  "mRequests (snd (InsertCertificate m x)) = mRequests m"
  "mJobs (snd (InsertCertificate m x)) = mJobs m"
  "mRevocations (snd (InsertCertificate m x)) = mRevocations m"
  "mInstalled (snd (InsertCertificate m x)) = mInstalled m"
  "mTargets (snd (InsertCertificate m x)) = mTargets m"
  "mSecrets (snd (InsertCertificate m x)) = mSecrets m"
  "mWebhooks (snd (InsertCertificate m x)) = mWebhooks m"
  "mGrants (snd (InsertCertificate m x)) = mGrants m"
  "mCertLog (snd (InsertCertificate m x)) = mCertLog m"
  "mAudit (snd (InsertCertificate m x)) = mAudit m"
  "mFail (snd (InsertCertificate m x)) = mFail m"
  "mNow (snd (InsertCertificate m x)) = mNow m"
  by (simp_all add: InsertCertificate_def unless_write_def Let_def split: frame_splits)

lemma UpdateCertificate_frame [simp]:
  "mIssuers (snd (UpdateCertificate m x)) = mIssuers m"
  "mCAs (snd (UpdateCertificate m x)) = mCAs m"
  "mRequests (snd (UpdateCertificate m x)) = mRequests m"
  "mJobs (snd (UpdateCertificate m x)) = mJobs m"
  "mRevocations (snd (UpdateCertificate m x)) = mRevocations m"
  "mInstalled (snd (UpdateCertificate m x)) = mInstalled m"
  "mTargets (snd (UpdateCertificate m x)) = mTargets m"
  "mSecrets (snd (UpdateCertificate m x)) = mSecrets m"
  "mWebhooks (snd (UpdateCertificate m x)) = mWebhooks m"
  "mGrants (snd (UpdateCertificate m x)) = mGrants m"
  "mCertLog (snd (UpdateCertificate m x)) = mCertLog m"
  "mAudit (snd (UpdateCertificate m x)) = mAudit m"
  "mFail (snd (UpdateCertificate m x)) = mFail m"
  "mNow (snd (UpdateCertificate m x)) = mNow m"
  by (simp_all add: UpdateCertificate_def unless_write_def Let_def split: frame_splits)

lemma SetCertificateStatus_frame [simp]:
  "mIssuers (snd (SetCertificateStatus m tid k st sb)) = mIssuers m"
  "mCAs (snd (SetCertificateStatus m tid k st sb)) = mCAs m"
  "mRequests (snd (SetCertificateStatus m tid k st sb)) = mRequests m"
  "mJobs (snd (SetCertificateStatus m tid k st sb)) = mJobs m"
  "mRevocations (snd (SetCertificateStatus m tid k st sb)) = mRevocations m"
  "mInstalled (snd (SetCertificateStatus m tid k st sb)) = mInstalled m"
  "mTargets (snd (SetCertificateStatus m tid k st sb)) = mTargets m"
  "mSecrets (snd (SetCertificateStatus m tid k st sb)) = mSecrets m"
  "mWebhooks (snd (SetCertificateStatus m tid k st sb)) = mWebhooks m"
  "mGrants (snd (SetCertificateStatus m tid k st sb)) = mGrants m"
  "mCertLog (snd (SetCertificateStatus m tid k st sb)) = mCertLog m"
  "mAudit (snd (SetCertificateStatus m tid k st sb)) = mAudit m"
  "mFail (snd (SetCertificateStatus m tid k st sb)) = mFail m"
  "mNow (snd (SetCertificateStatus m tid k st sb)) = mNow m"
  by (simp_all add: SetCertificateStatus_def unless_write_def Let_def split: frame_splits)

lemma MarkKeyDelivered_frame [simp]:
  "mIssuers (snd (MarkKeyDelivered m tid k)) = mIssuers m"
  "mCAs (snd (MarkKeyDelivered m tid k)) = mCAs m"
  "mRequests (snd (MarkKeyDelivered m tid k)) = mRequests m"
  "mJobs (snd (MarkKeyDelivered m tid k)) = mJobs m"
  "mRevocations (snd (MarkKeyDelivered m tid k)) = mRevocations m"
  "mInstalled (snd (MarkKeyDelivered m tid k)) = mInstalled m"
  "mTargets (snd (MarkKeyDelivered m tid k)) = mTargets m"
  "mSecrets (snd (MarkKeyDelivered m tid k)) = mSecrets m"
  "mWebhooks (snd (MarkKeyDelivered m tid k)) = mWebhooks m"
  "mGrants (snd (MarkKeyDelivered m tid k)) = mGrants m"
  "mCertLog (snd (MarkKeyDelivered m tid k)) = mCertLog m"
  "mAudit (snd (MarkKeyDelivered m tid k)) = mAudit m"
  "mFail (snd (MarkKeyDelivered m tid k)) = mFail m"
  "mNow (snd (MarkKeyDelivered m tid k)) = mNow m"
  by (simp_all add: MarkKeyDelivered_def unless_write_def Let_def split: frame_splits)

lemma DeleteCertificate_frame [simp]:
  "mIssuers (snd (DeleteCertificate m tid k)) = mIssuers m"
  "mCAs (snd (DeleteCertificate m tid k)) = mCAs m"
  "mRequests (snd (DeleteCertificate m tid k)) = mRequests m"
  "mJobs (snd (DeleteCertificate m tid k)) = mJobs m"
  "mRevocations (snd (DeleteCertificate m tid k)) = mRevocations m"
  "mInstalled (snd (DeleteCertificate m tid k)) = mInstalled m"
  "mTargets (snd (DeleteCertificate m tid k)) = mTargets m"
  "mSecrets (snd (DeleteCertificate m tid k)) = mSecrets m"
  "mWebhooks (snd (DeleteCertificate m tid k)) = mWebhooks m"
  "mGrants (snd (DeleteCertificate m tid k)) = mGrants m"
  "mCertLog (snd (DeleteCertificate m tid k)) = mCertLog m"
  "mAudit (snd (DeleteCertificate m tid k)) = mAudit m"
  "mFail (snd (DeleteCertificate m tid k)) = mFail m"
  "mNow (snd (DeleteCertificate m tid k)) = mNow m"
  by (simp_all add: DeleteCertificate_def unless_write_def Let_def split: frame_splits)

lemma InsertRevocation_frame [simp]:
  "mIssuers (snd (InsertRevocation m x)) = mIssuers m"
  "mCAs (snd (InsertRevocation m x)) = mCAs m"
  "mRequests (snd (InsertRevocation m x)) = mRequests m"
  "mJobs (snd (InsertRevocation m x)) = mJobs m"
  "mCertificates (snd (InsertRevocation m x)) = mCertificates m"
  "mInstalled (snd (InsertRevocation m x)) = mInstalled m"
  "mTargets (snd (InsertRevocation m x)) = mTargets m"
  "mSecrets (snd (InsertRevocation m x)) = mSecrets m"
  "mWebhooks (snd (InsertRevocation m x)) = mWebhooks m"
  "mGrants (snd (InsertRevocation m x)) = mGrants m"
  "mCertLog (snd (InsertRevocation m x)) = mCertLog m"
  "mAudit (snd (InsertRevocation m x)) = mAudit m"
  "mFail (snd (InsertRevocation m x)) = mFail m"
  "mNow (snd (InsertRevocation m x)) = mNow m"
  by (simp_all add: InsertRevocation_def unless_write_def Let_def split: frame_splits)

lemma UpsertInstalled_frame [simp]:
  "mIssuers (snd (UpsertInstalled m x)) = mIssuers m"
  "mCAs (snd (UpsertInstalled m x)) = mCAs m"
  "mRequests (snd (UpsertInstalled m x)) = mRequests m"
  "mJobs (snd (UpsertInstalled m x)) = mJobs m"
  "mCertificates (snd (UpsertInstalled m x)) = mCertificates m"
  "mRevocations (snd (UpsertInstalled m x)) = mRevocations m"
  "mTargets (snd (UpsertInstalled m x)) = mTargets m"
  "mSecrets (snd (UpsertInstalled m x)) = mSecrets m"
  "mWebhooks (snd (UpsertInstalled m x)) = mWebhooks m"
  "mGrants (snd (UpsertInstalled m x)) = mGrants m"
  "mCertLog (snd (UpsertInstalled m x)) = mCertLog m"
  "mAudit (snd (UpsertInstalled m x)) = mAudit m"
  "mFail (snd (UpsertInstalled m x)) = mFail m"
  "mNow (snd (UpsertInstalled m x)) = mNow m"
  by (simp_all add: UpsertInstalled_def unless_write_def Let_def split: frame_splits)

lemma InsertTarget_frame [simp]:
  "mIssuers (snd (InsertTarget m x)) = mIssuers m"
  "mCAs (snd (InsertTarget m x)) = mCAs m"
  "mRequests (snd (InsertTarget m x)) = mRequests m"
  "mJobs (snd (InsertTarget m x)) = mJobs m"
  "mCertificates (snd (InsertTarget m x)) = mCertificates m"
  "mRevocations (snd (InsertTarget m x)) = mRevocations m"
  "mInstalled (snd (InsertTarget m x)) = mInstalled m"
  "mSecrets (snd (InsertTarget m x)) = mSecrets m"
  "mWebhooks (snd (InsertTarget m x)) = mWebhooks m"
  "mGrants (snd (InsertTarget m x)) = mGrants m"
  "mCertLog (snd (InsertTarget m x)) = mCertLog m"
  "mAudit (snd (InsertTarget m x)) = mAudit m"
  "mFail (snd (InsertTarget m x)) = mFail m"
  "mNow (snd (InsertTarget m x)) = mNow m"
  by (simp_all add: InsertTarget_def unless_write_def Let_def split: frame_splits)

lemma DeleteTarget_frame [simp]:
  "mIssuers (snd (DeleteTarget m tid k)) = mIssuers m"
  "mCAs (snd (DeleteTarget m tid k)) = mCAs m"
  "mRequests (snd (DeleteTarget m tid k)) = mRequests m"
  "mJobs (snd (DeleteTarget m tid k)) = mJobs m"
  "mCertificates (snd (DeleteTarget m tid k)) = mCertificates m"
  "mRevocations (snd (DeleteTarget m tid k)) = mRevocations m"
  "mInstalled (snd (DeleteTarget m tid k)) = mInstalled m"
  "mSecrets (snd (DeleteTarget m tid k)) = mSecrets m"
  "mWebhooks (snd (DeleteTarget m tid k)) = mWebhooks m"
  "mGrants (snd (DeleteTarget m tid k)) = mGrants m"
  "mCertLog (snd (DeleteTarget m tid k)) = mCertLog m"
  "mAudit (snd (DeleteTarget m tid k)) = mAudit m"
  "mFail (snd (DeleteTarget m tid k)) = mFail m"
  "mNow (snd (DeleteTarget m tid k)) = mNow m"
  by (simp_all add: DeleteTarget_def unless_write_def Let_def split: frame_splits)

lemma InsertSecret_frame [simp]:
  "mIssuers (snd (InsertSecret m x)) = mIssuers m"
  "mCAs (snd (InsertSecret m x)) = mCAs m"
  "mRequests (snd (InsertSecret m x)) = mRequests m"
  "mJobs (snd (InsertSecret m x)) = mJobs m"
  "mCertificates (snd (InsertSecret m x)) = mCertificates m"
  "mRevocations (snd (InsertSecret m x)) = mRevocations m"
  "mInstalled (snd (InsertSecret m x)) = mInstalled m"
  "mTargets (snd (InsertSecret m x)) = mTargets m"
  "mWebhooks (snd (InsertSecret m x)) = mWebhooks m"
  "mGrants (snd (InsertSecret m x)) = mGrants m"
  "mCertLog (snd (InsertSecret m x)) = mCertLog m"
  "mAudit (snd (InsertSecret m x)) = mAudit m"
  "mFail (snd (InsertSecret m x)) = mFail m"
  "mNow (snd (InsertSecret m x)) = mNow m"
  by (simp_all add: InsertSecret_def unless_write_def Let_def split: frame_splits)

lemma UpdateSecret_frame [simp]:
  "mIssuers (snd (UpdateSecret m x)) = mIssuers m"
  "mCAs (snd (UpdateSecret m x)) = mCAs m"
  "mRequests (snd (UpdateSecret m x)) = mRequests m"
  "mJobs (snd (UpdateSecret m x)) = mJobs m"
  "mCertificates (snd (UpdateSecret m x)) = mCertificates m"
  "mRevocations (snd (UpdateSecret m x)) = mRevocations m"
  "mInstalled (snd (UpdateSecret m x)) = mInstalled m"
  "mTargets (snd (UpdateSecret m x)) = mTargets m"
  "mWebhooks (snd (UpdateSecret m x)) = mWebhooks m"
  "mGrants (snd (UpdateSecret m x)) = mGrants m"
  "mCertLog (snd (UpdateSecret m x)) = mCertLog m"
  "mAudit (snd (UpdateSecret m x)) = mAudit m"
  "mFail (snd (UpdateSecret m x)) = mFail m"
  "mNow (snd (UpdateSecret m x)) = mNow m"
  by (simp_all add: UpdateSecret_def unless_write_def Let_def split: frame_splits)

lemma DeleteSecret_frame [simp]:
  "mIssuers (snd (DeleteSecret m tid k)) = mIssuers m"
  "mCAs (snd (DeleteSecret m tid k)) = mCAs m"
  "mRequests (snd (DeleteSecret m tid k)) = mRequests m"
  "mJobs (snd (DeleteSecret m tid k)) = mJobs m"
  "mCertificates (snd (DeleteSecret m tid k)) = mCertificates m"
  "mRevocations (snd (DeleteSecret m tid k)) = mRevocations m"
  "mInstalled (snd (DeleteSecret m tid k)) = mInstalled m"
  "mTargets (snd (DeleteSecret m tid k)) = mTargets m"
  "mWebhooks (snd (DeleteSecret m tid k)) = mWebhooks m"
  "mGrants (snd (DeleteSecret m tid k)) = mGrants m"
  "mCertLog (snd (DeleteSecret m tid k)) = mCertLog m"
  "mAudit (snd (DeleteSecret m tid k)) = mAudit m"
  "mFail (snd (DeleteSecret m tid k)) = mFail m"
  "mNow (snd (DeleteSecret m tid k)) = mNow m"
  by (simp_all add: DeleteSecret_def unless_write_def Let_def split: frame_splits)

lemma InsertWebhook_frame [simp]:
  "mIssuers (snd (InsertWebhook m x)) = mIssuers m"
  "mCAs (snd (InsertWebhook m x)) = mCAs m"
  "mRequests (snd (InsertWebhook m x)) = mRequests m"
  "mJobs (snd (InsertWebhook m x)) = mJobs m"
  "mCertificates (snd (InsertWebhook m x)) = mCertificates m"
  "mRevocations (snd (InsertWebhook m x)) = mRevocations m"
  "mInstalled (snd (InsertWebhook m x)) = mInstalled m"
  "mTargets (snd (InsertWebhook m x)) = mTargets m"
  "mSecrets (snd (InsertWebhook m x)) = mSecrets m"
  "mGrants (snd (InsertWebhook m x)) = mGrants m"
  "mCertLog (snd (InsertWebhook m x)) = mCertLog m"
  "mAudit (snd (InsertWebhook m x)) = mAudit m"
  "mFail (snd (InsertWebhook m x)) = mFail m"
  "mNow (snd (InsertWebhook m x)) = mNow m"
  by (simp_all add: InsertWebhook_def unless_write_def Let_def split: frame_splits)

lemma DeleteWebhook_frame [simp]:
  "mIssuers (snd (DeleteWebhook m tid k)) = mIssuers m"
  "mCAs (snd (DeleteWebhook m tid k)) = mCAs m"
  "mRequests (snd (DeleteWebhook m tid k)) = mRequests m"
  "mJobs (snd (DeleteWebhook m tid k)) = mJobs m"
  "mCertificates (snd (DeleteWebhook m tid k)) = mCertificates m"
  "mRevocations (snd (DeleteWebhook m tid k)) = mRevocations m"
  "mInstalled (snd (DeleteWebhook m tid k)) = mInstalled m"
  "mTargets (snd (DeleteWebhook m tid k)) = mTargets m"
  "mSecrets (snd (DeleteWebhook m tid k)) = mSecrets m"
  "mGrants (snd (DeleteWebhook m tid k)) = mGrants m"
  "mCertLog (snd (DeleteWebhook m tid k)) = mCertLog m"
  "mAudit (snd (DeleteWebhook m tid k)) = mAudit m"
  "mFail (snd (DeleteWebhook m tid k)) = mFail m"
  "mNow (snd (DeleteWebhook m tid k)) = mNow m"
  by (simp_all add: DeleteWebhook_def unless_write_def Let_def split: frame_splits)

lemma UpsertGrant_frame [simp]:
  "mIssuers (snd (UpsertGrant m x)) = mIssuers m"
  "mCAs (snd (UpsertGrant m x)) = mCAs m"
  "mRequests (snd (UpsertGrant m x)) = mRequests m"
  "mJobs (snd (UpsertGrant m x)) = mJobs m"
  "mCertificates (snd (UpsertGrant m x)) = mCertificates m"
  "mRevocations (snd (UpsertGrant m x)) = mRevocations m"
  "mInstalled (snd (UpsertGrant m x)) = mInstalled m"
  "mTargets (snd (UpsertGrant m x)) = mTargets m"
  "mSecrets (snd (UpsertGrant m x)) = mSecrets m"
  "mWebhooks (snd (UpsertGrant m x)) = mWebhooks m"
  "mCertLog (snd (UpsertGrant m x)) = mCertLog m"
  "mAudit (snd (UpsertGrant m x)) = mAudit m"
  "mFail (snd (UpsertGrant m x)) = mFail m"
  "mNow (snd (UpsertGrant m x)) = mNow m"
  by (simp_all add: UpsertGrant_def unless_write_def Let_def split: frame_splits)

lemma DeleteGrant_frame [simp]:
  "mIssuers (snd (DeleteGrant m tid k)) = mIssuers m"
  "mCAs (snd (DeleteGrant m tid k)) = mCAs m"
  "mRequests (snd (DeleteGrant m tid k)) = mRequests m"
  "mJobs (snd (DeleteGrant m tid k)) = mJobs m"
  "mCertificates (snd (DeleteGrant m tid k)) = mCertificates m"
  "mRevocations (snd (DeleteGrant m tid k)) = mRevocations m"
  "mInstalled (snd (DeleteGrant m tid k)) = mInstalled m"
  "mTargets (snd (DeleteGrant m tid k)) = mTargets m"
  "mSecrets (snd (DeleteGrant m tid k)) = mSecrets m"
  "mWebhooks (snd (DeleteGrant m tid k)) = mWebhooks m"
  "mCertLog (snd (DeleteGrant m tid k)) = mCertLog m"
  "mAudit (snd (DeleteGrant m tid k)) = mAudit m"
  "mFail (snd (DeleteGrant m tid k)) = mFail m"
  "mNow (snd (DeleteGrant m tid k)) = mNow m"
  by (simp_all add: DeleteGrant_def unless_write_def Let_def split: frame_splits)

lemma DeleteGrantsOfResource_frame [simp]:
  "mIssuers (snd (DeleteGrantsOfResource m tid rt ri)) = mIssuers m"
  "mCAs (snd (DeleteGrantsOfResource m tid rt ri)) = mCAs m"
  "mRequests (snd (DeleteGrantsOfResource m tid rt ri)) = mRequests m"
  "mJobs (snd (DeleteGrantsOfResource m tid rt ri)) = mJobs m"
  "mCertificates (snd (DeleteGrantsOfResource m tid rt ri)) = mCertificates m"
  "mRevocations (snd (DeleteGrantsOfResource m tid rt ri)) = mRevocations m"
  "mInstalled (snd (DeleteGrantsOfResource m tid rt ri)) = mInstalled m"
  "mTargets (snd (DeleteGrantsOfResource m tid rt ri)) = mTargets m"
  "mSecrets (snd (DeleteGrantsOfResource m tid rt ri)) = mSecrets m"
  "mWebhooks (snd (DeleteGrantsOfResource m tid rt ri)) = mWebhooks m"
  "mCertLog (snd (DeleteGrantsOfResource m tid rt ri)) = mCertLog m"
  "mAudit (snd (DeleteGrantsOfResource m tid rt ri)) = mAudit m"
  "mFail (snd (DeleteGrantsOfResource m tid rt ri)) = mFail m"
  "mNow (snd (DeleteGrantsOfResource m tid rt ri)) = mNow m"
  by (simp_all add: DeleteGrantsOfResource_def unless_write_def Let_def split: frame_splits)

lemma InsertCertLog_frame [simp]:
  "mIssuers (snd (InsertCertLog m x)) = mIssuers m"
  "mCAs (snd (InsertCertLog m x)) = mCAs m"
  "mRequests (snd (InsertCertLog m x)) = mRequests m"
  "mJobs (snd (InsertCertLog m x)) = mJobs m"
  "mCertificates (snd (InsertCertLog m x)) = mCertificates m"
  "mRevocations (snd (InsertCertLog m x)) = mRevocations m"
  "mInstalled (snd (InsertCertLog m x)) = mInstalled m"
  "mTargets (snd (InsertCertLog m x)) = mTargets m"
  "mSecrets (snd (InsertCertLog m x)) = mSecrets m"
  "mWebhooks (snd (InsertCertLog m x)) = mWebhooks m"
  "mGrants (snd (InsertCertLog m x)) = mGrants m"
  "mAudit (snd (InsertCertLog m x)) = mAudit m"
  "mFail (snd (InsertCertLog m x)) = mFail m"
  "mNow (snd (InsertCertLog m x)) = mNow m"
  by (simp_all add: InsertCertLog_def unless_write_def Let_def split: frame_splits)

lemma InsertAuditRows_frame [simp]:
  "mIssuers (snd (InsertAuditRows m x)) = mIssuers m"
  "mCAs (snd (InsertAuditRows m x)) = mCAs m"
  "mRequests (snd (InsertAuditRows m x)) = mRequests m"
  "mJobs (snd (InsertAuditRows m x)) = mJobs m"
  "mCertificates (snd (InsertAuditRows m x)) = mCertificates m"
  "mRevocations (snd (InsertAuditRows m x)) = mRevocations m"
  "mInstalled (snd (InsertAuditRows m x)) = mInstalled m"
  "mTargets (snd (InsertAuditRows m x)) = mTargets m"
  "mSecrets (snd (InsertAuditRows m x)) = mSecrets m"
  "mWebhooks (snd (InsertAuditRows m x)) = mWebhooks m"
  "mGrants (snd (InsertAuditRows m x)) = mGrants m"
  "mCertLog (snd (InsertAuditRows m x)) = mCertLog m"
  "mFail (snd (InsertAuditRows m x)) = mFail m"
  "mNow (snd (InsertAuditRows m x)) = mNow m"
  by (simp_all add: InsertAuditRows_def unless_write_def Let_def split: frame_splits)

end
