(* ===== verification/World.thy ===== *)
theory World
  imports Authz Csr Sealed Audit_Log Mem_Frame
begin

text \<open>
  The state the services share, the store extended with the audit writer, and the library
  code they call. A service operation is a function of the cryptographic library (\<open>crypto\<close>),
  the kind of backend, what it draws from the random source and \<open>store.NewID\<close> (\<open>entropy\<close>),
  the world, the caller and its input; it returns its result and the next world.

  \<open>acts t\<close> relates the worlds an operation run for tenant \<open>t\<close> may lead to: a sequence of
  store operations of that tenant and of audit records. Every service operation is proved
  to be such a sequence, so it keeps the data invariant and every other tenant's rows.
\<close>

record world = mem +
  wWriter :: writer

subsection \<open>The library\<close>

text \<open>The fields of \<open>x509.Certificate\<close> the program fills in; a usage is named by its constant.\<close>

record x509_template =
  xtSerial :: nat
  xtCommonName :: string
  xtNotBefore :: time
  xtNotAfter :: time
  xtKeyUsage :: "string list"
  xtExtKeyUsage :: "string list"
  xtIsCA :: bool
  xtURI :: string
  xtDNSNames :: "string list"

text \<open>The fields of a parsed \<open>x509.Certificate\<close> the program reads.\<close>

record x509_cert =
  xcRaw :: string
  xcSerial :: nat
  xcSubjectCN :: string
  xcIssuerDN :: string
  xcNotBefore :: time
  xcNotAfter :: time
  xcIsCA :: bool
  xcPublicKey :: pubkey
  xcDNSNames :: "string list"
  xcURIs :: "string list"
  xcIPAddresses :: "string list"
  xcEmailAddresses :: "string list"

record pem_block =
  pbType :: string
  pbHeaders :: "(string \<times> string) list"
  pbBytes :: string

text \<open>
  \<open>crPem\<close> is \<open>pem.Decode\<close>, the first block and the rest; without a block the rest is the
  whole input. A private key is the string of its bytes; \<open>crPublic\<close> is its public half.
\<close>

record crypto =
  crAead :: aead
  crKEK :: string
  crPem :: "string \<Rightarrow> (pem_block \<times> string) option"
  crPemEncode :: "string \<Rightarrow> string \<Rightarrow> string"
  crParseRequest :: "string \<Rightarrow> x509_csr option"
  crMarshalKey :: "string \<Rightarrow> string result"
  crParseKey :: "string \<Rightarrow> string option"
  crPublic :: "string \<Rightarrow> pubkey"
  crParseCert :: "string \<Rightarrow> x509_cert option"
  crSelfSign :: "x509_template \<Rightarrow> pubkey \<Rightarrow> string \<Rightarrow> string result"
  crSign :: "x509_template \<Rightarrow> x509_cert \<Rightarrow> pubkey \<Rightarrow> string \<Rightarrow> string result"
  crFingerprint :: "string \<Rightarrow> string"
  crParsePKCS1 :: "string \<Rightarrow> string option"
  crParseEC :: "string \<Rightarrow> string option"
  crMakeRequest :: "string \<Rightarrow> string \<Rightarrow> string list \<Rightarrow> string result"

definition crPemDecode :: "crypto \<Rightarrow> string \<Rightarrow> (string \<times> string) option" where
  "crPemDecode cr s = map_option (\<lambda>(b, _). (pbType b, pbBytes b)) (crPem cr s)"

text \<open>
  The documented behaviour of the library the properties rely on: AES-GCM as in
  \<open>aead_ok\<close> with a 32-byte key, PEM and PKCS#8 decode what they encoded, and
  a certificate the library signed parses to one with the serial and key it was given.
\<close>

definition signed_ok :: "crypto \<Rightarrow> x509_template \<Rightarrow> pubkey \<Rightarrow> string \<Rightarrow> bool" where
  "signed_ok cr tmpl pub der \<longleftrightarrow>
     (\<exists>c. crParseCert cr der = Some c \<and> xcRaw c = der \<and> xcSerial c = xtSerial tmpl \<and> xcPublicKey c = pub)"

definition crypto_ok :: "crypto \<Rightarrow> bool" where
  "crypto_ok cr \<longleftrightarrow>
     aead_ok (crAead cr) \<and> length (crKEK cr) = 32
     \<and> (\<forall>ty d. crPem cr (crPemEncode cr ty d) = Some (\<lparr>pbType = ty, pbHeaders = [], pbBytes = d\<rparr>, ''''))
     \<and> (\<forall>ty d. crPemEncode cr ty d \<noteq> '''')
     \<and> (\<forall>k d. crMarshalKey cr k = Inr d \<longrightarrow> crParseKey cr d = Some k)
     \<and> (\<forall>t p k d. crSelfSign cr t p k = Inr d \<longrightarrow> signed_ok cr t p d)
     \<and> (\<forall>t c p k d. crSign cr t c p k = Inr d \<longrightarrow> signed_ok cr t p d)"

record entropy =
  enID :: string
  enGrantID :: string
  enKey :: "(pubkey \<times> string) result"
  enSerial :: "nat result"
  enSeal :: seal_bytes

subsection \<open>Audit events\<close>

definition event_of ::
  "subjects \<Rightarrow> string \<Rightarrow> string \<Rightarrow> string \<Rightarrow> string \<Rightarrow> string \<Rightarrow> string \<Rightarrow> (string \<times> jval) list \<Rightarrow> audit_event" where
  "event_of s etype skind sid sname outcome reason details =
     \<lparr>evTenantID = sbTenantID s, evEventType = etype, evActorKind = ActorKind s, evActorID = ActorID s,
      evSubjectKind = skind, evSubjectID = sid, evSubjectName = sname, evOutcome = outcome, evReason = reason,
      evCorrelationID = '''', evDetails = details\<rparr>"

text \<open>\<open>emit\<close>: best effort, the error of \<open>Record\<close> is ignored.\<close>

definition emit :: "world \<Rightarrow> audit_event \<Rightarrow> world" where
  "emit w e = w\<lparr>wWriter := snd (Record (wWriter w) (mNow w) e)\<rparr>"

definition userPtr :: "subjects \<Rightarrow> string option" where
  "userPtr s = (if sbUserID s = '''' then None else Some (sbUserID s))"

lemma emit_frame [simp]:
  "mIssuers (emit w e) = mIssuers w" "mCAs (emit w e) = mCAs w" "mRequests (emit w e) = mRequests w"
  "mJobs (emit w e) = mJobs w" "mCertificates (emit w e) = mCertificates w" "mRevocations (emit w e) = mRevocations w"
  "mInstalled (emit w e) = mInstalled w" "mTargets (emit w e) = mTargets w" "mSecrets (emit w e) = mSecrets w"
  "mWebhooks (emit w e) = mWebhooks w" "mGrants (emit w e) = mGrants w" "mCertLog (emit w e) = mCertLog w"
  "mAudit (emit w e) = mAudit w" "mFail (emit w e) = mFail w" "mNow (emit w e) = mNow w"
  by (simp_all add: emit_def)

lemma store_ok_fields:
  "\<lbrakk>mIssuers w' = mIssuers w; mCAs w' = mCAs w; mRequests w' = mRequests w; mJobs w' = mJobs w;
    mCertificates w' = mCertificates w; mRevocations w' = mRevocations w; mInstalled w' = mInstalled w;
    mTargets w' = mTargets w; mSecrets w' = mSecrets w; mWebhooks w' = mWebhooks w; mGrants w' = mGrants w\<rbrakk>
   \<Longrightarrow> store_ok w' = store_ok w"
  by (simp add: store_ok_def)

lemma store_ok_writer [simp]: "store_ok (w\<lparr>wWriter := x\<rparr>) = store_ok w"
  by (rule store_ok_fields) simp_all

lemma store_ok_emit [simp]: "store_ok (emit w e) = store_ok w"
  by (simp add: emit_def)

subsection \<open>Operations of one tenant\<close>

inductive acts :: "string \<Rightarrow> world \<Rightarrow> world \<Rightarrow> bool" for t :: string where
  acts_refl [intro, simp]: "acts t w w"
| acts_store: "acts t w w1 \<Longrightarrow> store_step (Some t) w1 w2 \<Longrightarrow> acts t w w2"
| acts_audit: "acts t w w1 \<Longrightarrow> acts t w (w1\<lparr>wWriter := x\<rparr>)"

lemma acts_trans: "acts t w1 w2 \<Longrightarrow> acts t w0 w1 \<Longrightarrow> acts t w0 w2"
  by (induction rule: acts.induct) (auto intro: acts_store acts_audit)

lemma acts_step: "store_step (Some t) w w' \<Longrightarrow> acts t w w'"
  by (rule acts_store [OF acts_refl])

lemma acts_emit [intro]: "acts t w w1 \<Longrightarrow> acts t w (emit w1 e)"
  unfolding emit_def by (rule acts_audit)

lemma acts_ok:
  assumes "acts t w w'" "store_ok w"
  shows "store_ok w'"
  using assms by (induction rule: acts.induct) (auto intro: store_step_ok)

lemma acts_isolation:
  assumes "acts t w w'" "store_ok w" "t \<noteq> tid"
  shows "same_tenant tid w w'"
  using assms
proof (induction rule: acts.induct)
  case (acts_store w w1 w2)
  then show ?case using step_isolation [OF acts_store.hyps(2) acts_ok [OF acts_store.hyps(1)]]
    by (blast intro: same_tenant_trans)
next
  case (acts_audit w w1 x)
  then show ?case by (simp add: same_tenant_def)
qed simp

lemma acts_clock: "acts t w w' \<Longrightarrow> mNow w' = mNow w \<and> mFail w' = mFail w"
proof (induction rule: acts.induct)
  case (acts_store w w1 w2)
  from acts_store.hyps(2) acts_store.IH show ?case by (cases rule: store_step.cases) simp_all
qed simp_all

lemma Atomic_acts:
  assumes "acts t w (snd (fn w))"
  shows "acts t w (snd (Atomic be w fn))"
  using assms by (cases "fn w"; cases "fst (fn w)"; cases be) (auto simp: Atomic_def unless_write_def split: option.splits)

lemma Atomic_Inr:
  "Atomic be w fn = (Inr v, w') \<longleftrightarrow> fail w ''Atomic'' = None \<and> fn w = (Inr v, w')"
  by (cases "fn w"; cases "fst (fn w)"; cases be) (auto simp: Atomic_def unless_write_def split: option.splits)

text \<open>A transaction of the database that fails leaves the world as it was.\<close>

lemma Atomic_rollback: "Atomic Database w fn = (Inl e, w') \<Longrightarrow> w' = w"
  by (cases "fn w"; cases "fst (fn w)") (auto simp: Atomic_def unless_write_def split: option.splits)

lemma on_ok_acts:
  assumes "acts t w (snd r)" "\<And>a w1. r = (Inr a, w1) \<Longrightarrow> acts t w (snd (k a w1))"
  shows "acts t w (snd (on_ok r k))"
  using assms by (cases r; cases "fst r") auto

text \<open>The same, with the state after the first operation read off as \<open>snd\<close>.\<close>

lemma on_ok_acts_snd:
  assumes "acts t w (snd r)" "\<And>a. fst r = Inr a \<Longrightarrow> acts t (snd r) (snd (k a (snd r)))"
  shows "acts t w (snd (on_ok r k))"
  using assms by (cases r; cases "fst r") (auto intro: acts_trans)

lemma acts_ops:
  "acts t w (snd (ClearDefaultIssuer w t td except))" "acts t w (snd (DeleteIssuer w t k))"
  "acts t w (snd (SetRequestStatus w t k st ap re))" "acts t w (snd (CompleteRequest w t k st cid re))"
  "acts t w (snd (DeleteRequest w t k))" "acts t w (snd (DeleteJob w t k))"
  "acts t w (snd (SetCertificateStatus w t k st sb))" "acts t w (snd (MarkKeyDelivered w t k))"
  "acts t w (snd (DeleteCertificate w t k))" "acts t w (snd (DeleteTarget w t k))" "acts t w (snd (DeleteSecret w t k))"
  "acts t w (snd (DeleteWebhook w t k))" "acts t w (snd (DeleteGrant w t k))" "acts t w (snd (DeleteGrantsOfResource w t rt ri))"
  by (rule acts_step, rule store_step.intros)+

lemma acts_rows:
  "isTenantID i = t \<Longrightarrow> acts t w (snd (UpdateIssuer w i))"
  "jbTenantID j = t \<Longrightarrow> acts t w (snd (UpdateJob w j))"
  "icTenantID c = t \<Longrightarrow> acts t w (snd (UpdateCertificate w c))"
  "scTenantID s = t \<Longrightarrow> acts t w (snd (UpdateSecret w s))"
  "clTenantID l = t \<Longrightarrow> acts t w (snd (InsertCertLog w [l]))"
  by (hypsubst, rule acts_step, (rule store_step.intros; simp))+

lemma acts_inserts:
  "isTenantID i = t \<Longrightarrow> map_of (mIssuers w) (isID i) = None \<Longrightarrow> acts t w (snd (InsertIssuer w i))"
  "caTenantID c = t \<Longrightarrow> map_of (mCAs w) (caID c) = None \<Longrightarrow> acts t w (snd (InsertCA w c))"
  "rqTenantID r = t \<Longrightarrow> map_of (mRequests w) (rqID r) = None \<Longrightarrow> acts t w (snd (InsertRequest w r))"
  "jbTenantID j = t \<Longrightarrow> map_of (mJobs w) (jbID j) = None \<Longrightarrow> acts t w (snd (InsertJob w j))"
  "icTenantID x = t \<Longrightarrow> map_of (mCertificates w) (icID x) = None \<Longrightarrow> acts t w (snd (InsertCertificate w x))"
  "rvTenantID v = t \<Longrightarrow> map_of (mRevocations w) (rvID v) = None \<Longrightarrow> acts t w (snd (InsertRevocation w v))"
  "inTenantID n = t \<Longrightarrow> map_of (mInstalled w) (inID n) = None \<Longrightarrow> acts t w (snd (UpsertInstalled w n))"
  "tgTenantID y = t \<Longrightarrow> map_of (mTargets w) (tgID y) = None \<Longrightarrow> acts t w (snd (InsertTarget w y))"
  "scTenantID s = t \<Longrightarrow> map_of (mSecrets w) (scID s) = None \<Longrightarrow> acts t w (snd (InsertSecret w s))"
  "whTenantID h = t \<Longrightarrow> map_of (mWebhooks w) (whID h) = None \<Longrightarrow> acts t w (snd (InsertWebhook w h))"
  "grTenantID g = t \<Longrightarrow> map_of (mGrants w) (grID g) = None \<Longrightarrow> acts t w (snd (UpsertGrant w g))"
  by (hypsubst, rule acts_step, (rule store_step.intros; simp))+

lemma GrantOwner_acts:
  assumes "map_of (mGrants w) nid = None"
  shows "acts t w (snd (GrantOwner w t rt ri uid nid))"
proof -
  define g where "g = \<lparr>grID = nid, grTenantID = t, grResourceType = rt, grResourceID = ri,
    grSubjectType = ''user'', grSubjectID = uid, grRelation = ''owner'', grGrantedBy = Some uid,
    grGrantedAt = 0, grExpiresAt = None\<rparr>"
  have "store_step (Some (grTenantID g)) w (snd (UpsertGrant w g))"
    by (rule store_step.upsert_grant) (simp add: g_def assms)
  then have "acts t w (snd (UpsertGrant w g))" by (intro acts_step) (simp add: g_def)
  then show ?thesis unfolding GrantOwner_def g_def [symmetric]
    by (auto intro!: on_ok_acts dest: arg_cong [where f = snd])
qed

lemma DropResource_acts: "acts t w (snd (DropResource w t rt ri))"
  unfolding DropResource_def by (intro acts_step store_step.delete_grants)

subsection \<open>A concrete library\<close>

text \<open>
  An instance of the library that satisfies the laws, on which the properties with
  hypotheses are instantiated. Numbers are written in unary, so that decoding is a scan.
\<close>

definition unary :: "nat \<Rightarrow> string" where
  "unary n = replicate n (CHR ''1'') @ ''0''"

definition ununary :: "string \<Rightarrow> nat \<times> string" where
  "ununary s = (length (takeWhile (\<lambda>c. c = CHR ''1'') s), drop 1 (dropWhile (\<lambda>c. c = CHR ''1'') s))"

lemma ununary_unary [simp]: "ununary (unary n @ s) = (n, s)"
  by (induction n) (simp_all add: unary_def ununary_def)

lemma unary_nonempty [simp]: "unary n \<noteq> []"
  by (simp add: unary_def)

fun demo_key_bytes :: "pubkey \<Rightarrow> string" where
  "demo_key_bytes (RSAKey n k) = unary 0 @ unary n @ k"
| "demo_key_bytes (ECDSAKey n k) = (if n = 256 then unary 4 @ unary 0 @ k else unary 1 @ unary n @ k)"
| "demo_key_bytes (Ed25519Key k) = unary 2 @ unary 0 @ k"
| "demo_key_bytes (OtherKey k) = unary 3 @ unary 0 @ k"

definition demo_key_of :: "string \<Rightarrow> pubkey" where
  "demo_key_of s =
     (let (tag, r) = ununary s; (n, k) = ununary r
      in if tag = 0 then RSAKey n k else if tag = 1 then ECDSAKey n k else if tag = 2 then Ed25519Key k
         else if tag = 3 then OtherKey k else ECDSAKey 256 k)"

lemma demo_key_of_bytes [simp]: "demo_key_of (demo_key_bytes p) = p"
  by (cases p) (simp_all add: demo_key_of_def)

definition demo_der :: "nat \<Rightarrow> pubkey \<Rightarrow> string" where
  "demo_der serial pub = unary serial @ demo_key_bytes pub"

definition demo_parse_cert :: "string \<Rightarrow> x509_cert" where
  "demo_parse_cert der =
     (let (serial, r) = ununary der
      in \<lparr>xcRaw = der, xcSerial = serial, xcSubjectCN = ''cn'', xcIssuerDN = ''CN=ca'', xcNotBefore = 1, xcNotAfter = 1000,
          xcIsCA = False, xcPublicKey = demo_key_of r, xcDNSNames = [''a.example''], xcURIs = [], xcIPAddresses = [],
          xcEmailAddresses = []\<rparr>)"

definition demo_crypto :: crypto where
  "demo_crypto = \<lparr>crAead = demo_aead, crKEK = replicate 32 (CHR ''k''),
     crPem = (\<lambda>s. if s = '''' then None
                  else (let (n, r) = ununary s; (l, b) = ununary r
                        in Some (\<lparr>pbType = take n b, pbHeaders = [], pbBytes = take l (drop n b)\<rparr>, drop (n + l) b))),
     crPemEncode = (\<lambda>ty d. unary (length ty) @ unary (length d) @ ty @ d),
     crParseRequest = (\<lambda>der. Some \<lparr>xqRaw = der, xqSignatureOK = True, xqKey = ECDSAKey 256 der, xqDNSNames = [], xqURIs = []\<rparr>),
     crMarshalKey = Inr, crParseKey = Some, crPublic = ECDSAKey 256, crParseCert = (\<lambda>der. Some (demo_parse_cert der)),
     crSelfSign = (\<lambda>t p k. Inr (demo_der (xtSerial t) p)), crSign = (\<lambda>t c p k. Inr (demo_der (xtSerial t) p)),
     crFingerprint = (\<lambda>d. d),
     crParsePKCS1 = Some, crParseEC = Some, crMakeRequest = (\<lambda>k cn names. Inr (''csr:'' @ k))\<rparr>"

lemma demo_crypto_ok: "crypto_ok demo_crypto"
  unfolding crypto_ok_def signed_ok_def
  by (simp add: demo_crypto_def demo_aead_ok demo_parse_cert_def demo_der_def)

definition demo_entropy :: "string \<Rightarrow> string \<Rightarrow> entropy" where
  "demo_entropy i g = \<lparr>enID = i, enGrantID = g, enKey = Inr (ECDSAKey 256 ''pub'', ''priv''), enSerial = Inr 4,
     enSeal = Inr (replicate 32 (CHR ''d''), replicate 12 (CHR ''a''), replicate 12 (CHR ''b''))\<rparr>"

lemma demo_entropy_simps [simp]:
  "enID (demo_entropy i g) = i" "enGrantID (demo_entropy i g) = g"
  "enKey (demo_entropy i g) = Inr (ECDSAKey 256 ''pub'', ''priv'')" "enSerial (demo_entropy i g) = Inr 4"
  "enSeal (demo_entropy i g) = Inr (replicate 32 (CHR ''d''), replicate 12 (CHR ''a''), replicate 12 (CHR ''b''))"
  by (simp_all add: demo_entropy_def)

end
