(* ===== verification/Ca.thy ===== *)
theory Ca
  imports World Fixtures
begin

text \<open>
  The certificate authority of a trust domain (internal/ca/ca.go): the self-signed root
  generated on demand, the signer behind it, the trust bundle and the bootstrap leaf.
\<close>

definition EncodeCertPEM :: "crypto \<Rightarrow> string \<Rightarrow> string" where
  "EncodeCertPEM cr der = crPemEncode cr ''CERTIFICATE'' der"

definition rootValidity :: duration where
  "rootValidity = 10 * 365 * 24 * Hour"

text \<open>\<open>randomSerial\<close> adds one to the number \<open>rand.Int\<close> draws below 2 to the 128.\<close>

definition randomSerial :: "nat result \<Rightarrow> nat result" where
  "randomSerial draw = on_val draw (\<lambda>n. Inr (n + 1))"

definition generate :: "crypto \<Rightarrow> entropy \<Rightarrow> time \<Rightarrow> string \<Rightarrow> string \<Rightarrow> ca_row result" where
  "generate cr en now tenantID trustDomain =
     on_val (enKey en) (\<lambda>(pub, priv).
     on_val (randomSerial (enSerial en)) (\<lambda>serial.
     (case url_parse (''spiffe://'' @ trustDomain) of
        None \<Rightarrow> Inl CaInput
      | Some _ \<Rightarrow>
          (let tmpl = \<lparr>xtSerial = serial, xtCommonName = trustDomain @ '' LCM Root'', xtNotBefore = now,
                 xtNotAfter = now + rootValidity, xtKeyUsage = [''CertSign'', ''CRLSign''], xtExtKeyUsage = [],
                 xtIsCA = True, xtURI = ''spiffe://'' @ trustDomain, xtDNSNames = []\<rparr>
           in on_val (crSelfSign cr tmpl pub priv) (\<lambda>der.
              on_val (crMarshalKey cr priv) (\<lambda>keyDER.
              on_val (Seal (crAead cr) (crKEK cr) (enSeal en) (crPemEncode cr ''PRIVATE KEY'' keyDER) (ADCA (enID en))) (\<lambda>blob.
              Inr \<lparr>caID = enID en, caTenantID = tenantID, caTrustDomain = trustDomain, caCertPEM = EncodeCertPEM cr der,
                caKeySealed = Some blob, caState = ''active'', caNotBefore = now, caNotAfter = now + rootValidity,
                caSerial = dec serial, caCreatedAt = 0\<rparr>)))))))"

text \<open>The transaction of \<open>EnsureCA\<close>.\<close>

definition EnsureCA_tx :: "crypto \<Rightarrow> entropy \<Rightarrow> string \<Rightarrow> string \<Rightarrow> world \<Rightarrow> ca_row result \<times> world" where
  "EnsureCA_tx cr en tenantID trustDomain w =
     (case CAByState w tenantID trustDomain ''active'' of
        Inr again \<Rightarrow> (Inr again, w)
      | Inl rerr \<Rightarrow>
          if \<not> errors_is_not_found rerr then (Inl rerr, w)
          else
            (case generate cr en (mNow w) tenantID trustDomain of
               Inl gerr \<Rightarrow> (Inl gerr, w)
             | Inr fresh \<Rightarrow>
                 (case InsertCA w fresh of
                    (Inr _, w') \<Rightarrow> (Inr fresh, w')
                  | (Inl ierr, w') \<Rightarrow>
                      if errors_is_conflict ierr then (CAByState w' tenantID trustDomain ''active'', w')
                      else (Inl ierr, w'))))"

definition EnsureCA ::
  "crypto \<Rightarrow> backend \<Rightarrow> entropy \<Rightarrow> world \<Rightarrow> string \<Rightarrow> string \<Rightarrow> ca_row result \<times> world" where
  "EnsureCA cr be en w tenantID trustDomain =
     (if tenantID = '''' \<or> \<not> ValidTrustDomain trustDomain then (Inl CaInput, w)
      else
        (case CAByState w tenantID trustDomain ''active'' of
           Inr existing \<Rightarrow> (Inr existing, w)
         | Inl e \<Rightarrow>
             if \<not> errors_is_not_found e then (Inl e, w)
             else Atomic be w (EnsureCA_tx cr en tenantID trustDomain)))"

definition Signer :: "crypto \<Rightarrow> ca_row \<Rightarrow> (string \<times> x509_cert) result" where
  "Signer cr ca =
     on_val (Open (crAead cr) (crKEK cr) (caKeySealed ca) (ADCA (caID ca))) (\<lambda>keyPEM.
       (case crPemDecode cr keyPEM of
          None \<Rightarrow> Inl CaParse
        | Some (_, keyDER) \<Rightarrow>
            (case crParseKey cr keyDER of
               None \<Rightarrow> Inl CaParse
             | Some signer \<Rightarrow>
                 (case crPemDecode cr (caCertPEM ca) of
                    None \<Rightarrow> Inl CaParse
                  | Some (_, certDER) \<Rightarrow>
                      (case crParseCert cr certDER of
                         None \<Rightarrow> Inl CaParse
                       | Some cert \<Rightarrow> Inr (signer, cert))))))"

definition CaBundle :: "world \<Rightarrow> string \<Rightarrow> string \<Rightarrow> string result" where
  "CaBundle w tenantID trustDomain =
     on_val (CAsForDomain w tenantID trustDomain) (\<lambda>cas.
       Inr (concat (map caCertPEM (filter (\<lambda>c. caState c = ''active'' \<or> caState c = ''retiring'') cas))))"

definition SignLeaf ::
  "crypto \<Rightarrow> backend \<Rightarrow> entropy \<Rightarrow> nat result \<Rightarrow> world \<Rightarrow> string \<Rightarrow> string \<Rightarrow> string \<Rightarrow> pubkey \<Rightarrow> duration
   \<Rightarrow> (string \<times> time) result \<times> world" where
  "SignLeaf cr be en draw w tenantID trustDomain spiffeID pub ttl =
     (if ttl \<le> 0 then (Inl CaInput, w)
      else
        (case ParseSPIFFEID spiffeID of
           Inl _ \<Rightarrow> (Inl CaInput, w)
         | Inr sid \<Rightarrow>
             if spTrustDomain sid \<noteq> trustDomain then (Inl CaInput, w)
             else
               on_ok (EnsureCA cr be en w tenantID trustDomain) (\<lambda>caRow w'.
                 (on_val (Signer cr caRow) (\<lambda>(signer, caCert).
                  on_val (randomSerial draw) (\<lambda>serial.
                  (case url_parse (spiffe_string sid) of
                     None \<Rightarrow> Inl CaInput
                   | Some _ \<Rightarrow>
                       on_val (crSign cr \<lparr>xtSerial = serial, xtCommonName = spiffe_string sid, xtNotBefore = mNow w',
                           xtNotAfter = mNow w' + ttl, xtKeyUsage = [''DigitalSignature'', ''KeyEncipherment''],
                           xtExtKeyUsage = [''ServerAuth'', ''ClientAuth''], xtIsCA = False, xtURI = spiffe_string sid, xtDNSNames = []\<rparr>
                           caCert pub signer) (\<lambda>der.
                         Inr (der, mNow w' + ttl))))), w'))))"

subsection \<open>One active root per trust domain\<close>

lemma newest_in: "newest_ca best cs = Some c \<Longrightarrow> c \<in> set cs \<or> best = Some c"
  by (induction cs arbitrary: best) (auto split: option.splits if_splits)

lemma CAByState_Inr:
  assumes "CAByState m tid td st = Inr c"
  shows "fail m ''CAByState'' = None" "c \<in> set (rows (mCAs m))" "caTenantID c = tid" "caTrustDomain c = td" "caState c = st"
  using assms by (auto simp: CAByState_def result_simps split: option.splits dest!: newest_in)

lemma newest_only: "cs \<noteq> [] \<Longrightarrow> set cs \<subseteq> {c} \<Longrightarrow> newest_ca best cs = Some c \<or> newest_ca best cs = best"
  by (induction cs arbitrary: best) (force split: option.splits if_splits)+

lemma newest_some: "cs \<noteq> [] \<Longrightarrow> newest_ca None cs \<noteq> None"
proof -
  have "best \<noteq> None \<Longrightarrow> newest_ca best cs \<noteq> None" for best cs
    by (induction cs arbitrary: best) (auto split: option.splits)
  then show "cs \<noteq> [] \<Longrightarrow> newest_ca None cs \<noteq> None" by (cases cs) auto
qed

lemma CAByState_unique:
  assumes "store_ok m" "fail m ''CAByState'' = None" "map_of (mCAs m) k = Some c"
    and "caTenantID c = tid" "caTrustDomain c = td" "caState c = ''active''"
  shows "CAByState m tid td ''active'' = Inr c"
proof -
  let ?cs = "filter (\<lambda>c. caTenantID c = tid \<and> caTrustDomain c = td \<and> caState c = ''active'') (rows (mCAs m))"
  have ok: "table_ok caID (mCAs m)" "uniq ca_clash (mCAs m)"
    using assms(1) by (simp_all add: store_ok_def cas_ok_def)
  have "x = c" if "x \<in> set ?cs" for x
  proof -
    from that obtain k' where "map_of (mCAs m) k' = Some x" by (auto simp: in_rows_lookup [OF ok(1)])
    moreover have "ca_clash x c" using that assms(4-6) by (simp add: ca_clash_def)
    ultimately have "k' = k" using uniqD [OF ok(2)] assms(3) by blast
    then show ?thesis using \<open>map_of (mCAs m) k' = Some x\<close> assms(3) by simp
  qed
  then have sub: "set ?cs \<subseteq> {c}" by blast
  have "c \<in> set ?cs" using map_of_in_rows [OF assms(3)] assms(4-6) by simp
  then have ne: "?cs \<noteq> []" by (metis empty_iff list.set(1))
  have "newest_ca None ?cs = Some c" using newest_only [OF ne sub, of None] newest_some [OF ne] by auto
  then show ?thesis using assms(2) by (simp add: CAByState_def unless_read_def)
qed

lemma InsertCA_Inr:
  assumes "InsertCA m c = (Inr v, m')"
  shows "\<exists>c'. map_of (mCAs m') (caID c) = Some c' \<and> c'\<lparr>caCreatedAt := caCreatedAt c\<rparr> = c"
  using assms by (auto simp: InsertCA_def Let_def unless_write_def split: option.splits if_splits)

lemma generate_Inr:
  assumes "generate cr en now tid td = Inr c"
  shows "caID c = enID en" "caTenantID c = tid" "caTrustDomain c = td" "caState c = ''active''"
    "caNotBefore c = now" "caNotAfter c = now + rootValidity" "caCreatedAt c = 0"
  using assms by (auto simp: generate_def Let_def result_simps split: option.splits)

lemma EnsureCA_acts:
  assumes "map_of (mCAs w) (enID en) = None"
  shows "acts tid w (snd (EnsureCA cr be en w tid td))"
proof -
  have ins: "acts tid w (snd (InsertCA w c))" if "generate cr en now tid td = Inr c" for c now
    using generate_Inr [OF that] assms by (metis acts_step store_step.insert_ca)
  have "acts tid w (snd (EnsureCA_tx cr en tid td w))"
    using ins by (auto simp: EnsureCA_tx_def split: sum.splits prod.splits dest!: arg_cong [where f = snd])
  then have "acts tid w (snd (Atomic be w (EnsureCA_tx cr en tid td)))" by (rule Atomic_acts)
  then show ?thesis by (auto simp: EnsureCA_def split: sum.splits)
qed

lemma EnsureCA_stored:
  assumes "store_ok w" "map_of (mCAs w) (enID en) = None" "EnsureCA cr be en w tid td = (Inr ca, w')"
    and "fail w ''CAByState'' = None"
  shows "\<exists>ca'. ca'\<lparr>caCreatedAt := caCreatedAt ca\<rparr> = ca \<and> map_of (mCAs w') (caID ca) = Some ca' \<and> caTenantID ca = tid
    \<and> caTrustDomain ca = td \<and> caState ca = ''active''"
proof -
  have found: ?thesis if "CAByState w' tid td ''active'' = Inr ca" "store_ok w'"
  proof -
    have "table_ok caID (mCAs w')" using that(2) by (simp add: store_ok_def cas_ok_def)
    with CAByState_Inr [OF that(1)] show ?thesis by (auto simp: in_rows_iff)
  qed
  have "CAByState w tid td ''active'' = Inr ca \<and> w' = w
    \<or> fail w ''Atomic'' = None \<and> EnsureCA_tx cr en tid td w = (Inr ca, w')"
    using assms(3) by (auto simp: EnsureCA_def Atomic_Inr split: if_splits sum.splits)
  moreover have "store_ok w'" using acts_ok [OF EnsureCA_acts [OF assms(2)] assms(1), of cr be tid td] assms(3) by simp
  moreover have ?thesis if tx: "EnsureCA_tx cr en tid td w = (Inr ca, w')" "store_ok w'"
  proof (cases "CAByState w' tid td ''active'' = Inr ca")
    case False
    obtain v where g: "generate cr en (mNow w) tid td = Inr ca" "InsertCA w ca = (Inr v, w')"
      using tx(1) False by (auto simp: EnsureCA_tx_def split: sum.splits prod.splits if_splits)
    with InsertCA_Inr [OF g(2)] generate_Inr [OF g(1)] show ?thesis by auto
  qed (rule found [OF _ tx(2)])
  ultimately show ?thesis using found by blast
qed

text \<open>
  C23. The root of a trust domain is created once: after \<open>EnsureCA\<close> returned a certificate
  authority, every later call for the same tenant and trust domain, whatever it draws,
  returns that authority and changes nothing (the store answering reads). The returned authority is active, belongs to
  the tenant and domain and is the only active one there.
\<close>

theorem EnsureCA_once:
  assumes "store_ok w" "map_of (mCAs w) (enID en) = None" "EnsureCA cr be en w tid td = (Inr ca, w')"
    and "fail w ''CAByState'' = None"
  shows "\<exists>ca'. ca'\<lparr>caCreatedAt := caCreatedAt ca\<rparr> = ca
           \<and> map_of (mCAs w') (caID ca) = Some ca'
           \<and> caTenantID ca = tid \<and> caTrustDomain ca = td \<and> caState ca = ''active''
           \<and> EnsureCA cr2 be2 en2 w' tid td = (Inr ca', w')
           \<and> (\<forall>k c. map_of (mCAs w') k = Some c \<longrightarrow> caTenantID c = tid \<longrightarrow> caTrustDomain c = td
                 \<longrightarrow> caState c = ''active'' \<longrightarrow> k = caID ca)"
proof -
  have ok': "store_ok w'" using acts_ok [OF EnsureCA_acts [OF assms(2)] assms(1), of cr be tid td] assms(3) by simp
  have input: "tid \<noteq> ''''" "ValidTrustDomain td"
    using assms(3) by (auto simp: EnsureCA_def split: if_splits)
  have "\<exists>ca'. ca'\<lparr>caCreatedAt := caCreatedAt ca\<rparr> = ca \<and> map_of (mCAs w') (caID ca) = Some ca' \<and> caTenantID ca = tid
    \<and> caTrustDomain ca = td \<and> caState ca = ''active''"
    by (rule EnsureCA_stored [OF assms])
  then obtain ca' where ca': "ca'\<lparr>caCreatedAt := caCreatedAt ca\<rparr> = ca" "map_of (mCAs w') (caID ca) = Some ca'"
    "caTenantID ca = tid" "caTrustDomain ca = td" "caState ca = ''active''" by blast
  have up: "fail w' ''CAByState'' = None"
    using acts_clock [OF EnsureCA_acts [OF assms(2)], of cr be tid td] assms(3,4) by (simp add: fail_def)
  have f: "caTenantID ca' = tid" "caTrustDomain ca' = td" "caState ca' = ''active''"
    using arg_cong [OF ca'(1), of caTenantID] arg_cong [OF ca'(1), of caTrustDomain] arg_cong [OF ca'(1), of caState] ca'(3-5)
    by simp_all
  have by_state: "CAByState w' tid td ''active'' = Inr ca'" by (rule CAByState_unique [OF ok' up ca'(2) f])
  have "k = caID ca" if "map_of (mCAs w') k = Some c" "caTenantID c = tid" "caTrustDomain c = td" "caState c = ''active''" for k c
    using uniqD [of ca_clash "mCAs w'" k c "caID ca" ca'] ok' that ca'(2) f
    by (auto simp: store_ok_def cas_ok_def ca_clash_def)
  then show ?thesis using ca' by_state input by (auto simp: EnsureCA_def)
qed


definition demo_world :: world where
  "demo_world = mem.extend demo_store \<lparr>wWriter = newWriter 4\<rparr>"

lemma demo_world_store [simp]: "mIssuers demo_world = mIssuers demo_store" "mCAs demo_world = mCAs demo_store"
  "mRequests demo_world = mRequests demo_store" "mJobs demo_world = mJobs demo_store"
  "mCertificates demo_world = mCertificates demo_store" "mRevocations demo_world = mRevocations demo_store"
  "mInstalled demo_world = mInstalled demo_store" "mTargets demo_world = mTargets demo_store"
  "mSecrets demo_world = mSecrets demo_store" "mWebhooks demo_world = mWebhooks demo_store"
  "mGrants demo_world = mGrants demo_store" "mNow demo_world = mNow demo_store"
  by (simp_all add: demo_world_def mem.defs)

lemma demo_world_ok: "store_ok demo_world"
  using demo_store_ok by (simp add: store_ok_def)

theorem EnsureCA_once_witness:
  "\<exists>ca w' ca'. EnsureCA demo_crypto Database (demo_entropy ''ca2'' ''g9'') demo_world ''t'' ''new'' = (Inr ca, w')
     \<and> EnsureCA demo_crypto InMemory (demo_entropy ''ca3'' ''g9'') w' ''t'' ''new'' = (Inr ca', w') \<and> caID ca' = ''ca2''"
proof -
  let ?r = "EnsureCA demo_crypto Database (demo_entropy ''ca2'' ''g9'') demo_world ''t'' ''new''"
  have "case ?r of (Inr ca, w') \<Rightarrow> caID ca = ''ca2'' | _ \<Rightarrow> False" by code_simp
  then obtain ca w' where r: "?r = (Inr ca, w')" "caID ca = ''ca2''" by (auto split: prod.splits sum.splits)
  have pre: "map_of (mCAs demo_world) (enID (demo_entropy ''ca2'' ''g9'')) = None" "fail demo_world ''CAByState'' = None"
    by (simp_all add: demo_defs fail_def demo_world_def mem.defs)
  from EnsureCA_once [OF demo_world_ok pre(1) r(1) pre(2), of demo_crypto InMemory "demo_entropy ''ca3'' ''g9''"] r
  show ?thesis by (metis ca_row.ext_inject ca_row.surjective ca_row.update_convs(10))
qed

text \<open>
  C24. A generated root can sign: the key sealed into the new row opens under the row's id to
  the private key that was generated, and the stored certificate parses to one that carries
  its public key and the recorded serial.
\<close>

theorem generate_Signer:
  assumes "crypto_ok cr" "generate cr en now tid td = Inr ca" "enKey en = Inr (pub, priv)"
    and "enSeal en = Inr (dek, n1, n2)" "length dek = 32" "length n1 = NonceSize" "length n2 = NonceSize"
  shows "\<exists>cert. Signer cr ca = Inr (priv, cert) \<and> xcPublicKey cert = pub \<and> dec (xcSerial cert) = caSerial ca"
proof -
  from assms(2-4) obtain tmpl serial der keyDER blob where g:
    "xtSerial tmpl = serial" "crSelfSign cr tmpl pub priv = Inr der" "crMarshalKey cr priv = Inr keyDER"
    "Seal (crAead cr) (crKEK cr) (Inr (dek, n1, n2)) (crPemEncode cr ''PRIVATE KEY'' keyDER) (ADCA (caID ca)) = Inr blob"
    "caKeySealed ca = Some blob" "caCertPEM ca = EncodeCertPEM cr der" "caSerial ca = dec serial"
    by (auto simp: generate_def Let_def result_simps split: option.splits) blast?
  have laws: "aead_ok (crAead cr)" "length (crKEK cr) = 32" "crParseKey cr keyDER = Some priv" "signed_ok cr tmpl pub der"
    using assms(1) g(2,3) by (auto simp: crypto_ok_def)
  have "Open (crAead cr) (crKEK cr) (Some blob) (ADCA (caID ca)) = Inr (crPemEncode cr ''PRIVATE KEY'' keyDER)"
    using Open_parts [OF laws(1,2) assms(5-7)] g(4) by (auto simp: Seal_def split: if_splits)
  moreover have "crPemDecode cr (crPemEncode cr ty d) = Some (ty, d)" for ty d
    using assms(1) by (simp add: crypto_ok_def crPemDecode_def)
  ultimately show ?thesis using g laws by (auto simp: Signer_def EncodeCertPEM_def signed_ok_def)
qed

theorem generate_Signer_witness:
  "\<exists>ca cert. generate demo_crypto (demo_entropy ''ca2'' ''g9'') 5 ''t'' ''new'' = Inr ca
     \<and> Signer demo_crypto ca = Inr (''priv'', cert) \<and> xcPublicKey cert = ECDSAKey 256 ''pub''"
proof -
  let ?r = "generate demo_crypto (demo_entropy ''ca2'' ''g9'') 5 ''t'' ''new''"
  have "isl ?r = False" by code_simp
  then obtain ca where "?r = Inr ca" by (cases ?r) auto
  with generate_Signer [OF demo_crypto_ok this demo_entropy_simps(3,5)] show ?thesis
    by (auto simp: NonceSize_def)
qed

end
