(* ===== verification/Ids.thy ===== *)
theory Ids
  imports Go_Text "HOL-Library.Word"
begin

text \<open>
  Row identifiers (internal/store/ids.go): \<open>NewID\<close> lays a 48-bit millisecond timestamp and
  random bytes out as a version-7 UUID, and \<open>IsUUID\<close> recognises a textual UUID. Bytes and
  the timestamp are machine words, so the shifts and masks are the source's.
\<close>

unbundle bit_operations_syntax

definition hex_encode :: "8 word list \<Rightarrow> string" where
  "hex_encode bs = concat (map (\<lambda>b. [hex_char (unat b div 16), hex_char (unat b mod 16)]) bs)"

definition id_bytes :: "64 word \<Rightarrow> 8 word list \<Rightarrow> 8 word list" where
  "id_bytes ms rnd =
     (let b = rnd;
          b = b[0 := ucast (drop_bit 40 ms)];
          b = b[1 := ucast (drop_bit 32 ms)];
          b = b[2 := ucast (drop_bit 24 ms)];
          b = b[3 := ucast (drop_bit 16 ms)];
          b = b[4 := ucast (drop_bit 8 ms)];
          b = b[5 := ucast ms];
          b = b[6 := (b ! 6 AND 0x0f) OR 0x70];
          b = b[8 := (b ! 8 AND 0x3f) OR 0x80]
      in b)"

definition NewID :: "64 word \<Rightarrow> 8 word list \<Rightarrow> string" where
  "NewID ms rnd =
     (let h = hex_encode (id_bytes ms rnd)
      in take 8 h @ ''-'' @ take 4 (drop 8 h) @ ''-'' @ take 4 (drop 12 h) @ ''-'' @ take 4 (drop 16 h) @ ''-''
         @ take 12 (drop 20 h))"

text \<open>
  The regular expression \<open>uuidRE\<close>: five groups of hexadecimal digits joined by hyphens.
  \<open>hex_run n\<close> consumes a group of \<open>n\<close> digits.
\<close>

definition hex_run :: "nat \<Rightarrow> string \<Rightarrow> string option" where
  "hex_run n s = (if n \<le> length s \<and> list_all ishex (take n s) then Some (drop n s) else None)"

fun uuid_groups :: "nat list \<Rightarrow> string \<Rightarrow> bool" where
  "uuid_groups [] s = False"
| "uuid_groups [n] s = (hex_run n s = Some [])"
| "uuid_groups (n # m # ns) s =
     (case hex_run n s of Some (c # r) \<Rightarrow> c = CHR ''-'' \<and> uuid_groups (m # ns) r | _ \<Rightarrow> False)"

definition IsUUID :: "string \<Rightarrow> bool" where
  "IsUUID s = uuid_groups [8, 4, 4, 4, 12] s"

subsection \<open>Shape\<close>

lemma hex_run_append: "length g = n \<Longrightarrow> list_all ishex g \<Longrightarrow> hex_run n (g @ r) = Some r"
  by (simp add: hex_run_def)

lemma hex_char_hex: "n < 16 \<Longrightarrow> ishex (hex_char n)"
proof -
  have "list_all (\<lambda>n. ishex (hex_char n)) [0..<16]" by code_simp
  then show "n < 16 \<Longrightarrow> ishex (hex_char n)" by (simp add: list_all_iff)
qed

lemma unat8: "unat (b :: 8 word) < 256"
  using unsigned_less [of b] by simp

lemma hex_encode_hex: "list_all ishex (hex_encode bs)"
proof (induction bs)
  case (Cons b bs)
  then show ?case using unat8 [of b] by (auto simp: hex_encode_def intro!: hex_char_hex)
qed (simp add: hex_encode_def)

lemma length_hex_encode: "length (hex_encode bs) = 2 * length bs"
  by (induction bs) (simp_all add: hex_encode_def)

lemma high_nibble: "unat (b :: 8 word) div 16 = unat (drop_bit 4 b)"
  using unat_drop_bit_eq [of 4 b] drop_bit_eq_div [of 4 "unat b"] by simp

lemma version_nibble: "unat (((b :: 8 word) AND 0x0f) OR 0x70) div 16 = 7"
  unfolding high_nibble by (simp add: drop_bit_or drop_bit_and)

lemma variant_nibble: "unat (((b :: 8 word) AND 0x3f) OR 0x80) div 16 \<in> set [8, 9, 10, 11]"
proof -
  define y where "y = drop_bit 4 b AND 3"
  have "y = take_bit 2 (drop_bit 4 b)" by (simp add: y_def take_bit_eq_mask mask_eq_exp_minus_1)
  then have "unat y = take_bit 2 (unat (drop_bit 4 b))" by (simp only: unsigned_take_bit_eq)
  then have "unat y < 4" using take_bit_nat_less_exp [of 2 "unat (drop_bit 4 b)"] by simp
  then have "unat y = unat (0 :: 8 word) \<or> unat y = unat (1 :: 8 word) \<or> unat y = unat (2 :: 8 word) \<or> unat y = unat (3 :: 8 word)"
    by (simp, arith)
  then have "y = 0 \<or> y = 1 \<or> y = 2 \<or> y = 3" by (simp only: word_unat_eq_iff)
  then have "unat (y OR 8) \<in> set [8, 9, 10, 11]" by auto
  moreover have "drop_bit 4 ((b AND 0x3f) OR 0x80) = y OR 8" by (simp add: y_def drop_bit_or drop_bit_and)
  ultimately show ?thesis unfolding high_nibble by simp
qed

lemma hex_encode_append: "hex_encode (xs @ ys) = hex_encode xs @ hex_encode ys"
  by (simp add: hex_encode_def)

lemma hex_encode_nth: "i < length bs \<Longrightarrow> hex_encode bs ! (2 * i) = hex_char (unat (bs ! i) div 16)"
proof (induction bs arbitrary: i)
  case (Cons b bs)
  then show ?case by (cases i) (auto simp: hex_encode_def)
qed simp

lemma id_bytes_length: "length (id_bytes ms rnd) = length rnd"
  by (simp add: id_bytes_def Let_def)

text \<open>
  C25. Every generated identifier is a textual UUID of version 7 and of the RFC 9562 variant,
  whatever the clock and the random bytes are.
\<close>

theorem NewID_uuid:
  assumes "length rnd = 16"
  shows "IsUUID (NewID ms rnd) \<and> NewID ms rnd ! 14 = CHR ''7'' \<and> NewID ms rnd ! 19 \<in> set ''89ab''"
proof -
  define h where "h = hex_encode (id_bytes ms rnd)"
  have h: "length h = 32" "list_all ishex h"
    using assms by (simp_all add: h_def length_hex_encode id_bytes_length hex_encode_hex)
  then have runs: "list_all ishex (take n (drop k h))" "list_all ishex (take n h)" for n k
    by (auto simp: list_all_iff dest: in_set_takeD in_set_dropD)
  have b: "id_bytes ms rnd ! 6 = (rnd ! 6 AND 0x0f) OR 0x70" "id_bytes ms rnd ! 8 = (rnd ! 8 AND 0x3f) OR 0x80"
    using assms by (simp_all add: id_bytes_def)
  have "h ! 12 = CHR ''7''"
    using hex_encode_nth [of 6 "id_bytes ms rnd"] assms by (simp add: h_def id_bytes_length b version_nibble hex_char_def)
  moreover have "h ! 16 \<in> set ''89ab''"
    using hex_encode_nth [of 8 "id_bytes ms rnd"] variant_nibble [of "rnd ! 8"] assms
    by (auto simp: h_def id_bytes_length b hex_char_def)
  ultimately show ?thesis
    unfolding NewID_def h_def [symmetric] Let_def IsUUID_def
    using h runs(1) [of 12 20] by (simp add: hex_run_append runs nth_append hex_run_def [of 12])
qed

theorem NewID_uuid_witness: "IsUUID (NewID 1700000000000 (replicate 16 0xff))"
  using NewID_uuid [of "replicate 16 0xff" 1700000000000] by simp

subsection \<open>Time order\<close>

text \<open>The big-endian digits of a number.\<close>

fun digits :: "nat \<Rightarrow> nat \<Rightarrow> nat list" where
  "digits 0 n = []"
| "digits (Suc k) n = digits k (n div 16) @ [n mod 16]"

lemma length_digits [simp]: "length (digits k n) = k"
  by (induction k arbitrary: n) simp_all

lemma less_append: "length xs = length ys \<Longrightarrow> xs < ys \<Longrightarrow> xs @ u < ys @ (v :: 'a :: linorder list)"
  by (induction xs ys rule: list_induct2) auto

lemma less_append_same: "u < v \<Longrightarrow> xs @ u < xs @ (v :: 'a :: linorder list)"
  by (induction xs) auto

lemma less_take_drop: "xs < ys \<Longrightarrow> take n xs < take n ys \<or> take n xs = take n ys \<and> drop n xs < drop n (ys :: 'a :: linorder list)"
proof (induction xs arbitrary: ys n)
  case (Cons x xs)
  then show ?case by (cases ys; cases n) auto
next
  case Nil
  then show ?case by (cases ys; cases n) auto
qed

lemma digits_less: "n < m \<Longrightarrow> m < 16 ^ k \<Longrightarrow> digits k n < digits k m"
proof (induction k arbitrary: n m)
  case (Suc k)
  show ?case
  proof (cases "n div 16 = m div 16")
    case True
    then have "n mod 16 < m mod 16" using Suc.prems(1) by (metis div_mult_mod_eq nat_add_left_cancel_less)
    then show ?thesis using True by (simp add: less_append_same)
  next
    case False
    then have "n div 16 < m div 16" using Suc.prems(1) by (meson div_le_mono le_neq_implies_less less_imp_le)
    moreover have "m div 16 < 16 ^ k" using Suc.prems(2) by (simp add: less_mult_imp_div_less)
    ultimately show ?thesis using Suc.IH less_append [of "digits k (n div 16)" "digits k (m div 16)"] by simp
  qed
qed simp

lemma digits_lt: "d \<in> set (digits k n) \<Longrightarrow> d < 16"
  by (induction k arbitrary: n) auto

lemma hex_char_mono: "a < b \<Longrightarrow> b < 16 \<Longrightarrow> hex_char a < hex_char b"
proof -
  have "list_all (\<lambda>b. list_all (\<lambda>a. hex_char a < hex_char b) [0..<b]) [0..<16]" by code_simp
  then show "a < b \<Longrightarrow> b < 16 \<Longrightarrow> hex_char a < hex_char b" by (simp add: list_all_iff)
qed

lemma hex_digits_less:
  "length xs = length ys \<Longrightarrow> xs < ys \<Longrightarrow> \<forall>y \<in> set ys. y < 16 \<Longrightarrow> map hex_char xs < map hex_char ys"
  by (induction xs ys rule: list_induct2) (auto intro: hex_char_mono)

lemma unat_drop: "unat (drop_bit k (ms :: 64 word)) = unat ms div 2 ^ k"
  using unat_drop_bit_eq [of k ms] drop_bit_eq_div [of k "unat ms"] by (rule trans)

lemma byte_of: "unat (ucast (drop_bit k (ms :: 64 word)) :: 8 word) = unat ms div 2 ^ k mod 256"
  by (simp add: unsigned_ucast_eq take_bit_eq_mod unat_drop)

lemma nibbles: "x mod 256 div 16 = x div 16 mod (16 :: nat)" "x mod 256 mod 16 = x mod (16 :: nat)"
  using mod_mult2_eq [of x 16 16] by (simp_all add: mod_mod_cancel)

lemma six: "length xs = 6 \<Longrightarrow> \<exists>a0 a1 a2 a3 a4 a5. xs = [a0, a1, a2, a3, a4, a5]"
  by (auto simp: numeral_eq_Suc length_Suc_conv)

lemma id_bytes_front:
  assumes "length rnd = 16"
  shows "take 6 (id_bytes ms rnd) = map (\<lambda>k. ucast (drop_bit k ms)) [40, 32, 24, 16, 8, 0]"
proof -
  obtain a0 a1 a2 a3 a4 a5 where "take 6 rnd = [a0, a1, a2, a3, a4, a5]"
    using assms six [of "take 6 rnd"] by auto
  then show ?thesis by (simp add: id_bytes_def Let_def take_update_swap)
qed

lemma digits_12:
  "digits 12 n = [n div 2 ^ 44 mod 16, n div 2 ^ 40 mod 16, n div 2 ^ 36 mod 16, n div 2 ^ 32 mod 16, n div 2 ^ 28 mod 16,
     n div 2 ^ 24 mod 16, n div 2 ^ 20 mod 16, n div 2 ^ 16 mod 16, n div 2 ^ 12 mod 16, n div 2 ^ 8 mod 16, n div 2 ^ 4 mod 16, n mod 16]"
proof -
  have twelve: "12 = Suc (Suc (Suc (Suc (Suc (Suc (Suc (Suc (Suc (Suc (Suc (Suc 0)))))))))))" by simp
  show ?thesis by (subst twelve) (simp add: div_mult2_eq [symmetric])
qed

lemma NewID_prefix:
  assumes "length rnd = 16"
  shows "\<exists>r. NewID ms rnd = map hex_char (take 8 (digits 12 (unat ms))) @ ''-''
           @ map hex_char (drop 8 (digits 12 (unat ms))) @ r"
proof -
  define h where "h = hex_encode (id_bytes ms rnd)"
  have "h = hex_encode (take 6 (id_bytes ms rnd)) @ hex_encode (drop 6 (id_bytes ms rnd))"
    unfolding h_def hex_encode_append [symmetric] by simp
  also have "hex_encode (take 6 (id_bytes ms rnd)) = map hex_char (digits 12 (unat ms))"
    unfolding id_bytes_front [OF assms] digits_12
    by (simp add: hex_encode_def byte_of nibbles div_mult2_eq [symmetric] unsigned_ucast_eq take_bit_eq_mod unat_drop)
  finally have h: "h = map hex_char (digits 12 (unat ms)) @ hex_encode (drop 6 (id_bytes ms rnd))" .
  have "take 8 h = map hex_char (take 8 (digits 12 (unat ms)))"
    "take 4 (drop 8 h) = map hex_char (drop 8 (digits 12 (unat ms)))"
    unfolding h by (simp_all add: take_map drop_map)
  then have "NewID ms rnd = map hex_char (take 8 (digits 12 (unat ms))) @ ''-'' @ map hex_char (drop 8 (digits 12 (unat ms)))
    @ ''-'' @ take 4 (drop 12 h) @ ''-'' @ take 4 (drop 16 h) @ ''-'' @ take 12 (drop 20 h)"
    by (simp only: NewID_def h_def [symmetric] Let_def)
  then show ?thesis by (rule exI)
qed

text \<open>
  C26. Identifiers are ordered by time: an identifier drawn at an earlier millisecond sorts
  before one drawn later, as text, for every timestamp of 48 bits.
\<close>

theorem NewID_ordered:
  assumes "length r1 = 16" "length r2 = 16" "ms1 < ms2" "unat ms2 < 2 ^ 48"
  shows "NewID ms1 r1 < NewID ms2 r2"
proof -
  let ?d1 = "digits 12 (unat ms1)" and ?d2 = "digits 12 (unat ms2)"
  have "unat ms1 < unat ms2" using assms(3) by (simp add: word_less_nat_alt)
  then have less: "?d1 < ?d2" using digits_less [of "unat ms1" "unat ms2" 12] assms(4) by simp
  obtain s1 s2 where s: "NewID ms1 r1 = map hex_char (take 8 ?d1) @ ''-'' @ map hex_char (drop 8 ?d1) @ s1"
    "NewID ms2 r2 = map hex_char (take 8 ?d2) @ ''-'' @ map hex_char (drop 8 ?d2) @ s2"
    using NewID_prefix [OF assms(1), of ms1] NewID_prefix [OF assms(2), of ms2] by blast
  let ?h = "map hex_char"
  consider "take 8 ?d1 < take 8 ?d2" | "take 8 ?d1 = take 8 ?d2" "drop 8 ?d1 < drop 8 ?d2"
    using less_take_drop [OF less, of 8] by blast
  then show ?thesis
  proof cases
    case 1
    then have "?h (take 8 ?d1) < ?h (take 8 ?d2)"
      by (rule hex_digits_less [rotated]) (auto dest: in_set_takeD digits_lt)
    then show ?thesis unfolding s by (rule less_append [rotated]) simp
  next
    case 2
    then have "?h (drop 8 ?d1) < ?h (drop 8 ?d2)"
      by (intro hex_digits_less) (auto dest: in_set_dropD digits_lt)
    then have "?h (drop 8 ?d1) @ s1 < ?h (drop 8 ?d2) @ s2" by (rule less_append [rotated]) simp
    then show ?thesis unfolding s 2(1) by (intro less_append_same) simp
  qed
qed

theorem NewID_ordered_witness: "NewID 1700000000000 (replicate 16 0xff) < NewID 1700000000001 (replicate 16 0)"
  by (rule NewID_ordered) (simp_all add: word_less_nat_alt)

end
