(* ===== verification/Issue.thy ===== *)
theory Issue
  imports Ca Ids
begin

text \<open>
  Issuance and the certificate lifecycle (internal/issue/issue.go and certificates.go): the
  issuer a request resolves to, the entitlement rule, the mint, and the operations on an
  issued certificate. The ACME order that \<open>renewCert\<close> runs for a generic certificate is an
  argument of the operations that may reach it; \<open>Acme_Issue\<close> supplies it.
\<close>

definition MinValiditySeconds :: int where "MinValiditySeconds = 60"
definition DefaultValiditySeconds :: int where "DefaultValiditySeconds = 90 * 24 * 3600"
definition MaxValiditySeconds :: int where "MaxValiditySeconds = 365 * 24 * 3600"
definition expiringWindow :: duration where "expiringWindow = 30 * 24 * Hour"

abbreviation invalid :: "string \<Rightarrow> string \<Rightarrow> err" where
  "invalid field msg \<equiv> IssueInvalid field msg"

record issue_input =
  iiIssuerID :: string
  iiSpiffeID :: string
  iiCSRPEM :: string
  iiSubject :: string
  iiDNSSans :: "string list"
  iiValiditySeconds :: int
  iiDeliverKey :: bool
  iiRetainKey :: bool

record cert_view =
  cvID :: string
  cvIssuerID :: string
  cvKind :: string
  cvSerial :: string
  cvSpiffeID :: string
  cvSubject :: string
  cvSANs :: "string list"
  cvNotBefore :: time
  cvNotAfter :: time
  cvFingerprintSHA256 :: string
  cvStatus :: string
  cvKeyDelivered :: bool
  cvHasKey :: bool
  cvAutoRenew :: bool
  cvSupersededBy :: string
  cvOwner :: string
  cvCreatedAt :: time
  cvUpdatedAt :: time
  cvPermissions :: permissions

record cert_bundle =
  buCertificate :: cert_view
  buCertPEM :: string
  buChainPEM :: string
  buBundlePEM :: string
  buKeyPEM :: string

definition sansList :: "sans_json \<Rightarrow> string list" where
  "sansList s = (case s of None \<Rightarrow> [] | Some l \<Rightarrow> l)"

subsection \<open>Status and view\<close>

definition deriveStatus :: "issued_cert \<Rightarrow> time \<Rightarrow> string" where
  "deriveStatus c now =
     (if icStatus c = ''revoked'' then ''revoked''
      else if \<not> now < icNotAfter c then ''expired''
      else
        (let half = go_div (time_sub (icNotAfter c) (icNotBefore c)) 2;
             window = (if half < expiringWindow then half else expiringWindow)
         in if \<not> icNotAfter c > now + window then ''expiring'' else ''active''))"

definition certView :: "world \<Rightarrow> issued_cert \<Rightarrow> permissions \<Rightarrow> cert_view" where
  "certView w c p =
     \<lparr>cvID = icID c, cvIssuerID = icIssuerID c, cvKind = icKind c, cvSerial = icSerial c, cvSpiffeID = icSpiffeID c,
      cvSubject = icSubject c, cvSANs = sansList (icSANs c), cvNotBefore = icNotBefore c, cvNotAfter = icNotAfter c,
      cvFingerprintSHA256 = icFingerprintSHA256 c, cvStatus = deriveStatus c (mNow w), cvKeyDelivered = icKeyDelivered c,
      cvHasKey = (blen (icKeySealed c) > 0), cvAutoRenew = icAutoRenew c, cvSupersededBy = strp (icSupersededBy c),
      cvOwner = icOwner c, cvCreatedAt = icCreatedAt c, cvUpdatedAt = icUpdatedAt c, cvPermissions = p\<rparr>"

subsection \<open>Issuance\<close>

definition resolveIssuer :: "world \<Rightarrow> subjects \<Rightarrow> issue_input \<Rightarrow> (issuer \<times> spiffe_id) result" where
  "resolveIssuer w subj inp =
     (case ParseSPIFFEID (iiSpiffeID inp) of
        Inl _ \<Rightarrow> Inl (invalid ''spiffe_id'' ''invalid SPIFFE ID'')
      | Inr sid \<Rightarrow>
          (case (if iiIssuerID inp \<noteq> '''' then GetIssuer w (sbTenantID subj) (iiIssuerID inp)
                 else DefaultIssuer w (sbTenantID subj) (spTrustDomain sid)) of
             Inl e \<Rightarrow> if errors_is_not_found e then Inl (invalid ''issuer_id'' ''issuer not found'') else Inl e
           | Inr issuer \<Rightarrow>
               if isTrustDomain issuer \<noteq> spTrustDomain sid
               then Inl (invalid ''spiffe_id'' ''trust domain does not match the issuer'')
               else Inr (issuer, sid)))"

definition entitled :: "world \<Rightarrow> subjects \<Rightarrow> issuer \<Rightarrow> spiffe_id \<Rightarrow> unit result" where
  "entitled w subj issuer sid =
     (case Check w subj ''issuer'' (isID issuer) ''use'' of
        Inr _ \<Rightarrow> Inr ()
      | Inl e \<Rightarrow>
          if \<not> errors_is_forbidden e \<and> e \<noteq> AuthzNotFound then Inl e
          else if sbService subj \<noteq> '''' \<and>
                  (case ParseSPIFFEID (sbService subj) of
                     Inl _ \<Rightarrow> False
                   | Inr own \<Rightarrow> spTrustDomain own = spTrustDomain sid \<and> spPath own = spPath sid)
               then Inr ()
          else Inl AuthzForbidden)"

definition clampValidity :: "int \<Rightarrow> duration" where
  "clampValidity seconds =
     (let seconds = (if seconds \<le> 0 then DefaultValiditySeconds else seconds);
          seconds = (if seconds < MinValiditySeconds then MinValiditySeconds else seconds);
          seconds = (if seconds > MaxValiditySeconds then MaxValiditySeconds else seconds)
      in seconds * Second)"

record mint_req =
  mrSubject :: string
  mrCSRPEM :: string
  mrDNSSans :: "string list"
  mrValiditySeconds :: int
  mrDeliverKey :: bool
  mrRetainKey :: bool
  mrEvent :: string
  mrLogEvent :: string

text \<open>
  The key of a mint: the request's public key, or a generated pair whose private half is
  sealed under the certificate's id and, when it is to be delivered, returned as PEM.
\<close>

definition mint_key ::
  "crypto \<Rightarrow> entropy \<Rightarrow> mint_req \<Rightarrow> (pubkey \<times> string \<times> bytes) result" where
  "mint_key cr en req =
     (if mrCSRPEM req \<noteq> '''' then
        (case ParseCSR (crPemDecode cr) (crParseRequest cr) (mrCSRPEM req) of
           Inl _ \<Rightarrow> Inl (invalid ''csr'' ''certificate request rejected'')
         | Inr parsed \<Rightarrow>
             (case ValidateSANs (mrDNSSans req) (pcDNSNames parsed) of
                Inl _ \<Rightarrow> Inl (invalid ''dns_sans'' ''CSR SANs are not authorised'')
              | Inr _ \<Rightarrow> Inr (xqKey (pcCSR parsed), '''', None)))
      else
        on_val (enKey en) (\<lambda>(pub, priv).
        on_val (crMarshalKey cr priv) (\<lambda>keyDER.
        (let pemKey = crPemEncode cr ''PRIVATE KEY'' keyDER
         in on_val (Seal (crAead cr) (crKEK cr) (enSeal en) pemKey (ADCertKey (enID en))) (\<lambda>keySealed.
            Inr (pub, if mrDeliverKey req then pemKey else '''', Some keySealed))))))"

definition leaf_template :: "nat \<Rightarrow> string \<Rightarrow> time \<Rightarrow> time \<Rightarrow> string \<Rightarrow> string list \<Rightarrow> x509_template" where
  "leaf_template serial cn now notAfter uri dns =
     \<lparr>xtSerial = serial, xtCommonName = cn, xtNotBefore = now, xtNotAfter = notAfter,
      xtKeyUsage = [''DigitalSignature'', ''KeyEncipherment''], xtExtKeyUsage = [''ServerAuth'', ''ClientAuth''],
      xtIsCA = False, xtURI = uri, xtDNSNames = dns\<rparr>"

text \<open>The part of \<open>mint\<close> before the transaction: everything that reads and signs.\<close>

definition mint_row ::
  "crypto \<Rightarrow> entropy \<Rightarrow> world \<Rightarrow> subjects \<Rightarrow> issuer \<Rightarrow> spiffe_id \<Rightarrow> mint_req
   \<Rightarrow> (issued_cert \<times> string \<times> string) result" where
  "mint_row cr en w subj issuer sid req =
     (case isCAID issuer of
        None \<Rightarrow> Inl (invalid ''issuer_id'' ''issuer cannot sign certificates'')
      | Some ca \<Rightarrow>
          if isType issuer \<noteq> ''self_signed'' then Inl (invalid ''issuer_id'' ''issuer cannot sign certificates'')
          else
            on_val (GetCA w (sbTenantID subj) ca) (\<lambda>caRow.
            on_val (Signer cr caRow) (\<lambda>(signer, caCert).
            on_val (mint_key cr en req) (\<lambda>(pub, keyPEM, keySealed).
            (let now = mNow w; notAfter = now + clampValidity (mrValiditySeconds req)
             in on_val (randomSerial (enSerial en)) (\<lambda>serial.
                (case url_parse (spiffe_string sid) of
                   None \<Rightarrow> Inl (invalid ''spiffe_id'' ''invalid SPIFFE ID'')
                 | Some _ \<Rightarrow>
                     (let cn = (if mrSubject req = '''' then spiffe_string sid else mrSubject req)
                      in on_val (crSign cr (leaf_template serial cn now notAfter (spiffe_string sid) (mrDNSSans req))
                                  caCert pub signer) (\<lambda>der.
                         on_val (CaBundle w (sbTenantID subj) (spTrustDomain sid)) (\<lambda>bundlePEM.
                         Inr (\<lparr>icID = enID en, icTenantID = sbTenantID subj, icIssuerID = isID issuer, icKind = '''',
                                icRequestID = None, icSerial = dec serial, icSpiffeID = spiffe_string sid, icSubject = cn,
                                icSANs = Some (mrDNSSans req), icNotBefore = now, icNotAfter = notAfter,
                                icFingerprintSHA256 = crFingerprint cr der, icStatus = ''active'',
                                icCertPEM = EncodeCertPEM cr der, icChainPEM = caCertPEM caRow, icKeySealed = keySealed,
                                icKeyDelivered = False, icAutoRenew = True, icSupersededBy = None,
                                icOwner = ActorID subj, icCreatedBy = userPtr subj, icUpdatedBy = userPtr subj,
                                icCreatedAt = 0, icUpdatedAt = 0\<rparr>, keyPEM, bundlePEM)))))))))))"

text \<open>The transaction every issuance path ends in: row, log line, owner grant.\<close>

definition store_cert ::
  "issued_cert \<Rightarrow> cert_log \<Rightarrow> string \<Rightarrow> string \<Rightarrow> world \<Rightarrow> unit result \<times> world" where
  "store_cert row log grantee grantID w =
     on_ok (InsertCertificate w row) (\<lambda>_ w.
     on_ok (InsertCertLog w [log]) (\<lambda>_ w.
       GrantOwner w (icTenantID row) ''certificate'' (icID row) grantee grantID))"

definition cert_log_of :: "time \<Rightarrow> issued_cert \<Rightarrow> string \<Rightarrow> string \<Rightarrow> cert_log" where
  "cert_log_of now row event spiffe =
     \<lparr>clTS = now, clTenantID = icTenantID row, clCertificateID = icID row, clEvent = event, clIssuerID = icIssuerID row,
      clSpiffeID = spiffe, clError = ''''\<rparr>"

text \<open>\<open>perms, _, _, _ := s.az.Effective(...)\<close>: no permissions on an error.\<close>

definition effective_or_none :: "world \<Rightarrow> subjects \<Rightarrow> string \<Rightarrow> string \<Rightarrow> permissions" where
  "effective_or_none w subj rt ri =
     (case Effective w subj rt ri of Inl _ \<Rightarrow> no_permissions | Inr (perms, _, _) \<Rightarrow> perms)"

definition mint ::
  "crypto \<Rightarrow> backend \<Rightarrow> entropy \<Rightarrow> world \<Rightarrow> subjects \<Rightarrow> issuer \<Rightarrow> spiffe_id \<Rightarrow> mint_req \<Rightarrow> cert_bundle result \<times> world" where
  "mint cr be en w subj issuer sid req =
     (case mint_row cr en w subj issuer sid req of
        Inl e \<Rightarrow> (Inl e, w)
      | Inr (row, keyPEM, bundlePEM) \<Rightarrow>
          on_ok (Atomic be w (store_cert row (cert_log_of (mNow w) row (mrLogEvent req) (spiffe_string sid))
                   (sbUserID subj) (enGrantID en))) (\<lambda>_ w.
            (let w = emit w (event_of subj (mrEvent req) ''certificate'' (icID row) '''' ''ok'' ''''
                       [(''spiffe_id'', JStr (spiffe_string sid)), (''issuer_id'', JStr (isID issuer)), (''serial'', JStr (icSerial row))])
             in on_ok (if keyPEM \<noteq> '''' \<and> \<not> mrRetainKey req
                       then on_ok (MarkKeyDelivered w (sbTenantID subj) (icID row)) (\<lambda>_ w.
                              (Inr (row\<lparr>icKeyDelivered := True, icKeySealed := None\<rparr>), w))
                       else (Inr row, w)) (\<lambda>row w.
                (Inr \<lparr>buCertificate = certView w row (effective_or_none w subj ''certificate'' (icID row)),
                      buCertPEM = icCertPEM row, buChainPEM = icChainPEM row, buBundlePEM = bundlePEM, buKeyPEM = keyPEM\<rparr>, w)))))"

definition PrecheckIssue :: "world \<Rightarrow> subjects \<Rightarrow> issue_input \<Rightarrow> unit result" where
  "PrecheckIssue w subj inp = on_val (resolveIssuer w subj inp) (\<lambda>(issuer, sid). entitled w subj issuer sid)"

definition issue_req :: "issue_input \<Rightarrow> mint_req" where
  "issue_req inp = \<lparr>mrSubject = iiSubject inp, mrCSRPEM = iiCSRPEM inp, mrDNSSans = iiDNSSans inp,
     mrValiditySeconds = iiValiditySeconds inp, mrDeliverKey = iiDeliverKey inp, mrRetainKey = iiRetainKey inp,
     mrEvent = ''certificate_issued'', mrLogEvent = ''issued''\<rparr>"

definition IssueCert ::
  "crypto \<Rightarrow> backend \<Rightarrow> entropy \<Rightarrow> world \<Rightarrow> subjects \<Rightarrow> issue_input \<Rightarrow> cert_bundle result \<times> world" where
  "IssueCert cr be en w subj inp =
     (case resolveIssuer w subj inp of
        Inl e \<Rightarrow> (Inl e, w)
      | Inr (issuer, sid) \<Rightarrow>
          (case entitled w subj issuer sid of
             Inl e \<Rightarrow> (Inl e, w)
           | Inr _ \<Rightarrow> mint cr be en w subj issuer sid (issue_req inp)))"

subsection \<open>Reading certificates\<close>

definition GetCertificateView :: "world \<Rightarrow> subjects \<Rightarrow> string \<Rightarrow> cert_view result" where
  "GetCertificateView w subj i =
     on_val (Check w subj ''certificate'' i ''read'') (\<lambda>_.
     on_val (GetCertificate w (sbTenantID subj) i) (\<lambda>row.
     on_val (Effective w subj ''certificate'' i) (\<lambda>(perms, _, _).
       Inr (certView w row perms))))"

text \<open>
  One page of rows: the cursor moves over every row, hidden rows are skipped, and the page
  stops growing at the limit.
\<close>

fun scan_rows ::
  "world \<Rightarrow> subjects \<Rightarrow> string list option \<Rightarrow> int \<Rightarrow> issued_cert list \<Rightarrow> time \<times> string \<Rightarrow> cert_view list
   \<Rightarrow> (cert_view list \<times> time \<times> string) result" where
  "scan_rows w subj ids limit [] cur out = Inr (out, cur)"
| "scan_rows w subj ids limit (row # rest) cur out =
     (let cur = (icCreatedAt row, icID row)
      in if (case ids of None \<Rightarrow> False | Some l \<Rightarrow> icID row \<notin> set l)
         then scan_rows w subj ids limit rest cur out
         else
           on_val (Effective w subj ''certificate'' (icID row)) (\<lambda>(perms, _, _).
             (let out = out @ [certView w row perms]
              in if int (length out) = limit then Inr (out, cur) else scan_rows w subj ids limit rest cur out)))"

text \<open>
  The loop of \<open>ListCertificates\<close>. Each round reads one page of the store; the fuel bounds the
  number of rounds, and \<open>None\<close> is a loop that has not returned.
\<close>

fun list_loop ::
  "nat \<Rightarrow> world \<Rightarrow> subjects \<Rightarrow> string list option \<Rightarrow> cert_filter \<Rightarrow> cert_view list \<Rightarrow> cert_view list result option" where
  "list_loop 0 w subj ids f out = None"
| "list_loop (Suc n) w subj ids f out =
     (if \<not> int (length out) < cfLimit f then Some (Inr out)
      else
        (case ListCertificates w (sbTenantID subj) f of
           Inl e \<Rightarrow> Some (Inl e)
         | Inr rs \<Rightarrow>
             if rs = [] then Some (Inr out)
             else
               (case scan_rows w subj ids (cfLimit f) rs (cfCursorTS f, cfCursorID f) out of
                  Inl e \<Rightarrow> Some (Inl e)
                | Inr (out, ts, i) \<Rightarrow>
                    if int (length rs) < cfLimit f then Some (Inr out)
                    else list_loop n w subj ids (f\<lparr>cfCursorTS := ts, cfCursorID := i\<rparr>) out)))"

definition ListCertificateViews ::
  "nat \<Rightarrow> world \<Rightarrow> subjects \<Rightarrow> cert_filter \<Rightarrow> (cert_view list \<times> string) result option" where
  "ListCertificateViews fuel w subj f =
     (case ListAccessibleIDs w subj ''certificate'' of
        Inl e \<Rightarrow> Some (Inl e)
      | Inr ids \<Rightarrow>
          (let f = (if cfLimit f \<le> 0 \<or> cfLimit f > 100 then f\<lparr>cfLimit := 50\<rparr> else f);
               finish = (\<lambda>f. map_option (\<lambda>r. on_val r (\<lambda>out.
                  Inr (out, if int (length out) = cfLimit f then cvID (last out) else ''''))) (list_loop fuel w subj ids f []))
           in if cfCursorID f \<noteq> '''' \<and> cfCursorTS f = 0 then
                (if \<not> IsUUID (cfCursorID f) then Some (Inr ([], ''''))
                 else
                   (case GetCertificate w (sbTenantID subj) (cfCursorID f) of
                      Inl e \<Rightarrow> if errors_is_not_found e then Some (Inr ([], '''')) else Some (Inl e)
                    | Inr cur \<Rightarrow>
                        if (case ids of None \<Rightarrow> False | Some l \<Rightarrow> icID cur \<notin> set l) then Some (Inr ([], ''''))
                        else finish (f\<lparr>cfCursorTS := icCreatedAt cur\<rparr>)))
              else finish f))"

subsection \<open>Changing certificates\<close>

record cert_update =
  cuOwner :: string
  cuAutoRenew :: "bool option"

definition UpdateCertificateView ::
  "world \<Rightarrow> subjects \<Rightarrow> string \<Rightarrow> cert_update \<Rightarrow> cert_view result \<times> world" where
  "UpdateCertificateView w subj i inp =
     (case on_val (Check w subj ''certificate'' i ''write'') (\<lambda>_. GetCertificate w (sbTenantID subj) i) of
        Inl e \<Rightarrow> (Inl e, w)
      | Inr row \<Rightarrow>
          (let row = (if cuOwner inp \<noteq> '''' then row\<lparr>icOwner := cuOwner inp\<rparr> else row);
               row = (case cuAutoRenew inp of None \<Rightarrow> row | Some b \<Rightarrow> row\<lparr>icAutoRenew := b\<rparr>);
               row = row\<lparr>icUpdatedBy := userPtr subj\<rparr>
           in on_ok (UpdateCertificate w row) (\<lambda>_ w. (GetCertificateView w subj i, w))))"

definition delete_tx :: "string \<Rightarrow> string \<Rightarrow> world \<Rightarrow> unit result \<times> world" where
  "delete_tx tid i w = on_ok (DeleteCertificate w tid i) (\<lambda>_ w. DropResource w tid ''certificate'' i)"

definition DeleteCertificateOp :: "backend \<Rightarrow> world \<Rightarrow> subjects \<Rightarrow> string \<Rightarrow> unit result \<times> world" where
  "DeleteCertificateOp be w subj i =
     (case on_val (Check w subj ''certificate'' i ''delete'') (\<lambda>_. GetCertificate w (sbTenantID subj) i) of
        Inl e \<Rightarrow> (Inl e, w)
      | Inr row \<Rightarrow>
          on_ok (Atomic be w (delete_tx (sbTenantID subj) i)) (\<lambda>_ w.
            (Inr (), emit w (event_of subj ''certificate_deleted'' ''certificate'' i '''' ''ok'' ''''
               [(''spiffe_id'', JStr (icSpiffeID row)), (''serial'', JStr (icSerial row))]))))"

text \<open>\<open>acme\<close> is \<open>renewACME\<close>, which \<open>renewCert\<close> calls for a generic certificate.\<close>

type_synonym acme_renewal = "world \<Rightarrow> subjects \<Rightarrow> issued_cert \<Rightarrow> cert_bundle result \<times> world"

definition renewCert ::
  "crypto \<Rightarrow> backend \<Rightarrow> entropy \<Rightarrow> acme_renewal \<Rightarrow> world \<Rightarrow> subjects \<Rightarrow> issued_cert \<Rightarrow> cert_bundle result \<times> world" where
  "renewCert cr be en acme w subj old =
     (if icKind old = ''generic'' then acme w subj old
      else
        (case ParseSPIFFEID (icSpiffeID old) of
           Inl _ \<Rightarrow> (Inl (invalid ''spiffe_id'' ''stored SPIFFE ID is invalid''), w)
         | Inr sid \<Rightarrow>
             (case GetIssuer w (sbTenantID subj) (icIssuerID old) of
                Inl e \<Rightarrow> (Inl e, w)
              | Inr issuer \<Rightarrow>
                  on_ok (mint cr be en w subj issuer sid
                    \<lparr>mrSubject = icSubject old, mrCSRPEM = '''', mrDNSSans = sansList (icSANs old),
                     mrValiditySeconds = go_div (time_sub (icNotAfter old) (icNotBefore old)) Second,
                     mrDeliverKey = False, mrRetainKey = False, mrEvent = ''certificate_renewed'', mrLogEvent = ''renewed''\<rparr>) (\<lambda>b w.
                  on_ok (SetCertificateStatus w (sbTenantID subj) (icID old) (icStatus old) (Some (cvID (buCertificate b)))) (\<lambda>_ w.
                    (Inr b, w))))))"

definition RenewOp ::
  "crypto \<Rightarrow> backend \<Rightarrow> entropy \<Rightarrow> acme_renewal \<Rightarrow> world \<Rightarrow> subjects \<Rightarrow> string \<Rightarrow> cert_bundle result \<times> world" where
  "RenewOp cr be en acme w subj i =
     (case on_val (Check w subj ''certificate'' i ''use'') (\<lambda>_. GetCertificate w (sbTenantID subj) i) of
        Inl e \<Rightarrow> (Inl e, w)
      | Inr old \<Rightarrow> renewCert cr be en acme w subj old)"

definition RenewSystemID :: string where
  "RenewSystemID = ''spiffe://system/lcm/renew''"

definition RenewSystem ::
  "crypto \<Rightarrow> backend \<Rightarrow> entropy \<Rightarrow> acme_renewal \<Rightarrow> world \<Rightarrow> string \<Rightarrow> string \<Rightarrow> cert_bundle result \<times> world" where
  "RenewSystem cr be en acme w tenantID certID =
     (let subj = \<lparr>sbTenantID = tenantID, sbUserID = '''', sbRoles = [''admin''], sbService = RenewSystemID\<rparr>
      in (case GetCertificate w tenantID certID of
            Inl e \<Rightarrow> (Inl e, w)
          | Inr old \<Rightarrow> renewCert cr be en acme w subj old))"

definition DownloadKey :: "crypto \<Rightarrow> world \<Rightarrow> subjects \<Rightarrow> string \<Rightarrow> string result" where
  "DownloadKey cr w subj i =
     on_val (Check w subj ''certificate'' i ''use'') (\<lambda>_.
     on_val (GetCertificate w (sbTenantID subj) i) (\<lambda>c.
       if blen (icKeySealed c) = 0 then Inl IssueNoStoredKey
       else Open (crAead cr) (crKEK cr) (icKeySealed c) (ADCertKey (icID c))))"

definition revoke_tx :: "issued_cert \<Rightarrow> revocation \<Rightarrow> world \<Rightarrow> unit result \<times> world" where
  "revoke_tx row rv w =
     on_ok (SetCertificateStatus w (rvTenantID rv) (rvCertificateID rv) ''revoked'' None) (\<lambda>_ w.
     on_ok (InsertRevocation w rv) (\<lambda>_ w.
       InsertCertLog w [\<lparr>clTS = rvRevokedAt rv, clTenantID = rvTenantID rv, clCertificateID = rvCertificateID rv,
         clEvent = ''revoked'', clIssuerID = icIssuerID row, clSpiffeID = icSpiffeID row, clError = ''''\<rparr>]))"

definition RevokeCert :: "backend \<Rightarrow> string \<Rightarrow> world \<Rightarrow> subjects \<Rightarrow> string \<Rightarrow> string \<Rightarrow> unit result \<times> world" where
  "RevokeCert be newID w subj i reason =
     (case on_val (Check w subj ''certificate'' i ''delete'') (\<lambda>_. GetCertificate w (sbTenantID subj) i) of
        Inl e \<Rightarrow> (Inl e, w)
      | Inr row \<Rightarrow>
          (let reason = (if reason = '''' then ''unspecified'' else reason);
               rv = \<lparr>rvID = newID, rvTenantID = sbTenantID subj, rvCertificateID = i, rvSerial = icSerial row,
                     rvReason = reason, rvRevokedAt = mNow w, rvRevokedBy = userPtr subj\<rparr>
           in on_ok (Atomic be w (revoke_tx row rv)) (\<lambda>_ w.
                (Inr (), emit w (event_of subj ''certificate_revoked'' ''certificate'' i '''' ''ok'' ''''
                  [(''spiffe_id'', JStr (icSpiffeID row)), (''serial'', JStr (icSerial row)), (''reason'', JStr reason)])))))"

definition Download :: "world \<Rightarrow> subjects \<Rightarrow> string \<Rightarrow> cert_bundle result" where
  "Download w subj i =
     on_val (Check w subj ''certificate'' i ''read'') (\<lambda>_.
     on_val (GetCertificate w (sbTenantID subj) i) (\<lambda>row.
     on_val (Effective w subj ''certificate'' i) (\<lambda>(perms, _, _).
     on_val (case ParseSPIFFEID (icSpiffeID row) of
               Inl _ \<Rightarrow> Inr ''''
             | Inr sid \<Rightarrow> CaBundle w (sbTenantID subj) (spTrustDomain sid)) (\<lambda>bundlePEM.
       Inr \<lparr>buCertificate = certView w row perms, buCertPEM = icCertPEM row, buChainPEM = icChainPEM row,
            buBundlePEM = bundlePEM, buKeyPEM = ''''\<rparr>))))"

definition DownloadForService ::
  "crypto \<Rightarrow> world \<Rightarrow> string \<Rightarrow> string \<Rightarrow> string \<Rightarrow> bool \<Rightarrow> cert_bundle result" where
  "DownloadForService cr w tenantID callerSPIFFE certID includeKey =
     (let subj = \<lparr>sbTenantID = tenantID, sbUserID = '''', sbRoles = [''admin''], sbService = callerSPIFFE\<rparr>
      in on_val (Download w subj certID) (\<lambda>b.
           if includeKey then on_val (DownloadKey cr w subj certID) (\<lambda>key. Inr (b\<lparr>buKeyPEM := key\<rparr>)) else Inr b))"

definition MarkKeyDeliveredOp :: "world \<Rightarrow> subjects \<Rightarrow> string \<Rightarrow> unit result \<times> world" where
  "MarkKeyDeliveredOp w subj i =
     (case Check w subj ''certificate'' i ''use'' of
        Inl e \<Rightarrow> (Inl e, w)
      | Inr _ \<Rightarrow> MarkKeyDelivered w (sbTenantID subj) i)"

end
