(* ===== verification/Issue_Props.thy ===== *)
theory Issue_Props
  imports Issue
begin

text \<open>
  Properties of issuance and of the certificate lifecycle: who may issue, what an issuance
  stores, what becomes of its private key, how the status of a certificate moves, and what
  revocation and renewal do. The lemmas about \<open>mint\<close> come first; the properties are read off
  them.
\<close>

subsection \<open>What the operations write\<close>

lemma Check_char:
  "Check m s rt ri x = Inr () \<longleftrightarrow>
     ValidResourceType rt \<and> ValidPermission x \<and> readable m (sbTenantID s) rt ri \<and>
     (IsAdmin s \<or>
      (\<exists>g\<in>set (rows (mGrants m)). on_resource (sbTenantID s) rt ri g \<and> matches g s (mNow m) \<and> Has (Of (grRelation g)) x))"
  by (auto simp: Check_resolve resolve_Inr decide_perms sortGrants_def)

definition stored_cert :: "time \<Rightarrow> issued_cert \<Rightarrow> issued_cert" where
  "stored_cert now c =
     (let c = c\<lparr>icCreatedAt := now, icUpdatedAt := now\<rparr> in if icSANs c = None then c\<lparr>icSANs := Some []\<rparr> else c)"

lemma stored_cert_simps [simp]:
  "icID (stored_cert now c) = icID c" "icTenantID (stored_cert now c) = icTenantID c" "icStatus (stored_cert now c) = icStatus c"
  "icIssuerID (stored_cert now c) = icIssuerID c" "icSerial (stored_cert now c) = icSerial c" "icSpiffeID (stored_cert now c) = icSpiffeID c"
  "icKeySealed (stored_cert now c) = icKeySealed c" "icKeyDelivered (stored_cert now c) = icKeyDelivered c"
  "icNotBefore (stored_cert now c) = icNotBefore c" "icNotAfter (stored_cert now c) = icNotAfter c" "icOwner (stored_cert now c) = icOwner c"
  "icCertPEM (stored_cert now c) = icCertPEM c" "icSupersededBy (stored_cert now c) = icSupersededBy c"
  by (simp_all add: stored_cert_def Let_def)

lemma InsertCertificate_Inr:
  assumes "InsertCertificate m c = (Inr v, m')"
  shows "m' = m\<lparr>mCertificates := AList.update (icID c) (stored_cert (mNow m) c) (mCertificates m)\<rparr>"
    and "\<exists>i. map_of (mIssuers m) (icIssuerID c) = Some i \<and> isTenantID i = icTenantID c"
    and "\<forall>x\<in>set (rows (mCertificates m)). icTenantID x = icTenantID c \<longrightarrow> icSerial x \<noteq> icSerial c"
  using assms
  by (auto simp: InsertCertificate_def unless_write_Inr Let_def stored_cert_def list_ex_iff
      split: if_splits option.splits)

lemma InsertCertLog_Inr:
  "InsertCertLog m ls = (Inr v, m') \<Longrightarrow> m' = m\<lparr>mCertLog := mCertLog m @ ls\<rparr>"
  by (auto simp: InsertCertLog_def unless_write_Inr)

lemma GrantOwner_Inr:
  assumes "store_ok m" "map_of (mGrants m) gid = None" "GrantOwner m tid rt ri uid gid = (Inr v, m')"
  shows "\<exists>t. m' = m\<lparr>mGrants := t\<rparr>"
    and "uid \<noteq> '''' \<Longrightarrow> \<exists>g\<in>set (rows (mGrants m')). on_resource tid rt ri g \<and> grSubjectType g = ''user'' \<and> grSubjectID g = uid
           \<and> grRelation g = ''owner'' \<and> grExpiresAt g = None"
proof -
  have "(\<exists>t. m' = m\<lparr>mGrants := t\<rparr>) \<and> (uid \<noteq> '''' \<longrightarrow> (\<exists>g\<in>set (rows (mGrants m')). on_resource tid rt ri g
     \<and> grSubjectType g = ''user'' \<and> grSubjectID g = uid \<and> grRelation g = ''owner'' \<and> grExpiresAt g = None))"
  proof (cases "uid = ''''")
    case False
    then obtain g' where up: "UpsertGrant m \<lparr>grID = gid, grTenantID = tid, grResourceType = rt, grResourceID = ri,
        grSubjectType = ''user'', grSubjectID = uid, grRelation = ''owner'', grGrantedBy = Some uid,
        grGrantedAt = 0, grExpiresAt = None\<rparr> = (Inr g', m')"
      using assms(3) by (auto simp: GrantOwner_def on_ok_Inr_iff)
    from UpsertGrant_Inr [OF assms(1) _ up] assms(2) show ?thesis
      by (auto simp: same_grant_def on_resource_def)
  qed (use assms(3) in \<open>auto simp: GrantOwner_def intro: exI [of _ "mGrants m"]\<close>)
  then show "\<exists>t. m' = m\<lparr>mGrants := t\<rparr>"
    and "uid \<noteq> '''' \<Longrightarrow> \<exists>g\<in>set (rows (mGrants m')). on_resource tid rt ri g \<and> grSubjectType g = ''user'' \<and> grSubjectID g = uid
           \<and> grRelation g = ''owner'' \<and> grExpiresAt g = None" by auto
qed

text \<open>The transaction of an issuance, when it succeeds.\<close>

lemma store_cert_Inr:
  assumes "store_ok w" "map_of (mCertificates w) (icID row) = None" "map_of (mGrants w) gid = None"
    and "store_cert row log uid gid w = (Inr v, w')"
  shows "map_of (mCertificates w') = (map_of (mCertificates w))(icID row \<mapsto> stored_cert (mNow w) row)"
    and "mCertLog w' = mCertLog w @ [log]" "mIssuers w' = mIssuers w" "mCAs w' = mCAs w" "mRequests w' = mRequests w"
    and "mRevocations w' = mRevocations w" "mNow w' = mNow w" "mFail w' = mFail w" "wWriter w' = wWriter w"
    and "uid \<noteq> '''' \<Longrightarrow> \<exists>g\<in>set (rows (mGrants w')). on_resource (icTenantID row) ''certificate'' (icID row) g
           \<and> grSubjectType g = ''user'' \<and> grSubjectID g = uid \<and> grRelation g = ''owner'' \<and> grExpiresAt g = None"
proof -
  from assms(4) obtain w1 w2 where s: "InsertCertificate w row = (Inr (), w1)" "InsertCertLog w1 [log] = (Inr (), w2)"
    "GrantOwner w2 (icTenantID row) ''certificate'' (icID row) uid gid = (Inr v, w')"
    by (auto simp: store_cert_def on_ok_Inr_iff)
  note w1 = InsertCertificate_Inr(1) [OF s(1)] and w2 = InsertCertLog_Inr [OF s(2)]
  have "store_ok w1" using InsertCertificate_ok [OF assms(1), of row] s(1) by simp
  then have ok2: "store_ok w2" using InsertCertLog_ok [of w1 "[log]"] s(2) by simp
  have gr: "map_of (mGrants w2) gid = None" using assms(3) by (simp add: w1 w2)
  note g = GrantOwner_Inr [OF ok2 gr s(3)]
  from g(1) obtain t where t: "w' = w2\<lparr>mGrants := t\<rparr>" by blast
  show "map_of (mCertificates w') = (map_of (mCertificates w))(icID row \<mapsto> stored_cert (mNow w) row)"
    "mCertLog w' = mCertLog w @ [log]" "mIssuers w' = mIssuers w" "mCAs w' = mCAs w" "mRequests w' = mRequests w"
    "mRevocations w' = mRevocations w" "mNow w' = mNow w" "mFail w' = mFail w" "wWriter w' = wWriter w"
    by (simp_all add: t w1 w2)
  show "uid \<noteq> '''' \<Longrightarrow> \<exists>g\<in>set (rows (mGrants w')). on_resource (icTenantID row) ''certificate'' (icID row) g
           \<and> grSubjectType g = ''user'' \<and> grSubjectID g = uid \<and> grRelation g = ''owner'' \<and> grExpiresAt g = None"
    by (rule g(2))
qed

lemma store_cert_acts:
  assumes "map_of (mCertificates w) (icID row) = None" "map_of (mGrants w) gid = None" "icTenantID row = t" "clTenantID log = t"
  shows "acts t w (snd (store_cert row log uid gid w))"
proof -
  show ?thesis unfolding store_cert_def assms(3)
    by (intro on_ok_acts_snd acts_inserts acts_rows GrantOwner_acts) (simp_all add: assms)
qed

lemma mint_acts:
  assumes "map_of (mCertificates w) (enID en) = None" "map_of (mGrants w) (enGrantID en) = None"
  shows "acts (sbTenantID subj) w (snd (mint cr be en w subj issuer sid req))"
proof (cases "mint_row cr en w subj issuer sid req")
  case (Inr p)
  obtain row keyPEM bundlePEM where p: "p = (row, keyPEM, bundlePEM)" by (cases p)
  have row: "icID row = enID en" "icTenantID row = sbTenantID subj"
    using Inr p by (auto simp: mint_row_def Let_def result_simps split: option.splits if_splits)
  have "acts (sbTenantID subj) w (snd (Atomic be w (store_cert row
      (cert_log_of (mNow w) row (mrLogEvent req) (spiffe_string sid)) (sbUserID subj) (enGrantID en))))"
    by (intro Atomic_acts store_cert_acts) (simp_all add: assms row cert_log_of_def)
  moreover have "acts t w (snd (MarkKeyDelivered (emit w e) t k))" for t w e k
    by (rule acts_trans [OF acts_ops(8) acts_emit [OF acts_refl]])
  ultimately show ?thesis unfolding mint_def Inr p
    by (auto simp: Let_def intro!: on_ok_acts_snd acts_emit)
qed (simp add: mint_def)

text \<open>The row a mint is about to store.\<close>

lemma mint_row_Inr:
  assumes "mint_row cr en w subj issuer sid req = Inr (row, keyPEM, bundlePEM)"
  shows "icID row = enID en" "icTenantID row = sbTenantID subj" "icIssuerID row = isID issuer"
    "icSpiffeID row = spiffe_string sid" "icStatus row = ''active''" "icNotBefore row = mNow w"
    "icNotAfter row = mNow w + clampValidity (mrValiditySeconds req)" "icOwner row = ActorID subj"
    "icKeyDelivered row = False" "icSupersededBy row = None" "icSANs row = Some (mrDNSSans req)"
    "\<exists>pub. mint_key cr en req = Inr (pub, keyPEM, icKeySealed row)"
    "isType issuer = ''self_signed''" "isCAID issuer \<noteq> None"
    "\<exists>n. randomSerial (enSerial en) = Inr n \<and> icSerial row = dec n"
  using assms by (auto simp: mint_row_def Let_def result_simps split: option.splits if_splits)

lemma mint_Inr:
  assumes "mint cr be en w subj issuer sid req = (Inr b, w')"
  obtains row keyPEM bundlePEM w1 e where
    "mint_row cr en w subj issuer sid req = Inr (row, keyPEM, bundlePEM)"
    "store_cert row (cert_log_of (mNow w) row (mrLogEvent req) (spiffe_string sid)) (sbUserID subj) (enGrantID en) w = (Inr (), w1)"
    "w' = (if keyPEM \<noteq> '''' \<and> \<not> mrRetainKey req then snd (MarkKeyDelivered (emit w1 e) (sbTenantID subj) (icID row)) else emit w1 e)"
    "keyPEM \<noteq> '''' \<and> \<not> mrRetainKey req \<longrightarrow> fst (MarkKeyDelivered (emit w1 e) (sbTenantID subj) (icID row)) = Inr ()"
    "buKeyPEM b = keyPEM" "cvID (buCertificate b) = icID row" "buCertPEM b = icCertPEM row"
proof (cases "mint_row cr en w subj issuer sid req")
  case (Inr p)
  obtain row keyPEM bundlePEM where p: "p = (row, keyPEM, bundlePEM)" by (cases p)
  define ev where "ev = event_of subj (mrEvent req) ''certificate'' (icID row) '''' ''ok'' ''''
    [(''spiffe_id'', JStr (spiffe_string sid)), (''issuer_id'', JStr (isID issuer)), (''serial'', JStr (icSerial row))]"
  from assms obtain w1 where w1: "store_cert row (cert_log_of (mNow w) row (mrLogEvent req) (spiffe_string sid))
      (sbUserID subj) (enGrantID en) w = (Inr (), w1)"
    and rest: "on_ok (if keyPEM \<noteq> '''' \<and> \<not> mrRetainKey req
         then on_ok (MarkKeyDelivered (emit w1 ev) (sbTenantID subj) (icID row)) (\<lambda>_ w.
                (Inr (row\<lparr>icKeyDelivered := True, icKeySealed := None\<rparr>), w))
         else (Inr row, emit w1 ev)) (\<lambda>row w.
      (Inr \<lparr>buCertificate = certView w row (effective_or_none w subj ''certificate'' (icID row)),
        buCertPEM = icCertPEM row, buChainPEM = icChainPEM row, buBundlePEM = bundlePEM, buKeyPEM = keyPEM\<rparr>, w)) = (Inr b, w')"
    unfolding mint_def Inr p Let_def sum.case prod.case ev_def [symmetric] by (auto simp: on_ok_Inr_iff Atomic_Inr)
  show thesis
  proof (rule that [of row keyPEM bundlePEM w1 ev])
    show "mint_row cr en w subj issuer sid req = Inr (row, keyPEM, bundlePEM)" using Inr p by simp
  qed (use w1 rest in \<open>auto simp: on_ok_Inr_iff certView_def split: if_splits\<close>)
qed (use assms in \<open>simp add: mint_def\<close>)

lemma MarkKeyDelivered_lookup:
  assumes "fst (MarkKeyDelivered m tid i) = Inr ()"
  shows "\<exists>c. map_of (mCertificates m) i = Some c \<and> icTenantID c = tid \<and>
     map_of (mCertificates (snd (MarkKeyDelivered m tid i))) =
       (map_of (mCertificates m))(i \<mapsto> c\<lparr>icKeyDelivered := True, icKeySealed := None, icUpdatedAt := mNow m\<rparr>)"
  using assms by (auto simp: MarkKeyDelivered_def unless_write_def Let_def tenant_lookup_def split: option.splits if_splits)

text \<open>What a successful mint leaves in the store.\<close>

lemma mint_effect:
  assumes "store_ok w" "map_of (mCertificates w) (enID en) = None" "map_of (mGrants w) (enGrantID en) = None"
    and "mint cr be en w subj issuer sid req = (Inr b, w')"
  shows "\<exists>row. map_of (mCertificates w') = (map_of (mCertificates w))(enID en \<mapsto> row)
     \<and> icID row = enID en \<and> icTenantID row = sbTenantID subj \<and> icIssuerID row = isID issuer
     \<and> icSpiffeID row = spiffe_string sid \<and> icStatus row = ''active'' \<and> icNotBefore row = mNow w
     \<and> icNotAfter row = mNow w + clampValidity (mrValiditySeconds req) \<and> icOwner row = ActorID subj
     \<and> icSupersededBy row = None \<and> cvID (buCertificate b) = enID en \<and> buCertPEM b = icCertPEM row
     \<and> (\<exists>pub sealed. mint_key cr en req = Inr (pub, buKeyPEM b, sealed) \<and>
          icKeySealed row = (if buKeyPEM b \<noteq> '''' \<and> \<not> mrRetainKey req then None else sealed))"
    and "mCertLog w' = mCertLog w @ [\<lparr>clTS = mNow w, clTenantID = sbTenantID subj, clCertificateID = enID en,
           clEvent = mrLogEvent req, clIssuerID = isID issuer, clSpiffeID = spiffe_string sid, clError = ''''\<rparr>]"
    and "mIssuers w' = mIssuers w" "mCAs w' = mCAs w" "mRequests w' = mRequests w" "mRevocations w' = mRevocations w"
    and "mNow w' = mNow w" "mFail w' = mFail w"
    and "sbUserID subj \<noteq> '''' \<Longrightarrow> \<exists>g\<in>set (rows (mGrants w')). on_resource (sbTenantID subj) ''certificate'' (enID en) g
           \<and> grSubjectType g = ''user'' \<and> grSubjectID g = sbUserID subj \<and> grRelation g = ''owner'' \<and> grExpiresAt g = None"
proof -
  obtain row keyPEM bundlePEM w1 e where m:
    "mint_row cr en w subj issuer sid req = Inr (row, keyPEM, bundlePEM)"
    "store_cert row (cert_log_of (mNow w) row (mrLogEvent req) (spiffe_string sid)) (sbUserID subj) (enGrantID en) w = (Inr (), w1)"
    "w' = (if keyPEM \<noteq> '''' \<and> \<not> mrRetainKey req then snd (MarkKeyDelivered (emit w1 e) (sbTenantID subj) (icID row)) else emit w1 e)"
    "keyPEM \<noteq> '''' \<and> \<not> mrRetainKey req \<longrightarrow> fst (MarkKeyDelivered (emit w1 e) (sbTenantID subj) (icID row)) = Inr ()"
    "buKeyPEM b = keyPEM" "cvID (buCertificate b) = icID row" "buCertPEM b = icCertPEM row"
    using assms(4) by (rule mint_Inr)
  note row = mint_row_Inr [OF m(1)]
  have st: "map_of (mCertificates w) (icID row) = None" using assms(2) row(1) by simp
  note w1 = store_cert_Inr [OF assms(1) st assms(3) m(2)]
  show "mIssuers w' = mIssuers w" "mCAs w' = mCAs w" "mRequests w' = mRequests w" "mRevocations w' = mRevocations w"
    "mNow w' = mNow w" "mFail w' = mFail w"
    using w1 by (simp_all add: m(3))
  show "mCertLog w' = mCertLog w @ [\<lparr>clTS = mNow w, clTenantID = sbTenantID subj, clCertificateID = enID en,
      clEvent = mrLogEvent req, clIssuerID = isID issuer, clSpiffeID = spiffe_string sid, clError = ''''\<rparr>]"
    using w1(2) row by (simp add: m(3) cert_log_of_def)
  show "sbUserID subj \<noteq> '''' \<Longrightarrow> \<exists>g\<in>set (rows (mGrants w')). on_resource (sbTenantID subj) ''certificate'' (enID en) g
      \<and> grSubjectType g = ''user'' \<and> grSubjectID g = sbUserID subj \<and> grRelation g = ''owner'' \<and> grExpiresAt g = None"
    using w1(10) row by (simp add: m(3))
  show "\<exists>row. map_of (mCertificates w') = (map_of (mCertificates w))(enID en \<mapsto> row)
     \<and> icID row = enID en \<and> icTenantID row = sbTenantID subj \<and> icIssuerID row = isID issuer
     \<and> icSpiffeID row = spiffe_string sid \<and> icStatus row = ''active'' \<and> icNotBefore row = mNow w
     \<and> icNotAfter row = mNow w + clampValidity (mrValiditySeconds req) \<and> icOwner row = ActorID subj
     \<and> icSupersededBy row = None \<and> cvID (buCertificate b) = enID en \<and> buCertPEM b = icCertPEM row
     \<and> (\<exists>pub sealed. mint_key cr en req = Inr (pub, buKeyPEM b, sealed) \<and>
          icKeySealed row = (if buKeyPEM b \<noteq> '''' \<and> \<not> mrRetainKey req then None else sealed))"
  proof (cases "keyPEM \<noteq> '''' \<and> \<not> mrRetainKey req")
    case True
    have "fst (MarkKeyDelivered (emit w1 e) (sbTenantID subj) (icID row)) = Inr ()" using m(4) True by blast
    from MarkKeyDelivered_lookup [OF this] w1(1) show ?thesis using row m(5-7) True by (auto simp: m(3))
  next
    case False
    then show ?thesis using row m(5-7) w1(1) by (auto simp: m(3))
  qed
qed

lemma owner_may:
  assumes "\<exists>g\<in>set (rows (mGrants m)). on_resource (sbTenantID s) rt ri g \<and> grSubjectType g = ''user''
      \<and> grSubjectID g = sbUserID s \<and> grRelation g = ''owner'' \<and> grExpiresAt g = None"
    and "sbUserID s \<noteq> ''''" "ValidPermission x" "ValidResourceType rt" "readable m (sbTenantID s) rt ri"
  shows "Check m s rt ri x = Inr ()"
proof -
  from assms(1) obtain g where g: "g \<in> set (rows (mGrants m))" "on_resource (sbTenantID s) rt ri g" "grRelation g = ''owner''"
    and "grSubjectType g = ''user''" "grSubjectID g = sbUserID s" "grExpiresAt g = None" by blast
  then have "matches g s (mNow m)" using assms(2) by (simp add: matches_def)
  with g assms(3-5) show ?thesis unfolding Check_char by (auto intro: bexI [of _ g])
qed

subsection \<open>Validity\<close>

lemma clampValidity_bounds: "60 * Second \<le> clampValidity s" "clampValidity s \<le> 365 * 24 * Hour"
  by (simp_all add: clampValidity_def MinValiditySeconds_def DefaultValiditySeconds_def MaxValiditySeconds_def
      Let_def Hour_def Minute_def Second_def)

subsection \<open>Who may issue\<close>

lemma GetIssuer_Inr:
  assumes "store_ok m" "GetIssuer m tid i = Inr x"
  shows "isID x = i" "isTenantID x = tid" "\<exists>r n. map_of (mIssuers m) i = Some r \<and> x = r\<lparr>isCertificateCount := n\<rparr>"
proof -
  have ok: "table_ok isID (mIssuers m)" using assms(1) by (simp add: store_ok_def issuers_ok_def)
  from assms(2) obtain r n where r: "map_of (mIssuers m) i = Some r" "isTenantID r = tid" "x = r\<lparr>isCertificateCount := n\<rparr>"
    by (auto simp: GetIssuer_def unless_read_Inr on_val_Inr_iff tenant_lookup_Inr)
  then show "isID x = i" "isTenantID x = tid" "\<exists>r n. map_of (mIssuers m) i = Some r \<and> x = r\<lparr>isCertificateCount := n\<rparr>"
    using table_ok_key [OF ok r(1)] by auto
qed

lemma DefaultIssuer_Inr:
  assumes "store_ok m" "DefaultIssuer m tid td = Inr x"
  shows "isTenantID x = tid" "isTrustDomain x = td" "isIsDefault x"
    "\<exists>r n. map_of (mIssuers m) (isID x) = Some r \<and> x = r\<lparr>isCertificateCount := n\<rparr>"
proof -
  have ok: "table_ok isID (mIssuers m)" using assms(1) by (simp add: store_ok_def issuers_ok_def)
  from assms(2) obtain r where r: "find (\<lambda>i. isTenantID i = tid \<and> isTrustDomain i = td \<and> isIsDefault i) (rows (mIssuers m)) = Some r"
    "x = r\<lparr>isCertificateCount := certCountForIssuer m (isID r)\<rparr>"
    by (auto simp: DefaultIssuer_def unless_read_Inr split: option.splits)
  from find_SomeD [OF r(1)] r(2) show "isTenantID x = tid" "isTrustDomain x = td" "isIsDefault x"
    "\<exists>r n. map_of (mIssuers m) (isID x) = Some r \<and> x = r\<lparr>isCertificateCount := n\<rparr>"
    by (auto simp: in_rows_iff [OF ok])
qed

lemma resolveIssuer_Inr:
  assumes "store_ok w" "resolveIssuer w subj inp = Inr (issuer, sid)"
  shows "ParseSPIFFEID (iiSpiffeID inp) = Inr sid" "isTenantID issuer = sbTenantID subj" "isTrustDomain issuer = spTrustDomain sid"
    "\<exists>r n. map_of (mIssuers w) (isID issuer) = Some r \<and> issuer = r\<lparr>isCertificateCount := n\<rparr>"
    "iiIssuerID inp \<noteq> '''' \<Longrightarrow> isID issuer = iiIssuerID inp"
proof -
  show "ParseSPIFFEID (iiSpiffeID inp) = Inr sid" "isTrustDomain issuer = spTrustDomain sid"
    using assms(2) by (auto simp: resolveIssuer_def split: sum.splits if_splits)
  have "GetIssuer w (sbTenantID subj) (iiIssuerID inp) = Inr issuer \<and> iiIssuerID inp \<noteq> ''''
      \<or> (\<exists>td. DefaultIssuer w (sbTenantID subj) td = Inr issuer) \<and> iiIssuerID inp = ''''"
    using assms(2) by (auto simp: resolveIssuer_def split: sum.splits if_splits)
  then show "isTenantID issuer = sbTenantID subj"
    "\<exists>r n. map_of (mIssuers w) (isID issuer) = Some r \<and> issuer = r\<lparr>isCertificateCount := n\<rparr>"
    "iiIssuerID inp \<noteq> '''' \<Longrightarrow> isID issuer = iiIssuerID inp"
    using GetIssuer_Inr [OF assms(1)] DefaultIssuer_Inr [OF assms(1)] by metis+
qed

lemma IssueCert_Inr:
  assumes "IssueCert cr be en w subj inp = (Inr b, w')"
  obtains issuer sid where "resolveIssuer w subj inp = Inr (issuer, sid)" "entitled w subj issuer sid = Inr ()"
    "mint cr be en w subj issuer sid (issue_req inp) = (Inr b, w')"
  using assms by (auto simp: IssueCert_def split: sum.splits)

text \<open>
  C8. Only the entitled issue: a successful issuance was for a well-formed SPIFFE identity,
  under a self-signed issuer of the caller's own tenant and of the identity's trust domain,
  and the caller held \<open>use\<close> on that issuer or is a service asking for its own identity.
\<close>

theorem IssueCert_entitled:
  assumes "store_ok w" "IssueCert cr be en w subj inp = (Inr b, w')"
  shows "\<exists>sid k issuer. ParseSPIFFEID (iiSpiffeID inp) = Inr sid
     \<and> map_of (mIssuers w) k = Some issuer \<and> isTenantID issuer = sbTenantID subj
     \<and> isType issuer = ''self_signed'' \<and> isTrustDomain issuer = spTrustDomain sid
     \<and> (iiIssuerID inp \<noteq> '''' \<longrightarrow> k = iiIssuerID inp)
     \<and> (Check w subj ''issuer'' k ''use'' = Inr ()
        \<or> (\<exists>own. sbService subj \<noteq> '''' \<and> ParseSPIFFEID (sbService subj) = Inr own
              \<and> spTrustDomain own = spTrustDomain sid \<and> spPath own = spPath sid))"
proof -
  obtain issuer sid where r: "resolveIssuer w subj inp = Inr (issuer, sid)" "entitled w subj issuer sid = Inr ()"
    and m: "mint cr be en w subj issuer sid (issue_req inp) = (Inr b, w')"
    using assms(2) by (rule IssueCert_Inr)
  obtain row keyPEM bundlePEM where "mint_row cr en w subj issuer sid (issue_req inp) = Inr (row, keyPEM, bundlePEM)"
    using m by (rule mint_Inr)
  then have ty: "isType issuer = ''self_signed''" by (rule mint_row_Inr)
  note res = resolveIssuer_Inr [OF assms(1) r(1)]
  obtain i n where i: "map_of (mIssuers w) (isID issuer) = Some i" "issuer = i\<lparr>isCertificateCount := n\<rparr>"
    using res(4) by blast
  have "Check w subj ''issuer'' (isID issuer) ''use'' = Inr () \<or> (\<exists>own. sbService subj \<noteq> ''''
     \<and> ParseSPIFFEID (sbService subj) = Inr own \<and> spTrustDomain own = spTrustDomain sid \<and> spPath own = spPath sid)"
    using r(2) by (auto simp: entitled_def split: sum.splits if_splits)
  with res ty i show ?thesis
    by (intro exI [of _ sid] exI [of _ "isID issuer"] exI [of _ i]) auto
qed


subsection \<open>A live issuer\<close>

text \<open>A world with one generated root, one self-signed issuer under it and a user who may use it.\<close>

definition live_ca :: ca_row where
  "live_ca = projr (generate demo_crypto (demo_entropy ''ca1'' ''g0'') 7 ''t'' ''td'')"

definition live_grant :: grant_row where
  "live_grant = \<lparr>grID = ''g1'', grTenantID = ''t'', grResourceType = ''issuer'', grResourceID = ''i1'',
     grSubjectType = ''user'', grSubjectID = ''alice'', grRelation = ''editor'', grGrantedBy = None,
     grGrantedAt = 7, grExpiresAt = None\<rparr>"

definition live_world :: world where
  "live_world = snd (UpsertGrant (snd (InsertIssuer (snd (InsertCA (mem.extend (New 7) \<lparr>wWriter = newWriter 4\<rparr>) live_ca))
     (demo_issuer ''i1'' ''t'' (Some ''ca1'')))) live_grant)"

definition live_input :: issue_input where
  "live_input = \<lparr>iiIssuerID = ''i1'', iiSpiffeID = ''spiffe://td/app'', iiCSRPEM = '''', iiSubject = '''', iiDNSSans = [],
     iiValiditySeconds = 0, iiDeliverKey = True, iiRetainKey = False\<rparr>"

abbreviation live_entropy :: entropy where
  "live_entropy \<equiv> demo_entropy ''c1'' ''g2''"

abbreviation live_issue :: "cert_bundle result \<times> world" where
  "live_issue \<equiv> IssueCert demo_crypto Database live_entropy live_world (SubjectsOf ''t'' ''alice'' []) live_input"

lemma live_world_ok: "store_ok live_world"
proof -
  have "store_ok (mem.extend (New 7) \<lparr>wWriter = newWriter 4\<rparr>)"
    using store_ok_New [of 7] by (simp add: store_ok_def New_def mem.defs)
  then show ?thesis unfolding live_world_def
    by (intro UpsertGrant_ok InsertIssuer_ok InsertCA_ok) (simp_all add: New_def mem.defs)
qed

abbreviation alice :: subjects where
  "alice \<equiv> SubjectsOf ''t'' ''alice'' []"

abbreviation no_acme :: "world \<Rightarrow> subjects \<Rightarrow> issued_cert \<Rightarrow> cert_bundle result \<times> world" where
  "no_acme \<equiv> \<lambda>w s c. (Inl StoreNotFound, w)"

abbreviation renew_entropy :: entropy where
  "renew_entropy \<equiv> (demo_entropy ''c2'' ''g3'')\<lparr>enSerial := Inr 9\<rparr>"

text \<open>One evaluation on this world feeds every instance below: issue, revoke, renew.\<close>

lemma live_eval:
  "map_of (mGrants live_world) ''g2'' = None \<and> map_of (mCertificates live_world) ''c1'' = None \<and>
   (case live_issue of
      (Inr b, w') \<Rightarrow> buKeyPEM b \<noteq> '''' \<and> Check w' alice ''certificate'' ''c1'' ''use'' = Inr ()
        \<and> Check w' alice ''certificate'' ''c1'' ''delete'' = Inr () \<and> readable w' ''t'' ''certificate'' ''c1''
        \<and> (case (GetCertificate w' ''t'' ''c1'', RevokeCert Database ''r1'' w' alice ''c1'' '''') of
             (Inr old, Inr _, w2) \<Rightarrow>
               icStatus old = ''active'' \<and> icKind old = '''' \<and> icID old = ''c1''
               \<and> (case map_of (mCertificates w2) ''c1'' of Some c \<Rightarrow> icStatus c = ''revoked'' | None \<Rightarrow> False)
               \<and> map_of (mCertificates w2) ''c2'' = None \<and> map_of (mGrants w2) ''g3'' = None
               \<and> \<not> isl (fst (renewCert demo_crypto Database renew_entropy no_acme w2 alice old))
           | _ \<Rightarrow> False)
    | _ \<Rightarrow> False)"
  by code_simp

lemma live_issueE:
  obtains b w' where "live_issue = (Inr b, w')" "buKeyPEM b \<noteq> ''''" "Check w' alice ''certificate'' ''c1'' ''use'' = Inr ()"
    "Check w' alice ''certificate'' ''c1'' ''delete'' = Inr ()" "readable w' ''t'' ''certificate'' ''c1''"
  using live_eval by (auto split: prod.splits sum.splits)

lemma live_revokeE:
  obtains b w' w2 old cur b2 w3 where "live_issue = (Inr b, w')" "RevokeCert Database ''r1'' w' alice ''c1'' '''' = (Inr (), w2)"
    "GetCertificate w' ''t'' ''c1'' = Inr old" "icStatus old = ''active''" "icKind old = ''''" "icID old = ''c1''"
    "map_of (mCertificates w2) ''c1'' = Some cur" "icStatus cur = ''revoked''"
    "map_of (mCertificates w2) ''c2'' = None" "map_of (mGrants w2) ''g3'' = None"
    "renewCert demo_crypto Database renew_entropy no_acme w2 alice old = (Inr b2, w3)"
proof -
  obtain b w' where b: "live_issue = (Inr b, w')" by (rule live_issueE)
  obtain r w2 where rw: "RevokeCert Database ''r1'' w' alice ''c1'' '''' = (r, w2)" by fastforce
  from live_eval b rw have "case (GetCertificate w' ''t'' ''c1'', r, w2) of
      (Inr old, Inr _, w2) \<Rightarrow>
        icStatus old = ''active'' \<and> icKind old = '''' \<and> icID old = ''c1''
        \<and> (case map_of (mCertificates w2) ''c1'' of Some c \<Rightarrow> icStatus c = ''revoked'' | None \<Rightarrow> False)
        \<and> map_of (mCertificates w2) ''c2'' = None \<and> map_of (mGrants w2) ''g3'' = None
        \<and> \<not> isl (fst (renewCert demo_crypto Database renew_entropy no_acme w2 alice old))
    | _ \<Rightarrow> False" by (cases "GetCertificate w' ''t'' ''c1''") simp_all
  then obtain old where o: "GetCertificate w' ''t'' ''c1'' = Inr old" "r = Inr ()" "icStatus old = ''active''" "icKind old = ''''"
    "icID old = ''c1''" "case map_of (mCertificates w2) ''c1'' of Some c \<Rightarrow> icStatus c = ''revoked'' | None \<Rightarrow> False"
    "map_of (mCertificates w2) ''c2'' = None" "map_of (mGrants w2) ''g3'' = None"
    "\<not> isl (fst (renewCert demo_crypto Database renew_entropy no_acme w2 alice old))"
    by (cases "GetCertificate w' ''t'' ''c1''"; cases r) auto
  obtain cur where c: "map_of (mCertificates w2) ''c1'' = Some cur" "icStatus cur = ''revoked''"
    using o(6) by (auto split: option.splits)
  obtain q w3 where q: "renewCert demo_crypto Database renew_entropy no_acme w2 alice old = (q, w3)" by fastforce
  with o(9) obtain b2 where "q = Inr b2" by (cases q) auto
  with q that [OF b _ o(1,3-5) c o(7,8)] rw o(2) show thesis by simp
qed

lemma live_fresh: "map_of (mCertificates live_world) (enID live_entropy) = None"
  "map_of (mGrants live_world) (enGrantID live_entropy) = None"
  using live_eval by simp_all

theorem IssueCert_entitled_witness:
  "\<exists>b w' k issuer. live_issue = (Inr b, w') \<and> map_of (mIssuers live_world) k = Some issuer \<and> isTrustDomain issuer = ''td''
     \<and> Check live_world alice ''issuer'' k ''use'' = Inr ()"
proof -
  obtain b w' where r: "live_issue = (Inr b, w')" by (rule live_issueE)
  have "ParseSPIFFEID (iiSpiffeID live_input) = Inr \<lparr>spTrustDomain = ''td'', spPath = ''app'', spRaw = ''spiffe://td/app''\<rparr>"
    by code_simp
  with IssueCert_entitled [OF live_world_ok r] r show ?thesis by (auto simp: SubjectsOf_def)
qed


subsection \<open>The private key\<close>

text \<open>
  C10. A generated key leaves the service at most once: it is in the reply exactly when the
  caller asked for it; when it was delivered without being retained it is gone, so that no
  later download can return it; otherwise a caller who may use the certificate downloads
  exactly the generated key.
\<close>

theorem IssueCert_key:
  assumes "store_ok w" "map_of (mCertificates w) (enID en) = None" "map_of (mGrants w) (enGrantID en) = None"
    and "crypto_ok cr" "iiCSRPEM inp = ''''" "enKey en = Inr (pub, priv)" "enSeal en = Inr (dek, n1, n2)"
    and "length dek = 32" "length n1 = NonceSize" "length n2 = NonceSize"
    and "IssueCert cr be en w subj inp = (Inr b, w')"
    and "sbTenantID s = sbTenantID subj" "Check w' s ''certificate'' (enID en) ''use'' = Inr ()"
  shows "\<exists>keyDER. crMarshalKey cr priv = Inr keyDER
     \<and> buKeyPEM b = (if iiDeliverKey inp then crPemEncode cr ''PRIVATE KEY'' keyDER else '''')
     \<and> DownloadKey cr w' s (enID en) =
         (if iiDeliverKey inp \<and> \<not> iiRetainKey inp then Inl IssueNoStoredKey
          else Inr (crPemEncode cr ''PRIVATE KEY'' keyDER))"
proof -
  obtain issuer sid where m: "mint cr be en w subj issuer sid (issue_req inp) = (Inr b, w')"
    using assms(11) by (rule IssueCert_Inr)
  note eff = mint_effect [OF assms(1-3) m]
  obtain row pub' sealed where row: "map_of (mCertificates w') (enID en) = Some row" "icID row = enID en"
    "icTenantID row = sbTenantID subj" "mint_key cr en (issue_req inp) = Inr (pub', buKeyPEM b, sealed)"
    "icKeySealed row = (if buKeyPEM b \<noteq> '''' \<and> \<not> iiRetainKey inp then None else sealed)"
    using eff(1) by (auto simp: issue_req_def)
  have laws: "aead_ok (crAead cr)" "length (crKEK cr) = 32" "crPemEncode cr ty d \<noteq> ''''" for ty d
    using assms(4) by (auto simp: crypto_ok_def)
  obtain keyDER blob where k: "crMarshalKey cr priv = Inr keyDER" "sealed = Some blob"
    "Seal (crAead cr) (crKEK cr) (Inr (dek, n1, n2)) (crPemEncode cr ''PRIVATE KEY'' keyDER) (ADCertKey (enID en)) = Inr blob"
    "buKeyPEM b = (if iiDeliverKey inp then crPemEncode cr ''PRIVATE KEY'' keyDER else '''')"
    using row(4) assms(5-7) by (auto simp: mint_key_def issue_req_def Let_def on_val_Inr_iff)
  have opens: "Open (crAead cr) (crKEK cr) (Some blob) (ADCertKey (enID en)) = Inr (crPemEncode cr ''PRIVATE KEY'' keyDER)"
    using Open_parts [OF laws(1,2) assms(8-10)] k(3) by (auto simp: Seal_def split: if_splits)
  have "length blob > 0"
    using k(3) assms(9) by (auto simp: Seal_def NonceSize_def split: if_splits)
  moreover have "GetCertificate w' (sbTenantID subj) (enID en) = Inr row"
    using row(1,3) assms(12,13) by (auto simp: GetCertificate_def unless_read_Inr tenant_lookup_Inr Check_char readable_def)
  ultimately have "DownloadKey cr w' s (enID en) =
      (if iiDeliverKey inp \<and> \<not> iiRetainKey inp then Inl IssueNoStoredKey else Inr (crPemEncode cr ''PRIVATE KEY'' keyDER))"
    using assms(12,13) row(2,5) k(2,4) opens laws(3) by (auto simp: DownloadKey_def)
  with k(1,4) show ?thesis by blast
qed

theorem IssueCert_key_witness:
  "\<exists>b w'. live_issue = (Inr b, w') \<and> buKeyPEM b = crPemEncode demo_crypto ''PRIVATE KEY'' ''priv''
     \<and> DownloadKey demo_crypto w' alice ''c1'' = Inl IssueNoStoredKey"
proof -
  obtain b w' where r: "live_issue = (Inr b, w')" "Check w' alice ''certificate'' ''c1'' ''use'' = Inr ()" by (rule live_issueE)
  have "iiCSRPEM live_input = ''''" "crMarshalKey demo_crypto = Inr" by (simp_all add: live_input_def demo_crypto_def)
  with IssueCert_key [OF live_world_ok live_fresh demo_crypto_ok _ demo_entropy_simps(3,5) _ _ _ r(1), of alice] r
  show ?thesis by (auto simp: live_input_def NonceSize_def)
qed

end
