(* ===== verification/Issue_Life.thy ===== *)
theory Issue_Life
  imports Issue_Props
begin

text \<open>
  The life of an issued certificate: its derived status over time, failed issuances,
  revocation, renewal and deletion.
\<close>

subsection \<open>Derived status\<close>

definition status_rank :: "string \<Rightarrow> nat" where
  "status_rank s = (if s = ''active'' then 0 else if s = ''expiring'' then 1 else if s = ''expired'' then 2 else 3)"

lemma half_bounds:
  assumes "0 \<le> d"
  shows "0 \<le> go_div (max minDuration (min maxDuration d)) 2" "2 * go_div (max minDuration (min maxDuration d)) 2 \<le> d"
proof -
  have "0 \<le> max minDuration (min maxDuration d)" "max minDuration (min maxDuration d) \<le> d"
    using assms by (auto simp: minDuration_def maxDuration_def)
  then show "0 \<le> go_div (max minDuration (min maxDuration d)) 2" "2 * go_div (max minDuration (min maxDuration d)) 2 \<le> d"
    by (auto simp: go_div_def sgn_if)
qed



text \<open>A certificate is active at the moment it is minted.\<close>

lemma fresh_active:
  assumes "icStatus c \<noteq> ''revoked''" "icNotBefore c < icNotAfter c"
  shows "deriveStatus c (icNotBefore c) = ''active''"
  using assms half_bounds [of "icNotAfter c - icNotBefore c"]
  by (auto simp: deriveStatus_def Let_def time_sub_def)

subsection \<open>Failed issuance\<close>

lemma mint_Inl:
  assumes "mint cr Database en w subj issuer sid req = (Inl e, w')" "w' \<noteq> w"
  obtains row keyPEM bundlePEM w1 ev where
    "mint_row cr en w subj issuer sid req = Inr (row, keyPEM, bundlePEM)"
    "store_cert row (cert_log_of (mNow w) row (mrLogEvent req) (spiffe_string sid)) (sbUserID subj) (enGrantID en) w = (Inr (), w1)"
    "keyPEM \<noteq> ''''" "\<not> mrRetainKey req" "MarkKeyDelivered (emit w1 ev) (sbTenantID subj) (icID row) = (Inl e, w')"
proof (cases "mint_row cr en w subj issuer sid req")
  case (Inr p)
  obtain row keyPEM bundlePEM where p: "p = (row, keyPEM, bundlePEM)" by (cases p)
  define tx where "tx = Atomic Database w (store_cert row (cert_log_of (mNow w) row (mrLogEvent req) (spiffe_string sid))
    (sbUserID subj) (enGrantID en))"
  define ev where "ev = event_of subj (mrEvent req) ''certificate'' (icID row) '''' ''ok'' ''''
    [(''spiffe_id'', JStr (spiffe_string sid)), (''issuer_id'', JStr (isID issuer)), (''serial'', JStr (icSerial row))]"
  have "fst tx \<noteq> Inl x" for x
    using assms unfolding mint_def Inr p Let_def sum.case prod.case tx_def [symmetric]
    by (cases tx) (auto simp: tx_def dest: Atomic_rollback)
  then obtain w1 where w1: "tx = (Inr (), w1)" by (cases tx; cases "fst tx") auto
  show thesis
  proof (rule that [of row keyPEM bundlePEM w1 ev])
    show "mint_row cr en w subj issuer sid req = Inr (row, keyPEM, bundlePEM)" using Inr p by simp
    show "store_cert row (cert_log_of (mNow w) row (mrLogEvent req) (spiffe_string sid)) (sbUserID subj) (enGrantID en) w = (Inr (), w1)"
      using w1 by (simp add: tx_def Atomic_Inr)
  qed (use assms(1) in \<open>auto simp: mint_def Inr p Let_def tx_def [symmetric] ev_def [symmetric] w1 split: on_splits if_splits\<close>)
qed (use assms in \<open>simp add: mint_def\<close>)



subsection \<open>Revocation\<close>

lemma GetCertificate_Inr:
  "GetCertificate m tid i = Inr c \<longleftrightarrow> fail m ''GetCertificate'' = None \<and> map_of (mCertificates m) i = Some c \<and> icTenantID c = tid"
  by (simp add: GetCertificate_def unless_read_Inr tenant_lookup_Inr)

lemma SetCertificateStatus_Inr:
  assumes "SetCertificateStatus m tid i st sb = (Inr v, m')"
  obtains c where "map_of (mCertificates m) i = Some c" "icTenantID c = tid"
    "m' = m\<lparr>mCertificates := AList.update i (c\<lparr>icStatus := st, icSupersededBy := (if sb = None then icSupersededBy c else sb),
            icUpdatedAt := mNow m\<rparr>) (mCertificates m)\<rparr>"
  using assms by (auto simp: SetCertificateStatus_def unless_write_Inr Let_def tenant_lookup_Inr split: sum.splits)

lemma InsertRevocation_Inr:
  assumes "InsertRevocation m r = (Inr v, m')"
  shows "m' = m\<lparr>mRevocations := AList.update (rvID r) (r\<lparr>rvRevokedAt := (if rvRevokedAt r = 0 then mNow m else rvRevokedAt r)\<rparr>) (mRevocations m)\<rparr>"
    "\<forall>x\<in>set (rows (mRevocations m)). rvTenantID x = rvTenantID r \<longrightarrow> rvCertificateID x \<noteq> rvCertificateID r"
  using assms by (auto simp: InsertRevocation_def unless_write_Inr Let_def list_ex_iff split: if_splits)

lemma InsertRevocation_conflict:
  assumes "r \<in> set (rows (mRevocations m))" "rvTenantID r = rvTenantID x" "rvCertificateID r = rvCertificateID x"
  shows "isl (fst (InsertRevocation m x))"
  using assms by (auto simp: InsertRevocation_def unless_write_def list_ex_iff split: option.splits)

lemma RevokeCert_Inr:
  assumes "RevokeCert be newID w subj i reason = (Inr v, w')"
  obtains row rv w1 ev where "Check w subj ''certificate'' i ''delete'' = Inr ()" "GetCertificate w (sbTenantID subj) i = Inr row"
    "rv = \<lparr>rvID = newID, rvTenantID = sbTenantID subj, rvCertificateID = i, rvSerial = icSerial row,
       rvReason = (if reason = '''' then ''unspecified'' else reason), rvRevokedAt = mNow w, rvRevokedBy = userPtr subj\<rparr>"
    "revoke_tx row rv w = (Inr (), w1)" "w' = emit w1 ev"
  using assms by (auto simp: RevokeCert_def Let_def on_ok_Inr_iff on_val_Inr_iff Atomic_Inr split: sum.splits)

lemma revoke_tx_Inr:
  assumes "revoke_tx row rv w = (Inr (), w')"
  obtains c where "map_of (mCertificates w) (rvCertificateID rv) = Some c" "icTenantID c = rvTenantID rv"
    "mCertificates w' = AList.update (rvCertificateID rv) (c\<lparr>icStatus := ''revoked'', icUpdatedAt := mNow w\<rparr>) (mCertificates w)"
    "mRevocations w' = AList.update (rvID rv) (rv\<lparr>rvRevokedAt := (if rvRevokedAt rv = 0 then mNow w else rvRevokedAt rv)\<rparr>) (mRevocations w)"
    "mFail w' = mFail w" "mNow w' = mNow w" "mGrants w' = mGrants w"
    "\<exists>l. clEvent l = ''revoked'' \<and> clCertificateID l = rvCertificateID rv \<and> mCertLog w' = mCertLog w @ [l]"
proof -
  from assms obtain w1 w2 where s: "SetCertificateStatus w (rvTenantID rv) (rvCertificateID rv) ''revoked'' None = (Inr (), w1)"
    "InsertRevocation w1 rv = (Inr (), w2)"
    "InsertCertLog w2 [\<lparr>clTS = rvRevokedAt rv, clTenantID = rvTenantID rv, clCertificateID = rvCertificateID rv,
         clEvent = ''revoked'', clIssuerID = icIssuerID row, clSpiffeID = icSpiffeID row, clError = ''''\<rparr>] = (Inr (), w')"
    by (auto simp: revoke_tx_def on_ok_Inr_iff)
  obtain c where c: "map_of (mCertificates w) (rvCertificateID rv) = Some c" "icTenantID c = rvTenantID rv"
    "w1 = w\<lparr>mCertificates := AList.update (rvCertificateID rv) (c\<lparr>icStatus := ''revoked'',
       icSupersededBy := (if (None :: string option) = None then icSupersededBy c else None), icUpdatedAt := mNow w\<rparr>) (mCertificates w)\<rparr>"
    using s(1) by (rule SetCertificateStatus_Inr)
  have cc: "c\<lparr>icStatus := ''revoked'', icSupersededBy := icSupersededBy c, icUpdatedAt := mNow w\<rparr> = c\<lparr>icStatus := ''revoked'', icUpdatedAt := mNow w\<rparr>"
    by simp
  show thesis using that [OF c(1,2)] InsertRevocation_Inr(1) [OF s(2)] InsertCertLog_Inr [OF s(3)] c(3) cc by simp
qed

lemma RevokeCert_again:
  assumes "rv \<in> set (rows (mRevocations w))" "rvTenantID rv = sbTenantID s" "rvCertificateID rv = i"
  shows "isl (fst (RevokeCert be n w s i reason))"
proof (rule ccontr)
  assume "\<not> isl (fst (RevokeCert be n w s i reason))"
  then obtain w2 where "RevokeCert be n w s i reason = (Inr (), w2)"
    by (cases "RevokeCert be n w s i reason"; cases "fst (RevokeCert be n w s i reason)") auto
  then obtain row rv' w1 ev where rv': "rv' = \<lparr>rvID = n, rvTenantID = sbTenantID s, rvCertificateID = i, rvSerial = icSerial row,
       rvReason = (if reason = [] then ''unspecified'' else reason), rvRevokedAt = mNow w, rvRevokedBy = userPtr s\<rparr>"
    and tx: "revoke_tx row rv' w = (Inr (), w1)"
    by (rule RevokeCert_Inr)
  let ?s = "SetCertificateStatus w (rvTenantID rv') (rvCertificateID rv') ''revoked'' None"
  have "\<not> isl (fst (InsertRevocation (snd ?s) rv'))" using tx by (auto simp: revoke_tx_def on_ok_Inr_iff)
  moreover have "rv \<in> set (rows (mRevocations (snd ?s)))" using assms(1) by simp
  ultimately show False using InsertRevocation_conflict [of rv "snd ?s" rv'] assms(2,3) by (simp add: rv')
qed

lemma RevokeCert_acts:
  assumes "map_of (mRevocations w) newID = None"
  shows "acts (sbTenantID subj) w (snd (RevokeCert be newID w subj i reason))"
proof (cases "on_val (Check w subj ''certificate'' i ''delete'') (\<lambda>_. GetCertificate w (sbTenantID subj) i)")
  case (Inr row)
  have tx: "acts t w (snd (revoke_tx row rv w))" if "rvID rv = newID" "rvTenantID rv = t" for rv t
    unfolding revoke_tx_def using that assms
    by (auto intro!: on_ok_acts_snd acts_ops acts_inserts acts_rows)
  show ?thesis unfolding RevokeCert_def Inr Let_def sum.case
    by (rule on_ok_acts_snd, rule Atomic_acts, rule tx) (auto intro: acts_emit)
qed (simp add: RevokeCert_def)

lemma IssueCert_acts:
  assumes "map_of (mCertificates w) (enID en) = None" "map_of (mGrants w) (enGrantID en) = None"
  shows "acts (sbTenantID subj) w (snd (IssueCert cr be en w subj inp))"
  using mint_acts [OF assms] by (auto simp: IssueCert_def split: sum.splits)

lemma live_ok: "store_ok (snd live_issue)"
  using acts_ok [OF IssueCert_acts [OF live_fresh] live_world_ok] .

lemma live_no_revocations:
  assumes "live_issue = (Inr b, w')"
  shows "mRevocations w' = []"
proof -
  obtain issuer sid where "mint demo_crypto Database live_entropy live_world alice issuer sid (issue_req live_input) = (Inr b, w')"
    using assms by (rule IssueCert_Inr)
  from mint_effect(6) [OF live_world_ok live_fresh this] show ?thesis by (simp add: live_world_def New_def mem.defs)
qed

text \<open>
  C12. Revocation is effective, recorded and final: the caller held \<open>delete\<close> on a certificate
  of the tenant; afterwards its status is revoked at every time, nothing else of the row
  changed but its time stamp, exactly one revocation with the given reason was added, and no second
  revocation of the certificate succeeds.
\<close>

theorem RevokeCert_effect:
  assumes "RevokeCert be newID w subj i reason = (Inr (), w')"
  shows "Check w subj ''certificate'' i ''delete'' = Inr ()
     \<and> (\<exists>row. map_of (mCertificates w) i = Some row \<and> icTenantID row = sbTenantID subj
           \<and> map_of (mCertificates w') = (map_of (mCertificates w))(i \<mapsto> row\<lparr>icStatus := ''revoked'', icUpdatedAt := mNow w\<rparr>))
     \<and> (\<exists>rv. mRevocations w' = AList.update newID rv (mRevocations w) \<and> rvCertificateID rv = i
           \<and> rvTenantID rv = sbTenantID subj \<and> rvReason rv = (if reason = '''' then ''unspecified'' else reason))
     \<and> (GetCertificate w' (sbTenantID subj) i = Inr row2 \<longrightarrow> deriveStatus row2 later = ''revoked'')
     \<and> isl (fst (RevokeCert be2 newID2 w' (s\<lparr>sbTenantID := sbTenantID subj\<rparr>) i reason2))"
proof -
  obtain row rv w1 ev where r: "Check w subj ''certificate'' i ''delete'' = Inr ()" "GetCertificate w (sbTenantID subj) i = Inr row"
    and rv: "rv = \<lparr>rvID = newID, rvTenantID = sbTenantID subj, rvCertificateID = i, rvSerial = icSerial row,
       rvReason = (if reason = '''' then ''unspecified'' else reason), rvRevokedAt = mNow w, rvRevokedBy = userPtr subj\<rparr>"
    and tx: "revoke_tx row rv w = (Inr (), w1)" "w' = emit w1 ev"
    using assms by (rule RevokeCert_Inr)
  obtain c where c: "map_of (mCertificates w) (rvCertificateID rv) = Some c" "icTenantID c = rvTenantID rv"
    "mCertificates w1 = AList.update (rvCertificateID rv) (c\<lparr>icStatus := ''revoked'', icUpdatedAt := mNow w\<rparr>) (mCertificates w)"
    "mRevocations w1 = AList.update (rvID rv) (rv\<lparr>rvRevokedAt := (if rvRevokedAt rv = 0 then mNow w else rvRevokedAt rv)\<rparr>) (mRevocations w)"
    using tx(1) by (rule revoke_tx_Inr)
  let ?rv = "rv\<lparr>rvRevokedAt := (if rvRevokedAt rv = 0 then mNow w else rvRevokedAt rv)\<rparr>"
  have "?rv \<in> set (rows (mRevocations w'))"
    unfolding tx(2) emit_frame c(4) by (rule map_of_in_rows [of _ "rvID rv"]) simp
  then have "isl (fst (RevokeCert be2 newID2 w' (s\<lparr>sbTenantID := sbTenantID subj\<rparr>) i reason2))"
    by (rule RevokeCert_again) (simp_all add: rv)
  moreover have "deriveStatus row2 later = ''revoked''" if "GetCertificate w' (sbTenantID subj) i = Inr row2"
    using that by (auto simp: GetCertificate_Inr tx(2) c(3) rv deriveStatus_def)
  ultimately show ?thesis using r c tx(2) by (auto simp: rv)
qed

theorem RevokeCert_effect_witness:
  "\<exists>b w' w''. live_issue = (Inr b, w') \<and> RevokeCert Database ''r1'' w' alice ''c1'' '''' = (Inr (), w'')
     \<and> isl (fst (RevokeCert Database ''r2'' w'' (alice\<lparr>sbTenantID := ''t''\<rparr>) ''c1'' ''again''))"
proof -
  obtain b w' w'' where r: "live_issue = (Inr b, w')" "RevokeCert Database ''r1'' w' alice ''c1'' '''' = (Inr (), w'')"
    by (rule live_revokeE)
  from RevokeCert_effect [OF r(2), of _ _ Database "''r2''" alice "''again''"] r show ?thesis by (auto simp: SubjectsOf_def)
qed

subsection \<open>Renewal\<close>

lemma clampValidity_exact:
  assumes "60 \<le> n" "n \<le> 365 * 24 * 3600"
  shows "clampValidity n = n * Second"
  using assms by (simp add: clampValidity_def Let_def MinValiditySeconds_def MaxValiditySeconds_def)

lemma renewCert_Inr:
  assumes "renewCert cr be en acme w subj old = (Inr b, w')" "icKind old \<noteq> ''generic''"
  obtains sid issuer w1 where "ParseSPIFFEID (icSpiffeID old) = Inr sid" "GetIssuer w (sbTenantID subj) (icIssuerID old) = Inr issuer"
    "mint cr be en w subj issuer sid \<lparr>mrSubject = icSubject old, mrCSRPEM = '''', mrDNSSans = sansList (icSANs old),
       mrValiditySeconds = go_div (time_sub (icNotAfter old) (icNotBefore old)) Second,
       mrDeliverKey = False, mrRetainKey = False, mrEvent = ''certificate_renewed'', mrLogEvent = ''renewed''\<rparr> = (Inr b, w1)"
    "SetCertificateStatus w1 (sbTenantID subj) (icID old) (icStatus old) (Some (cvID (buCertificate b))) = (Inr (), w')"
  using assms by (auto simp: renewCert_def on_ok_Inr_iff split: sum.splits if_splits)

text \<open>
  C13. Renewal of an SVID: a new active certificate for the same identity and issuer, its
  lifetime that of the old one (when it was whole seconds within the bounds), its key kept
  sealed; the old row is superseded by it and gets back the status it had when the renewal
  read it, whatever its status is now. No other certificate changes.
\<close>

theorem renewCert_effect:
  assumes "store_ok w" "map_of (mCertificates w) (enID en) = None" "map_of (mGrants w) (enGrantID en) = None"
    and "renewCert cr be en acme w subj old = (Inr b, w')" "icKind old \<noteq> ''generic''"
    and "map_of (mCertificates w) (icID old) = Some cur"
  shows "\<exists>new sid. map_of (mCertificates w') = (map_of (mCertificates w))(enID en \<mapsto> new, icID old \<mapsto>
            cur\<lparr>icStatus := icStatus old, icSupersededBy := Some (enID en), icUpdatedAt := mNow w\<rparr>)
     \<and> ParseSPIFFEID (icSpiffeID old) = Inr sid \<and> icSpiffeID new = spiffe_string sid \<and> icIssuerID new = icIssuerID old
     \<and> icStatus new = ''active'' \<and> icNotBefore new = mNow w \<and> icKeySealed new \<noteq> None \<and> buKeyPEM b = ''''
     \<and> (icNotAfter old - icNotBefore old = n * Second \<longrightarrow> 60 \<le> n \<longrightarrow> n \<le> 365 * 24 * 3600
         \<longrightarrow> icNotAfter new - icNotBefore new = icNotAfter old - icNotBefore old)"
proof -
  let ?req = "\<lparr>mrSubject = icSubject old, mrCSRPEM = '''', mrDNSSans = sansList (icSANs old),
       mrValiditySeconds = go_div (time_sub (icNotAfter old) (icNotBefore old)) Second,
       mrDeliverKey = False, mrRetainKey = False, mrEvent = ''certificate_renewed'', mrLogEvent = ''renewed''\<rparr>"
  obtain sid issuer w1 where r: "ParseSPIFFEID (icSpiffeID old) = Inr sid" "GetIssuer w (sbTenantID subj) (icIssuerID old) = Inr issuer"
    and m: "mint cr be en w subj issuer sid ?req = (Inr b, w1)"
    and st: "SetCertificateStatus w1 (sbTenantID subj) (icID old) (icStatus old) (Some (cvID (buCertificate b))) = (Inr (), w')"
    using assms(4,5) by (rule renewCert_Inr)
  note eff = mint_effect [OF assms(1-3) m]
  obtain new pub sealed where new: "map_of (mCertificates w1) = (map_of (mCertificates w))(enID en \<mapsto> new)" "icIssuerID new = isID issuer"
    "icSpiffeID new = spiffe_string sid" "icStatus new = ''active''" "icNotBefore new = mNow w"
    "icNotAfter new = mNow w + clampValidity (go_div (time_sub (icNotAfter old) (icNotBefore old)) Second)"
    "cvID (buCertificate b) = enID en" "mint_key cr en ?req = Inr (pub, buKeyPEM b, sealed)"
    "icKeySealed new = (if buKeyPEM b \<noteq> '''' then None else sealed)"
    using eff(1) by auto
  have key: "buKeyPEM b = ''''" "icKeySealed new \<noteq> None"
    using new(8,9) by (auto simp: mint_key_def on_val_Inr_iff Let_def)
  obtain c where c: "map_of (mCertificates w1) (icID old) = Some c" "w' = w1\<lparr>mCertificates := AList.update (icID old)
      (c\<lparr>icStatus := icStatus old, icSupersededBy := (if Some (cvID (buCertificate b)) = None then icSupersededBy c else Some (cvID (buCertificate b))),
        icUpdatedAt := mNow w1\<rparr>) (mCertificates w1)\<rparr>"
    using st by (rule SetCertificateStatus_Inr)
  have "icID old \<noteq> enID en" using assms(2,6) by auto
  then have cur: "c = cur" using c(1) new(1) assms(6) by simp
  have "icNotAfter new - icNotBefore new = icNotAfter old - icNotBefore old"
    if "icNotAfter old - icNotBefore old = n * Second" "60 \<le> n" "n \<le> 365 * 24 * 3600"
  proof -
    have "go_div (time_sub (icNotAfter old) (icNotBefore old)) Second = n"
      using that by (simp add: time_sub_def go_div_def sgn_if minDuration_def maxDuration_def Second_def)
    then show ?thesis using that clampValidity_exact [OF that(2,3)] new(5,6) by simp
  qed
  then show ?thesis
    using new r(1) key c(2) eff(7) GetIssuer_Inr(1) [OF assms(1) r(2)] cur
    by (intro exI [of _ new] exI [of _ sid]) auto
qed

theorem renewCert_effect_witness:
  "\<exists>w2 old b2 w3 cur row. renewCert demo_crypto Database renew_entropy no_acme w2 alice old = (Inr b2, w3)
     \<and> map_of (mCertificates w2) ''c1'' = Some cur \<and> icStatus cur = ''revoked''
     \<and> map_of (mCertificates w3) ''c1'' = Some row \<and> icStatus row = ''active''"
proof -
  obtain b w' w2 old cur b2 w3 where l: "live_issue = (Inr b, w')" "RevokeCert Database ''r1'' w' alice ''c1'' '''' = (Inr (), w2)"
    "icStatus old = ''active''" "icKind old = ''''" "icID old = ''c1''"
    "map_of (mCertificates w2) ''c1'' = Some cur" "icStatus cur = ''revoked''"
    "map_of (mCertificates w2) ''c2'' = None" "map_of (mGrants w2) ''g3'' = None"
    "renewCert demo_crypto Database renew_entropy no_acme w2 alice old = (Inr b2, w3)"
    by (rule live_revokeE)
  have "map_of (mRevocations w') ''r1'' = None" using live_no_revocations [OF l(1)] by simp
  from acts_ok [OF RevokeCert_acts [OF this]] live_ok have ok: "store_ok w2" unfolding l(1) snd_conv l(2) [symmetric]
    by (metis snd_conv l(2))
  have "map_of (mCertificates w2) (enID renew_entropy) = None" "map_of (mGrants w2) (enGrantID renew_entropy) = None"
    "icKind old \<noteq> ''generic''" "map_of (mCertificates w2) (icID old) = Some cur"
    using l(4-9) by simp_all
  from renewCert_effect [OF ok this(1,2) l(10) this(3,4)]
  obtain new where "map_of (mCertificates w3) = (map_of (mCertificates w2))(enID renew_entropy \<mapsto> new, icID old \<mapsto>
            cur\<lparr>icStatus := icStatus old, icSupersededBy := Some (enID renew_entropy), icUpdatedAt := mNow w2\<rparr>)"
    by blast
  then have "\<exists>row. map_of (mCertificates w3) ''c1'' = Some row \<and> icStatus row = ''active''"
    unfolding l(5) by (simp add: l(3))
  with l(6,7,10) show ?thesis by blast
qed

end
