(* ===== verification/Store_Props.thy ===== *)
theory Store_Props
  imports Fixtures
begin

text \<open>
  The contract of the store as its clients see it: the integrity rules that hold after any
  sequence of operations, what a tenant may learn from the others (nothing), and the job
  queue, which hands every due job to exactly one claim and none is left waiting for ever.
\<close>

subsection \<open>Integrity\<close>

lemma store_ok_unique:
  assumes "store_ok m"
  shows "\<lbrakk>map_of (mIssuers m) k = Some x; map_of (mIssuers m) k' = Some y; issuer_clash x y\<rbrakk> \<Longrightarrow> k = k'"
    and "\<lbrakk>map_of (mCAs m) k = Some a; map_of (mCAs m) k' = Some b; ca_clash a b\<rbrakk> \<Longrightarrow> k = k'"
    and "\<lbrakk>map_of (mCertificates m) k = Some c; map_of (mCertificates m) k' = Some d; cert_clash c d\<rbrakk> \<Longrightarrow> k = k'"
    and "\<lbrakk>map_of (mRevocations m) k = Some v; map_of (mRevocations m) k' = Some u; revocation_clash v u\<rbrakk> \<Longrightarrow> k = k'"
    and "\<lbrakk>map_of (mGrants m) k = Some g; map_of (mGrants m) k' = Some h; same_grant g h\<rbrakk> \<Longrightarrow> k = k'"
  using assms unfolding store_ok_def issuers_ok_def cas_ok_def certs_ok_def revocations_ok_def grants_ok_def
  by (blast dest: uniqD)+


definition demo_run :: mem where
  "demo_run = snd (InsertIssuer (snd (InsertIssuer (snd (InsertCA (New 7) demo_ca)) (demo_issuer ''i1'' ''t'' (Some ''ca1''))))
     (demo_issuer ''i2'' ''t'' (Some ''ca1'')))"

lemma demo_run_reachable: "reachable (New 7) demo_run"
  unfolding demo_run_def
  by (rule reachable.more [OF reachable.more [OF reachable.more [OF reachable.start]]];
      rule insert_issuer insert_ca; simp add: InsertCA_def InsertIssuer_def unless_write_def demo_defs fail_def Let_def)


subsection \<open>Isolation\<close>

text \<open>A run of operations of the other tenants.\<close>

inductive others :: "string \<Rightarrow> 'z mem_scheme \<Rightarrow> 'z mem_scheme \<Rightarrow> bool" for tid :: string where
  none: "others tid m m"
| step: "others tid m m' \<Longrightarrow> store_step (Some t) m' m'' \<Longrightarrow> t \<noteq> tid \<Longrightarrow> others tid m m''"

lemma others_same:
  assumes "others tid m m'" "store_ok m"
  shows "store_ok m' \<and> same_tenant tid m m'"
  using assms by (induction rule: others.induct) (auto intro: store_step_ok same_tenant_trans step_isolation)



subsection \<open>The job queue\<close>

text \<open>Successive claims of the workers, at the given times, by one worker or by several.\<close>

fun claim_ticks :: "'z mem_scheme \<Rightarrow> duration \<Rightarrow> int \<Rightarrow> time list \<Rightarrow> cert_job list \<times> 'z mem_scheme" where
  "claim_ticks m lease limit [] = ([], m)"
| "claim_ticks m lease limit (now # ts) =
     (case ClaimDueJobs m now lease limit of
        (Inl _, m') \<Rightarrow> claim_ticks m' lease limit ts
      | (Inr js, m') \<Rightarrow> (let (rest, m'') = claim_ticks m' lease limit ts in (js @ rest, m'')))"

definition queued :: "'z mem_scheme \<Rightarrow> string set" where
  "queued m = {k. \<exists>j. map_of (mJobs m) k = Some j \<and> jbStatus j = ''queued''}"

lemma queued_finite: "finite (queued m)"
  by (rule finite_subset [OF _ finite_dom_map_of [of "mJobs m"]]) (auto simp: queued_def)

lemma claimed_fields [simp]: "jbID (claimed now lease j) = jbID j" "jbStatus (claimed now lease j) = ''processing''"
  "jbAttempts (claimed now lease j) = jbAttempts j + 1"
  by (simp_all add: claimed_def)

lemma claim_round:
  assumes "table_ok jbID (mJobs m)" "fail m ''ClaimDueJobs'' = None"
  obtains m' where "ClaimDueJobs m now lease limit = (Inr (map (claimed now lease) (due_jobs m now limit)), m')"
    "table_ok jbID (mJobs m')" "fail m' ''ClaimDueJobs'' = None"
    "\<forall>k. map_of (mJobs m') k = (case map_of (mJobs m) k of None \<Rightarrow> None
         | Some j \<Rightarrow> Some (if j \<in> set (due_jobs m now limit) then claimed now lease j else j))"
    "queued m' = queued m - jbID ` set (due_jobs m now limit)" "jbID ` set (due_jobs m now limit) \<subseteq> queued m"
proof -
  obtain t where t: "ClaimDueJobs m now lease limit = (Inr (map (claimed now lease) (due_jobs m now limit)), m\<lparr>mJobs := t\<rparr>)"
    "table_ok jbID t"
    and look: "\<And>k. map_of t k = (case map_of (mJobs m) k of None \<Rightarrow> None
         | Some j \<Rightarrow> Some (if j \<in> set (due_jobs m now limit) then claimed now lease j else j))"
    using ClaimDueJobs_spec [OF assms] by blast
  note row = due_jobs_rows(2) [OF assms(1)]
  have sub: "jbID ` set (due_jobs m now limit) \<subseteq> queued m"
    using row by (auto simp: queued_def job_due_def)
  have "k \<in> queued (m\<lparr>mJobs := t\<rparr>) \<longleftrightarrow> k \<in> queued m - jbID ` set (due_jobs m now limit)" for k
  proof (cases "map_of (mJobs m) k")
    case (Some j)
    have "k \<in> jbID ` set (due_jobs m now limit) \<longleftrightarrow> j \<in> set (due_jobs m now limit)"
      using row Some table_ok_key [OF assms(1) Some] by (metis imageE imageI option.inject)
    then show ?thesis by (simp add: queued_def look Some)
  qed (simp add: queued_def look)
  then have "queued (m\<lparr>mJobs := t\<rparr>) = queued m - jbID ` set (due_jobs m now limit)" by blast
  with t look sub assms(2) show thesis by (intro that [of "m\<lparr>mJobs := t\<rparr>"]) (simp_all add: fail_def)
qed

lemma due_or_full:
  assumes "map_of (mJobs m) k = Some j" "job_due now j" "0 < limit"
  shows "j \<in> set (due_jobs m now limit) \<or> int (length (due_jobs m now limit)) = limit"
  using assms map_of_in_rows [OF assms(1)]
  by (auto simp: due_jobs_def sqlLimit_def sort_asc_def split: if_splits)

lemma claim_ticks_rows:
  assumes "table_ok jbID (mJobs m)" "fail m ''ClaimDueJobs'' = None" "claim_ticks m lease limit ts = (js, m')"
  shows "jbID ` set js \<subseteq> queued m \<and> distinct (map jbID js) \<and>
     (\<forall>k j. map_of (mJobs m) k = Some j \<longrightarrow>
        (\<exists>j'. map_of (mJobs m') k = Some j' \<and>
          (if k \<in> jbID ` set js then jbStatus j' = ''processing'' \<and> jbAttempts j' = jbAttempts j + 1 \<and> j' \<in> set js else j' = j)))"
  using assms
proof (induction ts arbitrary: m js)
  case (Cons now ts)
  let ?due = "due_jobs m now limit"
  obtain m1 where m1: "ClaimDueJobs m now lease limit = (Inr (map (claimed now lease) ?due), m1)"
    "table_ok jbID (mJobs m1)" "fail m1 ''ClaimDueJobs'' = None"
    and look: "\<forall>k. map_of (mJobs m1) k = (case map_of (mJobs m) k of None \<Rightarrow> None
       | Some j \<Rightarrow> Some (if j \<in> set ?due then claimed now lease j else j))"
    and q: "queued m1 = queued m - jbID ` set ?due" "jbID ` set ?due \<subseteq> queued m"
    by (rule claim_round [OF Cons.prems(1,2)])
  obtain rest where rest: "claim_ticks m1 lease limit ts = (rest, m')" "js = map (claimed now lease) ?due @ rest"
    using Cons.prems(3) m1(1) by (auto simp: Let_def split: prod.splits)
  have IH: "jbID ` set rest \<subseteq> queued m1" "distinct (map jbID rest)"
    and IHrow: "map_of (mJobs m1) k = Some j \<Longrightarrow> \<exists>j'. map_of (mJobs m') k = Some j' \<and>
          (if k \<in> jbID ` set rest then jbStatus j' = ''processing'' \<and> jbAttempts j' = jbAttempts j + 1 \<and> j' \<in> set rest else j' = j)" for k j
    using Cons.IH [OF m1(2,3) rest(1)] by simp_all
  have ids: "jbID ` set js = jbID ` set ?due \<union> jbID ` set rest" "map jbID js = map jbID ?due @ map jbID rest"
    by (simp_all add: rest(2) image_Un image_image)
  have disj: "jbID ` set ?due \<inter> jbID ` set rest = {}" using IH(1) q by blast
  have d: "distinct (map jbID js)"
    unfolding ids(2) distinct_append set_map using IH(2) due_jobs_rows(1) [OF Cons.prems(1)] disj by simp
  have "\<exists>j'. map_of (mJobs m') k = Some j' \<and>
        (if k \<in> jbID ` set js then jbStatus j' = ''processing'' \<and> jbAttempts j' = jbAttempts j + 1 \<and> j' \<in> set js else j' = j)"
    if kj: "map_of (mJobs m) k = Some j" for k j
  proof (cases "j \<in> set ?due")
    case True
    then have k: "k \<in> jbID ` set ?due" using table_ok_key [OF Cons.prems(1) kj] by blast
    from True look kj have "map_of (mJobs m1) k = Some (claimed now lease j)" by simp
    moreover have "k \<notin> jbID ` set rest" using k disj by blast
    ultimately have "map_of (mJobs m') k = Some (claimed now lease j)" using IHrow by fastforce
    moreover have "k \<in> jbID ` set js" "claimed now lease j \<in> set js" using True k ids(1) by (simp_all add: rest(2))
    ultimately show ?thesis by simp
  next
    case False
    then have k: "k \<notin> jbID ` set ?due" using due_jobs_rows(2) [OF Cons.prems(1)] kj by (metis imageE option.inject)
    from False look kj have "map_of (mJobs m1) k = Some j" by simp
    from IHrow [OF this] obtain j' where j': "map_of (mJobs m') k = Some j'"
      "if k \<in> jbID ` set rest then jbStatus j' = ''processing'' \<and> jbAttempts j' = jbAttempts j + 1 \<and> j' \<in> set rest else j' = j"
      by blast
    moreover have "k \<in> jbID ` set js \<longleftrightarrow> k \<in> jbID ` set rest" "set rest \<subseteq> set js" using k ids(1) by (simp_all add: rest(2))
    ultimately show ?thesis by (cases "k \<in> jbID ` set rest") auto
  qed
  moreover have "jbID ` set js \<subseteq> queued m" using ids(1) IH(1) q by blast
  ultimately show ?case using d by simp
qed simp


lemma demo_ticks:
  "claim_ticks demo_store 60 1 [10, 11] =
     ([claimed 10 60 (demo_job ''j1'' 2), claimed 11 60 (demo_job ''j2'' 9)],
      demo_store\<lparr>mJobs := [(''j1'', claimed 10 60 (demo_job ''j1'' 2)), (''j2'', claimed 11 60 (demo_job ''j2'' 9))]\<rparr>)"
  by code_simp

lemma demo_jobs: "map_of (mJobs demo_store) ''j2'' = Some (demo_job ''j2'' 9)" "fail demo_store ''ClaimDueJobs'' = None"
  by (simp_all add: demo_defs fail_def)


text \<open>
  C21. No due job waits for ever: once a job is due, successive claims reach it as soon as the
  batches together are as large as the number of queued jobs, whatever else becomes due.
\<close>

theorem claims_reach:
  assumes "store_ok m" "fail m ''ClaimDueJobs'' = None" "claim_ticks m lease limit ts = (js, m')"
    and "map_of (mJobs m) k = Some j" "job_due due j" "\<forall>now\<in>set ts. due \<le> now" "0 < limit"
    and "int (card (queued m)) \<le> int (length ts) * limit"
  shows "k \<in> jbID ` set js"
proof -
  have "table_ok jbID (mJobs m)" using assms(1) by (simp add: store_ok_def)
  from this assms(2-6,8) show ?thesis
  proof (induction ts arbitrary: m js)
    case Nil
    then have "queued m = {}" using queued_finite [of m] by simp
    with Nil.prems(4,5) show ?case by (auto simp: queued_def job_due_def)
  next
    case (Cons now ts)
    let ?due = "due_jobs m now limit"
    obtain m1 where m1: "ClaimDueJobs m now lease limit = (Inr (map (claimed now lease) ?due), m1)"
      "table_ok jbID (mJobs m1)" "fail m1 ''ClaimDueJobs'' = None"
      and look: "\<forall>k. map_of (mJobs m1) k = (case map_of (mJobs m) k of None \<Rightarrow> None
         | Some j \<Rightarrow> Some (if j \<in> set ?due then claimed now lease j else j))"
      and q: "queued m1 = queued m - jbID ` set ?due" "jbID ` set ?due \<subseteq> queued m"
      by (rule claim_round [OF Cons.prems(1,2)])
    obtain rest where rest: "claim_ticks m1 lease limit ts = (rest, m')" "js = map (claimed now lease) ?due @ rest"
      using Cons.prems(3) m1(1) by (auto simp: Let_def split: prod.splits)
    have "job_due now j" using Cons.prems(5,6) by (auto simp: job_due_def split: option.splits)
    from due_or_full [OF Cons.prems(4) this assms(7)] show ?case
    proof (cases "j \<in> set ?due")
      case True
      then have "claimed now lease j \<in> set js" by (simp add: rest(2))
      then show ?thesis using table_ok_key [OF Cons.prems(1,4)] by (metis claimed_fields(1) imageI)
    next
      case False
      with due_or_full [OF Cons.prems(4) \<open>job_due now j\<close> assms(7)] have full: "int (length ?due) = limit" by simp
      have "card (jbID ` set ?due) = length ?due"
        using distinct_card [OF due_jobs_rows(1) [OF Cons.prems(1)]] by simp
      then have "int (card (queued m1)) = int (card (queued m)) - limit"
        unfolding q(1) using card_Diff_subset [OF finite_subset [OF q(2) queued_finite] q(2)]
          card_mono [OF queued_finite q(2)] full by simp
      then have "int (card (queued m1)) \<le> int (length ts) * limit" using Cons.prems(7) by (simp add: algebra_simps)
      moreover have "map_of (mJobs m1) k = Some j" using look Cons.prems(4) False by simp
      ultimately have "k \<in> jbID ` set rest"
        using Cons.IH [OF m1(2,3) rest(1) _ Cons.prems(5)] Cons.prems(6) by simp
      then show ?thesis by (simp add: rest(2) image_Un)
    qed
  qed
qed

theorem claims_reach_witness:
  "\<exists>js m'. claim_ticks demo_store 60 1 [10, 11] = (js, m') \<and> ''j2'' \<in> jbID ` set js"
proof -
  have "queued demo_store = {''j1'', ''j2''}" by (auto simp: queued_def demo_defs split: if_splits)
  moreover have "job_due 10 (demo_job ''j2'' 9)" by (simp add: job_due_def demo_job_def)
  ultimately have "''j2'' \<in> jbID ` set [claimed 10 60 (demo_job ''j1'' 2), claimed 11 60 (demo_job ''j2'' 9)]"
    by (intro claims_reach [OF demo_store_ok demo_jobs(2) demo_ticks demo_jobs(1), of 10]) simp_all
  with demo_ticks show ?thesis by blast
qed

end
