(* ===== verification/Pager.thy ===== *)
theory Pager
  imports Prelude
begin

text \<open>
  Keyset pagination. The listing loops of the services read the store one page at a time,
  skip the rows the caller may not see, and continue after the last row they read until the
  answer is full or the rows are used up. \<open>page_loop\<close> is that loop over any source of pages;
  the locale states the one law a source must have (after a row come exactly the rows that
  followed it) and shows that the loop returns, with fuel for one round more than there are
  rows, what filtering the whole table would have given.
\<close>

fun page_scan :: "('r \<Rightarrow> bool) \<Rightarrow> ('r \<Rightarrow> 'v) \<Rightarrow> ('r \<Rightarrow> 'c) \<Rightarrow> nat \<Rightarrow> 'r list \<Rightarrow> 'c \<Rightarrow> 'v list \<Rightarrow> 'v list \<times> 'c" where
  "page_scan vis view cur n [] c out = (out, c)"
| "page_scan vis view cur n (r # rs) c out =
     (if \<not> vis r then page_scan vis view cur n rs (cur r) out
      else if Suc (length out) = n then (out @ [view r], cur r)
      else page_scan vis view cur n rs (cur r) (out @ [view r]))"

fun page_loop ::
  "nat \<Rightarrow> ('c \<Rightarrow> 'r list) \<Rightarrow> ('r \<Rightarrow> bool) \<Rightarrow> ('r \<Rightarrow> 'v) \<Rightarrow> ('r \<Rightarrow> 'c) \<Rightarrow> nat \<Rightarrow> 'c \<Rightarrow> 'v list \<Rightarrow> 'v list option" where
  "page_loop 0 page vis view cur n c out = None"
| "page_loop (Suc fuel) page vis view cur n c out =
     (if \<not> length out < n then Some out
      else if page c = [] then Some out
      else
        (case page_scan vis view cur n (page c) c out of
           (out', c') \<Rightarrow> if length (page c) < n then Some out' else page_loop fuel page vis view cur n c' out'))"

lemma take_take_append: "take n (take n xs @ ys) = take n (xs @ ys)"
  by (cases "n \<le> length xs") auto

lemma page_scan_out:
  "length out < n \<Longrightarrow> fst (page_scan vis view cur n rs c out) = take n (out @ map view (filter vis rs))"
proof (induction rs arbitrary: c out)
  case (Cons r rs)
  then show ?case by (cases "Suc (length out) = n") (auto simp: take_Cons')
qed simp

lemma page_scan_cursor:
  assumes "length out < n" "length (fst (page_scan vis view cur n rs c out)) < n" "rs \<noteq> []"
  shows "snd (page_scan vis view cur n rs c out) = cur (last rs)"
  using assms
proof (induction rs arbitrary: c out)
  case (Cons r rs)
  show ?case
  proof (cases "rs = []")
    case False
    with Cons.prems Cons.IH show ?thesis by (auto split: if_splits)
  qed (use Cons.prems in \<open>auto split: if_splits\<close>)
qed simp

text \<open>The law of a source: what follows a row in what is left is what is left after that row.\<close>

locale keyset =
  fixes inv :: "'s \<Rightarrow> bool"
    and remaining :: "'s \<Rightarrow> 'c \<Rightarrow> 'r list"
    and cursor :: "'r \<Rightarrow> 'c"
  assumes after: "inv s \<Longrightarrow> remaining s c = xs @ r # ys \<Longrightarrow> remaining s (cursor r) = ys"
begin

lemma page_loop_complete:
  assumes "inv s" "0 < n" "length (remaining s c) < fuel" "length out \<le> n"
  shows "page_loop fuel (\<lambda>c. take n (remaining s c)) vis view cursor n c out =
      Some (take n (out @ map view (filter vis (remaining s c))))"
  using assms(3,4)
proof (induction fuel arbitrary: c out)
  case (Suc fuel)
  let ?rem = "remaining s c" and ?page = "\<lambda>c. take n (remaining s c)"
  let ?rs = "take n ?rem" and ?ys = "drop n ?rem"
  let ?sc = "page_scan vis view cursor n ?rs c out"
  have split: "?rem = ?rs @ ?ys" by simp
  then have parts: "map view (filter vis ?rem) = map view (filter vis ?rs) @ map view (filter vis ?ys)"
    by (metis filter_append map_append)
  show ?case
  proof (cases "length out < n \<and> ?rs \<noteq> []")
    case True
    then have out: "length out < n" and rs: "?rs \<noteq> []" by auto
    have full: "take n (out @ map view (filter vis ?rem)) = take n (fst ?sc @ map view (filter vis ?ys))"
      unfolding page_scan_out [OF out] parts append_assoc [symmetric] take_take_append by (rule refl)
    show ?thesis
    proof (cases "length ?rs < n")
      case True
      then have "?ys = []" by simp
      with full have "take n (out @ map view (filter vis ?rem)) = fst ?sc"
        unfolding page_scan_out [OF out] by simp
      moreover have "length ?rem < n" using True by simp
      ultimately show ?thesis using out rs by (simp add: case_prod_beta)
    next
      case False
      then have len: "n \<le> length ?rem" by simp
      have step: "page_loop (Suc fuel) ?page vis view cursor n c out = page_loop fuel ?page vis view cursor n (snd ?sc) (fst ?sc)"
        using False out rs by (simp add: case_prod_beta)
      have le: "length (fst ?sc) \<le> n" unfolding page_scan_out [OF out] by simp
      show ?thesis
      proof (cases "length (fst ?sc) < n")
        case True
        have "?rem = (butlast ?rs @ [last ?rs]) @ ?ys" unfolding append_butlast_last_id [OF rs] by (rule split)
        then have "?rem = butlast ?rs @ last ?rs # ?ys" by (simp only: append_assoc append_Cons append_Nil)
        then have "remaining s (snd ?sc) = ?ys"
          unfolding page_scan_cursor [OF out True rs] by (rule after [OF assms(1)])
        then show ?thesis unfolding step full
          using Suc.IH [of "snd ?sc" "fst ?sc"] le Suc.prems(1) len assms(2) by simp
      next
        case False
        with le have n: "length (fst ?sc) = n" by simp
        obtain k where "fuel = Suc k" using Suc.prems(1) len assms(2) by (cases fuel) auto
        then show ?thesis unfolding step full using n by simp
      qed
    qed
  next
    case False
    then show ?thesis using Suc.prems(2) assms(2) by auto
  qed
qed simp

end

text \<open>Rows sorted by a strict order, read from a key on, are such a source.\<close>

lemma keyset_after:
  assumes "sorted_wrt R L" "\<And>x y. R x y \<Longrightarrow> \<not> R y x" "\<And>x y. R x y \<Longrightarrow> P x \<Longrightarrow> P y"
    and "filter P L = xs @ r # ys"
  shows "filter (R r) L = ys"
proof -
  have "r \<in> set (filter P L)" unfolding assms(4) by simp
  then have r: "P r" by simp
  have "filter (R r) L = filter (R r) (filter P L)"
    unfolding filter_filter by (rule filter_cong) (use assms(3) r in blast)+
  also have "sorted_wrt R (xs @ r # ys)" using sorted_wrt_filter [OF assms(1), of P] assms(4) by simp
  then have "filter (R r) (filter P L) = ys"
    unfolding assms(4) using assms(2) by (auto simp: sorted_wrt_append filter_empty_conv filter_id_conv)
  finally show ?thesis .
qed

end
