(* ===== verification/Cert_List.thy ===== *)
theory Cert_List
  imports Issue_Props Pager
begin

text \<open>
  The certificate listing: the paging loop of \<open>ListCertificates\<close> (internal/issue/certificates.go)
  is the keyset loop over the store's pages, and so returns the newest readable certificates
  after the cursor, the same as filtering the whole table.
\<close>

text \<open>The matching certificates of a tenant after a cursor, newest first.\<close>

definition cert_remaining :: "world \<times> string \<times> cert_filter \<Rightarrow> time \<times> string \<Rightarrow> issued_cert list" where
  "cert_remaining = (\<lambda>(w, tid, f) (ts, i). sort_desc icCreatedAt icID
     (filter (\<lambda>c. cert_matches tid f c \<and> beforeCursor (icCreatedAt c) (icID c) ts i) (rows (mCertificates w))))"

definition cert_listing_ok :: "world \<times> string \<times> cert_filter \<Rightarrow> bool" where
  "cert_listing_ok = (\<lambda>(w, _). table_ok icID (mCertificates w) \<and> (\<forall>c\<in>set (rows (mCertificates w)). icCreatedAt c \<noteq> 0))"

abbreviation cert_key :: "issued_cert \<Rightarrow> time \<times> string" where
  "cert_key c \<equiv> (icCreatedAt c, icID c)"

lemma sort_desc_filter: "sort_desc ts rid (filter P xs) = filter P (sort_desc ts rid xs)"
  by (simp add: sort_desc_def filter_sort rev_filter [symmetric])

lemma sorted_strict:
  assumes "distinct (map rid xs)"
  shows "sorted_wrt (\<lambda>x y. (ts y, rid y) < (ts x, rid x)) (sort_desc ts rid xs)"
proof -
  let ?k = "\<lambda>r. (ts r, rid r)"
  have "distinct (map rid (sort_key ?k xs))" using assms by (simp add: distinct_map)
  then have "distinct (map ?k (sort_key ?k xs))" by (auto simp: distinct_map inj_on_def)
  then have "sorted_wrt (<) (map ?k (sort_key ?k xs))" by (simp add: strict_sorted_iff)
  then show ?thesis by (simp add: sort_desc_def sorted_wrt_rev sorted_wrt_map)
qed

interpretation certs: keyset cert_listing_ok cert_remaining cert_key
proof
  fix s :: "world \<times> string \<times> cert_filter" and c xs r ys
  assume ok: "cert_listing_ok s" and rem: "cert_remaining s c = xs @ r # ys"
  obtain w tid f ts i where s: "s = (w, tid, f)" and c: "c = (ts, i)" by (cases s; cases c) auto
  let ?R = "\<lambda>x y. cert_key y < cert_key x"
  let ?L = "sort_desc icCreatedAt icID (filter (cert_matches tid f) (rows (mCertificates w)))"
  have rows: "table_ok icID (mCertificates w)" "\<And>c. c \<in> set (rows (mCertificates w)) \<Longrightarrow> icCreatedAt c \<noteq> 0"
    using ok by (auto simp: cert_listing_ok_def s)
  have part: "cert_remaining s (ts', i') = filter (\<lambda>c. beforeCursor (icCreatedAt c) (icID c) ts' i') ?L" for ts' i'
    by (simp add: cert_remaining_def s sort_desc_filter [symmetric] conj_commute)
  have "distinct (map icID (filter (cert_matches tid f) (rows (mCertificates w))))"
    using distinct_rows [OF rows(1)] by (simp add: distinct_map_filter)
  then have sorted: "sorted_wrt ?R ?L" by (rule sorted_strict)
  have "filter (?R r) ?L = ys"
    by (rule keyset_after [OF sorted _ _ rem [unfolded c part]]) (auto simp: beforeCursor_def)
  moreover have "r \<in> set (cert_remaining s c)" unfolding rem by simp
  then have "icCreatedAt r \<noteq> 0" using rows(2) unfolding c part by auto
  then have "?R r = (\<lambda>c. beforeCursor (icCreatedAt c) (icID c) (icCreatedAt r) (icID r))"
    by (auto simp: beforeCursor_def fun_eq_iff)
  ultimately show "cert_remaining s (cert_key r) = ys" by (simp add: part)
qed

lemma cert_remaining_rows:
  "c \<in> set (cert_remaining (w, tid, f) cur) \<Longrightarrow> c \<in> set (rows (mCertificates w)) \<and> icTenantID c = tid"
  by (cases cur) (auto simp: cert_remaining_def cert_matches_def)

lemma cert_remaining_length: "length (cert_remaining (w, tid, f) cur) \<le> length (mCertificates w)"
  using length_filter_le [of _ "rows (mCertificates w)"] by (cases cur) (simp add: cert_remaining_def)

subsection \<open>The loop\<close>

abbreviation visible :: "string list option \<Rightarrow> issued_cert \<Rightarrow> bool" where
  "visible ids c \<equiv> (case ids of None \<Rightarrow> True | Some l \<Rightarrow> icID c \<in> set l)"

abbreviation view_of :: "world \<Rightarrow> subjects \<Rightarrow> issued_cert \<Rightarrow> cert_view" where
  "view_of w subj c \<equiv> certView w c (effective_or_none w subj ''certificate'' (icID c))"

lemma scan_rows_page:
  assumes "\<And>c. c \<in> set rs \<Longrightarrow> \<exists>p. Effective w subj ''certificate'' (icID c) = Inr p"
    and "length out < n"
  shows "scan_rows w subj ids (int n) rs cur out = Inr (page_scan (visible ids) (view_of w subj) cert_key n rs cur out)"
  using assms
proof (induction rs arbitrary: cur out)
  case (Cons c rs)
  obtain p q g where "Effective w subj ''certificate'' (icID c) = Inr (p, q, g)" using Cons.prems(1) [of c] by auto
  moreover have "int (length out) + 1 = int n \<longleftrightarrow> Suc (length out) = n" by linarith
  ultimately show ?case using Cons.prems Cons.IH
    by (auto simp: Let_def effective_or_none_def split: option.splits)
qed simp

lemma list_loop_page:
  assumes "\<And>c. c \<in> set (rows (mCertificates w)) \<Longrightarrow> icTenantID c = sbTenantID subj
      \<Longrightarrow> \<exists>p. Effective w subj ''certificate'' (icID c) = Inr p"
    and "fail w ''ListCertificates'' = None" "cfLimit f = int n" "0 < n"
  shows "list_loop fuel w subj ids f out = map_option Inr
     (page_loop fuel (\<lambda>c. take n (cert_remaining (w, sbTenantID subj, f) c)) (visible ids) (view_of w subj) cert_key n
        (cfCursorTS f, cfCursorID f) out)"
  using assms(3)
proof (induction fuel arbitrary: f out)
  case (Suc fuel)
  let ?c = "(cfCursorTS f, cfCursorID f)"
  let ?rs = "take n (cert_remaining (w, sbTenantID subj, f) ?c)"
  have rd: "ListCertificates w (sbTenantID subj) f = Inr ?rs"
    using assms(2,4) Suc.prems by (simp add: ListCertificates_def unless_read_def cert_remaining_def sqlLimit_def)
  have same: "cert_remaining (w, t, f\<lparr>cfCursorTS := a, cfCursorID := b\<rparr>) = cert_remaining (w, t, f)" for t a b
    by (simp add: cert_remaining_def cert_matches_def)
  show ?case
  proof (cases "length out < n \<and> ?rs \<noteq> []")
    case True
    have "\<exists>p. Effective w subj ''certificate'' (icID c) = Inr p" if "c \<in> set ?rs" for c
      using assms(1) cert_remaining_rows [OF in_set_takeD [OF that]] by blast
    then have "scan_rows w subj ids (int n) ?rs ?c out = Inr (page_scan (visible ids) (view_of w subj) cert_key n ?rs ?c out)"
      using True by (intro scan_rows_page) auto
    moreover obtain out' ts i where "page_scan (visible ids) (view_of w subj) cert_key n ?rs ?c out = (out', ts, i)"
      by (cases "page_scan (visible ids) (view_of w subj) cert_key n ?rs ?c out") auto
    ultimately show ?thesis
      using True rd Suc.prems Suc.IH [of "f\<lparr>cfCursorTS := ts, cfCursorID := i\<rparr>" out'] by (simp add: same)
  qed (use rd Suc.prems in auto)
qed simp


definition demo_filter :: cert_filter where
  "demo_filter = \<lparr>cfIssuerID = '''', cfSpiffeID = '''', cfStatus = '''', cfCursorTS = 0, cfCursorID = '''', cfLimit = 10\<rparr>"


end
