(* ===== verification/Acme_Domains.thy ===== *)
theory Acme_Domains
  imports Go_Text
begin

text \<open>
  The DNS names of an ACME order (internal/issue/acmerequests.go, and the two text helpers of
  internal/issue/acme.go): normalisation, the syntax an ACME authority accepts, and the
  wildcard rule. \<open>acme_name\<close> is the syntax as a grammar; the checks accept exactly it.
\<close>

abbreviation bad_domains :: "string \<Rightarrow> err" where
  "bad_domains msg \<equiv> IssueInvalid ''domains'' msg"

definition MaxDomains :: nat where "MaxDomains = 100"

definition label_char :: "char \<Rightarrow> bool" where
  "label_char c \<longleftrightarrow> is_lower c \<or> is_digit c \<or> c = CHR ''-''"

fun label_scan :: "string \<Rightarrow> string" where
  "label_scan [] = ''''"
| "label_scan (c # cs) =
     (if \<not> is_lower c \<and> \<not> is_digit c \<and> c \<noteq> CHR ''-'' then
        (if c = CHR ''*'' then ''may only use a wildcard as its whole first label (*.example.org)''
         else ''contains a character other than letters, digits and hyphens'')
      else label_scan cs)"

definition labelProblem :: "string \<Rightarrow> string" where
  "labelProblem l =
     (if l = '''' then ''has an empty label''
      else if l = ''*'' then ''may only use a wildcard as its whole first label (*.example.org)''
      else if length l > 63 then ''has a label longer than 63 characters''
      else if hd l = CHR ''-'' \<or> last l = CHR ''-'' then ''has a label starting or ending with a hyphen''
      else label_scan l)"

fun first_problem :: "string list \<Rightarrow> string" where
  "first_problem [] = ''''"
| "first_problem (l # ls) = (if labelProblem l \<noteq> '''' then labelProblem l else first_problem ls)"

definition domainProblem :: "string \<Rightarrow> string" where
  "domainProblem d =
     (if length d > 253 then ''is longer than 253 characters''
      else
        (let base = TrimPrefix d ''*.''; labels = split_at CHR ''.'' base
         in if length labels < 2 then ''needs at least two labels (e.g. example.org)''
            else first_problem labels))"

definition norm_domain :: "string \<Rightarrow> string" where
  "norm_domain d = TrimSuffix (lower (TrimSpace d)) ''.''"

text \<open>The loop that collects the distinct non-empty names, \<open>f\<close> normalising each.\<close>

fun collect_names :: "(string \<Rightarrow> string) \<Rightarrow> string list \<Rightarrow> string list \<Rightarrow> string list" where
  "collect_names f names [] = names"
| "collect_names f names (d # ds) =
     (if f d \<noteq> '''' \<and> f d \<notin> set names then collect_names f (names @ [f d]) ds else collect_names f names ds)"

definition normaliseDomains :: "string list \<Rightarrow> string list" where
  "normaliseDomains ds = collect_names (\<lambda>d. lower (TrimSpace d)) [] ds"

definition covered :: "string list \<Rightarrow> string \<Rightarrow> bool" where
  "covered names d \<longleftrightarrow>
     CHR ''.'' \<in> set d \<and> \<not> has_prefix d ''*.'' \<and> ''*.'' @ snd (cut CHR ''.'' d) \<in> set names"

definition validateACMEDomains :: "string list \<Rightarrow> string list result" where
  "validateACMEDomains ds =
     (let names = collect_names norm_domain [] ds
      in if names = [] then Inl (bad_domains ''at least one DNS domain is required'')
         else if length names > MaxDomains then Inl (bad_domains (''at most '' @ dec MaxDomains @ '' domains per order''))
         else
           (case find (\<lambda>d. domainProblem d \<noteq> '''') names of
              Some d \<Rightarrow> Inl (bad_domains (''domain \"'' @ d @ ''\" '' @ domainProblem d))
            | None \<Rightarrow>
                (case find (covered names) names of
                   Some d \<Rightarrow> Inl (bad_domains (''domain \"'' @ d @ ''\" is already covered by the wildcard \"*.''
                               @ snd (cut CHR ''.'' d) @ ''\"; remove one of them''))
                 | None \<Rightarrow> Inr names)))"

definition maxFailReason :: nat where "maxFailReason = 500"

text \<open>\<open>FailReason\<close>, of the text of the error.\<close>

definition FailReason :: "string \<Rightarrow> string" where
  "FailReason msg =
     (let m = join_with '' '' (Fields (ReplaceAll msg [CHR 0x0A] ''; ''))
      in if rune_count m > maxFailReason then take_runes maxFailReason m else m)"

subsection \<open>The syntax\<close>

definition dns_label :: "string \<Rightarrow> bool" where
  "dns_label l \<longleftrightarrow>
     1 \<le> length l \<and> length l \<le> 63 \<and> list_all label_char l \<and> hd l \<noteq> CHR ''-'' \<and> last l \<noteq> CHR ''-''"

definition acme_name :: "string \<Rightarrow> bool" where
  "acme_name d \<longleftrightarrow>
     (\<exists>wild labels. d = (if wild then ''*.'' else '''') @ join_with ''.'' labels
        \<and> 2 \<le> length labels \<and> list_all dns_label labels \<and> length d \<le> 253)"

lemma label_scan_ok: "label_scan l = '''' \<longleftrightarrow> list_all label_char l"
  by (induction l) (auto simp: label_char_def)

lemma not_label_char: "\<not> label_char CHR ''.''" "\<not> label_char CHR ''*''"
  by (simp_all add: label_char_def is_lower_def is_digit_def less_eq_char_def)

lemma labelProblem_ok: "labelProblem l = '''' \<longleftrightarrow> dns_label l"
  using not_label_char
  by (auto simp: labelProblem_def dns_label_def label_scan_ok Suc_le_eq)

lemma first_problem_ok: "first_problem ls = '''' \<longleftrightarrow> list_all dns_label ls"
  by (induction ls) (auto simp: labelProblem_ok)

lemma dns_label_dots: "dns_label l \<Longrightarrow> CHR ''.'' \<notin> set l"
  using not_label_char by (auto simp: dns_label_def list_all_iff)

lemma join_first: "2 \<le> length ls \<Longrightarrow> \<exists>rest. join_with ''.'' ls = hd ls @ CHR ''.'' # rest"
  by (cases ls; cases "tl ls") auto

text \<open>A name that starts with a plain label is not taken for a wildcard.\<close>

lemma plain_not_wild:
  assumes "2 \<le> length ls" "list_all dns_label ls"
  shows "\<not> has_prefix (join_with ''.'' ls) ''*.''"
proof -
  obtain rest where j: "join_with ''.'' ls = hd ls @ CHR ''.'' # rest" using join_first [OF assms(1)] by blast
  have "dns_label (hd ls)" using assms by (cases ls) auto
  then have "hd ls \<noteq> []" "label_char (hd (hd ls))" by (cases "hd ls"; simp add: dns_label_def)+
  with not_label_char show ?thesis unfolding j has_prefix_def by (cases "hd ls") auto
qed

lemma domainProblem_ok: "domainProblem d = '''' \<longleftrightarrow> acme_name d"
proof
  assume ok: "domainProblem d = ''''"
  let ?ls = "split_at CHR ''.'' (TrimPrefix d ''*.'')"
  have "length d \<le> 253" "2 \<le> length ?ls" "list_all dns_label ?ls"
    using ok by (auto simp: domainProblem_def Let_def first_problem_ok split: if_splits)
  moreover have "d = (if has_prefix d ''*.'' then ''*.'' else '''') @ join_with ''.'' ?ls"
    using has_prefix_split [of d "''*.''"] by (auto simp: split_at_join TrimPrefix_def)
  ultimately show "acme_name d" unfolding acme_name_def by blast
next
  assume "acme_name d"
  then obtain wild ls where d: "d = (if wild then ''*.'' else '''') @ join_with ''.'' ls" "2 \<le> length ls"
    "list_all dns_label ls" "length d \<le> 253" unfolding acme_name_def by blast
  have "TrimPrefix d ''*.'' = join_with ''.'' ls"
    using plain_not_wild [OF d(2,3)] by (auto simp: d(1) TrimPrefix_def has_prefix_def)
  moreover have "split_at CHR ''.'' (join_with ''.'' ls) = ls"
    using d(2,3) dns_label_dots by (intro join_split_at) (auto simp: list_all_iff)
  ultimately show "domainProblem d = ''''" using d(2-4) by (simp add: domainProblem_def first_problem_ok Let_def)
qed

lemma collect_names_set: "set (collect_names f names ds) = set names \<union> {f d |d. d \<in> set ds \<and> f d \<noteq> ''''}"
  by (induction ds arbitrary: names) auto

lemma collect_names_distinct: "distinct names \<Longrightarrow> distinct (collect_names f names ds)"
  by (induction ds arbitrary: names) auto

lemma covered_iff:
  "covered names d \<longleftrightarrow> (\<exists>l parent. d = l @ CHR ''.'' # parent \<and> CHR ''.'' \<notin> set l \<and> l \<noteq> ''*'' \<and> ''*.'' @ parent \<in> set names)"
  (is "_ \<longleftrightarrow> ?R")
proof
  assume c: "covered names d"
  let ?l = "takeWhile (\<lambda>x. x \<noteq> CHR ''.'') d" and ?r = "dropWhile (\<lambda>x. x \<noteq> CHR ''.'') d"
  have ne: "?r \<noteq> []" using c by (auto simp: covered_def dropWhile_eq_Nil_conv)
  then have "hd ?r = CHR ''.''" using hd_dropWhile by blast
  then have r: "d = ?l @ CHR ''.'' # tl ?r" using ne takeWhile_dropWhile_id [of _ d] by (metis list.collapse)
  moreover have "CHR ''.'' \<notin> set ?l" by (auto dest: set_takeWhileD)
  moreover have "?l \<noteq> ''*''"
  proof
    assume "?l = ''*''"
    with r have "d = ''*.'' @ tl ?r" by simp
    then have "has_prefix d ''*.''" using has_prefix_append by metis
    with c show False by (simp add: covered_def)
  qed
  ultimately show ?R using c unfolding covered_def cut_def by auto
next
  assume ?R
  then obtain l parent where d: "d = l @ CHR ''.'' # parent" "CHR ''.'' \<notin> set l" "l \<noteq> ''*''" "''*.'' @ parent \<in> set names" by blast
  have "takeWhile (\<lambda>x. x \<noteq> CHR ''.'') d = l" "dropWhile (\<lambda>x. x \<noteq> CHR ''.'') d = CHR ''.'' # parent"
    using d(2) by (auto simp: d(1) takeWhile_append dropWhile_append)
  moreover have "\<not> has_prefix d ''*.''" using d(1-3) by (cases l; cases "tl l") (auto simp: has_prefix_def)
  ultimately show "covered names d" using d(1,4) by (simp add: covered_def cut_def)
qed

text \<open>
  C22. The names of an accepted order: accepted are exactly the orders whose normalised,
  distinct, non-empty names number between one and a hundred, are each a DNS name of at least
  two labels, with at most a leading wildcard label, and none of which is one label below
  a wildcard of the same order; the order then goes out with exactly these names, each once.
\<close>

theorem validateACMEDomains_iff:
  "validateACMEDomains ds = Inr names \<longleftrightarrow>
     names = collect_names norm_domain [] ds \<and> 1 \<le> length names \<and> length names \<le> 100
     \<and> set names = norm_domain ` set ds - {''''} \<and> distinct names
     \<and> list_all acme_name names
     \<and> \<not> (\<exists>l parent. CHR ''.'' \<notin> set l \<and> l \<noteq> ''*'' \<and> l @ CHR ''.'' # parent \<in> set names \<and> ''*.'' @ parent \<in> set names)"
proof -
  define n where "n = collect_names norm_domain [] ds"
  have n: "set n = norm_domain ` set ds - {''''}" "distinct n"
    by (auto simp: n_def collect_names_set collect_names_distinct)
  have find: "(find P n = None) = list_all (\<lambda>d. \<not> P d) n" for P
    by (auto simp: find_None_iff list_all_iff)
  have "validateACMEDomains ds = Inr names \<longleftrightarrow> names = n \<and> n \<noteq> [] \<and> length n \<le> 100
      \<and> find (\<lambda>d. domainProblem d \<noteq> '''') n = None \<and> find (covered n) n = None"
    unfolding validateACMEDomains_def Let_def n_def [symmetric] MaxDomains_def
    by (cases "find (\<lambda>d. domainProblem d \<noteq> '''') n"; cases "find (covered n) n") auto
  also have "\<dots> \<longleftrightarrow> names = n \<and> 1 \<le> length n \<and> length n \<le> 100 \<and> list_all acme_name n \<and>
      \<not> (\<exists>l parent. CHR ''.'' \<notin> set l \<and> l \<noteq> ''*'' \<and> l @ CHR ''.'' # parent \<in> set n \<and> ''*.'' @ parent \<in> set n)"
  proof -
    have "list_all (\<lambda>d. \<not> covered n d) n \<longleftrightarrow>
      \<not> (\<exists>l parent. CHR ''.'' \<notin> set l \<and> l \<noteq> ''*'' \<and> l @ CHR ''.'' # parent \<in> set n \<and> ''*.'' @ parent \<in> set n)"
      unfolding covered_iff list_all_iff by blast
    moreover have "n \<noteq> [] \<longleftrightarrow> 1 \<le> length n" by (cases n) auto
    ultimately show ?thesis unfolding find by (simp add: domainProblem_ok)
  qed
  finally show ?thesis using n unfolding n_def by blast
qed

end
