(* ===== verification/Acme_Dns.thy ===== *)
theory Acme_Dns
  imports Go_Text
begin

text \<open>
  The DNS providers of the ACME order flow (internal/acme/dns.go, freyadns.go and the
  construction and zone search of cloudflare.go): the static registry, which fields are
  credentials, which providers can be built, and the recording provider. The DNS module
  behind \<open>freya-dns\<close> and the Cloudflare API are services; only their presence matters here.
\<close>

definition MaxCredValueBytes :: nat where "MaxCredValueBytes = 8192"
definition FreyaDNS :: string where "FreyaDNS = ''freya-dns''"

record provider_field =
  pfKey :: string
  pfLabel :: string
  pfSecret :: bool
  pfRequired :: bool

record provider_info =
  piName :: string
  piDisplayName :: string
  piFields :: "provider_field list"
  piSupported :: bool

abbreviation fld :: "string \<Rightarrow> string \<Rightarrow> bool \<Rightarrow> bool \<Rightarrow> provider_field" where
  "fld k l s r \<equiv> \<lparr>pfKey = k, pfLabel = l, pfSecret = s, pfRequired = r\<rparr>"

abbreviation prov :: "string \<Rightarrow> string \<Rightarrow> provider_field list \<Rightarrow> provider_info" where
  "prov n d fs \<equiv> \<lparr>piName = n, piDisplayName = d, piFields = fs, piSupported = False\<rparr>"

definition supported :: "string list" where
  "supported = [''cloudflare'', ''manual'', FreyaDNS]"

definition registry :: "provider_info list" where
  "registry =
     [prov ''cloudflare'' ''Cloudflare''
        [fld ''api_token'' ''API Token'' True True, fld ''zone_id'' ''Zone ID (optional)'' False False],
      prov ''route53'' ''Amazon Route 53''
        [fld ''access_key_id'' ''Access Key ID'' False True, fld ''secret_access_key'' ''Secret Access Key'' True True,
         fld ''region'' ''Region (optional)'' False False, fld ''hosted_zone_id'' ''Hosted Zone ID (optional)'' False False],
      prov ''gcloud'' ''Google Cloud DNS''
        [fld ''project'' ''Project ID'' False True, fld ''service_account_key'' ''Service Account Key (JSON)'' True True],
      prov ''digitalocean'' ''DigitalOcean'' [fld ''auth_token'' ''API Token'' True True],
      prov ''acmedns'' ''ACME-DNS''
        [fld ''server_url'' ''Server URL'' False True, fld ''username'' ''Username'' False True,
         fld ''password'' ''Password'' True True, fld ''subdomain'' ''Subdomain'' False True],
      prov ''powerdns'' ''PowerDNS''
        [fld ''api_url'' ''API URL'' False True, fld ''api_key'' ''API Key'' True True,
         fld ''server_name'' ''Server Name (optional)'' False False],
      prov ''hurricane'' ''Hurricane Electric'' [fld ''api_token'' ''API Token'' True True],
      prov ''httpreq'' ''HTTP Request''
        [fld ''endpoint'' ''Endpoint URL'' False True, fld ''username'' ''Username (optional)'' False False,
         fld ''password'' ''Password (optional)'' True False],
      prov ''easydns'' ''easyDNS'' [fld ''token'' ''API Token'' False True, fld ''key'' ''API Key'' True True],
      prov ''manual'' ''Manual / Out-of-band'' [],
      prov FreyaDNS ''Tangra DNS'' []]"

definition IsSupported :: "string \<Rightarrow> bool" where
  "IsSupported name \<longleftrightarrow> name \<in> set supported"

definition Providers :: "provider_info list" where
  "Providers = map (\<lambda>p. p\<lparr>piSupported := IsSupported (piName p)\<rparr>) registry"

definition SupportedProviders :: "provider_info list" where
  "SupportedProviders = filter piSupported Providers"

fun collect_keys :: "string list \<Rightarrow> provider_field list \<Rightarrow> string list" where
  "collect_keys out [] = out"
| "collect_keys out (f # fs) =
     collect_keys (if pfSecret f \<and> pfKey f \<notin> set out then out @ [pfKey f] else out) fs"

definition SecretFieldKeys :: "string list" where
  "SecretFieldKeys = collect_keys [] (concat (map piFields registry))"

subsection \<open>Construction\<close>

text \<open>
  What a provider is built from: the recorder, the Cloudflare client with its trimmed token
  and zone, or the DNS module for a tenant.
\<close>

datatype dns_provider =
    Noop
  | Cloudflare string string
  | FreyaDNSProvider string

definition ErrProvider :: "string \<Rightarrow> err" where
  "ErrProvider msg = OtherError (''acme: dns provider failed'' @ msg)"

definition ErrUnsupportedProvider :: err where
  "ErrUnsupportedProvider = OtherError ''acme: unsupported dns provider''"

abbreviation cred :: "(string \<times> string) list \<Rightarrow> string \<Rightarrow> string" where
  "cred creds k \<equiv> (case map_of creds k of None \<Rightarrow> '''' | Some v \<Rightarrow> v)"

definition NewCloudflare :: "(string \<times> string) list \<Rightarrow> dns_provider result" where
  "NewCloudflare creds =
     (let token = TrimSpace (cred creds ''api_token'')
      in if token = '''' then Inl (ErrProvider '': cloudflare: api_token is required'')
         else Inr (Cloudflare token (TrimSpace (cred creds ''zone_id''))))"

text \<open>\<open>haveDNS\<close>: whether the deployment has a client of the DNS module.\<close>

definition NewProviderWith :: "string \<Rightarrow> (string \<times> string) list \<Rightarrow> bool \<Rightarrow> string \<Rightarrow> dns_provider result" where
  "NewProviderWith name creds haveDNS tenantID =
     (if list_ex (\<lambda>(k, v). length v > MaxCredValueBytes) creds then Inl (ErrProvider '''')
      else if name = ''manual'' then Inr Noop
      else if name = ''cloudflare'' then NewCloudflare creds
      else if name = FreyaDNS then
        (if \<not> haveDNS \<or> tenantID = '''' then Inl ErrUnsupportedProvider else Inr (FreyaDNSProvider tenantID))
      else Inl ErrUnsupportedProvider)"

lemma NewProviderWith_code [code]:
  "NewProviderWith name creds haveDNS tenantID =
     (if list_ex (\<lambda>(k, v). int (length v) > 8192) creds then Inl (ErrProvider '''')
      else if name = ''manual'' then Inr Noop
      else if name = ''cloudflare'' then NewCloudflare creds
      else if name = FreyaDNS then
        (if \<not> haveDNS \<or> tenantID = '''' then Inl ErrUnsupportedProvider else Inr (FreyaDNSProvider tenantID))
      else Inl ErrUnsupportedProvider)"
  by (simp add: NewProviderWith_def MaxCredValueBytes_def)

text \<open>The domain and its parents, longest first, without the top-level one.\<close>

fun tails :: "string list \<Rightarrow> string list list" where
  "tails [] = []"
| "tails (l # ls) = (l # ls) # tails ls"

definition zoneCandidates :: "string \<Rightarrow> string list" where
  "zoneCandidates domain =
     (let labels = split_at CHR ''.'' (TrimSuffix (lower domain) ''.'')
      in map (join_with ''.'') (take (length labels - 1) (tails labels)))"

text \<open>Every secret field of the registry is among the keys that are sealed and redacted.\<close>

lemma collect_keys_set: "set (collect_keys out fs) = set out \<union> {pfKey f |f. f \<in> set fs \<and> pfSecret f}"
  by (induction fs arbitrary: out) auto

lemma SecretFieldKeys_complete:
  "p \<in> set Providers \<Longrightarrow> f \<in> set (piFields p) \<Longrightarrow> pfSecret f \<Longrightarrow> pfKey f \<in> set SecretFieldKeys"
  by (auto simp: SecretFieldKeys_def collect_keys_set Providers_def) blast

text \<open>The providers the API offers are those that can be built, given their dependencies.\<close>

lemma NewProviderWith_supported:
  assumes "list_all (\<lambda>(k, v). length v \<le> MaxCredValueBytes) creds" "TrimSpace (cred creds ''api_token'') \<noteq> ''''" "tid \<noteq> ''''"
  shows "IsSupported name \<longleftrightarrow> (\<exists>p. NewProviderWith name creds True tid = Inr p)"
  using assms
  by (auto simp: NewProviderWith_def IsSupported_def supported_def FreyaDNS_def NewCloudflare_def Let_def
      list_all_iff list_ex_iff not_le)

end
