(* ===== verification/Go_Time.thy ===== *)
theory Go_Time
  imports Go_Json_Props
begin

text \<open>
  The part of Go's \<open>time\<close> package the services print and read: the proleptic Gregorian date of a
  time, \<open>Format(time.RFC3339Nano)\<close> in UTC, and \<open>time.Parse\<close> with that layout. A time is the
  count of nanoseconds since the start of year 1, which is Go's zero time. The main fact is
  that parsing what was printed gives the time back for the years 1 to 9999.
\<close>

definition unixEpoch :: time where
  "unixEpoch = 62135596800 * Second"

definition Unix :: "time \<Rightarrow> int" where
  "Unix t = (t - unixEpoch) div Second"

definition UnixMilli :: "time \<Rightarrow> int" where
  "UnixMilli t = (t - unixEpoch) div 1000000"

definition time_of_milli :: "int \<Rightarrow> time" where
  "time_of_milli ms = unixEpoch + ms * 1000000"

subsection \<open>Dates\<close>

definition isLeap :: "int \<Rightarrow> bool" where
  "isLeap y \<longleftrightarrow> y mod 4 = 0 \<and> (y mod 100 \<noteq> 0 \<or> y mod 400 = 0)"

definition month_lengths :: "int \<Rightarrow> int list" where
  "month_lengths y = [31, if isLeap y then 29 else 28, 31, 30, 31, 30, 31, 31, 30, 31, 30, 31]"

definition days_before_year :: "int \<Rightarrow> int" where
  "days_before_year y = (let n = y - 1 in 365 * n + n div 4 - n div 100 + n div 400)"

text \<open>The year of a day count and the day within the year, by 400-, 100-, 4- and 1-year cycles.\<close>

definition year_of :: "int \<Rightarrow> int \<times> int" where
  "year_of d =
     (let n400 = d div 146097; r = d mod 146097;
          n100 = min 3 (r div 36524); r = r - 36524 * n100;
          n4 = r div 1461; r = r mod 1461;
          n1 = min 3 (r div 365)
      in (400 * n400 + 100 * n100 + 4 * n4 + n1 + 1, r - 365 * n1))"

fun split_month :: "int list \<Rightarrow> int \<Rightarrow> nat \<Rightarrow> nat \<times> int" where
  "split_month [] d m = (m, d)"
| "split_month (l # ls) d m = (if d < l then (m, d) else split_month ls (d - l) (Suc m))"

definition date_of :: "int \<Rightarrow> int \<times> nat \<times> nat" where
  "date_of d = (let (y, yday) = year_of d; (m, mday) = split_month (month_lengths y) yday 1 in (y, m, Suc (nat mday)))"

definition days_of :: "int \<Rightarrow> nat \<Rightarrow> nat \<Rightarrow> int" where
  "days_of y m d = days_before_year y + sum_list (take (m - 1) (month_lengths y)) + (int d - 1)"

lemma year_split:
  assumes "0 \<le> b" "b \<le> 3" "0 \<le> c" "c \<le> 24" "0 \<le> e" "e \<le> 3"
  shows "days_before_year (400 * a + 100 * b + 4 * c + e + 1) = 146097 * a + 36524 * b + 1461 * c + 365 * e"
proof -
  let ?n = "400 * a + 100 * b + 4 * c + e"
  have "?n div 4 = 100 * a + 25 * b + c"
  proof -
    have "?n = (100 * a + 25 * b + c) * 4 + e" "0 \<le> e" "e < 4" using assms by auto
    then show ?thesis by simp
  qed
  moreover have "?n div 100 = 4 * a + b"
  proof -
    have "?n = (4 * a + b) * 100 + (4 * c + e)" "0 \<le> 4 * c + e" "4 * c + e < 100" using assms by auto
    then show ?thesis by simp
  qed
  moreover have "?n div 400 = a"
  proof -
    have "?n = a * 400 + (100 * b + 4 * c + e)" "0 \<le> 100 * b + 4 * c + e" "100 * b + 4 * c + e < 400" using assms by auto
    then show ?thesis by simp
  qed
  ultimately show ?thesis by (simp add: days_before_year_def Let_def)
qed

lemma year_of_days:
  assumes "year_of d = (y, yday)"
  shows "days_before_year y + yday = d" "0 \<le> yday" "yday < sum_list (month_lengths y)"
proof -
  define a r where "a = d div 146097" and "r = d mod 146097"
  have d: "d = 146097 * a + r" "0 \<le> r" "r < 146097" by (simp_all add: a_def r_def)
  define b r2 where "b = min 3 (r div 36524)" and "r2 = r - 36524 * b"
  have b: "0 \<le> b" "b \<le> 3" "0 \<le> r2" "r2 \<le> 36524" "b < 3 \<longrightarrow> r2 < 36524" using d by (auto simp: b_def r2_def min_def)
  define c r3 where "c = r2 div 1461" and "r3 = r2 mod 1461"
  have c: "r2 = 1461 * c + r3" "0 \<le> r3" "r3 < 1461" "0 \<le> c" "c \<le> 24" using b by (auto simp: c_def r3_def)
  define e where "e = min 3 (r3 div 365)"
  have e: "0 \<le> e" "e \<le> 3" "0 \<le> r3 - 365 * e" "r3 - 365 * e \<le> 365" "e < 3 \<longrightarrow> r3 - 365 * e < 365"
    using c by (auto simp: e_def min_def)
  have y: "y = 400 * a + 100 * b + 4 * c + e + 1" "yday = r3 - 365 * e"
    using assms unfolding year_of_def Let_def a_def [symmetric] r_def [symmetric] b_def [symmetric] r2_def [symmetric]
      c_def [symmetric] r3_def [symmetric] e_def [symmetric] by simp_all
  show "days_before_year y + yday = d"
    unfolding y year_split [OF b(1,2) c(4,5) e(1,2)] using d(1) c(1) by (simp add: r2_def)
  show "0 \<le> yday" using e y by simp
  have leap: "isLeap y" if "yday = 365"
  proof -
    have e3: "e = 3" using that e y by linarith
    then have "r3 = 1460" using that y by simp
    moreover have "y mod 4 = 0"
    proof -
      have "y = (100 * a + 25 * b + c + 1) * 4" using e3 y(1) by simp
      then show ?thesis by simp
    qed
    moreover have "b = 3" if "c = 24" using that calculation(1) b c by linarith
    moreover have "y mod 100 \<noteq> 0" if "c \<noteq> 24"
    proof -
      have "y = (4 * c + 4) + (4 * a + b) * 100" "0 < 4 * c + 4" "4 * c + 4 < 100" using e3 c(4,5) that y(1) by auto
      then show ?thesis by (metis mod_mult_self1 mod_pos_pos_trivial less_le less_irrefl)
    qed
    moreover have "y mod 400 = 0" if "c = 24" "b = 3"
      using that e3 unfolding y by simp
    ultimately show ?thesis unfolding isLeap_def by (cases "c = 24") simp_all
  qed
  show "yday < sum_list (month_lengths y)"
    using e y leap by (cases "yday = 365") (auto simp: month_lengths_def)
qed

lemma split_month_days:
  assumes "split_month ls d m = (m', r)" "0 \<le> d" "d < sum_list ls" "\<forall>l \<in> set ls. 0 < l"
  shows "m \<le> m' \<and> m' - m < length ls \<and> 0 \<le> r \<and> r < ls ! (m' - m) \<and> sum_list (take (m' - m) ls) + r = d"
  using assms
proof (induction ls arbitrary: d m)
  case (Cons l ls)
  show ?case
  proof (cases "d < l")
    case False
    with Cons.prems have "split_month ls (d - l) (Suc m) = (m', r)" by simp
    from Cons.IH [OF this] False Cons.prems(3,4)
    have "Suc m \<le> m' \<and> m' - Suc m < length ls \<and> 0 \<le> r \<and> r < ls ! (m' - Suc m) \<and> sum_list (take (m' - Suc m) ls) + r = d - l"
      by auto
    note rest = this
    then have "Suc m \<le> m'" by blast
    then have "m' - m = Suc (m' - Suc m)" by linarith
    with rest show ?thesis by simp
  qed (use Cons.prems in auto)
qed simp

lemma date_of_days:
  assumes "date_of d = (y, m, k)"
  shows "days_of y m k = d" "1 \<le> m" "m \<le> 12" "1 \<le> k" "int k \<le> month_lengths y ! (m - 1)" "fst (year_of d) = y"
proof -
  obtain yday where y: "year_of d = (y, yday)" using assms by (auto simp: date_of_def Let_def split: prod.splits)
  obtain r where s: "split_month (month_lengths y) yday 1 = (m, r)" "k = Suc (nat r)"
    using assms y by (auto simp: date_of_def Let_def split: prod.splits)
  note yd = year_of_days [OF y]
  have "\<forall>l \<in> set (month_lengths y). 0 < l" "length (month_lengths y) = 12" by (simp_all add: month_lengths_def)
  with split_month_days [OF s(1) yd(2,3)] s(2) yd(1) y
  show "days_of y m k = d" "1 \<le> m" "m \<le> 12" "1 \<le> k" "int k \<le> month_lengths y ! (m - 1)" "fst (year_of d) = y"
    by (auto simp: days_of_def)
qed

subsection \<open>Printing and reading\<close>

definition pad_num :: "nat \<Rightarrow> nat \<Rightarrow> string" where
  "pad_num w n = replicate (w - length (dec n)) (CHR ''0'') @ dec n"

definition year_text :: "int \<Rightarrow> string" where
  "year_text y = (if y < 0 then CHR ''-'' # pad_num 4 (nat (- y)) else pad_num 4 (nat y))"

definition frac_text :: "nat \<Rightarrow> string" where
  "frac_text ns =
     (if ns = 0 then '''' else CHR ''.'' # rev (dropWhile (\<lambda>c. c = CHR ''0'') (rev (pad_num 9 ns))))"

text \<open>\<open>t.UTC().Format(time.RFC3339Nano)\<close>.\<close>

definition Day :: duration where "Day = 86400 * Second"

definition format_nano :: "time \<Rightarrow> string" where
  "format_nano t =
     (let (y, m, d) = date_of (t div Day); s = nat ((t mod Day) div Second); ns = nat (t mod Second)
      in year_text y @ ''-'' @ pad_num 2 m @ ''-'' @ pad_num 2 d @ ''T'' @ pad_num 2 (s div 3600) @ '':''
         @ pad_num 2 (s div 60 mod 60) @ '':'' @ pad_num 2 (s mod 60) @ frac_text ns @ ''Z'')"

text \<open>\<open>getnum\<close>: a number of two digits, or of one when \<open>fixed\<close> is not asked for.\<close>

definition getnum :: "bool \<Rightarrow> string \<Rightarrow> (nat \<times> string) option" where
  "getnum fixed s =
     (if s = [] \<or> \<not> is_digit (hd s) then None
      else if tl s = [] \<or> \<not> is_digit (hd (tl s)) then (if fixed then None else Some (undec [hd s], tl s))
      else Some (undec (take 2 s), drop 2 s))"

definition skip_char :: "char \<Rightarrow> string \<Rightarrow> string option" where
  "skip_char c s = (if s \<noteq> [] \<and> hd s = c then Some (tl s) else None)"

definition num_then :: "bool \<Rightarrow> nat \<Rightarrow> nat \<Rightarrow> string \<Rightarrow> (nat \<Rightarrow> string \<Rightarrow> 'a option) \<Rightarrow> 'a option" where
  "num_then fixed lo hi s k =
     (case getnum fixed s of None \<Rightarrow> None | Some (n, r) \<Rightarrow> if n < lo \<or> hi < n then None else k n r)"

definition char_then :: "char \<Rightarrow> string \<Rightarrow> (string \<Rightarrow> 'a option) \<Rightarrow> 'a option" where
  "char_then c s k = (case skip_char c s of None \<Rightarrow> None | Some r \<Rightarrow> k r)"

text \<open>A fraction of a second: any number of digits, of which nine count.\<close>

definition p_frac :: "string \<Rightarrow> nat \<times> string" where
  "p_frac s =
     (if length s < 2 \<or> \<not> (hd s = CHR ''.'' \<or> hd s = CHR '','') \<or> \<not> is_digit (hd (tl s)) then (0, s)
      else (let ds = takeWhile is_digit (tl s); used = take 9 ds
            in (undec used * 10 ^ (9 - length used), dropWhile is_digit (tl s))))"

text \<open>\<open>Z07:00\<close>: the offset in seconds and what follows.\<close>

definition p_zone :: "string \<Rightarrow> (int \<times> string) option" where
  "p_zone s =
     (if s \<noteq> [] \<and> hd s = CHR ''Z'' then Some (0, tl s)
      else if length s < 6 \<or> s ! 3 \<noteq> CHR '':'' then None
      else num_then True 0 24 (take 2 (drop 1 s)) (\<lambda>hr _. num_then True 0 60 (take 2 (drop 4 s)) (\<lambda>mm _.
             (let off = int (hr * 60 + mm) * 60
              in if hd s = CHR ''+'' then Some (off, drop 6 s)
                 else if hd s = CHR ''-'' then Some (- off, drop 6 s) else None))))"

definition parse_nano :: "string \<Rightarrow> time option" where
  "parse_nano s =
     (if length s < 4 \<or> \<not> list_all is_digit (take 4 s) then None
      else
        (let y = undec (take 4 s)
         in char_then (CHR ''-'') (drop 4 s) (\<lambda>s. num_then True 1 12 s (\<lambda>m s.
            char_then (CHR ''-'') s (\<lambda>s. num_then True 0 99 s (\<lambda>d s.
            char_then (CHR ''T'') s (\<lambda>s. num_then False 0 23 s (\<lambda>h s.
            char_then (CHR '':'') s (\<lambda>s. num_then True 0 59 s (\<lambda>mi s.
            char_then (CHR '':'') s (\<lambda>s. num_then True 0 59 s (\<lambda>sec s.
            (let (ns, s) = p_frac s
             in (case p_zone s of
                   None \<Rightarrow> None
                 | Some (off, rest) \<Rightarrow>
                     if rest \<noteq> [] \<or> d < 1 \<or> int d > month_lengths (int y) ! (m - 1) then None
                     else Some (days_of (int y) m d * Day + int (h * 3600 + mi * 60 + sec) * Second + int ns
                                - off * Second)))))))))))))))"

lemma is_digit_zero: "is_digit (CHR ''0'')"
  by code_simp

lemma undec_zeros: "undec (replicate k (CHR ''0'') @ s) = undec s"
  by (induction k) (simp_all add: undec_def)

lemma undec_pad [simp]: "undec (pad_num w n) = n"
  by (simp add: pad_num_def undec_zeros)

lemma digits_pad: "list_all is_digit (pad_num w n)"
  using dec_digits(1) [of n] by (auto simp: pad_num_def list_all_iff is_digit_zero)

lemma length_dec: "0 < w \<Longrightarrow> n < 10 ^ w \<Longrightarrow> length (dec n) \<le> w"
proof (induction w arbitrary: n)
  case (Suc w)
  show ?case
  proof (cases "n < 10")
    case False
    then have "0 < w" "n div 10 < 10 ^ w" using Suc.prems by (cases w, auto)
    from Suc.IH [OF this] show ?thesis using False by (subst dec.simps) simp
  qed (subst dec.simps, simp)
qed simp

lemma length_pad: "0 < w \<Longrightarrow> n < 10 ^ w \<Longrightarrow> length (pad_num w n) = w"
  using length_dec [of w n] by (simp add: pad_num_def)

lemma getnum_pad: "n < 100 \<Longrightarrow> getnum fixed (pad_num 2 n @ r) = Some (n, r)"
proof -
  assume n: "n < 100"
  then have "length (pad_num 2 n) = 2" by (intro length_pad) simp_all
  then obtain a b where ab: "pad_num 2 n = [a, b]" by (auto simp: length_Suc_conv numeral_2_eq_2)
  with digits_pad [of 2 n] undec_pad [of 2 n] show ?thesis by (simp add: getnum_def)
qed

lemma num_then_pad [simp]: "n < 100 \<Longrightarrow> num_then fixed lo hi (pad_num 2 n @ r) k = (if n < lo \<or> hi < n then None else k n r)"
  by (simp add: num_then_def getnum_pad)

lemma char_then_hit [simp]: "char_then c (c # r) k = k r"
  by (simp add: char_then_def skip_char_def)

lemma undec_snoc: "undec (s @ [c]) = 10 * undec s + (of_char c - 48)"
  by (simp add: undec_def)

lemma undec_trim:
  "undec s = undec (rev (dropWhile (\<lambda>c. c = CHR ''0'') (rev s)))
     * 10 ^ (length s - length (dropWhile (\<lambda>c. c = CHR ''0'') (rev s)))"
proof (induction s rule: rev_induct)
  case (snoc c s)
  show ?case
  proof (cases "c = CHR ''0''")
    case True
    let ?l = "length (dropWhile (\<lambda>c. c = CHR ''0'') (rev s))"
    have "?l \<le> length s" using length_dropWhile_le [of _ "rev s"] by simp
    then have "length (s @ [c]) - ?l = Suc (length s - ?l)" by simp
    with True snoc.IH show ?thesis by (simp add: undec_snoc)
  qed simp
qed simp

lemma p_frac_text:
  assumes "ns < 10 ^ 9"
  shows "p_frac (frac_text ns @ ''Z'') = (ns, ''Z'')"
proof (cases "ns = 0")
  case True
  then show ?thesis by (simp add: frac_text_def p_frac_def)
next
  case False
  define ds where "ds = rev (dropWhile (\<lambda>c. c = CHR ''0'') (rev (pad_num 9 ns)))"
  have len: "length (pad_num 9 ns) = 9" by (rule length_pad) (use assms in simp_all)
  have val: "ns = undec ds * 10 ^ (9 - length ds)"
    using undec_trim [of "pad_num 9 ns"] len by (simp add: ds_def)
  then have "ds \<noteq> []" using False by (auto simp: undec_def)
  moreover have short: "length ds \<le> 9" unfolding ds_def using length_dropWhile_le [of _ "rev (pad_num 9 ns)"] len by simp
  moreover have dig: "list_all is_digit ds"
    using digits_pad [of 9 ns] by (auto simp: ds_def list_all_iff dest!: set_dropWhileD)
  moreover have "\<not> is_digit (CHR ''Z'')" by code_simp
  moreover from dig this have "takeWhile is_digit (ds @ ''Z'') = ds" "dropWhile is_digit (ds @ ''Z'') = ''Z''"
    by (simp_all add: list_all_iff)
  moreover have "frac_text ns = CHR ''.'' # ds" using False by (simp add: frac_text_def ds_def)
  moreover have "is_digit (hd (ds @ ''Z''))" using calculation(1,3) by (cases ds) simp_all
  ultimately show ?thesis using val by (simp add: p_frac_def Let_def)
qed

text \<open>The years 1 to 9999.\<close>

definition printable :: "time \<Rightarrow> bool" where
  "printable t \<longleftrightarrow> 0 \<le> t \<and> t < 3652059 * Day"

lemma days_before_year_mono: "y \<le> y' \<Longrightarrow> days_before_year y \<le> days_before_year y'"
proof (induction rule: int_ge_induct)
  case (step i)
  have le: "365 * (i - 1) + p - q + r \<le> 365 * i + p' - q' + r'" if "q' \<le> q + 1" "p \<le> p'" "r \<le> r'" for p p' q q' r r' :: int
  proof -
    have "365 * (i - 1) = 365 * i - 365" by simp
    then show ?thesis using that by linarith
  qed
  have "i div 100 \<le> (i - 1 + 100) div 100" by (intro zdiv_mono1) simp_all
  then have "i div 100 \<le> (i - 1) div 100 + 1" unfolding div_add_self2 [OF zero_neq_numeral [symmetric]] .
  moreover have "(i - 1) div 4 \<le> i div 4" "(i - 1) div 400 \<le> i div 400" by (rule zdiv_mono1; simp)+
  ultimately have "days_before_year i \<le> days_before_year (i + 1)"
    unfolding days_before_year_def Let_def add_diff_cancel_right' by (rule le)
  with step show ?case by simp
qed simp

lemma year_bounds:
  assumes "0 \<le> d" "d < 3652059"
  shows "1 \<le> fst (year_of d)" "fst (year_of d) \<le> 9999"
proof -
  obtain y yday where y: "year_of d = (y, yday)" by fastforce
  note yd = year_of_days [OF y]
  have s: "sum_list (month_lengths y) \<le> 366" by (simp add: month_lengths_def)
  have ends: "days_before_year 0 = -366" "days_before_year 10000 = 3652059" by (simp_all add: days_before_year_def)
  have "1 \<le> y" using days_before_year_mono [of y 0] ends yd assms s by linarith
  moreover have "y \<le> 9999" using days_before_year_mono [of 10000 y] ends yd assms by linarith
  ultimately show "1 \<le> fst (year_of d)" "fst (year_of d) \<le> 9999" using y by simp_all
qed

lemma clock_split:
  fixes s :: nat
  assumes "s < 86400"
  shows "s div 3600 \<le> 23" "s div 3600 * 3600 + s div 60 mod 60 * 60 + s mod 60 = s"
proof -
  show "s div 3600 \<le> 23" using less_mult_imp_div_less [of s 24 3600] assms by simp
  have "s div 3600 = s div 60 div 60" by (simp add: div_mult2_eq [symmetric])
  moreover have "s div 60 = s div 60 div 60 * 60 + s div 60 mod 60" "s = s div 60 * 60 + s mod 60" by simp_all
  ultimately show "s div 3600 * 3600 + s div 60 mod 60 * 60 + s mod 60 = s" by linarith
qed

lemma parse_format_nano:
  assumes "printable t"
  shows "parse_nano (format_nano t) = Some t"
proof -
  obtain y m d where date: "date_of (t div Day) = (y, m, d)" by (cases "date_of (t div Day)")
  note dd = date_of_days [OF date]
  have days: "0 \<le> t div Day" "t div Day < 3652059"
    using assms by (auto simp: printable_def Day_def Second_def)
  have y: "1 \<le> y" "y \<le> 9999" using year_bounds [OF days] dd(6) by simp_all
  define s where "s = nat ((t mod Day) div Second)"
  define ns where "ns = nat (t mod Second)"
  have s: "int s = (t mod Day) div Second" "s < 86400" by (auto simp: s_def Day_def Second_def)
  have ns: "int ns = t mod Second" "ns < 10 ^ 9" by (auto simp: ns_def Second_def)
  have t: "t = (t div Day) * Day + int s * Second + int ns"
  proof -
    have "t mod Second = (t mod Day) mod Second" by (simp add: Day_def Second_def mod_mod_cancel)
    then show ?thesis using s(1) ns(1) by (metis add.assoc div_mult_mod_eq)
  qed
  have m: "m < 100" "1 \<le> m" "m \<le> 12" using dd(2,3) by simp_all
  have "month_lengths y ! (m - 1) \<le> 31"
  proof -
    have "\<forall>l \<in> set (month_lengths y). l \<le> 31" "m - 1 < length (month_lengths y)" using m by (auto simp: month_lengths_def)
    then show ?thesis using nth_mem by blast
  qed
  then have d: "d < 100" "1 \<le> d" using dd(4,5) by simp_all
  have yt: "year_text y = pad_num 4 (nat y)" "length (pad_num 4 (nat y)) = 4"
    using y by (simp_all add: year_text_def length_pad)
  note hms = clock_split [OF s(2)]
  have small: "s div 3600 < 100" "s mod 60 < 100" "s div 60 mod 60 < 100" "\<not> 23 < s div 3600" "\<not> 59 < s mod 60" "\<not> 59 < s div 60 mod 60"
    using hms(1) mod_less_divisor [of 60 s] mod_less_divisor [of 60 "s div 60"] by linarith+
  have sum: "days_of y m d * Day + int (s div 3600 * 3600 + s div 60 mod 60 * 60 + s mod 60) * Second + int ns = t"
    unfolding hms(2) dd(1) using t by simp
  have fmt: "format_nano t = pad_num 4 (nat y) @ CHR ''-'' # pad_num 2 m @ CHR ''-'' # pad_num 2 d @ CHR ''T'' # pad_num 2 (s div 3600)
      @ CHR '':'' # pad_num 2 (s div 60 mod 60) @ CHR '':'' # pad_num 2 (s mod 60) @ frac_text ns @ ''Z''"
    unfolding format_nano_def date s_def ns_def Let_def prod.case using yt(1) by simp
  have z: "p_zone ''Z'' = Some (0, '''')" by (simp add: p_zone_def)
  show ?thesis
    unfolding fmt parse_nano_def
    using yt(2) digits_pad [of 4 "nat y"] m d small y dd(5) sum
    by (simp add: p_frac_text [OF ns(2), simplified] z Let_def del: of_nat_add of_nat_mult)
qed

end
