(* ===== verification/Enroll.thy ===== *)
theory Enroll
  imports Issue_Life Go_Time
begin

text \<open>
  Enrollment (internal/enroll/enroll.go, requests.go, jobs.go): an identity asks for a
  certificate with a token or as itself; the request is either issued at once or stored until
  an operator approves it, which queues a job that a worker claims and issues. The token
  verifier is the auth service, an argument of \<open>Enroll\<close>. A worker holds copies of the jobs it
  claimed until it has processed them, so claims, processing and the operators' requests
  interleave; \<open>Enroll_Props\<close> runs them as one transition system.
\<close>

definition ReasonTokenExpired :: string where "ReasonTokenExpired = ''enrollment_token_expired''"
definition ReasonTokenNotYetValid :: string where "ReasonTokenNotYetValid = ''enrollment_token_not_yet_valid''"
definition ReasonTokenUsed :: string where "ReasonTokenUsed = ''enrollment_token_used''"
definition ReasonTokenInvalid :: string where "ReasonTokenInvalid = ''enrollment_token_invalid''"
definition ReasonSpiffeIDNotAllowed :: string where "ReasonSpiffeIDNotAllowed = ''enrollment_spiffe_id_not_allowed''"
definition ReasonTrustDomainMismatch :: string where "ReasonTrustDomainMismatch = ''enrollment_trust_domain_mismatch''"

text \<open>\<open>RefusalError.TokenRefused\<close>, of an error that is one.\<close>

fun TokenRefused :: "err \<Rightarrow> bool" where
  "TokenRefused (EnrollRefusal reason _) \<longleftrightarrow>
     reason \<in> set [ReasonTokenExpired, ReasonTokenNotYetValid, ReasonTokenUsed, ReasonTokenInvalid]"
| "TokenRefused _ \<longleftrightarrow> False"

record enroll_grant =
  egTenantID :: string
  egSpiffePaths :: "string list"

definition authorises :: "enroll_grant \<Rightarrow> string \<Rightarrow> bool" where
  "authorises g spiffeID = list_ex (\<lambda>p. p = spiffeID) (egSpiffePaths g)"

text \<open>The loop of \<open>refusal\<close>; the detail of a refusal is the list of expected trust domains.\<close>

fun refusal_loop :: "string \<Rightarrow> string list \<Rightarrow> string list \<Rightarrow> err" where
  "refusal_loop trustDomain domains [] =
     (if domains = [] then EnrollRefusal ReasonSpiffeIDNotAllowed [] else EnrollRefusal ReasonTrustDomainMismatch domains)"
| "refusal_loop trustDomain domains (p # ps) =
     (case ParseSPIFFEID p of
        Inl _ \<Rightarrow> refusal_loop trustDomain domains ps
      | Inr sid \<Rightarrow>
          (let td = spTrustDomain sid
           in if td = trustDomain then EnrollRefusal ReasonSpiffeIDNotAllowed []
              else refusal_loop trustDomain (if td \<in> set domains then domains else domains @ [td]) ps))"

definition refusal :: "enroll_grant \<Rightarrow> string \<Rightarrow> err" where
  "refusal g trustDomain = refusal_loop trustDomain [] (egSpiffePaths g)"

type_synonym token_verifier = "string \<Rightarrow> enroll_grant result"

record enroll_config =
  ecAutoApprove :: bool
  ecMaxAttempts :: int

text \<open>The default \<open>New\<close> applies.\<close>

definition EnrollNew :: "enroll_config \<Rightarrow> enroll_config" where
  "EnrollNew cfg = (if ecMaxAttempts cfg \<le> 0 then cfg\<lparr>ecMaxAttempts := 5\<rparr> else cfg)"

record enroll_input =
  eiSpiffeID :: string
  eiCSRPEM :: string
  eiEnrollmentToken :: string

record enroll_result =
  erStatus :: string
  erRequestID :: string
  erBundle :: "cert_bundle option"

definition enroll_event ::
  "string \<Rightarrow> string \<Rightarrow> string \<Rightarrow> string \<Rightarrow> string \<Rightarrow> string \<Rightarrow> string \<Rightarrow> string \<Rightarrow> (string \<times> jval) list \<Rightarrow> audit_event" where
  "enroll_event tenant etype akind aid skind sid outcome reason details =
     \<lparr>evTenantID = tenant, evEventType = etype, evActorKind = akind, evActorID = aid, evSubjectKind = skind,
      evSubjectID = sid, evSubjectName = '''', evOutcome = outcome, evReason = reason, evCorrelationID = '''',
      evDetails = details\<rparr>"

definition refuse :: "world \<Rightarrow> string \<Rightarrow> string \<Rightarrow> string \<Rightarrow> string \<Rightarrow> string \<Rightarrow> world" where
  "refuse w tenant akind aid spiffeID reason =
     (if tenant = '''' then w
      else emit w (enroll_event tenant ''enrollment_refused'' akind aid ''request'' '''' ''refused'' reason
                     [(''spiffe_id'', JStr spiffeID)]))"

definition orTenant :: "string \<Rightarrow> string \<Rightarrow> string" where
  "orTenant a b = (if a \<noteq> '''' then a else b)"

definition encodeCursor :: "time \<Rightarrow> string \<Rightarrow> string" where
  "encodeCursor ts i = format_nano ts @ CHR ''|'' # i"

definition decodeCursor :: "string \<Rightarrow> (time \<times> string) result" where
  "decodeCursor c =
     (case c of
        [] \<Rightarrow> Inr (0, '''')
      | x # xs \<Rightarrow>
          (case dropWhile (\<lambda>b. b \<noteq> CHR ''|'') xs of
             [] \<Rightarrow> Inl (EnrollInvalid ''cursor'' ''bad cursor'')
           | _ # i \<Rightarrow>
               (case parse_nano (x # takeWhile (\<lambda>b. b \<noteq> CHR ''|'') xs) of
                  None \<Rightarrow> Inl (EnrollInvalid ''cursor'' ''bad cursor'')
                | Some ts \<Rightarrow> Inr (ts, i))))"

subsection \<open>Certificate requests\<close>

record request_input =
  riIssuerID :: string
  riSpiffeID :: string
  riCSRPEM :: string
  riValiditySeconds :: int
  riDNSSans :: "string list"

record request_view =
  qvID :: string
  qvKind :: string
  qvSpiffeID :: string
  qvIssuerID :: string
  qvStatus :: string
  qvSANs :: "string list"
  qvValiditySeconds :: int
  qvRequestedBy :: string
  qvRequesterKind :: string
  qvApprover :: string
  qvReason :: string
  qvHasCSR :: bool
  qvCertificateID :: string
  qvCreatedAt :: string
  qvUpdatedAt :: string

definition requestView :: "cert_request \<Rightarrow> request_view" where
  "requestView r =
     \<lparr>qvID = rqID r, qvKind = (if rqKind r = '''' then ''svid'' else rqKind r), qvSpiffeID = rqSpiffeID r,
      qvIssuerID = strp (rqIssuerID r), qvStatus = rqStatus r, qvSANs = sansList (rqSANs r),
      qvValiditySeconds = rqValiditySeconds r, qvRequestedBy = rqRequestedBy r, qvRequesterKind = rqRequesterKind r,
      qvApprover = strp (rqApprover r), qvReason = strp (rqReason r), qvHasCSR = (rqCSRPEM r \<noteq> None),
      qvCertificateID = strp (rqCertificateID r), qvCreatedAt = format_nano (rqCreatedAt r),
      qvUpdatedAt = format_nano (rqUpdatedAt r)\<rparr>"

definition actorKind :: "string \<Rightarrow> string" where
  "actorKind requesterKind = (if requesterKind = ''token'' \<or> requesterKind = ''service'' then ''service'' else ''user'')"

definition createRequest ::
  "crypto \<Rightarrow> string \<Rightarrow> world \<Rightarrow> string \<Rightarrow> string \<Rightarrow> string \<Rightarrow> request_input \<Rightarrow> request_view result \<times> world" where
  "createRequest cr newID w tenant requestedBy requesterKind inp =
     (case ParseSPIFFEID (riSpiffeID inp) of
        Inl _ \<Rightarrow> (Inl (EnrollInvalid ''spiffe_id'' ''invalid SPIFFE ID''), w)
      | Inr sid \<Rightarrow>
          if riCSRPEM inp \<noteq> '''' \<and> isl (ParseCSR (crPemDecode cr) (crParseRequest cr) (riCSRPEM inp))
          then (Inl (EnrollInvalid ''csr'' ''certificate request rejected''), w)
          else
            (let issuerID = (if riIssuerID inp \<noteq> '''' then riIssuerID inp
                             else (case DefaultIssuer w tenant (spTrustDomain sid) of Inl _ \<Rightarrow> '''' | Inr d \<Rightarrow> isID d));
                 row = \<lparr>rqID = newID, rqTenantID = tenant, rqIssuerID = ptrOrNil issuerID, rqKind = '''',
                        rqSpiffeID = riSpiffeID inp, rqSANs = Some (riDNSSans inp), rqKeyType = '''',
                        rqCSRPEM = ptrOrNil (riCSRPEM inp), rqValiditySeconds = riValiditySeconds inp,
                        rqRequestedBy = requestedBy, rqRequesterKind = requesterKind, rqStatus = ''pending'',
                        rqApprover = None, rqReason = None, rqCertificateID = None, rqCreatedAt = 0, rqUpdatedAt = 0\<rparr>
             in (case InsertRequest w row of
                   (Inl e, w) \<Rightarrow>
                     (Inl (if errors_is_conflict e then EnrollInvalid ''issuer_id'' ''unknown issuer'' else e), w)
                 | (Inr _, w) \<Rightarrow>
                     (let w = emit w (enroll_event tenant ''certificate_requested'' (actorKind requesterKind) requestedBy
                                ''request'' newID ''ok'' ''''
                                [(''spiffe_id'', JStr (riSpiffeID inp)), (''requester_kind'', JStr requesterKind)])
                      in (on_val (GetRequest w tenant newID) (\<lambda>got. Inr (requestView got)), w)))))"

definition CreateRequestOp ::
  "crypto \<Rightarrow> string \<Rightarrow> world \<Rightarrow> subjects \<Rightarrow> request_input \<Rightarrow> request_view result \<times> world" where
  "CreateRequestOp cr newID w subj inp = createRequest cr newID w (sbTenantID subj) (ActorID subj) (ActorKind subj) inp"

definition requestIssuerID :: "world \<Rightarrow> string \<Rightarrow> cert_request \<Rightarrow> string result" where
  "requestIssuerID w tenant r =
     (if rqIssuerID r \<noteq> None \<and> strp (rqIssuerID r) \<noteq> '''' then Inr (strp (rqIssuerID r))
      else
        (case ParseSPIFFEID (rqSpiffeID r) of
           Inl _ \<Rightarrow> Inl StoreNotFound
         | Inr sid \<Rightarrow> on_val (DefaultIssuer w tenant (spTrustDomain sid)) (\<lambda>d. Inr (isID d))))"

definition authorizeReadRequest :: "world \<Rightarrow> subjects \<Rightarrow> cert_request \<Rightarrow> unit result" where
  "authorizeReadRequest w subj r =
     (if ActorID subj \<noteq> '''' \<and> rqRequestedBy r = ActorID subj then Inr ()
      else
        (case requestIssuerID w (sbTenantID subj) r of
           Inl _ \<Rightarrow> Inl AuthzForbidden
         | Inr issuerID \<Rightarrow> Check w subj ''issuer'' issuerID ''read''))"

definition GetRequestOp :: "world \<Rightarrow> subjects \<Rightarrow> string \<Rightarrow> request_view result" where
  "GetRequestOp w subj i =
     on_val (GetRequest w (sbTenantID subj) i) (\<lambda>r.
     on_val (authorizeReadRequest w subj r) (\<lambda>_. Inr (requestView r)))"

record page_filter =
  pfStatus :: string
  pfCursor :: string
  pfLimit :: int

definition ListRequestsOp :: "world \<Rightarrow> subjects \<Rightarrow> page_filter \<Rightarrow> (request_view list \<times> string) result" where
  "ListRequestsOp w subj f =
     on_val (decodeCursor (pfCursor f)) (\<lambda>(ts, i).
     (let limit = (if pfLimit f \<le> 0 \<or> pfLimit f > 100 then 50 else pfLimit f)
      in on_val (ListRequests w (sbTenantID subj) \<lparr>rfStatus = pfStatus f, rfCursorTS = ts, rfCursorID = i, rfLimit = limit\<rparr>) (\<lambda>rs.
           Inr (map requestView (filter (\<lambda>r. \<not> isl (authorizeReadRequest w subj r)) rs),
                if int (length rs) = limit then encodeCursor (rqCreatedAt (last rs)) (rqID (last rs)) else ''''))))"

definition new_job :: "string \<Rightarrow> string \<Rightarrow> string \<Rightarrow> int \<Rightarrow> time \<Rightarrow> cert_job" where
  "new_job jobID tenant requestID maxAttempts runAfter =
     \<lparr>jbID = jobID, jbTenantID = tenant, jbRequestID = requestID, jbType = ''issue'', jbStatus = ''queued'',
      jbLeaseUntil = None, jbAttempts = 0, jbMaxAttempts = maxAttempts, jbResultCertificateID = None, jbError = None,
      jbRunAfter = runAfter, jbCreatedAt = 0, jbUpdatedAt = 0\<rparr>"

definition approve_tx :: "string \<Rightarrow> string \<Rightarrow> string \<Rightarrow> string \<Rightarrow> cert_job \<Rightarrow> world \<Rightarrow> unit result \<times> world" where
  "approve_tx tenant i approver reason job w =
     on_ok (SetRequestStatus w tenant i ''approved'' (ptrOrNil approver) (ptrOrNil reason)) (\<lambda>_ w. InsertJob w job)"

text \<open>What \<open>ApproveRequest\<close> and \<open>RejectRequest\<close> check before they write: the pending row.\<close>

definition decidable_request :: "world \<Rightarrow> subjects \<Rightarrow> string \<Rightarrow> string \<Rightarrow> cert_request result" where
  "decidable_request w subj i target =
     on_val (GetRequest w (sbTenantID subj) i) (\<lambda>r.
     on_val (requestIssuerID w (sbTenantID subj) r) (\<lambda>issuerID.
     on_val (Check w subj ''issuer'' issuerID ''write'') (\<lambda>_.
       if rqStatus r \<noteq> ''pending'' then Inl (EnrollConflict i (rqStatus r) target) else Inr r)))"

definition ApproveRequest ::
  "backend \<Rightarrow> enroll_config \<Rightarrow> string \<Rightarrow> world \<Rightarrow> subjects \<Rightarrow> string \<Rightarrow> string \<Rightarrow> request_view result \<times> world" where
  "ApproveRequest be cfg jobID w subj i reason =
     (case decidable_request w subj i ''approved'' of
        Inl e \<Rightarrow> (Inl e, w)
      | Inr r \<Rightarrow>
          on_ok (Atomic be w (approve_tx (sbTenantID subj) i (ActorID subj) reason
                   (new_job jobID (sbTenantID subj) i (ecMaxAttempts cfg) (mNow w)))) (\<lambda>_ w.
            (let w = emit w (event_of subj ''request_approved'' ''request'' i '''' ''ok'' ''''
                       [(''spiffe_id'', JStr (rqSpiffeID r)), (''job_id'', JStr jobID)])
             in (on_val (GetRequest w (sbTenantID subj) i) (\<lambda>got. Inr (requestView got)), w))))"

definition RejectRequest :: "world \<Rightarrow> subjects \<Rightarrow> string \<Rightarrow> string \<Rightarrow> request_view result \<times> world" where
  "RejectRequest w subj i reason =
     (case decidable_request w subj i ''rejected'' of
        Inl e \<Rightarrow> (Inl e, w)
      | Inr r \<Rightarrow>
          on_ok (SetRequestStatus w (sbTenantID subj) i ''rejected'' (ptrOrNil (ActorID subj)) (ptrOrNil reason)) (\<lambda>_ w.
            (let w = emit w (event_of subj ''request_rejected'' ''request'' i '''' ''ok'' '''' [(''spiffe_id'', JStr (rqSpiffeID r))])
             in (on_val (GetRequest w (sbTenantID subj) i) (\<lambda>got. Inr (requestView got)), w))))"

subsection \<open>Enrolling\<close>

text \<open>Whom the enrollment acts for once the credentials are checked.\<close>

record enroll_actor =
  eaTenant :: string
  eaSubject :: subjects
  eaActorID :: string
  eaRequesterKind :: string

text \<open>
  The first half of \<open>Enroll\<close>: the caller's own identity, or with a token the identity its grant
  names. A verdict without a known reason is reported as an invalid token.
\<close>

definition enroll_as ::
  "token_verifier \<Rightarrow> world \<Rightarrow> subjects \<Rightarrow> enroll_input \<Rightarrow> spiffe_id \<Rightarrow> enroll_actor result \<times> world" where
  "enroll_as tok w subj inp sid =
     (if eiEnrollmentToken inp = '''' then
        (Inr \<lparr>eaTenant = sbTenantID subj, eaSubject = subj, eaActorID = ActorID subj, eaRequesterKind = ActorKind subj\<rparr>, w)
      else
        (case tok (eiEnrollmentToken inp) of
           Inl e \<Rightarrow>
             if e = EnrollVerifierUnavailable then (Inl EnrollVerifierUnavailable, w)
             else
               (let (reason, re) = (case e of
                      EnrollRefusal reason d \<Rightarrow> if TokenRefused e then (reason, e) else (ReasonTokenInvalid, EnrollRefusal ReasonTokenInvalid [])
                    | _ \<Rightarrow> (ReasonTokenInvalid, EnrollRefusal ReasonTokenInvalid []))
                in (Inl re, refuse w (sbTenantID subj) (ActorKind subj) (ActorID subj) (eiSpiffeID inp)
                              (''enrollment token rejected: '' @ reason)))
         | Inr grant \<Rightarrow>
             if \<not> authorises grant (eiSpiffeID inp) then
               (let re = refusal grant (spTrustDomain sid);
                    reason = (case re of EnrollRefusal reason _ \<Rightarrow> reason | _ \<Rightarrow> '''')
                in (Inl re, refuse w (orTenant (egTenantID grant) (sbTenantID subj)) ''service'' (eiSpiffeID inp) (eiSpiffeID inp)
                              (''token does not authorise the requested identity: '' @ reason)))
             else
               (Inr \<lparr>eaTenant = egTenantID grant, eaSubject = ServiceSubjects (egTenantID grant) (eiSpiffeID inp),
                     eaActorID = eiSpiffeID inp, eaRequesterKind = ''token''\<rparr>, w)))"

definition enroll_issue_input :: "enroll_input \<Rightarrow> issue_input" where
  "enroll_issue_input inp =
     \<lparr>iiIssuerID = '''', iiSpiffeID = eiSpiffeID inp, iiCSRPEM = eiCSRPEM inp, iiSubject = '''', iiDNSSans = [],
      iiValiditySeconds = 0, iiDeliverKey = (eiCSRPEM inp = ''''), iiRetainKey = False\<rparr>"

definition enroll_request_input :: "enroll_input \<Rightarrow> request_input" where
  "enroll_request_input inp =
     \<lparr>riIssuerID = '''', riSpiffeID = eiSpiffeID inp, riCSRPEM = eiCSRPEM inp, riValiditySeconds = 0, riDNSSans = []\<rparr>"

definition EnrollOp ::
  "crypto \<Rightarrow> backend \<Rightarrow> entropy \<Rightarrow> token_verifier \<Rightarrow> enroll_config \<Rightarrow> world \<Rightarrow> subjects \<Rightarrow> enroll_input
   \<Rightarrow> enroll_result result \<times> world" where
  "EnrollOp cr be en tok cfg w subj inp =
     (case ParseSPIFFEID (eiSpiffeID inp) of
        Inl _ \<Rightarrow> (Inl (EnrollInvalid ''spiffe_id'' ''invalid SPIFFE ID''), w)
      | Inr sid \<Rightarrow>
          on_ok (enroll_as tok w subj inp sid) (\<lambda>a w.
            if eiCSRPEM inp \<noteq> '''' \<and> isl (ParseCSR (crPemDecode cr) (crParseRequest cr) (eiCSRPEM inp))
            then (Inl (EnrollInvalid ''csr'' ''certificate request rejected''), w)
            else if ecAutoApprove cfg then
              (case IssueCert cr be en w (eaSubject a) (enroll_issue_input inp) of
                 (Inl e, w) \<Rightarrow>
                   (Inl e, refuse w (eaTenant a) (ActorKind (eaSubject a)) (eaActorID a) (eiSpiffeID inp) ''issuance refused'')
               | (Inr b, w) \<Rightarrow>
                   (Inr \<lparr>erStatus = ''issued'', erRequestID = '''', erBundle = Some b\<rparr>,
                    emit w (enroll_event (eaTenant a) ''enrollment_issued'' (ActorKind (eaSubject a)) (eaActorID a) ''certificate''
                      (cvID (buCertificate b)) ''ok'' ''''
                      [(''spiffe_id'', JStr (eiSpiffeID inp)), (''issuer_id'', JStr (cvIssuerID (buCertificate b)))])))
            else
              on_ok (createRequest cr (enID en) w (eaTenant a) (eaActorID a) (eaRequesterKind a) (enroll_request_input inp)) (\<lambda>rv w.
                (Inr \<lparr>erStatus = ''pending'', erRequestID = qvID rv, erBundle = None\<rparr>, w))))"

subsection \<open>Issuance jobs\<close>

record job_view =
  jvID :: string
  jvRequestID :: string
  jvType :: string
  jvStatus :: string
  jvAttempts :: int
  jvMaxAttempts :: int
  jvResultCertificateID :: string
  jvError :: string
  jvRunAfter :: string
  jvCreatedAt :: string
  jvUpdatedAt :: string

definition jobView :: "cert_job \<Rightarrow> job_view" where
  "jobView j =
     \<lparr>jvID = jbID j, jvRequestID = jbRequestID j, jvType = jbType j, jvStatus = jbStatus j, jvAttempts = jbAttempts j,
      jvMaxAttempts = jbMaxAttempts j, jvResultCertificateID = strp (jbResultCertificateID j), jvError = strp (jbError j),
      jvRunAfter = format_nano (jbRunAfter j), jvCreatedAt = format_nano (jbCreatedAt j), jvUpdatedAt = format_nano (jbUpdatedAt j)\<rparr>"

definition authorizeJob :: "world \<Rightarrow> subjects \<Rightarrow> cert_job \<Rightarrow> string \<Rightarrow> unit result" where
  "authorizeJob w subj j action =
     (case on_val (GetRequest w (sbTenantID subj) (jbRequestID j)) (\<lambda>r. requestIssuerID w (sbTenantID subj) r) of
        Inl _ \<Rightarrow> if IsAdmin subj then Inr () else Inl AuthzForbidden
      | Inr issuerID \<Rightarrow> Check w subj ''issuer'' issuerID action)"

definition GetJobOp :: "world \<Rightarrow> subjects \<Rightarrow> string \<Rightarrow> job_view result" where
  "GetJobOp w subj i =
     on_val (GetJob w (sbTenantID subj) i) (\<lambda>j. on_val (authorizeJob w subj j ''read'') (\<lambda>_. Inr (jobView j)))"

definition ListJobsOp :: "world \<Rightarrow> subjects \<Rightarrow> page_filter \<Rightarrow> (job_view list \<times> string) result" where
  "ListJobsOp w subj f =
     on_val (decodeCursor (pfCursor f)) (\<lambda>(ts, i).
     (let limit = (if pfLimit f \<le> 0 \<or> pfLimit f > 100 then 50 else pfLimit f)
      in on_val (ListJobs w (sbTenantID subj) \<lparr>jfStatus = pfStatus f, jfCursorTS = ts, jfCursorID = i, jfLimit = limit\<rparr>) (\<lambda>rs.
           Inr (map jobView (filter (\<lambda>j. \<not> isl (authorizeJob w subj j ''read'')) rs),
                if int (length rs) = limit then encodeCursor (jbCreatedAt (last rs)) (jbID (last rs)) else ''''))))"

definition CancelJob :: "world \<Rightarrow> subjects \<Rightarrow> string \<Rightarrow> job_view result \<times> world" where
  "CancelJob w subj i =
     (case on_val (GetJob w (sbTenantID subj) i) (\<lambda>j.
           on_val (authorizeJob w subj j ''write'') (\<lambda>_.
             if jbStatus j \<noteq> ''queued'' \<and> jbStatus j \<noteq> ''processing'' then Inl (EnrollConflict i (jbStatus j) ''failed'') else Inr j)) of
        Inl e \<Rightarrow> (Inl e, w)
      | Inr j \<Rightarrow>
          on_ok (UpdateJob w (j\<lparr>jbStatus := ''failed'', jbLeaseUntil := None, jbError := Some ''cancelled''\<rparr>)) (\<lambda>_ w.
            (let w = emit w (event_of subj ''enrollment_refused'' ''job'' i '''' ''refused'' ''job cancelled'' [])
             in (on_val (GetJob w (sbTenantID subj) i) (\<lambda>got. Inr (jobView got)), w))))"

definition RetryJob :: "world \<Rightarrow> subjects \<Rightarrow> string \<Rightarrow> job_view result \<times> world" where
  "RetryJob w subj i =
     (case on_val (GetJob w (sbTenantID subj) i) (\<lambda>j.
           on_val (authorizeJob w subj j ''write'') (\<lambda>_.
             if jbStatus j \<noteq> ''failed'' then Inl (EnrollConflict i (jbStatus j) ''queued'')
             else if jbAttempts j \<ge> jbMaxAttempts j then Inl (EnrollConflict i ''attempts_exhausted'' ''queued'') else Inr j)) of
        Inl e \<Rightarrow> (Inl e, w)
      | Inr j \<Rightarrow>
          on_ok (UpdateJob w (j\<lparr>jbStatus := ''queued'', jbError := None, jbLeaseUntil := None, jbRunAfter := mNow w\<rparr>)) (\<lambda>_ w.
            (on_val (GetJob w (sbTenantID subj) i) (\<lambda>got. Inr (jobView got)), w)))"

definition system_event :: "string \<Rightarrow> string \<Rightarrow> string \<Rightarrow> string \<Rightarrow> string \<Rightarrow> string \<Rightarrow> (string \<times> jval) list \<Rightarrow> audit_event" where
  "system_event tenant etype skind sid outcome reason details =
     enroll_event tenant etype ''system'' ''system'' skind sid outcome reason details"

text \<open>\<open>failJob\<close> returns nil whatever the update does.\<close>

definition failJob :: "world \<Rightarrow> cert_job \<Rightarrow> string \<Rightarrow> unit result \<times> world" where
  "failJob w job msg =
     (let w = snd (UpdateJob w (job\<lparr>jbStatus := ''failed'', jbLeaseUntil := None, jbError := ptrOrNil msg\<rparr>))
      in (Inr (), emit w (system_event (jbTenantID job) ''enrollment_refused'' ''job'' (jbID job) ''failed'' msg
            [(''request_id'', JStr (jbRequestID job)), (''attempts'', JNum (jbAttempts job))])))"

text \<open>\<open>scrub\<close>: \<open>errors.As\<close> looks for this package's \<open>ValidationError\<close>.\<close>

definition scrub_err :: "err \<Rightarrow> string" where
  "scrub_err e = (case e of EnrollInvalid field _ \<Rightarrow> ''invalid '' @ field | _ \<Rightarrow> ''issuance failed'')"

definition completed_job :: "cert_job \<Rightarrow> string \<Rightarrow> cert_job" where
  "completed_job job certID =
     job\<lparr>jbStatus := ''completed'', jbResultCertificateID := Some certID, jbError := None, jbLeaseUntil := None\<rparr>"

definition complete_tx :: "cert_job \<Rightarrow> cert_request \<Rightarrow> string \<Rightarrow> string \<Rightarrow> world \<Rightarrow> unit result \<times> world" where
  "complete_tx job r certID grantID w =
     on_ok (UpdateJob w (completed_job job certID)) (\<lambda>_ w.
     on_ok (SetRequestStatus w (jbTenantID job) (rqID r) ''issued'' None None) (\<lambda>_ w.
       if rqRequesterKind r = ''user'' \<and> rqRequestedBy r \<noteq> ''''
       then GrantOwner w (jbTenantID job) ''certificate'' certID (rqRequestedBy r) grantID
       else (Inr (), w)))"

definition job_issue_input :: "cert_request \<Rightarrow> issue_input" where
  "job_issue_input r =
     \<lparr>iiIssuerID = strp (rqIssuerID r), iiSpiffeID = rqSpiffeID r, iiCSRPEM = strp (rqCSRPEM r), iiSubject = '''',
      iiDNSSans = sansList (rqSANs r), iiValiditySeconds = rqValiditySeconds r, iiDeliverKey = False, iiRetainKey = False\<rparr>"

text \<open>
  \<open>ProcessJob\<close>. The transaction's function assigns to the captured \<open>job\<close>, so once it has run,
  even in vain, the failure path writes a job that carries the certificate's id.
\<close>

definition ProcessJob ::
  "crypto \<Rightarrow> backend \<Rightarrow> entropy \<Rightarrow> string \<Rightarrow> world \<Rightarrow> cert_job \<Rightarrow> unit result \<times> world" where
  "ProcessJob cr be en grantID w job =
     (case GetRequest w (jbTenantID job) (jbRequestID job) of
        Inl _ \<Rightarrow> failJob w job ''request unavailable''
      | Inr r \<Rightarrow>
          (case IssueCert cr be en w (ServiceSubjects (jbTenantID job) (rqSpiffeID r)) (job_issue_input r) of
             (Inl e, w) \<Rightarrow> failJob w job (scrub_err e)
           | (Inr b, w) \<Rightarrow>
               (let certID = cvID (buCertificate b)
                in (case Atomic be w (complete_tx job r certID grantID) of
                      (Inl _, w') \<Rightarrow>
                        failJob w' (if fail w ''Atomic'' = None then completed_job job certID else job) ''persisting result failed''
                    | (Inr _, w) \<Rightarrow>
                        (Inr (), emit w (system_event (jbTenantID job) ''enrollment_issued'' ''certificate'' certID ''ok'' ''''
                           [(''spiffe_id'', JStr (rqSpiffeID r)), (''request_id'', JStr (rqID r)), (''job_id'', JStr (jbID job))]))))))"

subsection \<open>The worker\<close>

record scheduler_config =
  skInterval :: duration
  skLease :: duration
  skBatch :: int

definition NewScheduler :: "scheduler_config \<Rightarrow> scheduler_config" where
  "NewScheduler cfg =
     (let cfg = (if skInterval cfg \<le> 0 then cfg\<lparr>skInterval := 15 * Second\<rparr> else cfg);
          cfg = (if skLease cfg \<le> 0 then cfg\<lparr>skLease := Minute\<rparr> else cfg)
      in if skBatch cfg \<le> 0 then cfg\<lparr>skBatch := 50\<rparr> else cfg)"

text \<open>The loop of \<open>Once\<close>; the entropy of each job is drawn as it is processed.\<close>

fun process_all ::
  "crypto \<Rightarrow> backend \<Rightarrow> (nat \<Rightarrow> entropy \<times> string) \<Rightarrow> world \<Rightarrow> nat \<Rightarrow> cert_job list \<Rightarrow> nat \<times> world" where
  "process_all cr be draw w n [] = (n, w)"
| "process_all cr be draw w n (j # js) =
     (case ProcessJob cr be (fst (draw (length js))) (snd (draw (length js))) w j of
        (Inl _, w) \<Rightarrow> process_all cr be draw w n js
      | (Inr _, w) \<Rightarrow> process_all cr be draw w (Suc n) js)"

definition Once ::
  "crypto \<Rightarrow> backend \<Rightarrow> (nat \<Rightarrow> entropy \<times> string) \<Rightarrow> scheduler_config \<Rightarrow> world \<Rightarrow> nat result \<times> world" where
  "Once cr be draw cfg w =
     (case ClaimDueJobs w (mNow w) (skLease cfg) (skBatch cfg) of
        (Inl e, w) \<Rightarrow> (Inl e, w)
      | (Inr due, w) \<Rightarrow> (let (n, w) = process_all cr be draw w 0 due in (Inr n, w)))"

end
