(* ===== verification/Enroll_Queue.thy ===== *)
theory Enroll_Queue
  imports Enroll Store_Props
begin

text \<open>
  The enrollment queue as a transition system: operators and enrolling workloads submit and
  decide requests, any number of workers claim jobs, hold copies of them and process them in
  any order, or crash. The abstract queue (\<open>qstep\<close>) keeps only the requests, the jobs and the
  copies in flight; every step of the service is a sequence of its steps. From it follow that
  no certificate is queued for a request nobody approved, that a request moves only along its
  state machine and keeps its contents, and that attempts stay within their bound.
\<close>

subsection \<open>What the operations write\<close>

lemma on_ok_frame:
  assumes "f (snd r) = f w" "\<And>a. fst r = Inr a \<Longrightarrow> f (snd (k a (snd r))) = f (snd r)"
  shows "f (snd (on_ok r k)) = f w"
  using assms by (cases r; cases "fst r") auto

lemma Atomic_frame:
  assumes "f (snd (fn w)) = f w"
  shows "f (snd (Atomic be w fn)) = f w"
  using assms by (cases "fn w"; cases "fst (fn w)"; cases be) (auto simp: Atomic_def unless_write_def split: option.splits)

lemma GrantOwner_frame [simp]:
  "mRequests (snd (GrantOwner w t rt ri u g)) = mRequests w" "mJobs (snd (GrantOwner w t rt ri u g)) = mJobs w"
  unfolding GrantOwner_def by (auto split: on_splits dest: arg_cong [where f = "\<lambda>p. mRequests (snd p)"] arg_cong [where f = "\<lambda>p. mJobs (snd p)"])

lemma store_cert_frame [simp]:
  "mRequests (snd (store_cert row log u g w)) = mRequests w" "mJobs (snd (store_cert row log u g w)) = mJobs w"
  unfolding store_cert_def by (rule on_ok_frame; simp; rule on_ok_frame; simp)+

lemma mint_frame [simp]:
  "mRequests (snd (mint cr be en w subj issuer sid req)) = mRequests w"
  "mJobs (snd (mint cr be en w subj issuer sid req)) = mJobs w"
proof (atomize (full), cases "mint_row cr en w subj issuer sid req")
  case (Inr p)
  obtain row keyPEM bundlePEM where p: "p = (row, keyPEM, bundlePEM)" by (cases p)
  show "mRequests (snd (mint cr be en w subj issuer sid req)) = mRequests w \<and> mJobs (snd (mint cr be en w subj issuer sid req)) = mJobs w"
    unfolding mint_def Inr p sum.case prod.case Let_def
    by (intro conjI; rule on_ok_frame; (rule Atomic_frame; simp)?; rule on_ok_frame; simp add: on_ok_frame)
qed (simp add: mint_def)

lemma IssueCert_frame [simp]:
  "mRequests (snd (IssueCert cr be en w subj inp)) = mRequests w" "mJobs (snd (IssueCert cr be en w subj inp)) = mJobs w"
  by (auto simp: IssueCert_def split: sum.splits)

lemma refuse_frame [simp]:
  "mRequests (refuse w t k i s r) = mRequests w" "mJobs (refuse w t k i s r) = mJobs w"
  by (simp_all add: refuse_def)

lemma enroll_as_frame [simp]:
  "mRequests (snd (enroll_as tok w subj inp sid)) = mRequests w" "mJobs (snd (enroll_as tok w subj inp sid)) = mJobs w"
  by (auto simp: enroll_as_def Let_def split: sum.splits err.splits)

subsection \<open>The abstract queue\<close>

record queue =
  qR :: "string \<Rightarrow> cert_request option"
  qJ :: "string \<Rightarrow> cert_job option"
  qC :: "cert_job list"

text \<open>The contents of a request: everything but its status and who decided it, when and why.\<close>

definition same_request :: "cert_request \<Rightarrow> cert_request \<Rightarrow> bool" where
  "same_request r r' \<longleftrightarrow>
     r' = r\<lparr>rqStatus := rqStatus r', rqApprover := rqApprover r', rqReason := rqReason r', rqUpdatedAt := rqUpdatedAt r'\<rparr>"

text \<open>An update of a job: its identity is that of the stored row.\<close>

definition same_job :: "cert_job \<Rightarrow> cert_job \<Rightarrow> bool" where
  "same_job j j' \<longleftrightarrow> jbID j' = jbID j \<and> jbTenantID j' = jbTenantID j \<and> jbRequestID j' = jbRequestID j"

inductive qstep :: "queue \<Rightarrow> queue \<Rightarrow> bool" where
  submit: "\<lbrakk>qR q k = None; rqStatus r = ''pending''\<rbrakk> \<Longrightarrow> qstep q (q\<lparr>qR := (qR q)(k \<mapsto> r)\<rparr>)"
| decide: "\<lbrakk>qR q k = Some r; rqStatus r = ''pending''; same_request r r'; rqStatus r' = ''approved'' \<or> rqStatus r' = ''rejected''\<rbrakk>
     \<Longrightarrow> qstep q (q\<lparr>qR := (qR q)(k \<mapsto> r')\<rparr>)"
| approve: "\<lbrakk>qR q k = Some r; rqStatus r = ''pending''; same_request r r'; rqStatus r' = ''approved''; qJ q i = None;
      jbRequestID j = k; jbTenantID j = rqTenantID r; jbStatus j = ''queued''; jbAttempts j = 0; 0 < jbMaxAttempts j\<rbrakk>
     \<Longrightarrow> qstep q (q\<lparr>qR := (qR q)(k \<mapsto> r'), qJ := (qJ q)(i \<mapsto> j)\<rparr>)"
| cancel: "\<lbrakk>qJ q i = Some j; jbStatus j = ''queued'' \<or> jbStatus j = ''processing''; same_job j j'; jbStatus j' = ''failed'';
      jbAttempts j' = jbAttempts j; jbMaxAttempts j' = jbMaxAttempts j\<rbrakk> \<Longrightarrow> qstep q (q\<lparr>qJ := (qJ q)(i \<mapsto> j')\<rparr>)"
| retry: "\<lbrakk>qJ q i = Some j; jbStatus j = ''failed''; jbAttempts j < jbMaxAttempts j; same_job j j'; jbStatus j' = ''queued'';
      jbAttempts j' = jbAttempts j; jbMaxAttempts j' = jbMaxAttempts j\<rbrakk> \<Longrightarrow> qstep q (q\<lparr>qJ := (qJ q)(i \<mapsto> j')\<rparr>)"
| claim: "\<lbrakk>qJ q i = Some j; jbID j = i; jbStatus j = ''queued''; same_job j c; jbStatus c = ''processing''; jbAttempts c = jbAttempts j + 1;
      jbMaxAttempts c = jbMaxAttempts j\<rbrakk> \<Longrightarrow> qstep q (q\<lparr>qJ := (qJ q)(i \<mapsto> c), qC := qC q @ [c]\<rparr>)"
| finish: "\<lbrakk>c \<in> set (qC q); qJ q (jbID c) = Some j; jbTenantID j = jbTenantID c; same_job j j'; jbAttempts j' = jbAttempts c;
      jbMaxAttempts j' = jbMaxAttempts c; jbStatus j' = ''failed'' \<or> jbStatus j' = ''completed'' \<and> jbResultCertificateID j' \<noteq> None\<rbrakk>
     \<Longrightarrow> qstep q (q\<lparr>qJ := (qJ q)(jbID c \<mapsto> j')\<rparr>)"
| issued: "\<lbrakk>c \<in> set (qC q); qR q (jbRequestID c) = Some r; same_request r r'; rqStatus r' = ''issued''\<rbrakk>
     \<Longrightarrow> qstep q (q\<lparr>qR := (qR q)(jbRequestID c \<mapsto> r')\<rparr>)"
| drop: "qstep q (q\<lparr>qC := remove1 c (qC q)\<rparr>)"

inductive_cases qstepE: "qstep q q'"

abbreviation qsteps :: "queue \<Rightarrow> queue \<Rightarrow> bool" where
  "qsteps \<equiv> qstep\<^sup>*\<^sup>*"

text \<open>
  The invariant: every job, stored or in flight, belongs to a request that was approved; a job
  still to be claimed has an attempt left, and none has used more than it may; a request has at
  most one job.
\<close>

definition approved_request :: "queue \<Rightarrow> string \<Rightarrow> string \<Rightarrow> bool" where
  "approved_request q k tid \<longleftrightarrow>
     (\<exists>r. qR q k = Some r \<and> rqTenantID r = tid \<and> (rqStatus r = ''approved'' \<or> rqStatus r = ''issued''))"

definition job_ok :: "queue \<Rightarrow> cert_job \<Rightarrow> bool" where
  "job_ok q j \<longleftrightarrow> approved_request q (jbRequestID j) (jbTenantID j) \<and> 0 \<le> jbAttempts j \<and> jbAttempts j \<le> jbMaxAttempts j
     \<and> (jbStatus j = ''queued'' \<longrightarrow> jbAttempts j < jbMaxAttempts j)
     \<and> (jbStatus j = ''completed'' \<longrightarrow> jbResultCertificateID j \<noteq> None)
     \<and> jbStatus j \<in> {''queued'', ''processing'', ''completed'', ''failed''}"

definition queue_ok :: "queue \<Rightarrow> bool" where
  "queue_ok q \<longleftrightarrow>
     (\<forall>i j. qJ q i = Some j \<longrightarrow> job_ok q j)
     \<and> (\<forall>i i' j j'. qJ q i = Some j \<longrightarrow> qJ q i' = Some j' \<longrightarrow> jbRequestID j = jbRequestID j' \<longrightarrow> i = i')
     \<and> (\<forall>c \<in> set (qC q). job_ok q c \<and> jbStatus c = ''processing'' \<and> (\<exists>j. qJ q (jbID c) = Some j \<and> same_job j c))"

text \<open>The state machine of a request.\<close>

definition req_moves :: "string \<Rightarrow> string \<Rightarrow> bool" where
  "req_moves st st' \<longleftrightarrow> st = st' \<or> st = ''pending'' \<or> st = ''approved'' \<and> st' = ''issued''"

lemma req_moves_trans: "req_moves a b \<Longrightarrow> req_moves b c \<Longrightarrow> req_moves a c"
  by (auto simp: req_moves_def)

lemma same_request_refl [simp]: "same_request r r"
  by (simp add: same_request_def)

lemma same_request_trans: "same_request r r' \<Longrightarrow> same_request r' r'' \<Longrightarrow> same_request r r''"
  unfolding same_request_def by (cases r; cases r'; cases r''; hypsubst_thin) simp

lemma same_request_tenant: "same_request r r' \<Longrightarrow> rqTenantID r' = rqTenantID r"
  unfolding same_request_def by (cases r; cases r'; hypsubst_thin) simp

lemma approved_mono: "qstep q q' \<Longrightarrow> approved_request q k t \<Longrightarrow> approved_request q' k t"
  by (erule qstepE) (auto simp: approved_request_def dest: same_request_tenant)

lemma job_ok_mono: "qstep q q' \<Longrightarrow> job_ok q j \<Longrightarrow> job_ok q' j"
  by (auto simp: job_ok_def dest: approved_mono)

lemma undecided_no_job:
  assumes "queue_ok q" "qR q k = Some r" "rqStatus r \<noteq> ''approved''" "rqStatus r \<noteq> ''issued''"
  shows "qJ q i = Some j \<Longrightarrow> jbRequestID j \<noteq> k" "c \<in> set (qC q) \<Longrightarrow> jbRequestID c \<noteq> k"
proof -
  have no: "\<not> job_ok q x" if "jbRequestID x = k" for x
    using that assms(2-4) by (auto simp: job_ok_def approved_request_def)
  show "qJ q i = Some j \<Longrightarrow> jbRequestID j \<noteq> k" "c \<in> set (qC q) \<Longrightarrow> jbRequestID c \<noteq> k"
    using assms(1) no unfolding queue_ok_def by blast+
qed

lemma qstep_ok:
  assumes "qstep q q'" "queue_ok q"
  shows "queue_ok q'"
proof -
  note mono = job_ok_mono [OF assms(1)]
  have jobs: "job_ok q j" if "qJ q i = Some j" for i j using assms(2) that by (auto simp: queue_ok_def)
  have uniq: "i = i'" if "qJ q i = Some j" "qJ q i' = Some j'" "jbRequestID j = jbRequestID j'" for i i' j j'
    using assms(2) that by (auto simp: queue_ok_def)
  have held: "job_ok q c \<and> jbStatus c = ''processing''" "\<exists>j. qJ q (jbID c) = Some j \<and> same_job j c"
    if "c \<in> set (qC q)" for c using assms(2) that by (auto simp: queue_ok_def)
  have update: "queue_ok q'" if q': "q' = q\<lparr>qJ := (qJ q)(i \<mapsto> j'), qC := cs\<rparr>" and j: "qJ q i = Some j" "same_job j j'"
    and ok: "job_ok q' j'" and cs: "\<And>c. c \<in> set cs \<Longrightarrow> c \<in> set (qC q) \<or> c = j' \<and> jbID j' = i \<and> jbStatus j' = ''processing''" for i j j' cs
    unfolding queue_ok_def
  proof (intro conjI allI impI ballI)
    fix a b assume "qJ q' a = Some b"
    then show "job_ok q' b" using ok jobs mono by (auto simp: q' split: if_splits)
  next
    fix a a' b b' assume "qJ q' a = Some b" "qJ q' a' = Some b'" "jbRequestID b = jbRequestID b'"
    then show "a = a'" using uniq j by (auto simp: q' same_job_def split: if_splits)
  next
    fix c assume "c \<in> set (qC q')"
    with cs consider "c \<in> set (qC q)" | "c = j'" "jbID j' = i" "jbStatus j' = ''processing''" by (auto simp: q')
    then have "job_ok q' c \<and> jbStatus c = ''processing'' \<and> (\<exists>b. qJ q' (jbID c) = Some b \<and> same_job b c)"
    proof cases
      case 1
      from held(2) [OF 1] obtain b where "qJ q (jbID c) = Some b" "same_job b c" by blast
      then show ?thesis using held(1) [OF 1] mono j by (auto simp: q' same_job_def)
    qed (use ok in \<open>auto simp: q' same_job_def\<close>)
    then show "job_ok q' c" "jbStatus c = ''processing''" "\<exists>b. qJ q' (jbID c) = Some b \<and> same_job b c" by simp_all
  qed
  have requests: "queue_ok q'" if "qJ q' = qJ q" "set (qC q') \<subseteq> set (qC q)"
    unfolding queue_ok_def that(1) using that(2) jobs uniq held mono by (intro conjI allI impI ballI) blast+
  from assms(1) show ?thesis
  proof (cases rule: qstep.cases)
    case (approve k r r' i j)
    note none = undecided_no_job [OF assms(2) approve(2)]
    have new: "job_ok q' j" using approve same_request_tenant [OF approve(4)]
      by (auto simp: job_ok_def approved_request_def)
    show ?thesis unfolding queue_ok_def
    proof (intro conjI allI impI ballI)
      fix a b assume "qJ q' a = Some b"
      then show "job_ok q' b" using new approve(1) jobs mono by (auto split: if_splits)
    next
      fix a a' b b' assume "qJ q' a = Some b" "qJ q' a' = Some b'" "jbRequestID b = jbRequestID b'"
      then show "a = a'" using uniq none approve by (auto split: if_splits)
    next
      fix c assume "c \<in> set (qC q')"
      then have c: "c \<in> set (qC q)" using approve(1) by simp
      then show "job_ok q' c" "jbStatus c = ''processing''" using held mono by blast+
      show "\<exists>b. qJ q' (jbID c) = Some b \<and> same_job b c" using held(2) [OF c] approve(1,6) by auto
    qed
  next
    case (cancel i j j')
    then show ?thesis using jobs [OF cancel(2)]
      by (intro update [where i = i and j = j and j' = j' and cs = "qC q"]) (auto simp: job_ok_def same_job_def approved_request_def)
  next
    case (retry i j j')
    then show ?thesis using jobs [OF retry(2)]
      by (intro update [where i = i and j = j and j' = j' and cs = "qC q"]) (auto simp: job_ok_def same_job_def approved_request_def)
  next
    case (claim i j c)
    then show ?thesis using jobs [OF claim(2)]
      by (intro update [where i = i and j = j and j' = c and cs = "qC q @ [c]"]) (auto simp: job_ok_def same_job_def approved_request_def)
  next
    case (finish c j j')
    have ids: "jbRequestID j' = jbRequestID j" "jbTenantID j' = jbTenantID j" using finish(5) by (simp_all add: same_job_def)
    have "approved_request q' (jbRequestID j) (jbTenantID j)"
      using approved_mono [OF assms(1)] jobs [OF finish(3)] by (simp add: job_ok_def)
    moreover have "0 \<le> jbAttempts c" "jbAttempts c \<le> jbMaxAttempts c" using held(1) [OF finish(2)] by (simp_all add: job_ok_def)
    ultimately have "job_ok q' j'" unfolding job_ok_def ids finish(6,7) using finish(8) by auto
    then show ?thesis
      by (intro update [where i = "jbID c" and j = j and j' = j' and cs = "qC q"]) (use finish in simp_all)
  next
    case (drop c)
    then show ?thesis by (intro requests) (simp_all add: set_remove1_subset)
  qed (intro requests; simp)+
qed

lemma qstep_request:
  assumes "qstep q q'" "queue_ok q" "qR q k = Some r"
  shows "\<exists>r'. qR q' k = Some r' \<and> same_request r r' \<and> req_moves (rqStatus r) (rqStatus r')"
  using assms(1)
proof (cases rule: qstep.cases)
  case (issued c a b)
  have "job_ok q c" using issued(2) assms(2) by (auto simp: queue_ok_def)
  then show ?thesis using issued assms(3) by (cases "jbRequestID c = k") (auto simp: job_ok_def approved_request_def req_moves_def)
qed (use assms(3) in \<open>auto simp: req_moves_def\<close>)

lemma qsteps_ok: "qsteps q q' \<Longrightarrow> queue_ok q \<Longrightarrow> queue_ok q'"
  by (induction rule: rtranclp_induct) (auto intro: qstep_ok)

lemma qsteps_request:
  assumes "qsteps q q'" "queue_ok q" "qR q k = Some r"
  shows "\<exists>r'. qR q' k = Some r' \<and> same_request r r' \<and> req_moves (rqStatus r) (rqStatus r')"
  using assms(1)
proof (induction rule: rtranclp_induct)
  case (step q1 q2)
  then obtain r1 where r1: "qR q1 k = Some r1" "same_request r r1" "req_moves (rqStatus r) (rqStatus r1)" by blast
  from qstep_request [OF step(2) qsteps_ok [OF step(1) assms(2)] r1(1)] r1(2,3) show ?case
    by (blast intro: same_request_trans req_moves_trans)
qed (simp add: assms(3) req_moves_def)

subsection \<open>The service as a transition system\<close>

record enroll_state =
  esWorld :: world
  esClaimed :: "cert_job list"

abbreviation queue_of :: "world \<Rightarrow> cert_job list \<Rightarrow> queue" where
  "queue_of w cs \<equiv> \<lparr>qR = map_of (mRequests w), qJ = map_of (mJobs w), qC = cs\<rparr>"

text \<open>What \<open>store.NewID\<close> promises: ids no row has.\<close>

definition fresh_ids :: "world \<Rightarrow> entropy \<Rightarrow> bool" where
  "fresh_ids w en \<longleftrightarrow> map_of (mRequests w) (enID en) = None \<and> map_of (mCertificates w) (enID en) = None
     \<and> map_of (mGrants w) (enGrantID en) = None"

text \<open>
  One step: a call of the API, a claim by some worker, the processing of one claimed job, a
  worker that dies with a claimed job, or the clock.
\<close>

inductive enroll_step ::
  "crypto \<Rightarrow> backend \<Rightarrow> token_verifier \<Rightarrow> enroll_config \<Rightarrow> enroll_state \<Rightarrow> enroll_state \<Rightarrow> bool"
  for cr be tok cfg where
  enroll: "fresh_ids (esWorld s) en \<Longrightarrow>
     enroll_step cr be tok cfg s (s\<lparr>esWorld := snd (EnrollOp cr be en tok cfg (esWorld s) subj inp)\<rparr>)"
| create: "map_of (mRequests (esWorld s)) k = None \<Longrightarrow>
     enroll_step cr be tok cfg s (s\<lparr>esWorld := snd (CreateRequestOp cr k (esWorld s) subj rin)\<rparr>)"
| approve_request: "map_of (mJobs (esWorld s)) k = None \<Longrightarrow>
     enroll_step cr be tok cfg s (s\<lparr>esWorld := snd (ApproveRequest be cfg k (esWorld s) subj i reason)\<rparr>)"
| reject_request: "enroll_step cr be tok cfg s (s\<lparr>esWorld := snd (RejectRequest (esWorld s) subj i reason)\<rparr>)"
| cancel_job: "enroll_step cr be tok cfg s (s\<lparr>esWorld := snd (CancelJob (esWorld s) subj i)\<rparr>)"
| retry_job: "enroll_step cr be tok cfg s (s\<lparr>esWorld := snd (RetryJob (esWorld s) subj i)\<rparr>)"
| claim_jobs: "ClaimDueJobs (esWorld s) now lease batch = (Inr due, w) \<Longrightarrow>
     enroll_step cr be tok cfg s \<lparr>esWorld = w, esClaimed = esClaimed s @ due\<rparr>"
| process_job: "\<lbrakk>c \<in> set (esClaimed s); fresh_ids (esWorld s) en; map_of (mGrants (esWorld s)) g = None; g \<noteq> enGrantID en\<rbrakk> \<Longrightarrow>
     enroll_step cr be tok cfg s
       \<lparr>esWorld = snd (ProcessJob cr be en g (esWorld s) c), esClaimed = remove1 c (esClaimed s)\<rparr>"
| crash: "enroll_step cr be tok cfg s (s\<lparr>esClaimed := remove1 c (esClaimed s)\<rparr>)"
| tick: "mNow (esWorld s) \<le> now \<Longrightarrow> enroll_step cr be tok cfg s (s\<lparr>esWorld := (esWorld s)\<lparr>mNow := now\<rparr>\<rparr>)"

lemma SetRequestStatus_cases:
  obtains (same) "snd (SetRequestStatus w t k st ap re) = w" "fst (SetRequestStatus w t k st ap re) \<noteq> Inr ()"
  | (set) r r' where "map_of (mRequests w) k = Some r" "rqTenantID r = t" "same_request r r'" "rqStatus r' = st"
      "map_of (mRequests (snd (SetRequestStatus w t k st ap re))) = (map_of (mRequests w))(k \<mapsto> r')"
proof (cases "fail w ''SetRequestStatus''")
  case None
  show thesis
  proof (cases "tenant_lookup rqTenantID (mRequests w) t k")
    case (Inr r)
    let ?r' = "r\<lparr>rqStatus := st, rqApprover := (if ap \<noteq> None then ap else rqApprover r),
      rqReason := (if re \<noteq> None then re else rqReason r), rqUpdatedAt := mNow w\<rparr>"
    from Inr have "map_of (mRequests w) k = Some r" "rqTenantID r = t" by (simp_all add: tenant_lookup_Inr)
    then show thesis
      by (rule set [of r ?r']) (simp_all add: None Inr SetRequestStatus_def unless_write_def Let_def same_request_def)
  qed (use None same in \<open>simp add: SetRequestStatus_def unless_write_def\<close>)
qed (use same in \<open>simp add: SetRequestStatus_def unless_write_def\<close>)

lemma UpdateJob_cases:
  obtains (same) "snd (UpdateJob w j) = w"
  | (set) old new where "map_of (mJobs w) (jbID j) = Some old" "jbTenantID old = jbTenantID j" "same_job old new" "jbStatus new = jbStatus j"
      "jbAttempts new = jbAttempts j" "jbMaxAttempts new = jbMaxAttempts j" "jbResultCertificateID new = jbResultCertificateID j"
      "map_of (mJobs (snd (UpdateJob w j))) = (map_of (mJobs w))(jbID j \<mapsto> new)"
proof (cases "fail w ''UpdateJob''")
  case None
  show thesis
  proof (cases "tenant_lookup jbTenantID (mJobs w) (jbTenantID j) (jbID j)")
    case (Inr old)
    let ?new = "old\<lparr>jbStatus := jbStatus j, jbLeaseUntil := jbLeaseUntil j, jbAttempts := jbAttempts j,
      jbMaxAttempts := jbMaxAttempts j, jbResultCertificateID := jbResultCertificateID j,
      jbError := jbError j, jbRunAfter := jbRunAfter j, jbUpdatedAt := mNow w\<rparr>"
    from Inr have "map_of (mJobs w) (jbID j) = Some old" "jbTenantID old = jbTenantID j" by (simp_all add: tenant_lookup_Inr)
    then show thesis
      by (rule set [of old ?new]) (simp_all add: None Inr UpdateJob_def unless_write_def Let_def same_job_def)
  qed (use None same in \<open>simp add: UpdateJob_def unless_write_def\<close>)
qed (use same in \<open>simp add: UpdateJob_def unless_write_def\<close>)

lemma InsertRequest_cases:
  obtains (same) "snd (InsertRequest w r) = w" | (new) r' where "rqStatus r' = rqStatus r"
    "map_of (mRequests (snd (InsertRequest w r))) = (map_of (mRequests w))(rqID r \<mapsto> r')"
proof (cases "fst (InsertRequest w r)")
  case (Inr u)
  let ?r' = "r\<lparr>rqKind := (if rqKind r = '''' then ''svid'' else rqKind r), rqCreatedAt := mNow w, rqUpdatedAt := mNow w\<rparr>"
  have f: "fail w ''InsertRequest'' = None" using Inr by (auto simp: InsertRequest_def unless_write_def split: option.splits)
  have "map_of (mRequests (snd (InsertRequest w r))) = (map_of (mRequests w))(rqID r \<mapsto> ?r')"
    using Inr by (auto simp: InsertRequest_def unless_write_def f Let_def split: option.splits if_splits)
  then show thesis by (intro new [of ?r']) simp_all
next
  case (Inl e)
  then have "snd (InsertRequest w r) = w"
    by (auto simp: InsertRequest_def unless_write_def Let_def split: option.splits if_splits)
  then show thesis by (rule same)
qed

lemma qstep1: "qstep q q' \<Longrightarrow> qsteps q q'"
  by (rule r_into_rtranclp)

lemma createRequest_snd:
  "snd (createRequest cr k w t rb kind inp) = w \<or>
   (\<exists>r e. rqID r = k \<and> rqTenantID r = t \<and> rqStatus r = ''pending'' \<and>
      (snd (createRequest cr k w t rb kind inp) = snd (InsertRequest w r) \<or>
       snd (createRequest cr k w t rb kind inp) = emit (snd (InsertRequest w r)) e))"
proof (cases "ParseSPIFFEID (riSpiffeID inp)")
  case (Inr sid)
  let ?iss = "if riIssuerID inp \<noteq> '''' then riIssuerID inp
    else (case DefaultIssuer w t (spTrustDomain sid) of Inl _ \<Rightarrow> '''' | Inr d \<Rightarrow> isID d)"
  define row where "row = \<lparr>rqID = k, rqTenantID = t, rqIssuerID = ptrOrNil ?iss, rqKind = '''', rqSpiffeID = riSpiffeID inp,
    rqSANs = Some (riDNSSans inp), rqKeyType = '''', rqCSRPEM = ptrOrNil (riCSRPEM inp), rqValiditySeconds = riValiditySeconds inp,
    rqRequestedBy = rb, rqRequesterKind = kind, rqStatus = ''pending'', rqApprover = None, rqReason = None, rqCertificateID = None,
    rqCreatedAt = 0, rqUpdatedAt = 0\<rparr>"
  have row: "rqID row = k" "rqTenantID row = t" "rqStatus row = ''pending''" by (simp_all add: row_def)
  obtain res w' where ins: "InsertRequest w row = (res, w')" by fastforce
  show ?thesis
  proof (cases "riCSRPEM inp \<noteq> '''' \<and> isl (ParseCSR (crPemDecode cr) (crParseRequest cr) (riCSRPEM inp))")
    case False
    have "snd (createRequest cr k w t rb kind inp) = w' \<or> (\<exists>e. snd (createRequest cr k w t rb kind inp) = emit w' e)"
      unfolding createRequest_def Inr sum.case Let_def row_def [symmetric] ins prod.case if_not_P [OF False] by (cases res) auto
    then show ?thesis using row ins by (metis snd_conv)
  qed (simp add: createRequest_def Inr)
qed (simp add: createRequest_def)

lemma createRequest_queue:
  assumes "map_of (mRequests w) k = None"
  shows "qsteps (queue_of w cs) (queue_of (snd (createRequest cr k w t rb kind inp)) cs)"
proof -
  have "qsteps (queue_of w cs) (queue_of (snd (InsertRequest w r)) cs)" if r: "rqID r = k" "rqStatus r = ''pending''" for r
  proof (cases rule: InsertRequest_cases [of w r])
    case (new r')
    from qstep.submit [of "queue_of w cs" k r'] new r assms show ?thesis by (intro qstep1) simp
  qed simp
  then show ?thesis using createRequest_snd [of cr k w t rb kind inp] by auto
qed

lemma decidable_Inr:
  assumes "decidable_request w subj i target = Inr r"
  shows "map_of (mRequests w) i = Some r" "rqTenantID r = sbTenantID subj" "rqStatus r = ''pending''"
    "\<exists>issuerID. requestIssuerID w (sbTenantID subj) r = Inr issuerID \<and> Check w subj ''issuer'' issuerID ''write'' = Inr ()"
  using assms by (auto simp: decidable_request_def result_simps GetRequest_def unless_read_Inr tenant_lookup_Inr split: if_splits)

lemma decide_queue:
  assumes "map_of (mRequests w) i = Some r" "rqStatus r = ''pending''" "st = ''approved'' \<or> st = ''rejected''"
  shows "qsteps (queue_of w cs) (queue_of (snd (SetRequestStatus w t i st ap re)) cs)"
proof (cases rule: SetRequestStatus_cases [of w t i st ap re])
  case (set r1 r')
  with qstep.decide [of "queue_of w cs" i r r'] assms show ?thesis by (intro qstep1) simp
qed simp

lemma InsertJob_cases:
  obtains (same) "snd (InsertJob w j) = w" | (new) j' where "same_job j j'" "jbStatus j' = jbStatus j" "jbAttempts j' = jbAttempts j"
    "jbMaxAttempts j' = jbMaxAttempts j" "map_of (mJobs (snd (InsertJob w j))) = (map_of (mJobs w))(jbID j \<mapsto> j')"
proof (cases "fail w ''InsertJob''")
  case None
  let ?j' = "j\<lparr>jbCreatedAt := mNow w, jbUpdatedAt := mNow w, jbRunAfter := (if jbRunAfter j = 0 then mNow w else jbRunAfter j)\<rparr>"
  show thesis
    by (rule new [of ?j']) (use None in \<open>simp_all add: InsertJob_def unless_write_def Let_def same_job_def\<close>)
qed (use same in \<open>simp add: InsertJob_def unless_write_def\<close>)

lemma approve_tx_queue:
  assumes "map_of (mRequests w) i = Some r" "rqStatus r = ''pending''" "rqTenantID r = t" "0 < n" "map_of (mJobs w) k = None"
  shows "qsteps (queue_of w cs) (queue_of (snd (approve_tx t i ap re (new_job k t i n now) w)) cs)"
proof -
  let ?set = "SetRequestStatus w t i ''approved'' (ptrOrNil ap) (ptrOrNil re)"
  let ?job = "new_job k t i n now"
  have dec: "qsteps (queue_of w cs) (queue_of (snd ?set) cs)" by (rule decide_queue [OF assms(1,2)]) simp
  show ?thesis
  proof (cases "fst ?set")
    case (Inl e)
    then have "snd (approve_tx t i ap re ?job w) = snd ?set" by (cases ?set) (simp add: approve_tx_def)
    with dec show ?thesis by simp
  next
    case (Inr u)
    then have tx: "snd (approve_tx t i ap re ?job w) = snd (InsertJob (snd ?set) ?job)" by (cases ?set) (simp add: approve_tx_def)
    show ?thesis
    proof (cases rule: InsertJob_cases [of "snd ?set" ?job])
      case same
      with dec tx show ?thesis by simp
    next
      case (new j')
      show ?thesis
      proof (cases rule: SetRequestStatus_cases [of w t i "''approved''" "ptrOrNil ap" "ptrOrNil re"])
        case (set r1 r')
        with qstep.approve [of "queue_of w cs" i r r' k j'] assms new show ?thesis
          unfolding tx by (intro qstep1) (simp add: same_job_def new_job_def)
      qed (use Inr in simp)
    qed
  qed
qed

lemma Atomic_snd: "snd (Atomic be w fn) = w \<or> snd (Atomic be w fn) = snd (fn w)"
  by (cases "fn w"; cases "fst (fn w)"; cases be) (auto simp: Atomic_def unless_write_def split: option.splits)

lemma on_ok_last:
  assumes "\<And>a w. f (snd (k a w)) = f w"
  shows "f (snd (on_ok r k)) = f (snd r)"
  using assms by (cases r; cases "fst r") auto

lemma on_ok_keeps:
  assumes "P (snd r)" "\<And>a. P (snd r) \<Longrightarrow> P (snd (k a (snd r)))"
  shows "P (snd (on_ok r k))"
  using assms by (cases r; cases "fst r") auto

lemma ApproveRequest_queue:
  assumes "0 < ecMaxAttempts cfg" "map_of (mJobs w) k = None"
  shows "qsteps (queue_of w cs) (queue_of (snd (ApproveRequest be cfg k w subj i reason)) cs)"
proof (cases "decidable_request w subj i ''approved''")
  case (Inr r)
  let ?fn = "approve_tx (sbTenantID subj) i (ActorID subj) reason (new_job k (sbTenantID subj) i (ecMaxAttempts cfg) (mNow w))"
  note d = decidable_Inr [OF Inr]
  have "mRequests (snd (ApproveRequest be cfg k w subj i reason)) = mRequests (snd (Atomic be w ?fn))"
    "mJobs (snd (ApproveRequest be cfg k w subj i reason)) = mJobs (snd (Atomic be w ?fn))"
    unfolding ApproveRequest_def Inr sum.case Let_def by (rule on_ok_last; simp)+
  with Atomic_snd [of be w ?fn] approve_tx_queue [OF d(1,3,2) assms, of cs "ActorID subj" reason "mNow w"]
  show ?thesis by auto
qed (simp add: ApproveRequest_def)

lemma RejectRequest_queue: "qsteps (queue_of w cs) (queue_of (snd (RejectRequest w subj i reason)) cs)"
proof (cases "decidable_request w subj i ''rejected''")
  case (Inr r)
  let ?set = "SetRequestStatus w (sbTenantID subj) i ''rejected'' (ptrOrNil (ActorID subj)) (ptrOrNil reason)"
  note d = decidable_Inr [OF Inr]
  have "mRequests (snd (RejectRequest w subj i reason)) = mRequests (snd ?set)"
    "mJobs (snd (RejectRequest w subj i reason)) = mJobs (snd ?set)"
    unfolding RejectRequest_def Inr sum.case Let_def by (rule on_ok_last; simp)+
  with decide_queue [OF d(1,3), of "''rejected''"] show ?thesis by simp
qed (simp add: RejectRequest_def)

lemma CancelJob_queue:
  assumes "table_ok jbID (mJobs w)"
  shows "qsteps (queue_of w cs) (queue_of (snd (CancelJob w subj i)) cs)"
proof (cases "on_val (GetJob w (sbTenantID subj) i) (\<lambda>j. on_val (authorizeJob w subj j ''write'') (\<lambda>_.
    if jbStatus j \<noteq> ''queued'' \<and> jbStatus j \<noteq> ''processing'' then Inl (EnrollConflict i (jbStatus j) ''failed'') else Inr j))")
  case (Inr j)
  let ?j = "j\<lparr>jbStatus := ''failed'', jbLeaseUntil := None, jbError := Some ''cancelled''\<rparr>"
  have j: "map_of (mJobs w) i = Some j" "jbStatus j = ''queued'' \<or> jbStatus j = ''processing''"
    using Inr by (auto simp: result_simps GetJob_def unless_read_Inr tenant_lookup_Inr split: if_splits)
  then have i: "jbID j = i" using table_ok_key [OF assms] by simp
  have eq: "mRequests (snd (CancelJob w subj i)) = mRequests (snd (UpdateJob w ?j))" "mJobs (snd (CancelJob w subj i)) = mJobs (snd (UpdateJob w ?j))"
    unfolding CancelJob_def Inr sum.case Let_def by (rule on_ok_last; simp)+
  show ?thesis unfolding eq
  proof (cases rule: UpdateJob_cases [of w ?j])
    case (set old new)
    with qstep.cancel [of "queue_of w cs" i j new] j i
    show "qsteps (queue_of w cs) (queue_of (snd (UpdateJob w ?j)) cs)" by (intro qstep1) simp
  qed simp
qed (simp add: CancelJob_def)

lemma RetryJob_queue:
  assumes "table_ok jbID (mJobs w)"
  shows "qsteps (queue_of w cs) (queue_of (snd (RetryJob w subj i)) cs)"
proof (cases "on_val (GetJob w (sbTenantID subj) i) (\<lambda>j. on_val (authorizeJob w subj j ''write'') (\<lambda>_.
    if jbStatus j \<noteq> ''failed'' then Inl (EnrollConflict i (jbStatus j) ''queued'')
    else if jbAttempts j \<ge> jbMaxAttempts j then Inl (EnrollConflict i ''attempts_exhausted'' ''queued'') else Inr j))")
  case (Inr j)
  let ?j = "j\<lparr>jbStatus := ''queued'', jbError := None, jbLeaseUntil := None, jbRunAfter := mNow w\<rparr>"
  have j: "map_of (mJobs w) i = Some j" "jbStatus j = ''failed''" "jbAttempts j < jbMaxAttempts j"
    using Inr by (auto simp: result_simps GetJob_def unless_read_Inr tenant_lookup_Inr split: if_splits)
  then have i: "jbID j = i" using table_ok_key [OF assms] by simp
  have eq: "mRequests (snd (RetryJob w subj i)) = mRequests (snd (UpdateJob w ?j))" "mJobs (snd (RetryJob w subj i)) = mJobs (snd (UpdateJob w ?j))"
    unfolding RetryJob_def Inr sum.case Let_def by (rule on_ok_last; simp)+
  show ?thesis unfolding eq
  proof (cases rule: UpdateJob_cases [of w ?j])
    case (set old new)
    with qstep.retry [of "queue_of w cs" i j new] j i
    show "qsteps (queue_of w cs) (queue_of (snd (UpdateJob w ?j)) cs)" by (intro qstep1) simp
  qed simp
qed (simp add: RetryJob_def)

text \<open>Claiming one due job after the other.\<close>

lemma claim_queue:
  assumes "distinct (map jbID due)" "\<forall>j \<in> set due. J (jbID j) = Some j \<and> jbStatus j = ''queued''"
    and "\<forall>k j. J k = Some j \<longrightarrow> jbID j = k"
  shows "qsteps \<lparr>qR = R, qJ = J, qC = cs\<rparr>
    \<lparr>qR = R, qJ = (\<lambda>k. case J k of None \<Rightarrow> None | Some j \<Rightarrow> Some (if j \<in> set due then claimed now lease j else j)),
     qC = cs @ map (claimed now lease) due\<rparr>"
  using assms
proof (induction due arbitrary: J cs)
  case Nil
  have "(\<lambda>k. case J k of None \<Rightarrow> None | Some j \<Rightarrow> Some (if j \<in> set [] then claimed now lease j else j)) = J"
    by (auto split: option.splits)
  then show ?case unfolding list.map append_Nil2 by (simp only: rtranclp.rtrancl_refl)
next
  case (Cons a due)
  let ?J = "J(jbID a \<mapsto> claimed now lease a)"
  have a: "J (jbID a) = Some a" "jbStatus a = ''queued''" using Cons.prems(2) by simp_all
  have ids: "\<forall>j \<in> set due. jbID j \<noteq> jbID a" using Cons.prems(1) by (metis distinct.simps(2) image_eqI list.set_map list.simps(9))
  have "qstep \<lparr>qR = R, qJ = J, qC = cs\<rparr> \<lparr>qR = R, qJ = ?J, qC = cs @ [claimed now lease a]\<rparr>"
    using qstep.claim [of "\<lparr>qR = R, qJ = J, qC = cs\<rparr>" "jbID a" a "claimed now lease a"] a
    by (simp add: same_job_def claimed_def)
  also have "qsteps \<lparr>qR = R, qJ = ?J, qC = cs @ [claimed now lease a]\<rparr>
    \<lparr>qR = R, qJ = (\<lambda>k. case ?J k of None \<Rightarrow> None | Some j \<Rightarrow> Some (if j \<in> set due then claimed now lease j else j)),
     qC = (cs @ [claimed now lease a]) @ map (claimed now lease) due\<rparr>"
    using Cons.prems ids by (intro Cons.IH) (auto simp: claimed_def)
  also have "(\<lambda>k. case ?J k of None \<Rightarrow> None | Some j \<Rightarrow> Some (if j \<in> set due then claimed now lease j else j))
      = (\<lambda>k. case J k of None \<Rightarrow> None | Some j \<Rightarrow> Some (if j \<in> set (a # due) then claimed now lease j else j))"
  proof
    fix k
    have "claimed now lease a \<notin> set due" using bspec [OF Cons.prems(2), of "claimed now lease a"] by auto
    moreover have "j \<noteq> a" if "J k = Some j" "k \<noteq> jbID a" for j using that Cons.prems(3) by blast
    ultimately show "(case ?J k of None \<Rightarrow> None | Some j \<Rightarrow> Some (if j \<in> set due then claimed now lease j else j))
      = (case J k of None \<Rightarrow> None | Some j \<Rightarrow> Some (if j \<in> set (a # due) then claimed now lease j else j))"
      using a by (cases "k = jbID a"; cases "J k") simp_all
  qed
  finally show ?case by simp
qed

lemma ClaimDueJobs_queue:
  assumes "table_ok jbID (mJobs w)" "ClaimDueJobs w now lease batch = (Inr due, w')"
  shows "qsteps (queue_of w cs) (queue_of w' (cs @ due))"
proof -
  have "fail w ''ClaimDueJobs'' = None" using assms(2) by (auto simp: ClaimDueJobs_def unless_write_def split: option.splits)
  from ClaimDueJobs_spec [OF assms(1) this, of now lease batch] obtain t where t: "w' = w\<lparr>mJobs := t\<rparr>"
    "due = map (claimed now lease) (due_jobs w now batch)"
    and look: "\<And>k. map_of t k = (case map_of (mJobs w) k of None \<Rightarrow> None
         | Some j \<Rightarrow> Some (if j \<in> set (due_jobs w now batch) then claimed now lease j else j))"
    using assms(2) by auto
  have "map_of t = (\<lambda>k. case map_of (mJobs w) k of None \<Rightarrow> None
         | Some j \<Rightarrow> Some (if j \<in> set (due_jobs w now batch) then claimed now lease j else j))"
    using look by blast
  moreover have "\<forall>k j. map_of (mJobs w) k = Some j \<longrightarrow> jbID j = k" using assms(1) by (simp add: table_ok_def)
  moreover have "\<forall>j \<in> set (due_jobs w now batch). map_of (mJobs w) (jbID j) = Some j \<and> jbStatus j = ''queued''"
    using due_jobs_rows(2) [OF assms(1)] by (auto simp: job_due_def)
  ultimately show ?thesis
    using claim_queue [OF due_jobs_rows(1) [OF assms(1)], where J = "map_of (mJobs w)" and R = "map_of (mRequests w)" and cs = cs]
    by (simp add: t)
qed

subsection \<open>Processing\<close>

text \<open>Writing back a claimed job.\<close>

lemma finish_queue:
  assumes "c \<in> set cs" "jbID j = jbID c" "jbTenantID j = jbTenantID c" "jbAttempts j = jbAttempts c" "jbMaxAttempts j = jbMaxAttempts c"
    and "jbStatus j = ''failed'' \<or> jbStatus j = ''completed'' \<and> jbResultCertificateID j \<noteq> None"
  shows "qsteps (queue_of w cs) (queue_of (snd (UpdateJob w j)) cs)"
proof (cases rule: UpdateJob_cases [of w j])
  case (set old new)
  with qstep.finish [of c "queue_of w cs" old new] assms show ?thesis by (intro qstep1) simp
qed simp

lemma issued_queue:
  assumes "c \<in> set cs" "jbRequestID c = k"
  shows "qsteps (queue_of w cs) (queue_of (snd (SetRequestStatus w t k ''issued'' ap re)) cs)"
proof (cases rule: SetRequestStatus_cases [of w t k "''issued''" ap re])
  case (set r r')
  with qstep.issued [of c "queue_of w cs" r r'] assms show ?thesis by (intro qstep1) simp
qed simp

lemma failJob_queue:
  assumes "c \<in> set cs" "jbID j = jbID c" "jbTenantID j = jbTenantID c" "jbAttempts j = jbAttempts c" "jbMaxAttempts j = jbMaxAttempts c"
  shows "qsteps (queue_of w cs) (queue_of (snd (failJob w j msg)) cs)"
  using finish_queue [OF assms(1), of "j\<lparr>jbStatus := ''failed'', jbLeaseUntil := None, jbError := ptrOrNil msg\<rparr>" w] assms(2-5)
  by (simp add: failJob_def Let_def)

lemma complete_tx_queue:
  assumes "c \<in> set cs" "rqID r = jbRequestID c"
  shows "qsteps (queue_of w cs) (queue_of (snd (complete_tx c r certID g w)) cs)"
proof -
  let ?u = "UpdateJob w (completed_job c certID)"
  have u: "qsteps (queue_of w cs) (queue_of (snd ?u) cs)"
    by (rule finish_queue [OF assms(1)]) (simp_all add: completed_job_def)
  let ?s = "SetRequestStatus (snd ?u) (jbTenantID c) (rqID r) ''issued'' None None"
  have "qsteps (queue_of (snd ?u) cs) (queue_of (snd ?s) cs)" by (rule issued_queue [OF assms(1)]) (simp add: assms(2))
  with u have s: "qsteps (queue_of w cs) (queue_of (snd ?s) cs)" by (rule rtranclp_trans)
  show ?thesis
  proof (cases "fst ?u")
    case (Inl e)
    then have "snd (complete_tx c r certID g w) = snd ?u" by (cases ?u) (simp add: complete_tx_def)
    with u show ?thesis by simp
  next
    case (Inr a)
    then have "mRequests (snd (complete_tx c r certID g w)) = mRequests (snd ?s)" "mJobs (snd (complete_tx c r certID g w)) = mJobs (snd ?s)"
      by (cases ?u; cases ?s; cases "fst ?s"; simp add: complete_tx_def)+
    with s show ?thesis by simp
  qed
qed

lemma ProcessJob_queue:
  assumes "table_ok rqID (mRequests w)" "c \<in> set cs"
  shows "qsteps (queue_of w cs) (queue_of (snd (ProcessJob cr be en g w c)) cs)"
proof (cases "GetRequest w (jbTenantID c) (jbRequestID c)")
  case (Inl e)
  then show ?thesis using failJob_queue [OF assms(2)] by (simp add: ProcessJob_def)
next
  case (Inr r)
  have r: "rqID r = jbRequestID c"
    using Inr table_ok_key [OF assms(1)] by (auto simp: GetRequest_def unless_read_Inr tenant_lookup_Inr)
  obtain res w1 where iss: "IssueCert cr be en w (ServiceSubjects (jbTenantID c) (rqSpiffeID r)) (job_issue_input r) = (res, w1)"
    by fastforce
  have w1: "mRequests w1 = mRequests w" "mJobs w1 = mJobs w" using IssueCert_frame [of cr be en w] iss by (metis snd_conv)+
  have fj: "qsteps (queue_of w' cs) (queue_of (snd (failJob w' c msg)) cs)" for w' msg by (rule failJob_queue [OF assms(2)]) simp_all
  show ?thesis
  proof (cases res)
    case (Inl e)
    then show ?thesis using fj [of w1] w1 by (simp add: ProcessJob_def Inr iss)
  next
    case (Inr b)
    let ?cert = "cvID (buCertificate b)"
    let ?tx = "Atomic be w1 (complete_tx c r ?cert g)"
    have tx: "qsteps (queue_of w cs) (queue_of (snd ?tx) cs)"
      using Atomic_snd [of be w1 "complete_tx c r ?cert g"] complete_tx_queue [OF assms(2) r, of w1 ?cert g] w1 by auto
    have fc: "qsteps (queue_of w' cs) (queue_of (snd (failJob w' (completed_job c ?cert) msg)) cs)" for w' msg
      by (rule failJob_queue [OF assms(2)]) (simp_all add: completed_job_def)
    show ?thesis
    proof (cases "fst ?tx")
      case (Inl e)
      then have "snd (ProcessJob cr be en g w c) =
          snd (failJob (snd ?tx) (if fail w1 ''Atomic'' = None then completed_job c ?cert else c) ''persisting result failed'')"
        using \<open>GetRequest _ _ _ = Inr r\<close> by (cases ?tx) (simp add: ProcessJob_def iss Inr Let_def)
      with tx fj fc show ?thesis by (auto intro: rtranclp_trans)
    next
      case (Inr u)
      with \<open>res = Inr b\<close> \<open>GetRequest _ _ _ = Inr r\<close> tx show ?thesis by (cases ?tx) (simp add: ProcessJob_def iss Let_def)
    qed
  qed
qed

lemma EnrollOp_queue:
  assumes "fresh_ids w en"
  shows "qsteps (queue_of w cs) (queue_of (snd (EnrollOp cr be en tok cfg w subj inp)) cs)"
proof (cases "ParseSPIFFEID (eiSpiffeID inp)")
  case (Inr sid)
  obtain res w1 where as: "enroll_as tok w subj inp sid = (res, w1)" by fastforce
  have w1: "mRequests w1 = mRequests w" "mJobs w1 = mJobs w" using enroll_as_frame [of tok w subj inp sid] as by simp_all
  show ?thesis
  proof (cases res)
    case (Inl e)
    with as w1 show ?thesis by (simp add: EnrollOp_def Inr)
  next
    case (Inr a)
    note op = EnrollOp_def \<open>ParseSPIFFEID _ = Inr sid\<close> as Inr
    let ?iss = "IssueCert cr be en w1 (eaSubject a) (enroll_issue_input inp)"
    let ?req = "createRequest cr (enID en) w1 (eaTenant a) (eaActorID a) (eaRequesterKind a) (enroll_request_input inp)"
    consider (bad) "eiCSRPEM inp \<noteq> '''' \<and> isl (ParseCSR (crPemDecode cr) (crParseRequest cr) (eiCSRPEM inp))"
      | (auto) "\<not> (eiCSRPEM inp \<noteq> '''' \<and> isl (ParseCSR (crPemDecode cr) (crParseRequest cr) (eiCSRPEM inp)))" "ecAutoApprove cfg"
      | (queue) "\<not> (eiCSRPEM inp \<noteq> '''' \<and> isl (ParseCSR (crPemDecode cr) (crParseRequest cr) (eiCSRPEM inp)))" "\<not> ecAutoApprove cfg"
      by blast
    then show ?thesis
    proof cases
      case bad
      with w1 show ?thesis by (simp add: op)
    next
      case auto
      have "mRequests (snd ?iss) = mRequests w" "mJobs (snd ?iss) = mJobs w" using w1 by simp_all
      with auto w1 show ?thesis by (cases ?iss; cases "fst ?iss") (auto simp: op)
    next
      case queue
      have "mRequests (snd (EnrollOp cr be en tok cfg w subj inp)) = mRequests (snd ?req)" "mJobs (snd (EnrollOp cr be en tok cfg w subj inp)) = mJobs (snd ?req)"
        using queue by (auto simp: op on_ok_last)
      moreover have "qsteps (queue_of w1 cs) (queue_of (snd ?req) cs)"
        by (rule createRequest_queue) (use assms w1 in \<open>simp add: fresh_ids_def\<close>)
      ultimately show ?thesis using w1 by simp
    qed
  qed
qed (simp add: EnrollOp_def)

end
