(* ===== verification/Enroll_Acts.thy ===== *)
theory Enroll_Acts
  imports Enroll_Queue
begin

text \<open>
  Every enrollment operation is a sequence of store operations of one tenant, so it keeps the
  store's invariant and leaves the other tenants' rows alone.
\<close>

subsection \<open>Requests and jobs\<close>

lemma InsertRequest_acts:
  assumes "rqTenantID r = t" "map_of (mRequests w) (rqID r) = None"
  shows "acts t w (snd (InsertRequest w r))"
  using assms by (rule acts_inserts(3))

lemma createRequest_acts:
  assumes "map_of (mRequests w) k = None"
  shows "acts t w (snd (createRequest cr k w t rb kind inp))"
  using createRequest_snd [of cr k w t rb kind inp] assms by (auto intro!: InsertRequest_acts)

lemma refuse_acts [intro]: "acts t w w1 \<Longrightarrow> acts t w (refuse w1 t' ak ai s r)"
  by (auto simp: refuse_def)

lemma approve_tx_acts:
  assumes "jbTenantID job = t" "map_of (mJobs w) (jbID job) = None"
  shows "acts t w (snd (approve_tx t i ap re job w))"
  unfolding approve_tx_def
  by (intro on_ok_acts_snd acts_ops acts_inserts) (use assms in simp_all)

lemma ApproveRequest_acts:
  assumes "map_of (mJobs w) k = None"
  shows "acts (sbTenantID subj) w (snd (ApproveRequest be cfg k w subj i reason))"
proof (cases "decidable_request w subj i ''approved''")
  case (Inr r)
  have "acts (sbTenantID subj) w (snd (approve_tx (sbTenantID subj) i (ActorID subj) reason
      (new_job k (sbTenantID subj) i (ecMaxAttempts cfg) (mNow w)) w))"
    by (rule approve_tx_acts) (simp_all add: new_job_def assms)
  then show ?thesis unfolding ApproveRequest_def Inr sum.case Let_def
    by (intro on_ok_acts_snd Atomic_acts) (auto intro: acts_emit)
qed (simp add: ApproveRequest_def)

lemma RejectRequest_acts: "acts (sbTenantID subj) w (snd (RejectRequest w subj i reason))"
proof (cases "decidable_request w subj i ''rejected''")
  case (Inr r)
  then show ?thesis unfolding RejectRequest_def Inr sum.case Let_def
    by (intro on_ok_acts_snd acts_ops) (auto intro: acts_emit)
qed (simp add: RejectRequest_def)

lemma GetJob_tenant: "GetJob w t i = Inr j \<Longrightarrow> jbTenantID j = t"
  by (auto simp: GetJob_def unless_read_Inr tenant_lookup_Inr)

lemma CancelJob_acts: "acts (sbTenantID subj) w (snd (CancelJob w subj i))"
  unfolding CancelJob_def Let_def
  by (auto split: sum.splits if_splits simp: result_simps intro!: on_ok_acts_snd acts_rows acts_emit dest: GetJob_tenant)

lemma RetryJob_acts: "acts (sbTenantID subj) w (snd (RetryJob w subj i))"
  unfolding RetryJob_def
  by (auto split: sum.splits if_splits simp: result_simps intro!: on_ok_acts_snd acts_rows dest: GetJob_tenant)

lemma failJob_acts: "acts (jbTenantID j) w (snd (failJob w j msg))"
  by (auto simp: failJob_def Let_def intro!: acts_emit acts_rows)

lemma complete_tx_acts:
  assumes "map_of (mGrants w) g = None"
  shows "acts (jbTenantID job) w (snd (complete_tx job r certID g w))"
  unfolding complete_tx_def
  by (intro on_ok_acts_snd acts_ops acts_rows) (use assms in \<open>auto simp: completed_job_def intro!: GrantOwner_acts\<close>)

lemma IssueCert_grants:
  assumes "map_of (mGrants w) g = None" "g \<noteq> enGrantID en"
  shows "map_of (mGrants (snd (IssueCert cr be en w subj inp))) g = None"
proof -
  have up: "map_of (mGrants (snd (UpsertGrant w r))) g = None" if "map_of (mGrants w) g = None" "grID r \<noteq> g" for w :: world and r
  proof -
    have "k \<noteq> g" if "table_find (same_grant r) (mGrants w) = Some (k, x)" for k x
      using that \<open>map_of (mGrants w) g = None\<close> by (force simp: table_find_def map_of_eq_None_iff dest!: find_SomeD)
    with that show ?thesis by (auto simp: UpsertGrant_def unless_write_def Let_def split: option.splits)
  qed
  let ?P = "\<lambda>w. map_of (mGrants w) g = None"
  have go: "?P (snd (GrantOwner w t rt ri u (enGrantID en)))" if "?P w" for w :: world and t rt ri u
    using up [OF that, of "\<lparr>grID = enGrantID en, grTenantID = t, grResourceType = rt, grResourceID = ri, grSubjectType = ''user'',
      grSubjectID = u, grRelation = ''owner'', grGrantedBy = Some u, grGrantedAt = 0, grExpiresAt = None\<rparr>"] that assms(2)
    by (auto simp: GrantOwner_def split: on_splits dest: arg_cong [where f = snd])
  have sc: "?P (snd (store_cert row log u (enGrantID en) w))" if "?P w" for w row log u
    unfolding store_cert_def
    by (rule on_ok_keeps [where P = ?P]; (rule on_ok_keeps [where P = ?P])?; (rule go)?; simp add: that)
  have at: "?P (snd (Atomic be w fn))" if "?P w" "?P (snd (fn w))" for w fn
    using Atomic_snd [of be w fn] that by auto
  have "?P (snd (mint cr be en w subj issuer sid req))" for issuer sid req
  proof (cases "mint_row cr en w subj issuer sid req")
    case (Inr p)
    obtain row keyPEM bundlePEM where p: "p = (row, keyPEM, bundlePEM)" by (cases p)
    let ?at = "Atomic be w (store_cert row (cert_log_of (mNow w) row (mrLogEvent req) (spiffe_string sid)) (sbUserID subj) (enGrantID en))"
    have "mGrants (snd (mint cr be en w subj issuer sid req)) = mGrants (snd ?at)"
      unfolding mint_def Inr p sum.case prod.case Let_def
      by (rule on_ok_last, rule on_ok_frame) (simp_all add: on_ok_last)
    moreover have "?P (snd ?at)" by (rule at) (simp_all add: assms(1) sc)
    ultimately show ?thesis by simp
  qed (simp add: mint_def assms(1))
  then show ?thesis using assms(1) by (auto simp: IssueCert_def split: sum.splits)
qed

lemma ProcessJob_acts:
  assumes "fresh_ids w en" "map_of (mGrants w) g = None" "g \<noteq> enGrantID en"
  shows "acts (jbTenantID c) w (snd (ProcessJob cr be en g w c))"
proof (cases "GetRequest w (jbTenantID c) (jbRequestID c)")
  case (Inl e)
  then show ?thesis using failJob_acts by (simp add: ProcessJob_def)
next
  case (Inr r)
  let ?iss = "IssueCert cr be en w (ServiceSubjects (jbTenantID c) (rqSpiffeID r)) (job_issue_input r)"
  have iss: "acts (jbTenantID c) w (snd ?iss)"
    using IssueCert_acts [of w en "ServiceSubjects (jbTenantID c) (rqSpiffeID r)"] assms(1) by (simp add: fresh_ids_def ServiceSubjects_def)
  have fj: "acts (jbTenantID c) w1 (snd (failJob w1 j msg))" if "jbTenantID j = jbTenantID c" for w1 j msg
    using failJob_acts [of j w1 msg] that by simp
  have tx: "acts (jbTenantID c) (snd ?iss) (snd (Atomic be (snd ?iss) (complete_tx c r certID g)))" for certID
    by (intro Atomic_acts complete_tx_acts IssueCert_grants assms(2,3))
  show ?thesis
  proof (cases "fst ?iss")
    case (Inl e)
    then have "snd (ProcessJob cr be en g w c) = snd (failJob (snd ?iss) c (scrub_err e))"
      using Inr by (cases ?iss) (simp add: ProcessJob_def)
    then show ?thesis using acts_trans [OF fj iss] by simp
  next
    case (Inr b)
    let ?tx = "Atomic be (snd ?iss) (complete_tx c r (cvID (buCertificate b)) g)"
    note base = acts_trans [OF tx iss]
    show ?thesis
    proof (cases "fst ?tx")
      case (Inl e)
      let ?j = "if fail (snd ?iss) ''Atomic'' = None then completed_job c (cvID (buCertificate b)) else c"
      have "snd (ProcessJob cr be en g w c) = snd (failJob (snd ?tx) ?j ''persisting result failed'')"
        using Inl Inr \<open>GetRequest _ _ _ = Inr r\<close> by (cases ?iss; cases ?tx) (simp add: ProcessJob_def Let_def)
      moreover have "jbTenantID ?j = jbTenantID c" by (simp add: completed_job_def)
      ultimately show ?thesis using acts_trans [OF fj base] by simp
    next
      case (Inr u)
      have "acts (jbTenantID c) w (snd ?tx)" by (rule base)
      with Inr \<open>fst ?iss = Inr b\<close> \<open>GetRequest _ _ _ = Inr r\<close> show ?thesis
        by (cases ?iss; cases ?tx) (simp add: ProcessJob_def Let_def acts_emit)
    qed
  qed
qed

text \<open>The tenant an enrollment writes for: its token's, or the caller's own.\<close>

definition enroll_tenant :: "token_verifier \<Rightarrow> subjects \<Rightarrow> enroll_input \<Rightarrow> string" where
  "enroll_tenant tok subj inp =
     (if eiEnrollmentToken inp = '''' then sbTenantID subj
      else (case tok (eiEnrollmentToken inp) of Inl _ \<Rightarrow> sbTenantID subj | Inr g \<Rightarrow> egTenantID g))"

lemma enroll_as_Inr:
  assumes "enroll_as tok w subj inp sid = (Inr a, w1)"
  shows "w1 = w" "eaTenant a = enroll_tenant tok subj inp" "sbTenantID (eaSubject a) = enroll_tenant tok subj inp"
    "eiEnrollmentToken inp \<noteq> '''' \<Longrightarrow> \<exists>g. tok (eiEnrollmentToken inp) = Inr g \<and> eiSpiffeID inp \<in> set (egSpiffePaths g)
       \<and> eaTenant a = egTenantID g \<and> eaSubject a = ServiceSubjects (egTenantID g) (eiSpiffeID inp) \<and> eaActorID a = eiSpiffeID inp
       \<and> eaRequesterKind a = ''token''"
  using assms by (auto simp: enroll_as_def enroll_tenant_def authorises_def list_ex_iff ServiceSubjects_def Let_def split: sum.splits if_splits err.splits)

lemma enroll_as_Inl: "enroll_as tok w subj inp sid = (Inl e, w1) \<Longrightarrow> acts t w w1"
  by (auto simp: enroll_as_def Let_def split: sum.splits if_splits err.splits)

lemma EnrollOp_acts:
  assumes "fresh_ids w en"
  shows "acts (enroll_tenant tok subj inp) w (snd (EnrollOp cr be en tok cfg w subj inp))"
proof (cases "ParseSPIFFEID (eiSpiffeID inp)")
  case (Inr sid)
  show ?thesis unfolding EnrollOp_def Inr sum.case
  proof (rule on_ok_acts)
    show "acts (enroll_tenant tok subj inp) w (snd (enroll_as tok w subj inp sid))"
      by (cases "enroll_as tok w subj inp sid"; cases "fst (enroll_as tok w subj inp sid)") (auto dest: enroll_as_Inl enroll_as_Inr(1))
    fix a w1 assume as: "enroll_as tok w subj inp sid = (Inr a, w1)"
    note a = enroll_as_Inr(1-3) [OF as]
    have iss: "acts (enroll_tenant tok subj inp) w (snd (IssueCert cr be en w (eaSubject a) (enroll_issue_input inp)))"
      using IssueCert_acts [of w en "eaSubject a"] assms a(3) by (simp add: fresh_ids_def)
    have req: "acts (enroll_tenant tok subj inp) w
        (snd (createRequest cr (enID en) w (eaTenant a) (eaActorID a) (eaRequesterKind a) (enroll_request_input inp)))"
      unfolding a(2) by (rule createRequest_acts) (use assms in \<open>simp add: fresh_ids_def\<close>)
    show "acts (enroll_tenant tok subj inp) w (snd (if eiCSRPEM inp \<noteq> '''' \<and> isl (ParseCSR (crPemDecode cr) (crParseRequest cr) (eiCSRPEM inp))
        then (Inl (EnrollInvalid ''csr'' ''certificate request rejected''), w1)
        else if ecAutoApprove cfg then
          (case IssueCert cr be en w1 (eaSubject a) (enroll_issue_input inp) of
             (Inl e, w) \<Rightarrow> (Inl e, refuse w (eaTenant a) (ActorKind (eaSubject a)) (eaActorID a) (eiSpiffeID inp) ''issuance refused'')
           | (Inr b, w) \<Rightarrow> (Inr \<lparr>erStatus = ''issued'', erRequestID = '''', erBundle = Some b\<rparr>,
                emit w (enroll_event (eaTenant a) ''enrollment_issued'' (ActorKind (eaSubject a)) (eaActorID a) ''certificate''
                  (cvID (buCertificate b)) ''ok'' ''''
                  [(''spiffe_id'', JStr (eiSpiffeID inp)), (''issuer_id'', JStr (cvIssuerID (buCertificate b)))])))
        else on_ok (createRequest cr (enID en) w1 (eaTenant a) (eaActorID a) (eaRequesterKind a) (enroll_request_input inp)) (\<lambda>rv w.
               (Inr \<lparr>erStatus = ''pending'', erRequestID = qvID rv, erBundle = None\<rparr>, w))))"
      unfolding a(1) using iss req by (auto split: prod.splits sum.splits intro!: on_ok_acts_snd)
  qed
qed (simp add: EnrollOp_def)

end
