(* ===== verification/Enroll_Props.thy ===== *)
theory Enroll_Props
  imports Enroll_Acts
begin

text \<open>
  What enrollment guarantees: the runs of the service refine the abstract queue, requests move
  along their state machine only, and a token buys nothing but the identities it names.
\<close>

lemma store_ok_tables:
  assumes "store_ok w"
  shows "table_ok jbID (mJobs w)" "table_ok rqID (mRequests w)"
  using assms by (simp_all add: store_ok_def)

lemma enroll_step_queue:
  assumes "enroll_step cr be tok cfg s s'" "store_ok (esWorld s)" "0 < ecMaxAttempts cfg"
  shows "qsteps (queue_of (esWorld s) (esClaimed s)) (queue_of (esWorld s') (esClaimed s'))"
  using assms(1)
proof (cases rule: enroll_step.cases)
  case (process_job c en g)
  have "qsteps (queue_of (esWorld s) (esClaimed s)) (queue_of (snd (ProcessJob cr be en g (esWorld s) c)) (esClaimed s))"
    by (rule ProcessJob_queue [OF store_ok_tables(2) [OF assms(2)] process_job(2)])
  moreover have "qsteps (queue_of w (esClaimed s)) (queue_of w (remove1 c (esClaimed s)))" for w
    using qstep1 [OF qstep.drop [of "queue_of w (esClaimed s)" c]] by simp
  ultimately show ?thesis using process_job(1) by (auto intro: rtranclp_trans)
next
  case (crash c)
  then show ?thesis using qstep1 [OF qstep.drop [of "queue_of (esWorld s) (esClaimed s)" c]] by simp
next
  case (create k subj rin)
  then show ?thesis using createRequest_queue by (simp add: CreateRequestOp_def)
qed (use assms(3) EnrollOp_queue ApproveRequest_queue RejectRequest_queue CancelJob_queue [OF store_ok_tables(1) [OF assms(2)]]
    RetryJob_queue [OF store_ok_tables(1) [OF assms(2)]] ClaimDueJobs_queue [OF store_ok_tables(1) [OF assms(2)]] in auto)

lemma enroll_step_ok:
  assumes "enroll_step cr be tok cfg s s'" "store_ok (esWorld s)"
  shows "store_ok (esWorld s')"
  using assms(1)
proof (cases rule: enroll_step.cases)
  case (claim_jobs now lease batch due w)
  then show ?thesis using ClaimDueJobs_ok [OF assms(2), of now lease batch] by simp
next
  case (tick now)
  have "store_step None (esWorld s) ((esWorld s)\<lparr>mNow := now\<rparr>)" by (rule store_step.clock) (rule tick(2))
  from store_step_ok [OF this assms(2)] show ?thesis using tick by simp
next
  case (create k subj rin)
  then show ?thesis using acts_ok [OF createRequest_acts assms(2)] by (simp add: CreateRequestOp_def)
next
  case (enroll en subj inp)
  then show ?thesis using acts_ok [OF EnrollOp_acts assms(2)] by simp
next
  case (approve_request k subj i reason)
  then show ?thesis using acts_ok [OF ApproveRequest_acts assms(2)] by simp
next
  case (reject_request subj i reason)
  then show ?thesis using acts_ok [OF RejectRequest_acts assms(2)] by simp
next
  case (cancel_job subj i)
  then show ?thesis using acts_ok [OF CancelJob_acts assms(2)] by simp
next
  case (retry_job subj i)
  then show ?thesis using acts_ok [OF RetryJob_acts assms(2)] by simp
next
  case (process_job c en g)
  then show ?thesis using acts_ok [OF ProcessJob_acts assms(2)] by simp
qed (use assms(2) in simp)

abbreviation enroll_run :: "crypto \<Rightarrow> backend \<Rightarrow> token_verifier \<Rightarrow> enroll_config \<Rightarrow> enroll_state \<Rightarrow> enroll_state \<Rightarrow> bool" where
  "enroll_run cr be tok cfg \<equiv> (enroll_step cr be tok cfg)\<^sup>*\<^sup>*"

lemma enroll_run_queue:
  assumes "enroll_run cr be tok cfg s s'" "store_ok (esWorld s)" "0 < ecMaxAttempts cfg"
  shows "store_ok (esWorld s') \<and> qsteps (queue_of (esWorld s) (esClaimed s)) (queue_of (esWorld s') (esClaimed s'))"
  using assms(1)
proof (induction rule: rtranclp_induct)
  case (step s1 s2)
  then show ?case using enroll_step_queue [OF step(2) _ assms(3)] enroll_step_ok [OF step(2)] by (auto intro: rtranclp_trans)
qed (simp add: assms(2))

subsection \<open>The queue\<close>

lemma EnrollNew_attempts [simp]: "0 < ecMaxAttempts (EnrollNew cfg)"
  by (simp add: EnrollNew_def)

lemma start_ok: "mRequests w = [] \<Longrightarrow> mJobs w = [] \<Longrightarrow> queue_ok (queue_of w [])"
  by (simp add: queue_ok_def)

lemma run_queue_ok:
  assumes "enroll_run cr be tok (EnrollNew cfg) \<lparr>esWorld = w, esClaimed = []\<rparr> s" "store_ok w" "mRequests w = []" "mJobs w = []"
  shows "queue_ok (queue_of (esWorld s) (esClaimed s))" "store_ok (esWorld s)"
  using enroll_run_queue [OF assms(1)] qsteps_ok start_ok assms(2-4) by auto



subsection \<open>Decisions\<close>

lemma createRequest_keeps:
  assumes "map_of (mRequests w) k = Some r" "map_of (mRequests w) newID = None"
  shows "map_of (mRequests (snd (createRequest cr newID w t rb kind inp))) k = Some r"
proof -
  have "map_of (mRequests (snd (InsertRequest w x))) k = Some r" if "rqID x = newID" for x
    by (cases rule: InsertRequest_cases [of w x]) (use that assms in auto)
  then show ?thesis using createRequest_snd [of cr newID w t rb kind inp] assms(1) by auto
qed

lemma SetRequestStatus_moves:
  assumes "map_of (mRequests w) k = Some r" "map_of (mRequests (snd (SetRequestStatus w t i st ap re))) k = Some r'"
  shows "r' = r \<or> k = i \<and> rqStatus r' = st"
  by (cases rule: SetRequestStatus_cases [of w t i st ap re]) (use assms in \<open>auto split: if_splits\<close>)

lemma EnrollOp_keeps:
  assumes "fresh_ids w en" "map_of (mRequests w) k = Some r"
  shows "map_of (mRequests (snd (EnrollOp cr be en tok cfg w subj inp))) k = Some r"
proof (cases "ParseSPIFFEID (eiSpiffeID inp)")
  case (Inr sid)
  have f: "map_of (mRequests w) (enID en) = None" using assms(1) by (simp add: fresh_ids_def)
  let ?P = "\<lambda>w. map_of (mRequests w) k = Some r"
  have req: "?P (snd (createRequest cr (enID en) w t rb kind rin))" for t rb kind rin by (rule createRequest_keeps [OF assms(2) f])
  show ?thesis
  proof (cases "enroll_as tok w subj inp sid")
    case (Pair res w1)
    have w1: "mRequests w1 = mRequests w" using enroll_as_frame(1) [of tok w subj inp sid] Pair by simp
    show ?thesis
    proof (cases res)
      case (Inl e)
      then show ?thesis using assms(2) w1 by (simp add: EnrollOp_def \<open>ParseSPIFFEID _ = _\<close> Pair)
    next
      case (Inr a)
      then have ww: "w1 = w" using enroll_as_Inr(1) Pair by simp
      let ?iss = "IssueCert cr be en w (eaSubject a) (enroll_issue_input inp)"
      have "?P (snd ?iss)" using assms(2) by simp
      then show ?thesis using req assms(2)
        by (cases ?iss; cases "fst ?iss") (auto simp: EnrollOp_def \<open>ParseSPIFFEID _ = _\<close> Pair Inr ww on_ok_last [where f = "\<lambda>w. map_of (mRequests w) k"])
    qed
  qed
qed (simp add: EnrollOp_def assms(2))

lemma ProcessJob_moves:
  assumes "map_of (mRequests w) k = Some r" "map_of (mRequests (snd (ProcessJob cr be en g w c))) k = Some r'"
  shows "r' = r \<or> rqStatus r' = ''issued''"
proof -
  let ?P = "\<lambda>w. \<forall>r'. map_of (mRequests w) k = Some r' \<longrightarrow> r' = r \<or> rqStatus r' = ''issued''"
  have fj: "?P (snd (failJob w j msg))" if "?P w" for w j msg using that by (simp add: failJob_def Let_def)
  have tx: "?P (snd (complete_tx c q certID g w))" if "map_of (mRequests w) k = Some r" for w q certID
    unfolding complete_tx_def
    by (rule on_ok_keeps [where P = ?P], use that in simp, rule on_ok_keeps [where P = ?P])
      (use that SetRequestStatus_moves [of "snd (UpdateJob w (completed_job c certID))" k r "jbTenantID c" "rqID q"] in auto)
  have at: "?P (snd (Atomic be w (complete_tx c q certID g)))" if "map_of (mRequests w) k = Some r" for w q certID
    using Atomic_snd [of be w "complete_tx c q certID g"] tx [OF that, of q certID] that by auto
  show ?thesis
  proof (cases "GetRequest w (jbTenantID c) (jbRequestID c)")
    case (Inl e)
    then show ?thesis using assms fj [of w] by (simp add: ProcessJob_def)
  next
    case (Inr q)
    let ?iss = "IssueCert cr be en w (ServiceSubjects (jbTenantID c) (rqSpiffeID q)) (job_issue_input q)"
    have same: "map_of (mRequests (snd ?iss)) k = Some r" using assms(1) by simp
    show ?thesis
    proof (cases "fst ?iss")
      case (Inl e)
      then show ?thesis using assms(2) same fj [of "snd ?iss"] Inr by (cases ?iss) (simp add: ProcessJob_def)
    next
      case (Inr b)
      let ?tx = "Atomic be (snd ?iss) (complete_tx c q (cvID (buCertificate b)) g)"
      have P: "?P (snd ?tx)" by (rule at [OF same])
      have "mRequests (snd (ProcessJob cr be en g w c)) = mRequests (snd ?tx)"
        using Inr \<open>GetRequest _ _ _ = Inr q\<close>
        by (cases ?iss; cases ?tx; cases "fst ?tx"; simp add: ProcessJob_def Let_def failJob_def)
      then show ?thesis using assms(2) P by simp
    qed
  qed
qed


subsection \<open>Tokens\<close>

lemma createRequest_Inr:
  assumes "createRequest cr k w t rb kind inp = (Inr rv, w')"
  shows "mCertificates w' = mCertificates w"
    "\<exists>r. map_of (mRequests w') = (map_of (mRequests w))(k \<mapsto> r) \<and> rqTenantID r = t \<and> rqSpiffeID r = riSpiffeID inp
       \<and> rqStatus r = ''pending'' \<and> rqRequestedBy r = rb \<and> rqRequesterKind r = kind \<and> rqApprover r = None"
proof -
  obtain sid where sid: "ParseSPIFFEID (riSpiffeID inp) = Inr sid" using assms by (auto simp: createRequest_def split: sum.splits)
  have ok: "\<not> (riCSRPEM inp \<noteq> '''' \<and> isl (ParseCSR (crPemDecode cr) (crParseRequest cr) (riCSRPEM inp)))"
    using assms by (auto simp: createRequest_def sid)
  define row where "row = \<lparr>rqID = k, rqTenantID = t, rqIssuerID = ptrOrNil (if riIssuerID inp \<noteq> '''' then riIssuerID inp
      else (case DefaultIssuer w t (spTrustDomain sid) of Inl _ \<Rightarrow> '''' | Inr d \<Rightarrow> isID d)), rqKind = '''', rqSpiffeID = riSpiffeID inp,
    rqSANs = Some (riDNSSans inp), rqKeyType = '''', rqCSRPEM = ptrOrNil (riCSRPEM inp), rqValiditySeconds = riValiditySeconds inp,
    rqRequestedBy = rb, rqRequesterKind = kind, rqStatus = ''pending'', rqApprover = None, rqReason = None, rqCertificateID = None,
    rqCreatedAt = 0, rqUpdatedAt = 0\<rparr>"
  obtain w1 e where ins: "InsertRequest w row = (Inr (), w1)" "w' = emit w1 e"
    using assms unfolding createRequest_def sid sum.case Let_def row_def [symmetric] if_not_P [OF ok]
    by (auto split: prod.splits sum.splits)
  let ?r = "row\<lparr>rqKind := ''svid'', rqCreatedAt := mNow w, rqUpdatedAt := mNow w\<rparr>"
  have w1: "w1 = w\<lparr>mRequests := AList.update k ?r (mRequests w)\<rparr>"
    using ins(1) by (auto simp: InsertRequest_def unless_write_def Let_def row_def split: option.splits if_splits)
  then show "mCertificates w' = mCertificates w" by (simp add: ins(2))
  have "map_of (mRequests w') = (map_of (mRequests w))(k \<mapsto> ?r)" by (simp add: ins(2) w1)
  moreover have "rqTenantID ?r = t" "rqSpiffeID ?r = riSpiffeID inp" "rqStatus ?r = ''pending''" "rqRequestedBy ?r = rb"
    "rqRequesterKind ?r = kind" "rqApprover ?r = None" by (simp_all add: row_def)
  ultimately show "\<exists>r. map_of (mRequests w') = (map_of (mRequests w))(k \<mapsto> r) \<and> rqTenantID r = t \<and> rqSpiffeID r = riSpiffeID inp
       \<and> rqStatus r = ''pending'' \<and> rqRequestedBy r = rb \<and> rqRequesterKind r = kind \<and> rqApprover r = None" by blast
qed

lemma EnrollOp_Inr:
  assumes "EnrollOp cr be en tok cfg w subj inp = (Inr res, w')"
  obtains sid a where "ParseSPIFFEID (eiSpiffeID inp) = Inr sid" "enroll_as tok w subj inp sid = (Inr a, w)"
    "if ecAutoApprove cfg then \<exists>b w1 e. IssueCert cr be en w (eaSubject a) (enroll_issue_input inp) = (Inr b, w1) \<and> w' = emit w1 e
       \<and> erBundle res = Some b
     else \<exists>rv. createRequest cr (enID en) w (eaTenant a) (eaActorID a) (eaRequesterKind a) (enroll_request_input inp) = (Inr rv, w')"
proof -
  obtain sid where sid: "ParseSPIFFEID (eiSpiffeID inp) = Inr sid" using assms by (auto simp: EnrollOp_def split: sum.splits)
  obtain a w1 where a: "enroll_as tok w subj inp sid = (Inr a, w1)" using assms by (auto simp: EnrollOp_def sid on_ok_Inr_iff)
  have w1: "w1 = w" using enroll_as_Inr(1) [OF a] .
  have ok: "\<not> (eiCSRPEM inp \<noteq> '''' \<and> isl (ParseCSR (crPemDecode cr) (crParseRequest cr) (eiCSRPEM inp)))"
    using assms by (auto simp: EnrollOp_def sid a)
  show thesis
    by (rule that [OF sid a [unfolded w1]], insert assms)
      (auto simp: EnrollOp_def sid a w1 if_not_P [OF ok] on_ok_Inr_iff split: prod.splits sum.splits if_splits)
qed

lemma emit_certificates: "mCertificates (refuse w t k i s r) = mCertificates w" "mGrants (refuse w t k i s r) = mGrants w"
  by (simp_all add: refuse_def)

text \<open>
  C18. An enrollment token buys the identities it names and nothing else: a successful enrollment
  with a token was for an identity its grant lists; it issued, or recorded as pending, exactly one
  certificate for that identity in the grant's tenant, owned by that identity. Without
  such a grant the enrollment fails and no certificate, request or grant is written.
\<close>

theorem EnrollOp_token:
  assumes "store_ok w" "fresh_ids w en" "eiEnrollmentToken inp \<noteq> ''''"
  shows "(EnrollOp cr be en tok cfg w subj inp = (Inr res, w') \<longrightarrow>
       (\<exists>g sid. tok (eiEnrollmentToken inp) = Inr g \<and> eiSpiffeID inp \<in> set (egSpiffePaths g) \<and> ParseSPIFFEID (eiSpiffeID inp) = Inr sid
          \<and> (if ecAutoApprove cfg
             then mRequests w' = mRequests w \<and> (\<exists>c. map_of (mCertificates w') = (map_of (mCertificates w))(enID en \<mapsto> c)
                    \<and> icTenantID c = egTenantID g \<and> icSpiffeID c = spiffe_string sid \<and> icOwner c = eiSpiffeID inp)
             else mCertificates w' = mCertificates w \<and> (\<exists>r. map_of (mRequests w') = (map_of (mRequests w))(enID en \<mapsto> r)
                    \<and> rqTenantID r = egTenantID g \<and> rqSpiffeID r = eiSpiffeID inp \<and> rqStatus r = ''pending''
                    \<and> rqRequestedBy r = eiSpiffeID inp))))
     \<and> ((\<forall>g. tok (eiEnrollmentToken inp) = Inr g \<longrightarrow> eiSpiffeID inp \<notin> set (egSpiffePaths g)) \<longrightarrow>
          (let (r, w1) = EnrollOp cr be en tok cfg w subj inp
           in isl r \<and> mCertificates w1 = mCertificates w \<and> mRequests w1 = mRequests w \<and> mGrants w1 = mGrants w))"
proof (intro conjI impI)
  assume "EnrollOp cr be en tok cfg w subj inp = (Inr res, w')"
  then obtain sid a where sid: "ParseSPIFFEID (eiSpiffeID inp) = Inr sid" and a: "enroll_as tok w subj inp sid = (Inr a, w)"
    and eff: "if ecAutoApprove cfg then \<exists>b w1 e. IssueCert cr be en w (eaSubject a) (enroll_issue_input inp) = (Inr b, w1) \<and> w' = emit w1 e
       \<and> erBundle res = Some b
     else \<exists>rv. createRequest cr (enID en) w (eaTenant a) (eaActorID a) (eaRequesterKind a) (enroll_request_input inp) = (Inr rv, w')"
    by (rule EnrollOp_Inr)
  obtain g where g: "tok (eiEnrollmentToken inp) = Inr g" "eiSpiffeID inp \<in> set (egSpiffePaths g)" "eaTenant a = egTenantID g"
    "eaSubject a = ServiceSubjects (egTenantID g) (eiSpiffeID inp)" "eaActorID a = eiSpiffeID inp"
    using enroll_as_Inr(4) [OF a assms(3)] by blast
  have "eiSpiffeID inp \<noteq> ''''" using sid by (auto simp: ParseSPIFFEID_def)
  then have actor: "ActorID (eaSubject a) = eiSpiffeID inp" "sbTenantID (eaSubject a) = egTenantID g"
    by (simp_all add: g(4) ServiceSubjects_def ActorID_def)
  have "if ecAutoApprove cfg
     then mRequests w' = mRequests w \<and> (\<exists>c. map_of (mCertificates w') = (map_of (mCertificates w))(enID en \<mapsto> c)
            \<and> icTenantID c = egTenantID g \<and> icSpiffeID c = spiffe_string sid \<and> icOwner c = eiSpiffeID inp)
     else mCertificates w' = mCertificates w \<and> (\<exists>r. map_of (mRequests w') = (map_of (mRequests w))(enID en \<mapsto> r)
            \<and> rqTenantID r = egTenantID g \<and> rqSpiffeID r = eiSpiffeID inp \<and> rqStatus r = ''pending'' \<and> rqRequestedBy r = eiSpiffeID inp)"
  proof (cases "ecAutoApprove cfg")
    case True
    then obtain b w1 e where iss: "IssueCert cr be en w (eaSubject a) (enroll_issue_input inp) = (Inr b, w1)" "w' = emit w1 e"
      using eff by auto
    obtain issuer sid' where i: "resolveIssuer w (eaSubject a) (enroll_issue_input inp) = Inr (issuer, sid')"
      "mint cr be en w (eaSubject a) issuer sid' (issue_req (enroll_issue_input inp)) = (Inr b, w1)"
      using iss(1) by (rule IssueCert_Inr)
    have "sid' = sid" using resolveIssuer_Inr(1) [OF assms(1) i(1)] sid by (simp add: enroll_issue_input_def)
    moreover have f: "map_of (mCertificates w) (enID en) = None" "map_of (mGrants w) (enGrantID en) = None"
      using assms(2) by (simp_all add: fresh_ids_def)
    ultimately show ?thesis
      using mint_effect(1,5) [OF assms(1) f i(2)] True actor by (auto simp: iss(2))
  next
    case False
    then show ?thesis using eff createRequest_Inr g(3,5) by (fastforce simp: enroll_request_input_def)
  qed
  with g(1,2) sid show "\<exists>g sid. tok (eiEnrollmentToken inp) = Inr g \<and> eiSpiffeID inp \<in> set (egSpiffePaths g) \<and> ParseSPIFFEID (eiSpiffeID inp) = Inr sid
     \<and> (if ecAutoApprove cfg
        then mRequests w' = mRequests w \<and> (\<exists>c. map_of (mCertificates w') = (map_of (mCertificates w))(enID en \<mapsto> c)
               \<and> icTenantID c = egTenantID g \<and> icSpiffeID c = spiffe_string sid \<and> icOwner c = eiSpiffeID inp)
        else mCertificates w' = mCertificates w \<and> (\<exists>r. map_of (mRequests w') = (map_of (mRequests w))(enID en \<mapsto> r)
               \<and> rqTenantID r = egTenantID g \<and> rqSpiffeID r = eiSpiffeID inp \<and> rqStatus r = ''pending''
               \<and> rqRequestedBy r = eiSpiffeID inp))" by blast
next
  assume no: "\<forall>g. tok (eiEnrollmentToken inp) = Inr g \<longrightarrow> eiSpiffeID inp \<notin> set (egSpiffePaths g)"
  show "let (r, w1) = EnrollOp cr be en tok cfg w subj inp
    in isl r \<and> mCertificates w1 = mCertificates w \<and> mRequests w1 = mRequests w \<and> mGrants w1 = mGrants w"
    using no assms(3)
    by (auto simp: EnrollOp_def enroll_as_def authorises_def list_ex_iff emit_certificates Let_def split: sum.splits err.splits)
qed

subsection \<open>A run\<close>

text \<open>Alice asks for a certificate, approves it, and a worker claims the job.\<close>

definition demo_token :: token_verifier where
  "demo_token t = (if t = ''tok'' then Inr \<lparr>egTenantID = ''t'', egSpiffePaths = [''spiffe://td/app'']\<rparr>
     else Inl (EnrollRefusal ReasonTokenInvalid []))"

definition demo_cfg :: enroll_config where
  "demo_cfg = \<lparr>ecAutoApprove = False, ecMaxAttempts = 0\<rparr>"

definition demo_enroll :: enroll_input where
  "demo_enroll = \<lparr>eiSpiffeID = ''spiffe://td/app'', eiCSRPEM = '''', eiEnrollmentToken = ''tok''\<rparr>"

abbreviation demo_ask :: "request_view result \<times> world" where
  "demo_ask \<equiv> CreateRequestOp demo_crypto ''r1'' live_world alice
     \<lparr>riIssuerID = ''i1'', riSpiffeID = ''spiffe://td/app'', riCSRPEM = '''', riValiditySeconds = 0, riDNSSans = []\<rparr>"

lemma demo_eval:
  "mRequests live_world = [] \<and> mJobs live_world = [] \<and> map_of (mCertificates live_world) ''c1'' = None
   \<and> map_of (mGrants live_world) ''g2'' = None
   \<and> \<not> isl (fst (EnrollOp demo_crypto Database live_entropy demo_token demo_cfg live_world alice demo_enroll))
   \<and> (case demo_ask of (_, w1) \<Rightarrow> mJobs w1 = []
        \<and> (case map_of (mRequests w1) ''r1'' of Some r \<Rightarrow> rqStatus r = ''pending'' \<and> rqTenantID r = ''t'' | None \<Rightarrow> False)
        \<and> (case ApproveRequest Database (EnrollNew demo_cfg) ''j1'' w1 alice ''r1'' '''' of (_, w2) \<Rightarrow>
             (case map_of (mRequests w2) ''r1'' of Some r \<Rightarrow> rqStatus r = ''approved'' | None \<Rightarrow> False)
             \<and> (case ClaimDueJobs w2 7 60 10 of
                  (Inr due, w3) \<Rightarrow> length due = 1 \<and> (case map_of (mJobs w3) ''j1'' of
                      Some j \<Rightarrow> jbStatus j = ''processing'' \<and> jbAttempts j = 1 \<and> jbRequestID j = ''r1'' | None \<Rightarrow> False)
                | _ \<Rightarrow> False)))"
  by code_simp

definition asked :: world where
  "asked = snd demo_ask"

definition agreed :: world where
  "agreed = snd (ApproveRequest Database (EnrollNew demo_cfg) ''j1'' asked alice ''r1'' '''')"

definition at_work :: world where
  "at_work = snd (ClaimDueJobs agreed 7 60 10)"

abbreviation demo_step :: "enroll_state \<Rightarrow> enroll_state \<Rightarrow> bool" where
  "demo_step \<equiv> enroll_step demo_crypto Database demo_token (EnrollNew demo_cfg)"

lemma live_empty: "mRequests live_world = []" "mJobs live_world = []" "map_of (mRequests live_world) ''r1'' = None"
  "fresh_ids live_world live_entropy"
  using demo_eval by (simp_all add: fresh_ids_def)

lemma asked_request: "\<exists>r. map_of (mRequests asked) ''r1'' = Some r \<and> rqStatus r = ''pending'' \<and> rqTenantID r = ''t''"
  using demo_eval unfolding split_beta asked_def [symmetric] by (auto split: option.splits)

lemma asked_jobs: "map_of (mJobs asked) ''j1'' = None"
  using demo_eval unfolding split_beta asked_def [symmetric] by simp

lemma agreed_request: "\<exists>r. map_of (mRequests agreed) ''r1'' = Some r \<and> rqStatus r = ''approved''"
  using demo_eval unfolding split_beta asked_def [symmetric] agreed_def [symmetric] by (auto split: option.splits)

lemma at_work_eval:
  obtains due j where "ClaimDueJobs agreed 7 60 10 = (Inr due, at_work)" "length due = 1"
    "map_of (mJobs at_work) ''j1'' = Some j" "jbAttempts j = 1" "jbRequestID j = ''r1''"
proof (cases "ClaimDueJobs agreed 7 60 10")
  case (Pair d w3)
  have "case (d, w3) of (Inr due, w3) \<Rightarrow> length due = 1 \<and> (case map_of (mJobs w3) ''j1'' of
      Some j \<Rightarrow> jbStatus j = ''processing'' \<and> jbAttempts j = 1 \<and> jbRequestID j = ''r1'' | None \<Rightarrow> False) | _ \<Rightarrow> False"
    using demo_eval unfolding Pair [symmetric] agreed_def asked_def by (simp only: split_beta)
  with Pair that show thesis by (auto simp: at_work_def split: sum.splits option.splits)
qed

lemma step_asked: "demo_step \<lparr>esWorld = live_world, esClaimed = []\<rparr> \<lparr>esWorld = asked, esClaimed = []\<rparr>"
  unfolding asked_def using enroll_step.create [of "\<lparr>esWorld = live_world, esClaimed = []\<rparr>"] live_empty(3) by simp

lemma step_agreed: "demo_step \<lparr>esWorld = asked, esClaimed = []\<rparr> \<lparr>esWorld = agreed, esClaimed = []\<rparr>"
  unfolding agreed_def using enroll_step.approve_request [of "\<lparr>esWorld = asked, esClaimed = []\<rparr>"] asked_jobs by simp

lemma step_at_work:
  "ClaimDueJobs agreed 7 60 10 = (Inr due, at_work) \<Longrightarrow>
   demo_step \<lparr>esWorld = agreed, esClaimed = []\<rparr> \<lparr>esWorld = at_work, esClaimed = due\<rparr>"
  using enroll_step.claim_jobs [of "\<lparr>esWorld = agreed, esClaimed = []\<rparr>"] by simp

lemma run_agreed: "demo_step\<^sup>*\<^sup>* \<lparr>esWorld = live_world, esClaimed = []\<rparr> \<lparr>esWorld = agreed, esClaimed = []\<rparr>"
  by (rule rtranclp_trans [OF r_into_rtranclp [of demo_step, OF step_asked] r_into_rtranclp [of demo_step, OF step_agreed]])




theorem EnrollOp_token_witness:
  "\<exists>res w' r. EnrollOp demo_crypto Database live_entropy demo_token demo_cfg live_world alice demo_enroll = (Inr res, w')
     \<and> mCertificates w' = mCertificates live_world \<and> map_of (mRequests w') ''c1'' = Some r
     \<and> rqTenantID r = ''t'' \<and> rqSpiffeID r = ''spiffe://td/app'' \<and> rqStatus r = ''pending''"
proof (cases "EnrollOp demo_crypto Database live_entropy demo_token demo_cfg live_world alice demo_enroll")
  case (Pair res w')
  then obtain v where r: "EnrollOp demo_crypto Database live_entropy demo_token demo_cfg live_world alice demo_enroll = (Inr v, w')"
    using demo_eval by (cases res) simp_all
  have t: "eiEnrollmentToken demo_enroll \<noteq> ''''" by (simp add: demo_enroll_def)
  from EnrollOp_token [OF live_world_ok live_empty(4) t, THEN conjunct1, rule_format, OF r] r show ?thesis
    by (auto simp: demo_enroll_def demo_token_def demo_cfg_def)
qed

end
