(* ===== verification/Spec2Isabelle.thy ===== *)
theory Spec2Isabelle
  imports Issue_Life Store_Props Cert_List Acme_Domains Acme_Dns Enroll_Props
begin

text \<open>
  Verification of the lcm service, a multi-tenant certificate authority: tenants own trust
  domains, issuers and certificates; callers obtain certificates for SPIFFE identities directly,
  with an enrollment token or through requests that an operator approves and a worker processes;
  grants say who may do what; every decision is written to an audit trail.

  \<^bold>\<open>How the parts interact.\<close> The services (internal/issue, internal/enroll, internal/ca,
  internal/authz) keep their state in a store, \<open>repo.Store\<close>, and report to an audit writer. The
  model's \<open>world\<close> is the store with the writer beside it. A service operation is a function of the world, the caller and the
  input that returns an error or a value and the new world; what it draws from outside (random bytes, generated
  keys, fresh identifiers) is an argument, \<open>entropy\<close>, and the clock is a field of the store. Code
  that is not in the repository is a parameter: the cryptographic library (\<open>crypto\<close>, with the laws
  the program relies on in \<open>crypto_ok\<close>), the AEAD of sealed values, and the verifier of enrollment tokens.

  \<^bold>\<open>The theories.\<close>
  \<^item> \<^verbatim>\<open>Prelude\<close>: times, errors, results, tables and the lemma collections.
  \<^item> \<^verbatim>\<open>Go_Url\<close>, \<^verbatim>\<open>Go_Text\<close>, \<^verbatim>\<open>Go_Json\<close>, \<^verbatim>\<open>Go_Json_Props\<close>, \<^verbatim>\<open>Go_Base64\<close>, \<^verbatim>\<open>Go_Time\<close>: what the program uses of
    Go's \<open>net/url\<close>, \<open>strings\<close>, \<open>encoding/json\<close>, \<open>encoding/base64\<close> and \<open>time\<close>, with the round trips of the encoders.
  \<^item> \<^verbatim>\<open>Store_Types\<close> (internal/store/models.go, trustdomain.go) and \<^verbatim>\<open>Mem_Store\<close> (internal/memstore/memstore.go):
    the rows as records and every operation of the store. \<^verbatim>\<open>Mem_Inv\<close> has the integrity invariant \<open>store_ok\<close>, the step relation of the store and
    isolation of tenants; \<^verbatim>\<open>Mem_Views\<close> the reads, \<^verbatim>\<open>Mem_Frame\<close> what an operation leaves alone; \<^verbatim>\<open>Store_Props\<close> the properties,
    with the job queue's exactly-once and no-starvation theorems. \<^verbatim>\<open>Fixtures\<close> is a small store for the instances.
  \<^item> \<^verbatim>\<open>Authz\<close> (internal/authz): decisions, the listing filter, granting and revoking; the locale \<open>grant_store\<close> states
    what authorization needs of a store and is interpreted on the model's own.
  \<^item> \<^verbatim>\<open>Csr\<close> (internal/csr), \<^verbatim>\<open>Sealed\<close> (internal/sealed), \<^verbatim>\<open>Audit_Log\<close> (internal/audit), \<^verbatim>\<open>Ids\<close> (internal/store/ids.go): identities and signing requests,
    sealed envelopes and settings, the buffered audit writer as a state machine, generated identifiers.
  \<^item> \<^verbatim>\<open>World\<close>: the shared state, the parameters, and \<open>acts t\<close>, the steps a service takes on behalf of tenant \<open>t\<close>;
    an \<open>_acts\<close> lemma for an operation gives integrity and isolation for it.
  \<^item> \<^verbatim>\<open>Ca\<close> (internal/ca/ca.go); \<^verbatim>\<open>Issue\<close>, \<^verbatim>\<open>Issue_Props\<close>, \<^verbatim>\<open>Issue_Life\<close> (internal/issue/issue.go, certificates.go): issuing, viewing,
    renewing, revoking; entitlement, effect, rollback, the life of the key.
  \<^item> \<^verbatim>\<open>Pager\<close>, \<^verbatim>\<open>Cert_List\<close>: the paging loop of the listings, over any source that satisfies the locale \<open>keyset\<close>, and the certificate listing as an
    interpretation of it.
  \<^item> \<^verbatim>\<open>Acme_Domains\<close>, \<^verbatim>\<open>Acme_Dns\<close> (internal/issue/acmerequests.go, internal/acme/dns.go): names of ACME orders, DNS providers.
  \<^item> \<^verbatim>\<open>Enroll\<close> (internal/enroll/enroll.go, requests.go, jobs.go), \<^verbatim>\<open>Enroll_Queue\<close>, \<^verbatim>\<open>Enroll_Acts\<close>, \<^verbatim>\<open>Enroll_Props\<close>: enrollment, requests and the job queue. \<open>enroll_step\<close> is a system of
    callers and any number of workers that interleave, hold stale copies and crash; it is simulated by an abstract queue, from which the safety properties follow.

  \<^bold>\<open>Bounds and fuel.\<close> Every definition is a total function. The paging loop takes as fuel the
  number of rows, which is shown to be enough; the JSON reader takes the length of its input. Integers are unbounded except where the
  program depends on the width (identifiers, durations, which saturate as in Go).

  \<^bold>\<open>Not modelled.\<close> The SQL binding of the store (text that a database runs; the in-memory binding of the same
  interface is the model), transport (HTTP, gRPC, generated code), process wiring and commands, the client libraries, and the exchanges with other services:
  ACME servers, DNS, mail, webhook endpoints and deployment targets. Display decoding of certificates (internal/certinfo) and paging
  through the external listquery package are left out as well.
\<close>

end
